(* ===== verification/Prelude.thy ===== *)
theory Prelude
  imports Complex_Main "HOL-Library.Word"
begin

text \<open>
  Shared vocabulary of the development: the C integer types of the sources and the
  conversions between them, the conversion between C integers and the floating-point numbers
  of Lua, flag bytes, and lemmas on lists that several components use.

  A C variable of a signed type is a HOL integer; every point where the C code stores a wider
  value in it is written with the conversion functions below, so that wrap-around is visible.
  Flag bytes (\<open>uchar\<close>) and the time stamps of \<open>ztimer.c\<close> are words.
\<close>

unbundle bit_operations_syntax

subsection \<open>Rule collections\<close>

named_theorems c_arith \<open>conversions between the C integer types\<close>
named_theorems flag_simps \<open>setting, clearing and testing bits of a flag byte\<close>

subsection \<open>C integers\<close>

definition c_short :: "int \<Rightarrow> int" where
  "c_short x = signed_take_bit 15 x"

definition c_int :: "int \<Rightarrow> int" where
  "c_int x = signed_take_bit 31 x"

definition c_long :: "int \<Rightarrow> int" where
  "c_long x = signed_take_bit 63 x"

definition c_size_t :: "int \<Rightarrow> nat" where
  "c_size_t x = nat (take_bit 64 x)"

definition INT_MAX :: int where
  "INT_MAX = 2147483647"

lemma c_int_id [c_arith]: "\<lbrakk> - 2147483648 \<le> x; x \<le> 2147483647 \<rbrakk> \<Longrightarrow> c_int x = x"
  by (simp add: c_int_def signed_take_bit_int_eq_self)

lemma c_short_id [c_arith]: "\<lbrakk> - 32768 \<le> x; x \<le> 32767 \<rbrakk> \<Longrightarrow> c_short x = x"
  by (simp add: c_short_def signed_take_bit_int_eq_self)

lemma c_long_id [c_arith]:
  "\<lbrakk> - 9223372036854775808 \<le> x; x \<le> 9223372036854775807 \<rbrakk> \<Longrightarrow> c_long x = x"
  by (simp add: c_long_def signed_take_bit_int_eq_self)

lemma c_size_t_id [c_arith]:
  "\<lbrakk> 0 \<le> x; x < 18446744073709551616 \<rbrakk> \<Longrightarrow> c_size_t x = nat x"
  by (simp add: c_size_t_def take_bit_int_eq_self)

lemma c_size_t_of_nat [c_arith]: "n < 18446744073709551616 \<Longrightarrow> c_size_t (int n) = n"
  by (simp add: c_size_t_id)

lemma c_int_range: "- 2147483648 \<le> c_int x \<and> c_int x \<le> 2147483647"
  using signed_take_bit_int_greater_eq_minus_exp [of 31 x] signed_take_bit_int_less_exp [of 31 x]
  by (simp add: c_int_def)

lemma c_short_range: "- 32768 \<le> c_short x \<and> c_short x \<le> 32767"
  using signed_take_bit_int_greater_eq_minus_exp [of 15 x] signed_take_bit_int_less_exp [of 15 x]
  by (simp add: c_short_def)

lemma c_long_range: "- 9223372036854775808 \<le> c_long x \<and> c_long x \<le> 9223372036854775807"
  using signed_take_bit_int_greater_eq_minus_exp [of 63 x] signed_take_bit_int_less_exp [of 63 x]
  by (simp add: c_long_def)

subsection \<open>Lua numbers\<close>

text \<open>
  A Lua number is a \<open>double\<close>; a finite double is a rational. \<open>c_trunc\<close> is the C conversion
  to an integer, towards zero; the conversion is undefined when the truncated value does not
  fit the target type, which is \<open>None\<close> in \<open>num_to_i64\<close> and \<open>num_to_u64\<close>.
\<close>

definition c_trunc :: "rat \<Rightarrow> int" where
  "c_trunc q = (if 0 \<le> q then \<lfloor>q\<rfloor> else \<lceil>q\<rceil>)"

lemma c_trunc_of_int [simp]: "c_trunc (of_int x) = x"
  by (simp add: c_trunc_def)

lemma c_trunc_numeral [simp]: "c_trunc (numeral n) = numeral n" "c_trunc 0 = 0" "c_trunc 1 = 1"
  "c_trunc (- numeral n) = - numeral n" "c_trunc (- 1) = - 1"
  using c_trunc_of_int [of "- 1"] by (simp_all add: c_trunc_def)

definition num_to_i64 :: "rat \<Rightarrow> 64 word option" where
  "num_to_i64 q = (let x = c_trunc q in
     if - (2 ^ 63) \<le> x \<and> x < 2 ^ 63 then Some (word_of_int x) else None)"

definition num_to_u64 :: "rat \<Rightarrow> 64 word option" where
  "num_to_u64 q = (let x = c_trunc q in
     if 0 \<le> x \<and> x < 2 ^ 64 then Some (word_of_int x) else None)"

lemma num_to_i64_of_int:
  "\<lbrakk> - (2 ^ 63) \<le> x; x < 2 ^ 63 \<rbrakk> \<Longrightarrow> num_to_i64 (of_int x) = Some (word_of_int x)"
  by (simp add: num_to_i64_def Let_def)

lemma num_to_i64_Some: "num_to_i64 q = Some w \<Longrightarrow> sint w = c_trunc q"
  by (auto simp: num_to_i64_def Let_def sint_sbintrunc' signed_take_bit_int_eq_self
      split: if_splits)

lemma num_to_u64_Some: "num_to_u64 q = Some w \<Longrightarrow> uint w = c_trunc q"
  by (auto simp: num_to_u64_def Let_def uint_word_of_int take_bit_int_eq_self
      split: if_splits)

text \<open>
  \<open>int_to_num\<close> is the conversion \<open>(lua_Number)x\<close> of a 64-bit integer: rounding to the nearest
  double (53 significant bits), ties to the even significand.
\<close>

fun nbits :: "nat \<Rightarrow> nat" where
  "nbits n = (if n = 0 then 0 else Suc (nbits (n div 2)))"

declare nbits.simps [simp del]

definition round53 :: "nat \<Rightarrow> nat" where
  "round53 a = (let e = nbits a - 53; q = a div 2 ^ e; r = 2 * (a mod 2 ^ e) in
     if 2 ^ e < r \<or> (r = 2 ^ e \<and> odd q) then Suc q * 2 ^ e else q * 2 ^ e)"

definition int_to_num :: "int \<Rightarrow> rat" where
  "int_to_num x = of_int (sgn x * int (round53 (nat \<bar>x\<bar>)))"

lemma nbits_le: "a < 2 ^ k \<Longrightarrow> nbits a \<le> k"
proof (induction k arbitrary: a)
  case 0
  then show ?case by (simp add: nbits.simps)
next
  case (Suc k)
  then have "a div 2 < 2 ^ k" by auto
  then have "nbits (a div 2) \<le> k" by (rule Suc.IH)
  then show ?case by (simp add: nbits.simps [of a])
qed

lemma round53_exact: "a < 2 ^ 53 \<Longrightarrow> round53 a = a"
  using nbits_le [of a 53] by (simp add: round53_def)

lemma int_to_num_exact: "\<bar>x\<bar> < 2 ^ 53 \<Longrightarrow> int_to_num x = of_int x"
  by (simp add: int_to_num_def round53_exact nat_less_iff sgn_mult_abs)

lemma nbits_ge: "n \<noteq> 0 \<Longrightarrow> 2 ^ (nbits n - 1) \<le> n"
proof (induction n rule: nbits.induct)
  case (1 n)
  show ?case
  proof (cases "n div 2 = 0")
    case True
    then show ?thesis using "1.prems" by (simp add: nbits.simps [of n] nbits.simps [of 0])
  next
    case False
    then have "2 ^ (nbits (n div 2) - 1) \<le> n div 2" using "1.IH" "1.prems" by blast
    moreover have "nbits (n div 2) \<noteq> 0" using False by (simp add: nbits.simps [of "n div 2"])
    ultimately have "2 * 2 ^ (nbits (n div 2) - 1) \<le> n" by linarith
    with \<open>nbits (n div 2) \<noteq> 0\<close> show ?thesis
      using "1.prems" by (simp add: nbits.simps [of n] flip: power_Suc)
  qed
qed

lemma round53_zero_iff: "round53 a = 0 \<longleftrightarrow> a = 0"
proof
  assume z: "round53 a = 0"
  show "a = 0"
  proof (rule ccontr)
    assume "a \<noteq> 0"
    have "2 ^ (nbits a - 53) \<le> (2::nat) ^ (nbits a - 1)" by (rule power_increasing) auto
    also have "\<dots> \<le> a" using nbits_ge \<open>a \<noteq> 0\<close> by blast
    finally have "0 < a div 2 ^ (nbits a - 53)" by (simp add: div_greater_zero_iff)
    with z show False by (simp add: round53_def Let_def split: if_splits)
  qed
qed (simp add: round53_def nbits.simps)

text \<open>Rounding is never below the next lower number of 53 bits, and off by at most one part in
  \<open>2 ^ 53\<close>.\<close>

lemma round53_lower: "a div 2 ^ (nbits a - 53) * 2 ^ (nbits a - 53) \<le> round53 a"
  by (simp add: round53_def Let_def)

lemma round53_half:
  "2 * round53 a \<le> 2 * a + 2 ^ (nbits a - 53)" "2 * a \<le> 2 * round53 a + 2 ^ (nbits a - 53)"
proof -
  let ?e = "(2::nat) ^ (nbits a - 53)"
  have a: "a div ?e * ?e + a mod ?e = a" by (rule div_mult_mod_eq)
  have m: "a mod ?e < ?e" by simp
  have "round53 a = a div ?e * ?e \<and> 2 * (a mod ?e) \<le> ?e \<or>
      round53 a = a div ?e * ?e + ?e \<and> ?e \<le> 2 * (a mod ?e)"
    by (auto simp: round53_def Let_def)
  then show "2 * round53 a \<le> 2 * a + ?e" "2 * a \<le> 2 * round53 a + ?e"
    using a m by linarith+
qed

lemma round53_error:
  "2 ^ 53 * round53 a \<le> (2 ^ 53 + 1) * a" "(2 ^ 53 - 1) * a \<le> 2 ^ 53 * round53 a"
proof -
  have "round53 a = a \<or> 2 ^ (nbits a - 53) * 2 ^ 52 \<le> a"
  proof (cases "nbits a \<le> 53")
    case True
    then show ?thesis by (simp add: round53_def)
  next
    case False
    then have "nbits a - 1 = nbits a - 53 + 52" by simp
    then have "(2::nat) ^ (nbits a - 53) * 2 ^ 52 = 2 ^ (nbits a - 1)" by (simp only: power_add)
    moreover have "a \<noteq> 0" using False by (cases "a = 0") (simp_all add: nbits.simps)
    ultimately show ?thesis using nbits_ge [of a] by simp
  qed
  then show "2 ^ 53 * round53 a \<le> (2 ^ 53 + 1) * a" "(2 ^ 53 - 1) * a \<le> 2 ^ 53 * round53 a"
    using round53_half [of a] by auto
qed

lemma int_to_num_zero_iff [simp]: "int_to_num x = 0 \<longleftrightarrow> x = 0"
  by (auto simp: int_to_num_def round53_zero_iff sgn_0_0)

subsection \<open>Flag bytes\<close>

text \<open>
  Every object of the binding carries a flag byte. The code sets a flag with \<open>|=\<close>, clears it
  with \<open>&= ~\<close> and tests it with \<open>&\<close>.
\<close>

type_synonym uchar = "8 word"

definition has_flag :: "uchar \<Rightarrow> uchar \<Rightarrow> bool" where
  "has_flag w m \<longleftrightarrow> w AND m \<noteq> 0"

definition set_flag :: "uchar \<Rightarrow> uchar \<Rightarrow> uchar" where
  "set_flag w m = w OR m"

definition clear_flag :: "uchar \<Rightarrow> uchar \<Rightarrow> uchar" where
  "clear_flag w m = w AND NOT m"

text \<open>A flag and another flag that shares no bit with it.\<close>

locale flag =
  fixes m :: uchar
  assumes nonzero: "m \<noteq> 0"
begin

lemma has_set [simp]: "has_flag (set_flag w m) m"
proof -
  have "(w OR m) AND m = m" by (auto simp: bit_eq_iff bit_simps)
  with nonzero show ?thesis by (simp add: has_flag_def set_flag_def)
qed

lemma has_clear [simp]: "\<not> has_flag (clear_flag w m) m"
  by (simp add: has_flag_def clear_flag_def bit_eq_iff bit_simps)

lemma set_set [simp]: "set_flag (set_flag w m) m = set_flag w m"
  by (simp add: set_flag_def bit_eq_iff bit_simps)

lemma has_self [simp]: "has_flag m m"
  using nonzero by (simp add: has_flag_def)

end

locale flag_pair = flag +
  fixes n :: uchar
  assumes disjoint: "m AND n = 0"
begin

lemma bits: "\<not> (bit m i \<and> bit n i)"
  using disjoint by (metis bit_and_iff bit_0_eq bot_apply bot_bool_def)

lemma other_set [simp]: "has_flag (set_flag w m) n = has_flag w n"
proof -
  have "(w OR m) AND n = w AND n" using bits by (auto simp: bit_eq_iff bit_simps)
  then show ?thesis by (simp add: has_flag_def set_flag_def)
qed

lemma other_clear [simp]: "has_flag (clear_flag w m) n = has_flag w n"
proof -
  have "(w AND NOT m) AND n = w AND n" using bits by (auto simp: bit_eq_iff bit_simps)
  then show ?thesis by (simp add: has_flag_def clear_flag_def)
qed

lemma self_other [simp]: "\<not> has_flag m n"
  using disjoint by (simp add: has_flag_def)

end

lemma has_flag_zero [simp, flag_simps]: "\<not> has_flag 0 m"
  by (simp add: has_flag_def)

subsection \<open>Decimal numbers\<close>

text \<open>The conversion \<open>%d\<close> of \<open>sprintf\<close> and \<open>lua_pushfstring\<close>.\<close>

definition digit :: "nat \<Rightarrow> char" where
  "digit d = char_of (48 + d)"

fun show_nat :: "nat \<Rightarrow> string" where
  "show_nat n = (if n < 10 then [digit n] else show_nat (n div 10) @ [digit (n mod 10)])"

declare show_nat.simps [simp del]

definition show_int :: "int \<Rightarrow> string" where
  "show_int x = (if x < 0 then CHR ''-'' # show_nat (nat (- x)) else show_nat (nat x))"

text \<open>Reading it back.\<close>

definition read_nat :: "string \<Rightarrow> nat" where
  "read_nat s = foldl (\<lambda>n c. 10 * n + (of_char c - 48)) 0 s"

lemma read_show_nat: "read_nat (show_nat n) = n"
proof (induction n rule: show_nat.induct)
  case (1 n)
  show ?case
    using 1 by (subst show_nat.simps) (auto simp: read_nat_def digit_def of_char_of)
qed

lemma show_nat_inject: "show_nat a = show_nat b \<longleftrightarrow> a = b"
  by (metis read_show_nat)

lemma length_show_nat: "n < 10 ^ Suc k \<Longrightarrow> length (show_nat n) \<le> Suc k"
proof (induction k arbitrary: n)
  case 0
  then show ?case by (simp add: show_nat.simps)
next
  case (Suc k)
  then have "n div 10 < 10 ^ Suc k" by auto
  from Suc.IH [OF this] show ?case by (subst show_nat.simps) simp
qed

subsection \<open>Lists\<close>

lemma take_Suc_update: "i < length xs \<Longrightarrow> take (Suc i) (xs[i := x]) = take i xs @ [x]"
  by (simp add: take_Suc_conv_app_nth)

lemma filter_all: "(\<And>x. x \<in> set xs \<Longrightarrow> P x) \<Longrightarrow> filter P xs = xs"
  by (induction xs) auto

end
