(* ===== verification/Poller.thy ===== *)
theory Poller
  imports Prelude
begin

text \<open>
  \<open>poller.c\<close>: the array of \<open>zmq_pollitem_t\<close> behind a poller object. Slots are taken from the
  end of the used part or from an intrusive free list whose links are stored in the \<open>socket\<close>
  field of free slots; removing an item compacts the array at once.

  An operation that would read or write outside the allocated array, follow a null pointer,
  fail an assertion or overflow a signed integer has no defined behaviour in C: its model is
  \<open>None\<close>. The allocator is a parameter: \<open>alloc n\<close> tells whether an array of \<open>n\<close> items can be
  had. The lemmas show that in a well-formed poller every operation is defined, and what it
  does to the sequence of polled items.
\<close>

subsection \<open>Data\<close>

text \<open>The \<open>socket\<close> field of an item holds a 0MQ socket, or, in a free slot, the address of
  the next free slot.\<close>

datatype sockp = SNull | SPtr nat | SItem nat

record pollitem =
  it_socket :: sockp
  it_fd :: int
  it_events :: int
  it_revents :: int

record zpoller =
  pl_items :: "pollitem list option"
  pl_next :: int
  pl_count :: int
  pl_free_list :: int
  pl_len :: int

definition FREE_ITEM_EVENTS_TAG :: int where
  "FREE_ITEM_EVENTS_TAG = c_short 0xFFFF"

definition zero_item :: pollitem where
  "zero_item = \<lparr>it_socket = SNull, it_fd = 0, it_events = 0, it_revents = 0\<rparr>"

abbreviation is_free :: "pollitem \<Rightarrow> bool" where
  "is_free it \<equiv> it_events it = FREE_ITEM_EVENTS_TAG"

text \<open>\<open>memset(&(items[a]), 0, n * sizeof(zmq_pollitem_t))\<close>\<close>

definition clear_items :: "pollitem list \<Rightarrow> nat \<Rightarrow> nat \<Rightarrow> pollitem list option" where
  "clear_items xs a n =
     (if a + n \<le> length xs then Some (take a xs @ replicate n zero_item @ drop (a + n) xs)
      else None)"

subsection \<open>Operations\<close>

definition poller_resize_items :: "(nat \<Rightarrow> bool) \<Rightarrow> zpoller \<Rightarrow> int \<Rightarrow> zpoller option" where
  "poller_resize_items alloc p n =
     (let old_len = pl_len p;
          n = (if old_len \<le> n then n else old_len)
      in if old_len = n then Some p
         else if \<not> alloc (nat n) then None
         else case pl_items p of
             None \<Rightarrow> None
           | Some xs \<Rightarrow>
               map_option (\<lambda>ys. p\<lparr>pl_items := Some ys, pl_len := n\<rparr>)
                 (clear_items (xs @ replicate (nat n - length xs) zero_item)
                    (nat old_len) (nat (n - old_len))))"

definition poller_init :: "(nat \<Rightarrow> bool) \<Rightarrow> int \<Rightarrow> zpoller" where
  "poller_init alloc n =
     \<lparr>pl_items = (if 0 \<le> n \<and> alloc (nat n) then Some (replicate (nat n) zero_item) else None),
      pl_next = - 1, pl_count = 0, pl_free_list = - 1, pl_len = n\<rparr>"

definition poller_cleanup :: "zpoller \<Rightarrow> zpoller" where
  "poller_cleanup p =
     p\<lparr>pl_items := None, pl_next := - 1, pl_count := 0, pl_len := 0, pl_free_list := - 1\<rparr>"

text \<open>The loop \<open>for(n=0; n < count; n++) if(\<dots>) return n;\<close> with \<open>k = count - n\<close> rounds left.\<close>

fun find_item :: "(pollitem \<Rightarrow> bool) \<Rightarrow> pollitem list \<Rightarrow> nat \<Rightarrow> nat \<Rightarrow> int option" where
  "find_item P xs n 0 = Some (- 1)"
| "find_item P xs n (Suc k) =
     (if n < length xs then
        if P (xs ! n) then Some (int n) else find_item P xs (Suc n) k
      else None)"

definition poller_find_sock_item :: "zpoller \<Rightarrow> sockp \<Rightarrow> int option" where
  "poller_find_sock_item p sock =
     (case pl_items p of None \<Rightarrow> (if pl_count p \<le> 0 then Some (- 1) else None)
      | Some xs \<Rightarrow> find_item (\<lambda>it. it_socket it = sock) xs 0 (nat (pl_count p)))"

definition poller_find_fd_item :: "zpoller \<Rightarrow> int \<Rightarrow> int option" where
  "poller_find_fd_item p fd =
     (case pl_items p of None \<Rightarrow> (if pl_count p \<le> 0 then Some (- 1) else None)
      | Some xs \<Rightarrow> find_item (\<lambda>it. it_fd it = fd) xs 0 (nat (pl_count p)))"

text \<open>The two loops of \<open>poller_compact_items\<close>: the first free slot, then moving every used
  slot after it down. \<open>k\<close> counts the rounds left, \<open>count - next\<close>.\<close>

fun first_free :: "pollitem list \<Rightarrow> nat \<Rightarrow> nat \<Rightarrow> nat option" where
  "first_free xs nxt 0 = Some nxt"
| "first_free xs nxt (Suc k) =
     (if nxt < length xs then
        if \<not> is_free (xs ! nxt) then first_free xs (Suc nxt) k else Some nxt
      else None)"

fun move_items :: "pollitem list \<Rightarrow> nat \<Rightarrow> nat \<Rightarrow> nat \<Rightarrow> (pollitem list \<times> nat) option" where
  "move_items xs count nxt 0 = Some (xs, count)"
| "move_items xs count nxt (Suc k) =
     (if nxt < length xs \<and> count < length xs then
        if \<not> is_free (xs ! nxt) then move_items (xs[count := xs ! nxt]) (Suc count) (Suc nxt) k
        else move_items xs count (Suc nxt) k
      else None)"

definition poller_compact_items :: "zpoller \<Rightarrow> (int \<times> zpoller) option" where
  "poller_compact_items p =
     (if pl_free_list p < 0 then Some (pl_count p, p)
      else (case pl_items p of None \<Rightarrow> None
      | Some xs \<Rightarrow>
          let old_count = nat (pl_count p) in
          (case first_free xs 0 old_count of None \<Rightarrow> None
          | Some nxt \<Rightarrow>
              (case move_items xs nxt (Suc nxt) (old_count - Suc nxt) of None \<Rightarrow> None
               | Some (ys, count) \<Rightarrow>
                   (case clear_items ys count (old_count - count) of None \<Rightarrow> None
                    | Some zs \<Rightarrow>
                        if int count \<le> pl_len p then
                          Some (int count,
                            p\<lparr>pl_items := Some zs, pl_count := int count, pl_free_list := - 1\<rparr>)
                        else None)))))"

definition poller_remove_item :: "zpoller \<Rightarrow> int \<Rightarrow> zpoller option" where
  "poller_remove_item p idx =
     (let count = pl_count p in
      if count \<le> idx \<or> count = 0 then Some p
      else case pl_items p of None \<Rightarrow> None
      | Some xs \<Rightarrow>
          if idx < 0 \<or> length xs \<le> nat idx then None
          else
            let free_list = pl_free_list p;
                link = (if 0 \<le> free_list \<and> free_list < count then SItem (nat free_list) else SNull);
                it = (xs ! nat idx)\<lparr>it_socket := link, it_events := FREE_ITEM_EVENTS_TAG,
                                    it_revents := 0\<rparr>
            in map_option snd
                 (poller_compact_items
                    (p\<lparr>pl_items := Some (xs[nat idx := it]), pl_free_list := idx\<rparr>)))"

definition poller_get_free_item :: "(nat \<Rightarrow> bool) \<Rightarrow> zpoller \<Rightarrow> (int \<times> zpoller) option" where
  "poller_get_free_item alloc p =
     (let count = pl_count p; idx = pl_free_list p in
      if 0 \<le> idx \<and> idx < count then
        (case pl_items p of None \<Rightarrow> None
         | Some xs \<Rightarrow>
             if length xs \<le> nat idx \<or> \<not> is_free (xs ! nat idx) then None
             else
               let fl = (case it_socket (xs ! nat idx) of
                           SNull \<Rightarrow> Some (- 1) | SItem n \<Rightarrow> Some (int n) | SPtr _ \<Rightarrow> None)
               in map_option
                    (\<lambda>f. (idx, p\<lparr>pl_items := Some (xs[nat idx := zero_item]), pl_free_list := f\<rparr>))
                    fl)
      else if INT_MAX \<le> count then None
      else
        let p' = p\<lparr>pl_count := count + 1\<rparr> in
        if pl_len p \<le> count + 1 then
          if INT_MAX - 10 < pl_len p then None
          else map_option (Pair count) (poller_resize_items alloc p' (pl_len p + 10))
        else Some (count, p'))"

text \<open>
  \<open>zmq_poll\<close> is a parameter: given the items and the timeout it returns its result, the
  \<open>revents\<close> it stored in the items, and the new state of the library.
\<close>

fun store_revents :: "pollitem list \<Rightarrow> int list \<Rightarrow> pollitem list" where
  "store_revents (it # its) (r # rs) = it\<lparr>it_revents := c_short r\<rparr> # store_revents its rs"
| "store_revents its _ = its"

definition poller_poll ::
    "(pollitem list \<Rightarrow> int \<Rightarrow> 'z \<Rightarrow> int \<times> int list \<times> 'z) \<Rightarrow> zpoller \<Rightarrow> int \<Rightarrow> 'z
       \<Rightarrow> (int \<times> zpoller \<times> 'z) option" where
  "poller_poll zmq_poll p timeout z =
     (case (if 0 \<le> pl_free_list p then poller_compact_items p else Some (pl_count p, p)) of
        None \<Rightarrow> None
      | Some (count, p') \<Rightarrow>
          (case pl_items p' of None \<Rightarrow> None
           | Some xs \<Rightarrow>
               if length xs < nat count then None
               else
                 let used = take (nat count) xs; (ret, rs, z') = zmq_poll used timeout z
                 in Some (ret, p'\<lparr>pl_items := Some (store_revents used rs @ drop (nat count) xs)\<rparr>,
                          z')))"

text \<open>The scan \<open>for(;idx >=0; --idx)\<close> of \<open>poller_next_revents\<close>; \<open>n\<close> is \<open>idx + 1\<close>.\<close>

fun scan_revents :: "pollitem list \<Rightarrow> nat \<Rightarrow> (int \<times> int \<times> int) option" where
  "scan_revents xs 0 = Some (- 1, - 1, 0)"
| "scan_revents xs (Suc n) =
     (if n < length xs then
        if it_revents (xs ! n) \<noteq> 0 then Some (int n, int n - 1, it_revents (xs ! n))
        else scan_revents xs n
      else None)"

text \<open>The result: the index, \<open>*revents\<close> (\<open>None\<close> when the call does not write it), the poller.\<close>

definition poller_next_revents :: "zpoller \<Rightarrow> (int \<times> int option \<times> zpoller) option" where
  "poller_next_revents p =
     (let idx = pl_next p in
      if idx < 0 then Some (idx, None, p)
      else case pl_items p of None \<Rightarrow> None
      | Some xs \<Rightarrow>
          map_option (\<lambda>(i, nxt, r). (i, Some r, p\<lparr>pl_next := nxt\<rparr>))
            (scan_revents xs (Suc (nat idx))))"

subsection \<open>The polled items of a poller\<close>

text \<open>
  \<open>poller_rep p its\<close>: the poller \<open>p\<close> is open and polls exactly the items \<open>its\<close>, in this order;
  its free list is empty, the unused part of the array is zeroed, and the position of the
  revents scan lies inside the array.
\<close>

definition poller_rep :: "zpoller \<Rightarrow> pollitem list \<Rightarrow> bool" where
  "poller_rep p its \<longleftrightarrow>
     pl_items p = Some (its @ replicate (nat (pl_len p) - length its) zero_item) \<and>
     pl_count p = int (length its) \<and> pl_count p \<le> pl_len p \<and>
     pl_free_list p = - 1 \<and> - 1 \<le> pl_next p \<and> pl_next p < pl_len p"

definition poller_ok :: "zpoller \<Rightarrow> bool" where
  "poller_ok p \<longleftrightarrow> (\<exists>its. poller_rep p its)"

definition no_tag :: "pollitem list \<Rightarrow> bool" where
  "no_tag its \<longleftrightarrow> (\<forall>it \<in> set its. \<not> is_free it)"

lemma tag_value: "FREE_ITEM_EVENTS_TAG = - 1"
  by (simp add: FREE_ITEM_EVENTS_TAG_def c_short_def)

lemma zero_item_simps [simp]:
  "it_socket zero_item = SNull" "it_fd zero_item = 0" "it_events zero_item = 0"
  "it_revents zero_item = 0"
  by (simp_all add: zero_item_def)

lemma poller_rep_unique: "\<lbrakk> poller_rep p xs; poller_rep p ys \<rbrakk> \<Longrightarrow> xs = ys"
  by (auto simp: poller_rep_def append_eq_append_conv)

lemma clear_items_tail:
  "clear_items (xs @ ys) (length xs) (length ys) = Some (xs @ replicate (length ys) zero_item)"
  by (simp add: clear_items_def)

lemma poller_init_rep:
  "\<lbrakk> 0 \<le> n; alloc (nat n) \<rbrakk> \<Longrightarrow> poller_rep (poller_init alloc n) []"
  by (simp add: poller_rep_def poller_init_def)

subsubsection \<open>Searching\<close>

fun first_index :: "('a \<Rightarrow> bool) \<Rightarrow> 'a list \<Rightarrow> int" where
  "first_index P [] = - 1"
| "first_index P (x # xs) =
     (if P x then 0 else let i = first_index P xs in if i < 0 then - 1 else i + 1)"

lemma first_index_less: "first_index P xs < int (length xs)"
  by (induction xs) (auto simp: Let_def)

lemma first_index_ge: "- 1 \<le> first_index P xs"
  by (induction xs) (auto simp: Let_def)

lemma first_index_none: "first_index P xs < 0 \<longleftrightarrow> (\<forall>x \<in> set xs. \<not> P x)"
  by (induction xs) (auto simp: Let_def split: if_splits)

lemma first_index_hit:
  "0 \<le> first_index P xs \<Longrightarrow>
     P (xs ! nat (first_index P xs)) \<and> (\<forall>j < nat (first_index P xs). \<not> P (xs ! j))"
proof (induction xs)
  case Nil
  then show ?case by simp
next
  case (Cons x xs)
  show ?case
  proof (cases "P x")
    case False
    with Cons.prems have ge: "0 \<le> first_index P xs" by (auto simp: Let_def split: if_splits)
    with False show ?thesis using Cons.IH
      by (auto simp: Let_def nat_add_distrib nth_Cons split: nat.splits)
  qed simp
qed

lemma find_item_first_index:
  "n + k \<le> length xs \<Longrightarrow> find_item P xs n k =
     Some (let i = first_index P (take k (drop n xs)) in if i < 0 then - 1 else int n + i)"
proof (induction k arbitrary: n)
  case (Suc k)
  then have d: "drop n xs = xs ! n # drop (Suc n) xs" by (simp add: Cons_nth_drop_Suc)
  show ?case
    using Suc by (auto simp: d Let_def)
qed simp

lemma find_item_rep:
  assumes "poller_rep p its" "pl_items p = Some xs"
  shows "find_item P xs 0 (nat (pl_count p)) = Some (first_index P its)"
proof -
  have xs: "xs = its @ replicate (nat (pl_len p) - length its) zero_item"
    and c: "nat (pl_count p) = length its" using assms by (auto simp: poller_rep_def)
  show ?thesis
    using first_index_ge [of P its]
    by (auto simp: c xs find_item_first_index Let_def)
qed

lemma find_sock_rep:
  "poller_rep p its \<Longrightarrow>
     poller_find_sock_item p s = Some (first_index (\<lambda>it. it_socket it = s) its)"
  using find_item_rep [of p its] by (auto simp: poller_find_sock_item_def poller_rep_def)

lemma find_fd_rep:
  "poller_rep p its \<Longrightarrow>
     poller_find_fd_item p fd = Some (first_index (\<lambda>it. it_fd it = fd) its)"
  using find_item_rep [of p its] by (auto simp: poller_find_fd_item_def poller_rep_def)

subsubsection \<open>Compaction\<close>

lemma first_free_eq:
  "nxt + k \<le> length xs \<Longrightarrow>
     first_free xs nxt k = Some (nxt + length (takeWhile (\<lambda>it. \<not> is_free it) (take k (drop nxt xs))))"
proof (induction k arbitrary: nxt)
  case (Suc k)
  then have d: "drop nxt xs = xs ! nxt # drop (Suc nxt) xs" by (simp add: Cons_nth_drop_Suc)
  show ?case using Suc by (auto simp: d)
qed simp

lemma move_items_spec:
  "\<lbrakk> count < nxt; nxt + k \<le> length xs \<rbrakk> \<Longrightarrow>
     \<exists>ys. move_items xs count nxt k =
            Some (ys, count + length (filter (\<lambda>it. \<not> is_free it) (take k (drop nxt xs)))) \<and>
          length ys = length xs \<and> drop (nxt + k) ys = drop (nxt + k) xs \<and>
          take (count + length (filter (\<lambda>it. \<not> is_free it) (take k (drop nxt xs)))) ys =
            take count xs @ filter (\<lambda>it. \<not> is_free it) (take k (drop nxt xs))"
proof (induction k arbitrary: xs count nxt)
  case 0
  then show ?case by simp
next
  case (Suc k)
  then have d: "drop nxt xs = xs ! nxt # drop (Suc nxt) xs" by (simp add: Cons_nth_drop_Suc)
  show ?case
  proof (cases "is_free (xs ! nxt)")
    case True
    then show ?thesis using Suc.prems Suc.IH [of count "Suc nxt" xs] by (simp add: d)
  next
    case False
    let ?xs = "xs[count := xs ! nxt]"
    have "drop (Suc nxt) ?xs = drop (Suc nxt) xs" and "take (Suc count) ?xs = take count xs @ [xs ! nxt]"
      using Suc.prems by (simp_all add: take_Suc_update)
    with False Suc.prems Suc.IH [of "Suc count" "Suc nxt" ?xs] show ?thesis
      by (auto simp: d)
  qed
qed

lemma takeWhile_skip_filter:
  assumes "n = length (takeWhile P xs)"
  shows "take n xs @ filter P (drop (Suc n) xs) = filter P xs"
proof -
  have t: "take n xs = takeWhile P xs" unfolding assms by (rule takeWhile_eq_take [symmetric])
  have d: "drop n xs = dropWhile P xs" unfolding assms by (rule dropWhile_eq_drop [symmetric])
  have "filter P xs = filter P (takeWhile P xs) @ filter P (dropWhile P xs)"
    by (metis filter_append takeWhile_dropWhile_id)
  also have "filter P (takeWhile P xs) = takeWhile P xs"
    by (rule filter_all) (auto dest: set_takeWhileD)
  also have "filter P (dropWhile P xs) = filter P (drop (Suc n) xs)"
  proof (cases "dropWhile P xs")
    case Nil
    then have "drop (Suc n) xs = []" using d by (metis drop_eq_Nil le_SucI)
    with Nil show ?thesis by (simp only: filter.simps)
  next
    case (Cons y ys)
    then have "\<not> P y" by (metis hd_dropWhile list.distinct(1) list.sel(1))
    moreover have "drop (Suc n) xs = ys"
      using Cons d by (metis drop_Suc list.sel(3) tl_drop)
    ultimately show ?thesis using Cons by simp
  qed
  finally show ?thesis using t by simp
qed

text \<open>Compaction keeps the used slots in order, and zeroes the rest.\<close>

lemma compact_items_spec:
  assumes items: "pl_items p = Some (us @ replicate (nat (pl_len p) - length us) zero_item)"
    and cnt: "pl_count p = int (length us)" "pl_count p \<le> pl_len p" and fl: "0 \<le> pl_free_list p"
  defines "us' \<equiv> filter (\<lambda>it. \<not> is_free it) us"
  shows "poller_compact_items p =
    Some (int (length us'),
      p\<lparr>pl_items := Some (us' @ replicate (nat (pl_len p) - length us') zero_item),
        pl_count := int (length us'), pl_free_list := - 1\<rparr>)"
proof -
  let ?nf = "\<lambda>it. \<not> is_free it"
  let ?pad = "replicate (nat (pl_len p) - length us) zero_item"
  let ?n = "length (takeWhile ?nf us)"
  have nle: "?n \<le> length us" by (rule length_takeWhile_le)
  have ff: "first_free (us @ ?pad) 0 (length us) = Some ?n"
    using first_free_eq [of 0 "length us" "us @ ?pad"] by simp
  have le': "length us' \<le> length us" by (simp add: us'_def)
  let ?c = "?n + length (filter ?nf (drop (Suc ?n) us))"
  have us': "us' = take ?n us @ filter ?nf (drop (Suc ?n) us)"
    unfolding us'_def using takeWhile_skip_filter [OF refl, of ?nf us] by simp
  then have c: "?c = length us'" using nle by simp
  obtain ys where mv: "move_items (us @ ?pad) ?n (Suc ?n) (length us - Suc ?n) = Some (ys, ?c)"
    and len: "length ys = length (us @ ?pad)"
    and tl: "drop (length us) ys = ?pad" and hd: "take ?c ys = us'"
  proof (cases "?n < length us")
    case True
    then have k: "Suc ?n + (length us - Suc ?n) = length us" by simp
    obtain zs where "move_items (us @ ?pad) ?n (Suc ?n) (length us - Suc ?n) = Some (zs, ?c)"
        "length zs = length (us @ ?pad)" "drop (length us) zs = ?pad" "take ?c zs = us'"
      using move_items_spec [of ?n "Suc ?n" "length us - Suc ?n" "us @ ?pad", unfolded k] True us'
      by auto
    then show thesis by (rule that)
  next
    case False
    with nle have "?n = length us" by simp
    then show thesis using that us' by simp
  qed
  have "clear_items ys ?c (length us - ?c) =
      Some (us' @ replicate (length us - length us') zero_item @ ?pad)"
    using len hd tl le' by (simp add: clear_items_def c)
  also have "replicate (length us - length us') zero_item @ ?pad =
      replicate (nat (pl_len p) - length us') zero_item"
    using le' cnt by (simp add: nat_le_iff flip: replicate_add)
  finally show ?thesis
    using fl items cnt ff mv le' by (simp add: poller_compact_items_def c Let_def)
qed

subsubsection \<open>Removing, adding, resizing\<close>

lemma list_update_append_parts:
  "i < length xs \<Longrightarrow> xs[i := x] = take i xs @ x # drop (Suc i) xs"
  by (rule upd_conv_take_nth_drop)

theorem poller_remove_item_rep:
  assumes rep: "poller_rep p its" and idx: "0 \<le> idx" "idx < int (length its)"
  shows "\<exists>p'. poller_remove_item p idx = Some p' \<and>
     poller_rep p' (filter (\<lambda>it. \<not> is_free it) (take (nat idx) its @ drop (Suc (nat idx)) its)) \<and>
     pl_next p' = pl_next p \<and> pl_len p' = pl_len p"
proof -
  let ?pad = "replicate (nat (pl_len p) - length its) zero_item"
  have i: "nat idx < length its" using idx by simp
  define it where "it = (its ! nat idx)\<lparr>it_socket := SNull, it_events := FREE_ITEM_EVENTS_TAG,
                                    it_revents := 0\<rparr>"
  let ?q = "p\<lparr>pl_items := Some (its[nat idx := it] @ ?pad), pl_free_list := idx\<rparr>"
  have f: "filter (\<lambda>it. \<not> is_free it) (its[nat idx := it]) =
      filter (\<lambda>it. \<not> is_free it) (take (nat idx) its @ drop (Suc (nat idx)) its)"
    using i by (simp add: list_update_append_parts it_def)
  have rm: "poller_remove_item p idx = map_option snd (poller_compact_items ?q)"
    using rep idx i
    by (auto simp: poller_remove_item_def poller_rep_def it_def nth_append list_update_append
        Let_def)
  have "length (filter (\<lambda>it. \<not> is_free it) (its[nat idx := it])) \<le> length its"
    by (metis length_filter_le length_list_update)
  then show ?thesis
    using rep idx rm compact_items_spec [of ?q "its[nat idx := it]"]
    by (auto simp: poller_rep_def f)
qed

lemma poller_remove_item_untagged:
  assumes "poller_rep p its" "no_tag its" "0 \<le> idx" "idx < int (length its)"
  shows "\<exists>p'. poller_remove_item p idx = Some p' \<and>
     poller_rep p' (take (nat idx) its @ drop (Suc (nat idx)) its)"
proof -
  have "filter (\<lambda>it. \<not> is_free it) (take (nat idx) its @ drop (Suc (nat idx)) its) =
      take (nat idx) its @ drop (Suc (nat idx)) its"
    using assms(2) by (intro filter_all) (auto simp: no_tag_def dest: in_set_takeD in_set_dropD)
  with poller_remove_item_rep [OF assms(1,3,4)] show ?thesis by auto
qed

lemma poller_resize_rep:
  assumes items: "pl_items p = Some xs" "length xs = nat (pl_len p)" "0 \<le> pl_len p"
    and big: "pl_len p < m" "alloc (nat m)"
  shows "poller_resize_items alloc p m =
    Some (p\<lparr>pl_items := Some (xs @ replicate (nat m - length xs) zero_item), pl_len := m\<rparr>)"
proof -
  have "nat (m - pl_len p) = length (replicate (nat m - length xs) zero_item)"
    using items big by (simp add: nat_diff_distrib)
  then show ?thesis
    using items big clear_items_tail [of xs "replicate (nat m - length xs) zero_item"]
    by (simp add: poller_resize_items_def Let_def)
qed

text \<open>A new slot is always the one after the last used one, it is zeroed, and it lies inside
  the array (which grows by ten slots when it would be full).\<close>

theorem poller_get_free_item_rep:
  assumes rep: "poller_rep p its" and room: "pl_len p \<le> INT_MAX - 10"
    and mem: "alloc (nat (pl_len p + 10))"
  shows "\<exists>p'. poller_get_free_item alloc p = Some (int (length its), p') \<and>
     poller_rep p' (its @ [zero_item]) \<and> pl_count p' < pl_len p' \<and> pl_next p' = pl_next p"
proof (cases "pl_len p \<le> pl_count p + 1")
  case False
  with rep room have g: "poller_get_free_item alloc p = Some (int (length its), p\<lparr>pl_count := pl_count p + 1\<rparr>)"
    by (simp add: poller_get_free_item_def poller_rep_def Let_def)
  have "replicate (nat (pl_len p) - length its) zero_item =
      zero_item # replicate (nat (pl_len p) - Suc (length its)) zero_item"
    using False rep by (cases "nat (pl_len p) - length its") (auto simp: poller_rep_def simp flip: replicate_Suc)
  with rep False g show ?thesis by (auto simp: poller_rep_def)
next
  case True
  let ?pad = "replicate (nat (pl_len p) - length its) zero_item"
  let ?q = "p\<lparr>pl_count := pl_count p + 1\<rparr>"
  let ?q' = "?q\<lparr>pl_items := Some ((its @ ?pad) @ replicate 10 zero_item), pl_len := pl_len p + 10\<rparr>"
  have len: "length (its @ ?pad) = nat (pl_len p)" "0 \<le> pl_len p"
    using rep by (auto simp: poller_rep_def)
  then have "nat (pl_len p + 10) - length (its @ ?pad) = 10" by (simp add: nat_add_distrib)
  then have rs: "poller_resize_items alloc ?q (pl_len p + 10) = Some ?q'"
    using poller_resize_rep [of ?q "its @ ?pad" "pl_len p + 10" alloc] rep len mem
    by (simp add: poller_rep_def del: append_assoc)
  have g: "poller_get_free_item alloc p = Some (int (length its), ?q')"
    using rep room True rs by (simp add: poller_get_free_item_def poller_rep_def Let_def)
  have "?pad @ replicate 10 zero_item = zero_item # replicate (nat (pl_len p + 10) - Suc (length its)) zero_item"
  proof -
    have "?pad @ replicate 10 zero_item = replicate (nat (pl_len p) - length its + 10) zero_item"
      by (simp add: replicate_add)
    moreover have "nat (pl_len p) - length its + 10 = Suc (nat (pl_len p + 10) - Suc (length its))"
      using rep by (auto simp: poller_rep_def)
    ultimately show ?thesis by simp
  qed
  with rep g show ?thesis by (auto simp: poller_rep_def)
qed


subsubsection \<open>Polling and walking over the events\<close>

lemma length_store_revents [simp]: "length (store_revents its rs) = length its"
  by (induction its rs rule: store_revents.induct) auto

lemma store_revents_keeps [simp]:
  "map it_socket (store_revents its rs) = map it_socket its"
  "map it_fd (store_revents its rs) = map it_fd its"
  "map it_events (store_revents its rs) = map it_events its"
  by (induction its rs rule: store_revents.induct) auto

lemma poller_poll_rep:
  assumes "poller_rep p its" "zmq_poll its timeout z = (ret, rs, z')"
  shows "\<exists>p'. poller_poll zmq_poll p timeout z = Some (ret, p', z') \<and>
    poller_rep p' (store_revents its rs) \<and> pl_next p' = pl_next p \<and> pl_len p' = pl_len p"
  using assms by (auto simp: poller_poll_def poller_rep_def)

text \<open>The pending events of a list of items, from the last item to the first.\<close>

fun pending :: "pollitem list \<Rightarrow> nat \<Rightarrow> (int \<times> int) list" where
  "pending xs 0 = []"
| "pending xs (Suc n) =
     (if it_revents (xs ! n) \<noteq> 0 then [(int n, it_revents (xs ! n))] else []) @ pending xs n"

lemma scan_revents_pending:
  "n \<le> length xs \<Longrightarrow>
     (case pending xs n of
        [] \<Rightarrow> scan_revents xs n = Some (- 1, - 1, 0)
      | (i, r) # rest \<Rightarrow> scan_revents xs n = Some (i, i - 1, r) \<and> 0 \<le> i \<and> i < int n \<and>
          r \<noteq> 0 \<and> rest = pending xs (nat i))"
  by (induction n) (auto split: list.splits prod.splits)

text \<open>
  The client's loop: ask for the next event until the index is negative. \<open>fuel\<close> bounds the
  number of calls.
\<close>

fun drain :: "nat \<Rightarrow> zpoller \<Rightarrow> (int \<times> int) list option" where
  "drain 0 p = None"
| "drain (Suc fuel) p =
     (case poller_next_revents p of
        None \<Rightarrow> None
      | Some (i, r, p') \<Rightarrow>
          if i < 0 then Some []
          else (case r of None \<Rightarrow> None
                | Some r' \<Rightarrow> map_option ((#) (i, r')) (drain fuel p')))"

lemma drain_pending:
  assumes "pl_items p = Some xs" "- 1 \<le> pl_next p" "pl_next p < int (length xs)"
    and "nat (pl_next p + 1) < fuel"
  shows "drain fuel p = Some (pending xs (nat (pl_next p + 1)))"
  using assms
proof (induction fuel arbitrary: p)
  case (Suc fuel)
  show ?case
  proof (cases "pl_next p < 0")
    case True
    with Suc.prems have "pl_next p = - 1" by simp
    then show ?thesis by (simp add: poller_next_revents_def)
  next
    case False
    let ?n = "nat (pl_next p + 1)"
    have n: "?n = Suc (nat (pl_next p))" and le: "?n \<le> length xs"
      using False Suc.prems by (auto simp: nat_add_distrib)
    show ?thesis
    proof (cases "pending xs ?n")
      case Nil
      then show ?thesis
        using scan_revents_pending [OF le] False Suc.prems
        by (simp add: poller_next_revents_def n Let_def)
    next
      case (Cons e rest)
      obtain i r where e: "e = (i, r)" by fastforce
      have sc: "scan_revents xs ?n = Some (i, i - 1, r)" and i: "0 \<le> i" "i < int ?n"
        and rest: "rest = pending xs (nat i)"
        using scan_revents_pending [OF le] Cons e by auto
      let ?p = "p\<lparr>pl_next := i - 1\<rparr>"
      have "nat i < ?n" using i by (simp only: nat_less_iff)
      then have "nat i < fuel" "i - 1 < int (length xs)" using Suc.prems(4) i le by linarith+
      then have "drain fuel ?p = Some (pending xs (nat (pl_next ?p + 1)))"
        using Suc.prems(1) i by (intro Suc.IH) auto
      then show ?thesis
        using sc Suc.prems(1) False i Cons e rest
        by (simp add: poller_next_revents_def n Let_def)
    qed
  qed
qed simp

lemma poller_next_revents_rep:
  assumes "poller_rep p its"
  shows "\<exists>i r p'. poller_next_revents p = Some (i, r, p') \<and> poller_rep p' its \<and>
    - 1 \<le> i \<and> i \<le> pl_next p \<and> pl_next p' \<le> pl_next p"
proof (cases "pl_next p < 0")
  case True
  with assms show ?thesis by (auto simp: poller_next_revents_def poller_rep_def)
next
  case False
  obtain xs where xs: "pl_items p = Some xs" "Suc (nat (pl_next p)) \<le> length xs"
    using assms False by (auto simp: poller_rep_def)
  show ?thesis
    using scan_revents_pending [OF xs(2)] xs(1) False assms
    by (auto simp: poller_next_revents_def poller_rep_def Let_def split: list.splits prod.splits)
qed


end
