(* ===== verification/LuaState.thy ===== *)
theory LuaState
  imports Poller
begin

text \<open>
  The state every C function of the binding works on, and the two libraries it calls.

  A binding function is a \<open>lua_CFunction\<close>: its arguments are on the virtual stack of the
  \<open>lua_State\<close>, and it returns the number of results it left on top of that stack. The record
  \<open>lua\<close> holds the stack, the userdata objects (the C structs of \<open>lzmq.h\<close>, \<open>poller.h\<close> and
  \<open>ztimer.c\<close>, by address), the table of references the module keeps, and the state of libzmq.
  The stack operations are those of the Lua reference manual (Lua 5.2).

  libzmq is not part of the sources: its functions are the fields of the record \<open>env\<close>, which
  every definition that calls one takes as an argument; \<open>macro\<close> gives the values of the
  macros of the C headers (\<open>EAGAIN\<close>, \<open>ZMQ_SNDMORE\<close>, ...), and \<open>call_lua\<close> is the effect of
  calling a Lua function of the script, with the error it raised, if any. A message of libzmq is a value of an
  arbitrary type \<open>'m\<close>, its state a value of an arbitrary type \<open>'z\<close>. \<open>zmq_msg_zero\<close> is a
  message structure of zero bytes. The first argument of \<open>zmq_msg_move\<close> and \<open>zmq_msg_copy\<close>
  tells whether destination and source are the same object. A message received from the code as
  an \<open>'m\<close> has its bytes at \<open>zmq_msg_data\<close>; \<open>zmq_msg_store\<close> writes into them.
\<close>

subsection \<open>Values and objects\<close>

datatype utype =
  UContext | USocket | UError | UPoller | UMessage | UStopwatch | UMonTimer | UAbsTimer

text \<open>A table is its array part and its hash part; the code reads argument tables, and
  builds result tables, with raw accesses only.\<close>

datatype lval =
  LNil | LBool bool | LNum rat | LStr string | LUser utype nat | LLight nat | LFun nat
| LTable "lval list" "(lval \<times> lval) list"

definition LUAZMQ_FLAG_CLOSED :: uchar where "LUAZMQ_FLAG_CLOSED = 0x01"
definition LUAZMQ_FLAG_CTX_SHUTDOWN :: uchar where "LUAZMQ_FLAG_CTX_SHUTDOWN = 0x02"
definition LUAZMQ_FLAG_DONT_DESTROY :: uchar where "LUAZMQ_FLAG_DONT_DESTROY = 0x04"
definition LUAZMQ_FLAG_MORE :: uchar where "LUAZMQ_FLAG_MORE = 0x08"
definition LUAZMQ_FLAG_CLOSE_ON_ETERM :: uchar where "LUAZMQ_FLAG_CLOSE_ON_ETERM = 0x10"

lemmas flag_defs = LUAZMQ_FLAG_CLOSED_def LUAZMQ_FLAG_CTX_SHUTDOWN_def LUAZMQ_FLAG_DONT_DESTROY_def
  LUAZMQ_FLAG_MORE_def LUAZMQ_FLAG_CLOSE_ON_ETERM_def

interpretation closed_shutdown: flag_pair LUAZMQ_FLAG_CLOSED LUAZMQ_FLAG_CTX_SHUTDOWN
  by unfold_locales (simp_all add: flag_defs)

interpretation closed_dontdestroy: flag_pair LUAZMQ_FLAG_CLOSED LUAZMQ_FLAG_DONT_DESTROY
  by unfold_locales (simp_all add: flag_defs)

interpretation closed_more: flag_pair LUAZMQ_FLAG_CLOSED LUAZMQ_FLAG_MORE
  by unfold_locales (simp_all add: flag_defs)

interpretation closed_eterm: flag_pair LUAZMQ_FLAG_CLOSED LUAZMQ_FLAG_CLOSE_ON_ETERM
  by unfold_locales (simp_all add: flag_defs)

interpretation more_closed: flag_pair LUAZMQ_FLAG_MORE LUAZMQ_FLAG_CLOSED
  by unfold_locales (simp_all add: flag_defs)

interpretation more_dontdestroy: flag_pair LUAZMQ_FLAG_MORE LUAZMQ_FLAG_DONT_DESTROY
  by unfold_locales (simp_all add: flag_defs)

interpretation more_eterm: flag_pair LUAZMQ_FLAG_MORE LUAZMQ_FLAG_CLOSE_ON_ETERM
  by unfold_locales (simp_all add: flag_defs)

interpretation shutdown_closed: flag_pair LUAZMQ_FLAG_CTX_SHUTDOWN LUAZMQ_FLAG_CLOSED
  by unfold_locales (simp_all add: flag_defs)

interpretation shutdown_dontdestroy: flag_pair LUAZMQ_FLAG_CTX_SHUTDOWN LUAZMQ_FLAG_DONT_DESTROY
  by unfold_locales (simp_all add: flag_defs)

interpretation dontdestroy_closed: flag_pair LUAZMQ_FLAG_DONT_DESTROY LUAZMQ_FLAG_CLOSED
  by unfold_locales (simp_all add: flag_defs)

interpretation dontdestroy_more: flag_pair LUAZMQ_FLAG_DONT_DESTROY LUAZMQ_FLAG_MORE
  by unfold_locales (simp_all add: flag_defs)

interpretation dontdestroy_shutdown: flag_pair LUAZMQ_FLAG_DONT_DESTROY LUAZMQ_FLAG_CTX_SHUTDOWN
  by unfold_locales (simp_all add: flag_defs)

interpretation dontdestroy_eterm: flag_pair LUAZMQ_FLAG_DONT_DESTROY LUAZMQ_FLAG_CLOSE_ON_ETERM
  by unfold_locales (simp_all add: flag_defs)

record zcontext =
  zc_ctx :: nat
  zc_flags :: uchar
  zc_socket_count :: int
  zc_autoclose_ref :: int

text \<open>\<open>zs_ctx\<close> is the pointer to the context object, \<open>None\<close> the null pointer.\<close>

record zsocket =
  zs_skt :: nat
  zs_flags :: uchar
  zs_ctx :: "nat option"
  zs_ctx_ref :: int
  zs_onclose_ref :: int

record 'm zmessage =
  zm_msg :: 'm
  zm_flags :: uchar

record zmonotonic_timer =
  mt_start :: "64 word"
  mt_fire :: "64 word"
  mt_flags :: uchar

record zabsolute_timer =
  at_start :: "64 word"
  at_fire :: "64 word"
  at_flags :: uchar

record ('z, 'm) lua =
  stk :: "lval list"
  zctxs :: "nat \<Rightarrow> zcontext"
  zskts :: "nat \<Rightarrow> zsocket"
  zerrs :: "nat \<Rightarrow> int"
  zplrs :: "nat \<Rightarrow> zpoller"
  zmsgs :: "nat \<Rightarrow> 'm zmessage"
  zwatches :: "nat \<Rightarrow> nat"
  mtimers :: "nat \<Rightarrow> zmonotonic_timer"
  atimers :: "nat \<Rightarrow> zabsolute_timer"
  next_udata :: nat
  registry :: "int \<Rightarrow> lval"
  next_ref :: int
  zst :: 'z

subsection \<open>How a call ends\<close>

text \<open>
  A call returns \<open>n\<close> values, raises a Lua error, or runs into behaviour that C does not define
  (or into a failed \<open>assert\<close>).
\<close>

datatype lua_error = ArgError int string | TypeError int string | ErrValue lval

datatype ub = NullDeref | OutOfBounds | AssertFail | BadCast | IntOverflow | Uninitialised | UseAfterFree

datatype 'l outcome = Ret nat 'l | Raise lua_error 'l | Abort ub

definition results :: "nat \<Rightarrow> ('z, 'm) lua \<Rightarrow> lval list" where
  "results n L = drop (length (stk L) - n) (stk L)"

text \<open>\<open>check c L k\<close>: continue with the value of an argument check, or raise its error.
  \<open>ub_check\<close> and \<open>ub_bind\<close> continue unless an operation is undefined; \<open>after\<close> sequences two
  calls.\<close>

fun ub_bind :: "ub + 'a \<Rightarrow> ('a \<Rightarrow> 'l outcome) \<Rightarrow> 'l outcome" where
  "ub_bind (Inl u) k = Abort u"
| "ub_bind (Inr a) k = k a"

fun check :: "lua_error + 'a \<Rightarrow> 'l \<Rightarrow> ('a \<Rightarrow> 'l outcome) \<Rightarrow> 'l outcome" where
  "check (Inl e) L k = Raise e L"
| "check (Inr a) L k = k a"

fun ub_check :: "ub \<Rightarrow> 'a option \<Rightarrow> ('a \<Rightarrow> 'l outcome) \<Rightarrow> 'l outcome" where
  "ub_check u None k = Abort u"
| "ub_check u (Some a) k = k a"

fun after :: "'l outcome \<Rightarrow> (nat \<Rightarrow> 'l \<Rightarrow> 'l outcome) \<Rightarrow> 'l outcome" where
  "after (Ret n L) k = k n L"
| "after (Raise e L) k = Raise e L"
| "after (Abort u) k = Abort u"

text \<open>A predicate holds in the state a call ends in, unless it is aborted.\<close>

fun final_state :: "('l \<Rightarrow> bool) \<Rightarrow> 'l outcome \<Rightarrow> bool" where
  "final_state P (Ret n L) = P L"
| "final_state P (Raise e L) = P L"
| "final_state P (Abort u) = True"

lemma final_check [simp]:
  "final_state P (check r L k) = (case r of Inl e \<Rightarrow> P L | Inr a \<Rightarrow> final_state P (k a))"
  by (cases r) simp_all

lemma final_ub_bind [simp]:
  "final_state P (ub_bind r k) = (case r of Inl e \<Rightarrow> True | Inr a \<Rightarrow> final_state P (k a))"
  by (cases r) simp_all

lemma final_ub_check [simp]:
  "final_state P (ub_check u r k) = (case r of None \<Rightarrow> True | Some a \<Rightarrow> final_state P (k a))"
  by (cases r) simp_all

lemma final_if [simp]:
  "final_state P (if b then x else y) = (if b then final_state P x else final_state P y)"
  by simp

definition argcheck :: "bool \<Rightarrow> int \<Rightarrow> string \<Rightarrow> lua_error + unit" where
  "argcheck c i m = (if c then Inr () else Inl (ArgError i m))"

lemma check_argcheck [simp]:
  "check (argcheck c i m) L k = (if c then k () else Raise (ArgError i m) L)"
  by (simp add: argcheck_def)

subsection \<open>The stack\<close>

definition lua_gettop :: "('z, 'm) lua \<Rightarrow> nat" where
  "lua_gettop L = length (stk L)"

definition lua_absindex :: "('z, 'm) lua \<Rightarrow> int \<Rightarrow> nat" where
  "lua_absindex L i = nat (if 0 < i then i - 1 else int (length (stk L)) + i)"

text \<open>A position that holds no value reads as nil.\<close>

definition lua_at :: "('z, 'm) lua \<Rightarrow> int \<Rightarrow> lval" where
  "lua_at L i = (let k = lua_absindex L i in if k < length (stk L) then stk L ! k else LNil)"

definition push :: "lval \<Rightarrow> ('z, 'm) lua \<Rightarrow> ('z, 'm) lua" where
  "push v L = L\<lparr>stk := stk L @ [v]\<rparr>"

definition lua_pop :: "nat \<Rightarrow> ('z, 'm) lua \<Rightarrow> ('z, 'm) lua" where
  "lua_pop n L = L\<lparr>stk := take (length (stk L) - n) (stk L)\<rparr>"

definition lua_settop :: "nat \<Rightarrow> ('z, 'm) lua \<Rightarrow> ('z, 'm) lua" where
  "lua_settop n L = L\<lparr>stk := take n (stk L) @ replicate (n - length (stk L)) LNil\<rparr>"

definition lua_pushvalue :: "int \<Rightarrow> ('z, 'm) lua \<Rightarrow> ('z, 'm) lua" where
  "lua_pushvalue i L = push (lua_at L i) L"

definition lua_insert :: "int \<Rightarrow> ('z, 'm) lua \<Rightarrow> ('z, 'm) lua" where
  "lua_insert i L = (let k = lua_absindex L i; xs = stk L in
     L\<lparr>stk := take k xs @ [last xs] @ drop k (butlast xs)\<rparr>)"

definition lua_remove :: "int \<Rightarrow> ('z, 'm) lua \<Rightarrow> ('z, 'm) lua" where
  "lua_remove i L = (let k = lua_absindex L i; xs = stk L in
     L\<lparr>stk := take k xs @ drop (Suc k) xs\<rparr>)"

definition lua_replace :: "int \<Rightarrow> ('z, 'm) lua \<Rightarrow> ('z, 'm) lua" where
  "lua_replace i L = (let k = lua_absindex L i; xs = stk L in
     L\<lparr>stk := butlast (xs[k := last xs])\<rparr>)"

lemmas stack_defs = lua_gettop_def lua_absindex_def lua_at_def push_def lua_pop_def
  lua_settop_def lua_pushvalue_def lua_insert_def lua_remove_def lua_replace_def results_def

definition pushnumber :: "int \<Rightarrow> ('z, 'm) lua \<Rightarrow> ('z, 'm) lua" where
  "pushnumber x L = push (LNum (int_to_num x)) L"

definition pushinteger :: "int \<Rightarrow> ('z, 'm) lua \<Rightarrow> ('z, 'm) lua" where
  "pushinteger x L = push (LNum (of_int x)) L"

definition pushboolean :: "bool \<Rightarrow> ('z, 'm) lua \<Rightarrow> ('z, 'm) lua" where
  "pushboolean b L = push (LBool b) L"

subsection \<open>Updating an object\<close>

definition upd_ctx :: "nat \<Rightarrow> (zcontext \<Rightarrow> zcontext) \<Rightarrow> ('z, 'm) lua \<Rightarrow> ('z, 'm) lua" where
  "upd_ctx k f L = L\<lparr>zctxs := (zctxs L)(k := f (zctxs L k))\<rparr>"

definition upd_skt :: "nat \<Rightarrow> (zsocket \<Rightarrow> zsocket) \<Rightarrow> ('z, 'm) lua \<Rightarrow> ('z, 'm) lua" where
  "upd_skt k f L = L\<lparr>zskts := (zskts L)(k := f (zskts L k))\<rparr>"

definition upd_msg :: "nat \<Rightarrow> ('m zmessage \<Rightarrow> 'm zmessage) \<Rightarrow> ('z, 'm) lua \<Rightarrow> ('z, 'm) lua" where
  "upd_msg k f L = L\<lparr>zmsgs := (zmsgs L)(k := f (zmsgs L k))\<rparr>"

definition upd_plr :: "nat \<Rightarrow> (zpoller \<Rightarrow> zpoller) \<Rightarrow> ('z, 'm) lua \<Rightarrow> ('z, 'm) lua" where
  "upd_plr k f L = L\<lparr>zplrs := (zplrs L)(k := f (zplrs L k))\<rparr>"

lemmas upd_defs = upd_ctx_def upd_skt_def upd_msg_def upd_plr_def

subsection \<open>References\<close>

definition LUA_NOREF :: int where "LUA_NOREF = - 2"
definition LUA_REFNIL :: int where "LUA_REFNIL = - 1"

text \<open>\<open>luaL_ref\<close> pops a value and stores it under a fresh key; the key of nil is
  \<open>LUA_REFNIL\<close>. \<open>luaL_unref\<close> frees a key.\<close>

definition luaL_ref :: "('z, 'm) lua \<Rightarrow> int \<times> ('z, 'm) lua" where
  "luaL_ref L = (let v = lua_at L (- 1); L' = lua_pop 1 L in
     if v = LNil then (LUA_REFNIL, L')
     else (next_ref L, L'\<lparr>registry := (registry L')(next_ref L := v), next_ref := next_ref L + 1\<rparr>))"

definition luaL_unref :: "int \<Rightarrow> ('z, 'm) lua \<Rightarrow> ('z, 'm) lua" where
  "luaL_unref r L = (if 0 \<le> r then L\<lparr>registry := (registry L)(r := LNil)\<rparr> else L)"

subsection \<open>libzmq, the allocator and Lua code\<close>

text \<open>What the code passes to, and reads from, a socket option.\<close>

datatype optval = OInt int | OI64 int | OU64 int | OFd int | OBytes string

datatype err_type = ErrObject | ErrNumber | ErrString

record ('z, 'm) env =
  zmq_errno :: "'z \<Rightarrow> int"
  zmq_strerror :: "int \<Rightarrow> string"
  zmq_version :: "int \<times> int \<times> int"
  zmq_ctx_new :: "'z \<Rightarrow> nat \<times> 'z"
  zmq_init :: "int \<Rightarrow> 'z \<Rightarrow> nat \<times> 'z"
  zmq_ctx_term :: "nat \<Rightarrow> 'z \<Rightarrow> int \<times> 'z"
  zmq_ctx_shutdown :: "nat \<Rightarrow> 'z \<Rightarrow> int \<times> 'z"
  zmq_ctx_set :: "nat \<Rightarrow> int \<Rightarrow> int \<Rightarrow> 'z \<Rightarrow> int \<times> 'z"
  zmq_ctx_get :: "nat \<Rightarrow> int \<Rightarrow> 'z \<Rightarrow> int \<times> 'z"
  zmq_socket :: "nat \<Rightarrow> int \<Rightarrow> 'z \<Rightarrow> nat \<times> 'z"
  zmq_close :: "nat \<Rightarrow> 'z \<Rightarrow> int \<times> 'z"
  zmq_bind :: "nat \<Rightarrow> string \<Rightarrow> 'z \<Rightarrow> int \<times> 'z"
  zmq_unbind :: "nat \<Rightarrow> string \<Rightarrow> 'z \<Rightarrow> int \<times> 'z"
  zmq_connect :: "nat \<Rightarrow> string \<Rightarrow> 'z \<Rightarrow> int \<times> 'z"
  zmq_disconnect :: "nat \<Rightarrow> string \<Rightarrow> 'z \<Rightarrow> int \<times> 'z"
  zmq_setsockopt :: "nat \<Rightarrow> int \<Rightarrow> optval \<Rightarrow> 'z \<Rightarrow> int \<times> 'z"
  zmq_getsockopt :: "nat \<Rightarrow> int \<Rightarrow> optval \<Rightarrow> 'z \<Rightarrow> int \<times> optval \<times> 'z"
  zmq_send :: "nat \<Rightarrow> string \<Rightarrow> int \<Rightarrow> 'z \<Rightarrow> int \<times> 'z"
  zmq_recv :: "nat \<Rightarrow> nat \<Rightarrow> int \<Rightarrow> 'z \<Rightarrow> int \<times> string \<times> 'z"
  zmq_poll :: "pollitem list \<Rightarrow> int \<Rightarrow> 'z \<Rightarrow> int \<times> int list \<times> 'z"
  zmq_socket_monitor :: "nat \<Rightarrow> string option \<Rightarrow> int \<Rightarrow> 'z \<Rightarrow> int \<times> 'z"
  zmq_msg_init :: "'z \<Rightarrow> int \<times> 'm \<times> 'z"
  zmq_msg_init_size :: "nat \<Rightarrow> 'z \<Rightarrow> int \<times> 'm \<times> 'z"
  zmq_msg_close :: "'m \<Rightarrow> 'z \<Rightarrow> int \<times> 'm \<times> 'z"
  zmq_msg_zero :: 'm
  zmq_msg_move :: "bool \<Rightarrow> 'm \<Rightarrow> 'm \<Rightarrow> 'z \<Rightarrow> int \<times> 'm \<times> 'm \<times> 'z"
  zmq_msg_copy :: "bool \<Rightarrow> 'm \<Rightarrow> 'm \<Rightarrow> 'z \<Rightarrow> int \<times> 'm \<times> 'm \<times> 'z"
  zmq_msg_data :: "'m \<Rightarrow> string"
  zmq_msg_ptr :: "'m \<Rightarrow> nat"
  zmq_msg_store :: "'m \<Rightarrow> nat \<Rightarrow> string \<Rightarrow> 'm"
  zmq_msg_size :: "'m \<Rightarrow> nat"
  zmq_msg_more :: "'m \<Rightarrow> bool"
  zmq_msg_get :: "'m \<Rightarrow> int \<Rightarrow> 'z \<Rightarrow> int \<times> 'z"
  zmq_msg_set :: "'m \<Rightarrow> int \<Rightarrow> int \<Rightarrow> 'z \<Rightarrow> int \<times> 'm \<times> 'z"
  zmq_msg_gets :: "'m \<Rightarrow> string \<Rightarrow> 'z \<Rightarrow> string option \<times> 'z"
  zmq_msg_send :: "'m \<Rightarrow> nat \<Rightarrow> int \<Rightarrow> 'z \<Rightarrow> int \<times> 'm \<times> 'z"
  zmq_msg_recv :: "'m \<Rightarrow> nat \<Rightarrow> int \<Rightarrow> 'z \<Rightarrow> int \<times> 'm \<times> 'z"
  zmq_device :: "int \<Rightarrow> nat \<Rightarrow> nat \<Rightarrow> 'z \<Rightarrow> int \<times> 'z"
  zmq_proxy :: "nat \<Rightarrow> nat \<Rightarrow> nat option \<Rightarrow> 'z \<Rightarrow> int \<times> 'z"
  zmq_proxy_steerable :: "nat \<Rightarrow> nat \<Rightarrow> nat option \<Rightarrow> nat option \<Rightarrow> 'z \<Rightarrow> int \<times> 'z"
  zmq_has :: "string \<Rightarrow> int"
  zmq_z85_encode :: "string \<Rightarrow> string option"
  zmq_z85_decode :: "string \<Rightarrow> string option"
  zmq_curve_keypair :: "'z \<Rightarrow> int \<times> string \<times> string \<times> 'z"
  zmq_curve_public :: "string \<Rightarrow> 'z \<Rightarrow> int \<times> string \<times> 'z"
  zmq_stopwatch_start :: "'z \<Rightarrow> nat \<times> 'z"
  zmq_stopwatch_stop :: "nat \<Rightarrow> 'z \<Rightarrow> int \<times> 'z"
  zmq_sleep :: "int \<Rightarrow> 'z \<Rightarrow> 'z"
  alloc_items :: "nat \<Rightarrow> bool"
  malloc :: "nat \<Rightarrow> bool"
  udata_size :: "utype \<Rightarrow> nat"
  call_lua :: "lval \<Rightarrow> ('z, 'm) lua \<Rightarrow> lval option \<times> ('z, 'm) lua"
  macro :: "string \<Rightarrow> int"
  str2num :: "string \<Rightarrow> rat option"
  num2str :: "rat \<Rightarrow> string"
  luaL_where :: string
  argerror_text :: "lua_error \<Rightarrow> string"
  fmt_ptr :: "nat \<Rightarrow> string"
  zmq_defined :: "string \<Rightarrow> bool"
  err_mode :: err_type
  use_send_as_buf :: bool
  use_temp_buffers :: bool

text \<open>The value a raised error carries; the text of an argument error names the function, which
  Lua finds by its debug information.\<close>

fun error_value :: "('z, 'm) env \<Rightarrow> lua_error \<Rightarrow> lval" where
  "error_value E (ErrValue v) = v"
| "error_value E e = LStr (argerror_text E e)"

subsection \<open>Reading arguments\<close>

fun tonumber :: "('z, 'm) env \<Rightarrow> lval \<Rightarrow> rat option" where
  "tonumber E (LNum q) = Some q"
| "tonumber E (LStr s) = str2num E s"
| "tonumber E _ = None"

fun tostring :: "('z, 'm) env \<Rightarrow> lval \<Rightarrow> string option" where
  "tostring E (LStr s) = Some s"
| "tostring E (LNum q) = Some (num2str E q)"
| "tostring E _ = None"

fun toboolean :: "lval \<Rightarrow> bool" where
  "toboolean LNil = False"
| "toboolean (LBool b) = b"
| "toboolean _ = True"

definition lua_tointeger :: "rat \<Rightarrow> int" where
  "lua_tointeger q = c_long (c_trunc q)"

definition luaL_checknumber :: "('z, 'm) env \<Rightarrow> ('z, 'm) lua \<Rightarrow> int \<Rightarrow> lua_error + rat" where
  "luaL_checknumber E L i =
     (case tonumber E (lua_at L i) of None \<Rightarrow> Inl (TypeError i ''number'') | Some q \<Rightarrow> Inr q)"

definition luaL_checkinteger :: "('z, 'm) env \<Rightarrow> ('z, 'm) lua \<Rightarrow> int \<Rightarrow> lua_error + int" where
  "luaL_checkinteger E L i = map_sum id lua_tointeger (luaL_checknumber E L i)"

definition luaL_checkint :: "('z, 'm) env \<Rightarrow> ('z, 'm) lua \<Rightarrow> int \<Rightarrow> lua_error + int" where
  "luaL_checkint E L i = map_sum id c_int (luaL_checkinteger E L i)"

definition luaL_optint :: "('z, 'm) env \<Rightarrow> ('z, 'm) lua \<Rightarrow> int \<Rightarrow> int \<Rightarrow> lua_error + int" where
  "luaL_optint E L i d = (if lua_at L i = LNil then Inr d else luaL_checkint E L i)"

definition luaL_optinteger :: "('z, 'm) env \<Rightarrow> ('z, 'm) lua \<Rightarrow> int \<Rightarrow> int \<Rightarrow> lua_error + int" where
  "luaL_optinteger E L i d = (if lua_at L i = LNil then Inr d else luaL_checkinteger E L i)"

definition luaL_checklstring :: "('z, 'm) env \<Rightarrow> ('z, 'm) lua \<Rightarrow> int \<Rightarrow> lua_error + string" where
  "luaL_checklstring E L i =
     (case tostring E (lua_at L i) of None \<Rightarrow> Inl (TypeError i ''string'') | Some s \<Rightarrow> Inr s)"

text \<open>A Lua string passed where C expects a string ends at its first zero byte.\<close>

definition c_str :: "string \<Rightarrow> string" where
  "c_str s = takeWhile (\<lambda>c. c \<noteq> CHR 0x00) s"

definition luaL_checkstring :: "('z, 'm) env \<Rightarrow> ('z, 'm) lua \<Rightarrow> int \<Rightarrow> lua_error + string" where
  "luaL_checkstring E L i = map_sum id c_str (luaL_checklstring E L i)"

subsection \<open>Reading tables\<close>

text \<open>\<open>lua_rawgeti\<close> of a value that is not a table is undefined.\<close>

fun rawgeti :: "lval \<Rightarrow> int \<Rightarrow> lval option" where
  "rawgeti (LTable xs h) i = Some (if 1 \<le> i \<and> i \<le> int (length xs) then xs ! nat (i - 1)
     else case map_of h (LNum (of_int i)) of Some v \<Rightarrow> v | None \<Rightarrow> LNil)"
| "rawgeti _ i = None"

fun rawlen :: "('z, 'm) env \<Rightarrow> lval \<Rightarrow> nat" where
  "rawlen E (LTable xs h) = length xs"
| "rawlen E (LStr s) = length s"
| "rawlen E (LUser t k) = udata_size E t"
| "rawlen E _ = 0"

fun is_table :: "lval \<Rightarrow> bool" where
  "is_table (LTable xs h) = True"
| "is_table _ = False"

subsection \<open>Rules for the stack\<close>

lemma stk_push [simp]: "stk (push v L) = stk L @ [v]"
  by (simp add: push_def)

lemma push_fields [simp]:
  "zctxs (push v L) = zctxs L"
  "zskts (push v L) = zskts L"
  "zerrs (push v L) = zerrs L"
  "zplrs (push v L) = zplrs L"
  "zmsgs (push v L) = zmsgs L"
  "zwatches (push v L) = zwatches L"
  "mtimers (push v L) = mtimers L"
  "atimers (push v L) = atimers L"
  "next_udata (push v L) = next_udata L"
  "registry (push v L) = registry L"
  "next_ref (push v L) = next_ref L"
  "zst (push v L) = zst L"
  by (simp_all add: push_def)

lemma push_update [simp]:
  "(push v L)\<lparr>zctxs := x0\<rparr> = push v (L\<lparr>zctxs := x0\<rparr>)"
  "(push v L)\<lparr>zskts := x1\<rparr> = push v (L\<lparr>zskts := x1\<rparr>)"
  "(push v L)\<lparr>zerrs := x2\<rparr> = push v (L\<lparr>zerrs := x2\<rparr>)"
  "(push v L)\<lparr>zplrs := x3\<rparr> = push v (L\<lparr>zplrs := x3\<rparr>)"
  "(push v L)\<lparr>zmsgs := x4\<rparr> = push v (L\<lparr>zmsgs := x4\<rparr>)"
  "(push v L)\<lparr>zwatches := x5\<rparr> = push v (L\<lparr>zwatches := x5\<rparr>)"
  "(push v L)\<lparr>mtimers := x6\<rparr> = push v (L\<lparr>mtimers := x6\<rparr>)"
  "(push v L)\<lparr>atimers := x7\<rparr> = push v (L\<lparr>atimers := x7\<rparr>)"
  "(push v L)\<lparr>next_udata := x8\<rparr> = push v (L\<lparr>next_udata := x8\<rparr>)"
  "(push v L)\<lparr>registry := x9\<rparr> = push v (L\<lparr>registry := x9\<rparr>)"
  "(push v L)\<lparr>next_ref := x10\<rparr> = push v (L\<lparr>next_ref := x10\<rparr>)"
  "(push v L)\<lparr>zst := x11\<rparr> = push v (L\<lparr>zst := x11\<rparr>)"
  by (simp_all add: push_def)

lemma lua_at_update [simp]:
  "lua_at (L\<lparr>zctxs := x0\<rparr>) i = lua_at L i"
  "lua_at (L\<lparr>zskts := x1\<rparr>) i = lua_at L i"
  "lua_at (L\<lparr>zerrs := x2\<rparr>) i = lua_at L i"
  "lua_at (L\<lparr>zplrs := x3\<rparr>) i = lua_at L i"
  "lua_at (L\<lparr>zmsgs := x4\<rparr>) i = lua_at L i"
  "lua_at (L\<lparr>zwatches := x5\<rparr>) i = lua_at L i"
  "lua_at (L\<lparr>mtimers := x6\<rparr>) i = lua_at L i"
  "lua_at (L\<lparr>atimers := x7\<rparr>) i = lua_at L i"
  "lua_at (L\<lparr>next_udata := x8\<rparr>) i = lua_at L i"
  "lua_at (L\<lparr>registry := x9\<rparr>) i = lua_at L i"
  "lua_at (L\<lparr>next_ref := x10\<rparr>) i = lua_at L i"
  "lua_at (L\<lparr>zst := x11\<rparr>) i = lua_at L i"
  by (simp_all add: lua_at_def lua_absindex_def Let_def)

lemma upd_stk [simp]:
  "stk (upd_ctx k f L) = stk L" "stk (upd_skt k g L) = stk L" "stk (upd_msg k h L) = stk L"
  "stk (upd_plr k p L) = stk L"
  "lua_at (upd_ctx k f L) i = lua_at L i" "lua_at (upd_skt k g L) i = lua_at L i"
  "lua_at (upd_msg k h L) i = lua_at L i" "lua_at (upd_plr k p L) i = lua_at L i"
  by (simp_all add: upd_defs)

lemma upd_obj [simp]:
  "zctxs (upd_ctx k f L) = (zctxs L)(k := f (zctxs L k))"
  "zskts (upd_skt k g L) = (zskts L)(k := g (zskts L k))"
  "zmsgs (upd_msg k h L) = (zmsgs L)(k := h (zmsgs L k))"
  "zplrs (upd_plr k p L) = (zplrs L)(k := p (zplrs L k))"
  by (simp_all add: upd_defs)

lemma upd_other [simp]:
  "zskts (upd_ctx k f L) = zskts L"
  "zerrs (upd_ctx k f L) = zerrs L"
  "zplrs (upd_ctx k f L) = zplrs L"
  "zmsgs (upd_ctx k f L) = zmsgs L"
  "mtimers (upd_ctx k f L) = mtimers L"
  "atimers (upd_ctx k f L) = atimers L"
  "next_udata (upd_ctx k f L) = next_udata L"
  "registry (upd_ctx k f L) = registry L"
  "next_ref (upd_ctx k f L) = next_ref L"
  "zst (upd_ctx k f L) = zst L"
  "zctxs (upd_skt k g L) = zctxs L"
  "zerrs (upd_skt k g L) = zerrs L"
  "zplrs (upd_skt k g L) = zplrs L"
  "zmsgs (upd_skt k g L) = zmsgs L"
  "mtimers (upd_skt k g L) = mtimers L"
  "atimers (upd_skt k g L) = atimers L"
  "next_udata (upd_skt k g L) = next_udata L"
  "registry (upd_skt k g L) = registry L"
  "next_ref (upd_skt k g L) = next_ref L"
  "zst (upd_skt k g L) = zst L"
  "zctxs (upd_msg k h L) = zctxs L"
  "zskts (upd_msg k h L) = zskts L"
  "zerrs (upd_msg k h L) = zerrs L"
  "zplrs (upd_msg k h L) = zplrs L"
  "mtimers (upd_msg k h L) = mtimers L"
  "atimers (upd_msg k h L) = atimers L"
  "next_udata (upd_msg k h L) = next_udata L"
  "registry (upd_msg k h L) = registry L"
  "next_ref (upd_msg k h L) = next_ref L"
  "zst (upd_msg k h L) = zst L"
  "zctxs (upd_plr k p L) = zctxs L"
  "zskts (upd_plr k p L) = zskts L"
  "zerrs (upd_plr k p L) = zerrs L"
  "zmsgs (upd_plr k p L) = zmsgs L"
  "mtimers (upd_plr k p L) = mtimers L"
  "atimers (upd_plr k p L) = atimers L"
  "next_udata (upd_plr k p L) = next_udata L"
  "registry (upd_plr k p L) = registry L"
  "next_ref (upd_plr k p L) = next_ref L"
  "zst (upd_plr k p L) = zst L"
  by (simp_all add: upd_defs)

lemma results_update [simp]:
  "results n (L\<lparr>zctxs := x0\<rparr>) = results n L"
  "results n (L\<lparr>zskts := x1\<rparr>) = results n L"
  "results n (L\<lparr>zerrs := x2\<rparr>) = results n L"
  "results n (L\<lparr>zplrs := x3\<rparr>) = results n L"
  "results n (L\<lparr>zmsgs := x4\<rparr>) = results n L"
  "results n (L\<lparr>zwatches := x5\<rparr>) = results n L"
  "results n (L\<lparr>mtimers := x6\<rparr>) = results n L"
  "results n (L\<lparr>atimers := x7\<rparr>) = results n L"
  "results n (L\<lparr>next_udata := x8\<rparr>) = results n L"
  "results n (L\<lparr>registry := x9\<rparr>) = results n L"
  "results n (L\<lparr>next_ref := x10\<rparr>) = results n L"
  "results n (L\<lparr>zst := x11\<rparr>) = results n L"
  by (simp_all add: results_def)

lemma settop_fields [simp]:
  "zctxs (lua_settop n L) = zctxs L"
  "zskts (lua_settop n L) = zskts L"
  "zerrs (lua_settop n L) = zerrs L"
  "zplrs (lua_settop n L) = zplrs L"
  "zmsgs (lua_settop n L) = zmsgs L"
  "zwatches (lua_settop n L) = zwatches L"
  "mtimers (lua_settop n L) = mtimers L"
  "atimers (lua_settop n L) = atimers L"
  "next_udata (lua_settop n L) = next_udata L"
  "registry (lua_settop n L) = registry L"
  "next_ref (lua_settop n L) = next_ref L"
  "zst (lua_settop n L) = zst L"
  by (simp_all add: lua_settop_def)

lemma pop_fields [simp]:
  "zctxs (lua_pop n L) = zctxs L"
  "zskts (lua_pop n L) = zskts L"
  "zerrs (lua_pop n L) = zerrs L"
  "zplrs (lua_pop n L) = zplrs L"
  "zmsgs (lua_pop n L) = zmsgs L"
  "zwatches (lua_pop n L) = zwatches L"
  "mtimers (lua_pop n L) = mtimers L"
  "atimers (lua_pop n L) = atimers L"
  "next_udata (lua_pop n L) = next_udata L"
  "registry (lua_pop n L) = registry L"
  "next_ref (lua_pop n L) = next_ref L"
  "zst (lua_pop n L) = zst L"
  by (simp_all add: lua_pop_def)

lemma stk_settop: "stk (lua_settop n L) = take n (stk L) @ replicate (n - length (stk L)) LNil"
  by (simp add: lua_settop_def)

lemma stk_pop [simp]: "stk (lua_pop n L) = take (length (stk L) - n) (stk L)"
  by (simp add: lua_pop_def)

lemma pushes [simp]:
  "pushnumber x L = push (LNum (int_to_num x)) L" "pushinteger x L = push (LNum (of_int x)) L"
  "pushboolean b L = push (LBool b) L"
  by (simp_all add: pushnumber_def pushinteger_def pushboolean_def)

lemma pop_push [simp]: "lua_pop (Suc 0) (push v L) = L" "lua_pop 1 (push v L) = L"
  by (simp_all add: lua_pop_def push_def)

lemma results_push [simp]:
  "results (Suc 0) (push v L) = [v]" "results 1 (push v L) = [v]"
  "results 2 (push b (push a L)) = [a, b]" "results (Suc (Suc 0)) (push b (push a L)) = [a, b]"
  "results 3 (push c (push b (push a L))) = [a, b, c]"
  "results 0 L = []"
  by (simp_all add: results_def)

lemma results_Suc_push [simp]: "results (Suc n) (push v L) = results n L @ [v]"
  by (simp add: results_def)

lemma lua_at_top [simp]: "lua_at (push v L) (- 1) = v"
  by (simp add: lua_at_def lua_absindex_def Let_def)

lemma lua_at_push_old: "\<lbrakk> 0 < i; i \<le> int (length (stk L)) \<rbrakk> \<Longrightarrow> lua_at (push v L) i = lua_at L i"
  by (auto simp: lua_at_def lua_absindex_def Let_def nth_append nat_less_iff)

lemma lua_at_pos: "0 < i \<Longrightarrow> lua_at L i =
    (if nat (i - 1) < length (stk L) then stk L ! nat (i - 1) else LNil)"
  by (simp add: lua_at_def lua_absindex_def Let_def)

text \<open>Reading an argument from a stack that is known.\<close>

lemma lua_at_args:
  "stk L = a # xs \<Longrightarrow> lua_at L 1 = a"
  "stk L = a # b # xs \<Longrightarrow> lua_at L 2 = b"
  "stk L = a # b # c # xs \<Longrightarrow> lua_at L 3 = c"
  "stk L = a # b # c # d # xs \<Longrightarrow> lua_at L 4 = d"
  "stk L = a # b # c # d # e # xs \<Longrightarrow> lua_at L 5 = e"
  "stk L = [a] \<Longrightarrow> lua_at L 2 = LNil"
  "stk L = [a] \<Longrightarrow> lua_at L 3 = LNil"
  "stk L = [a, b] \<Longrightarrow> lua_at L 3 = LNil"
  "stk L = [a, b] \<Longrightarrow> lua_at L 4 = LNil"
  "stk L = [a, b, c] \<Longrightarrow> lua_at L 4 = LNil"
  "stk L = [a, b, c] \<Longrightarrow> lua_at L 5 = LNil"
  by (simp_all add: lua_at_pos)

subsection \<open>Rules for reading arguments\<close>

lemma tointeger_of_int [simp]:
  "\<lbrakk> - 9223372036854775808 \<le> x; x \<le> 9223372036854775807 \<rbrakk> \<Longrightarrow> lua_tointeger (of_int x) = x"
  by (simp add: lua_tointeger_def c_arith)

lemma tointeger_numeral [simp]:
  "lua_tointeger 0 = 0" "lua_tointeger 1 = 1" "lua_tointeger (- 1) = - 1"
  "numeral n \<le> (9223372036854775807::int) \<Longrightarrow> lua_tointeger (numeral n) = numeral n"
  using tointeger_of_int [of 0] tointeger_of_int [of 1] tointeger_of_int [of "- 1"]
    tointeger_of_int [of "numeral n"] by simp_all

lemma checkinteger_range:
  "luaL_checkinteger E L i = Inr n \<Longrightarrow> - 9223372036854775808 \<le> n \<and> n \<le> 9223372036854775807"
  using c_long_range by (cases "luaL_checknumber E L i") (auto simp: luaL_checkinteger_def lua_tointeger_def)

lemma checkint_range:
  "luaL_checkint E L i = Inr n \<Longrightarrow> - 2147483648 \<le> n \<and> n \<le> 2147483647"
  using c_int_range by (cases "luaL_checkinteger E L i") (auto simp: luaL_checkint_def)

lemma optint_range:
  "\<lbrakk> luaL_optint E L i d = Inr n; - 2147483648 \<le> d; d \<le> 2147483647 \<rbrakk> \<Longrightarrow>
     - 2147483648 \<le> n \<and> n \<le> 2147483647"
  using checkint_range by (auto simp: luaL_optint_def split: if_splits)

lemma checkint_of_int:
  "\<lbrakk> lua_at L i = LNum (of_int x); - 2147483648 \<le> x; x \<le> 2147483647 \<rbrakk> \<Longrightarrow>
     luaL_checkint E L i = Inr x"
  by (simp add: luaL_checkint_def luaL_checkinteger_def luaL_checknumber_def c_arith)

lemma checkinteger_of_int:
  "\<lbrakk> lua_at L i = LNum (of_int x); - 2147483648 \<le> x; x \<le> 2147483647 \<rbrakk> \<Longrightarrow>
     luaL_checkinteger E L i = Inr x"
  by (simp add: luaL_checkinteger_def luaL_checknumber_def)

lemma optint_nil [simp]: "lua_at L i = LNil \<Longrightarrow> luaL_optint E L i d = Inr d"
  by (simp add: luaL_optint_def)

lemma optint_of_int:
  "\<lbrakk> lua_at L i = LNum (of_int x); - 2147483648 \<le> x; x \<le> 2147483647 \<rbrakk> \<Longrightarrow>
     luaL_optint E L i d = Inr x"
  by (simp add: luaL_optint_def checkint_of_int)

lemma checklstring_str: "lua_at L i = LStr s \<Longrightarrow> luaL_checklstring E L i = Inr s"
  by (simp add: luaL_checklstring_def)

lemma checkstring_str: "lua_at L i = LStr s \<Longrightarrow> luaL_checkstring E L i = Inr (c_str s)"
  by (simp add: luaL_checkstring_def checklstring_str)

lemmas arg_simps = checkint_of_int checkinteger_of_int optint_of_int checklstring_str checkstring_str
  luaL_checknumber_def

end
