(* ===== verification/ZStub.thy ===== *)
theory ZStub
  imports LuaState
begin

text \<open>
  A concrete libzmq, Lua and C library, on which the hypotheses of the theorems can be evaluated:
  every call succeeds, a message is its bytes, the state of libzmq is a number, the macros of
  interest have the values they have on Linux, and handlers do nothing. The witnesses of the
  other theories use it, or variants of it by record update.
\<close>

definition stub_macro :: "string \<Rightarrow> int" where
  "stub_macro s = (case map_of [(''EAGAIN'', 11), (''ENOTSUP'', 95), (''EADDRINUSE'', 98), (''EACCES'', 13),
     (''ETERM'', 156384765), (''ZMQ_SNDMORE'', 2), (''ZMQ_POLLIN'', 1), (''ZMQ_LINGER'', 17),
     (''ZMQ_RCVMORE'', 13), (''ZMQ_EVENTS'', 15), (''ZMQ_TYPE'', 16), (''ZMQ_RCVTIMEO'', 27),
     (''ZMQ_REQ'', 3), (''ZMQ_EVENT_ALL'', 65535)] s of Some x \<Rightarrow> x | None \<Rightarrow> 0)"

definition stub_store :: "string \<Rightarrow> nat \<Rightarrow> string \<Rightarrow> string" where
  "stub_store m i d = take i m @ d @ drop (i + length d) m"

definition stub_env :: "(nat, string) env" where
  "stub_env = \<lparr>zmq_errno = (\<lambda>z. 11), zmq_strerror = (\<lambda>e. ''error''), zmq_version = (4, 3, 4),
     zmq_ctx_new = (\<lambda>z. (1, z)), zmq_init = (\<lambda>n z. (1, z)), zmq_ctx_term = (\<lambda>c z. (0, z)),
     zmq_ctx_shutdown = (\<lambda>c z. (0, z)), zmq_ctx_set = (\<lambda>c o' v z. (0, z)), zmq_ctx_get = (\<lambda>c o' z. (1, z)),
     zmq_socket = (\<lambda>c t z. (7, z)), zmq_close = (\<lambda>s z. (0, z)), zmq_bind = (\<lambda>s a z. (0, z)),
     zmq_unbind = (\<lambda>s a z. (0, z)), zmq_connect = (\<lambda>s a z. (0, z)), zmq_disconnect = (\<lambda>s a z. (0, z)),
     zmq_setsockopt = (\<lambda>s o' v z. (0, z)), zmq_getsockopt = (\<lambda>s o' v z. (0, v, z)),
     zmq_send = (\<lambda>s d f z. (int (length d), z)), zmq_recv = (\<lambda>s n f z. (0, [], z)),
     zmq_poll = (\<lambda>its t z. (0, map (\<lambda>_. 0) its, z)), zmq_socket_monitor = (\<lambda>s a e z. (0, z)),
     zmq_msg_init = (\<lambda>z. (0, [], z)), zmq_msg_init_size = (\<lambda>n z. (0, replicate n CHR 0x00, z)),
     zmq_msg_close = (\<lambda>m z. (0, [], z)), zmq_msg_zero = [],
     zmq_msg_move = (\<lambda>b d s z. (0, s, [], z)), zmq_msg_copy = (\<lambda>b d s z. (0, s, s, z)),
     zmq_msg_data = (\<lambda>m. m), zmq_msg_ptr = (\<lambda>m. 1), zmq_msg_store = stub_store,
     zmq_msg_size = length, zmq_msg_more = (\<lambda>m. False),
     zmq_msg_get = (\<lambda>m o' z. (0, z)), zmq_msg_set = (\<lambda>m o' v z. (0, m, z)), zmq_msg_gets = (\<lambda>m s z. (None, z)),
     zmq_msg_send = (\<lambda>m s f z. (int (length m), [], z)), zmq_msg_recv = (\<lambda>m s f z. (2, ''hi'', z)),
     zmq_device = (\<lambda>t f b z. (-1, z)), zmq_proxy = (\<lambda>f b c z. (-1, z)),
     zmq_proxy_steerable = (\<lambda>f b c n z. (0, z)), zmq_has = (\<lambda>s. 0),
     zmq_z85_encode = (\<lambda>s. None), zmq_z85_decode = (\<lambda>s. None),
     zmq_curve_keypair = (\<lambda>z. (-1, [], [], z)), zmq_curve_public = (\<lambda>s z. (-1, [], z)),
     zmq_stopwatch_start = (\<lambda>z. (1, z)), zmq_stopwatch_stop = (\<lambda>p z. (5, z)), zmq_sleep = (\<lambda>s z. z),
     alloc_items = (\<lambda>n. True), malloc = (\<lambda>n. True), udata_size = (\<lambda>t. 64),
     call_lua = (\<lambda>f L. (None, L)), macro = stub_macro, str2num = (\<lambda>s. None), num2str = (\<lambda>q. ''1''),
     luaL_where = [], argerror_text = (\<lambda>e. ''bad argument''), fmt_ptr = (\<lambda>p. ''0x1''),
     zmq_defined = (\<lambda>s. True), err_mode = ErrNumber, use_send_as_buf = False, use_temp_buffers = False\<rparr>"

lemma stub_env_fields [simp]:
  "zmq_errno stub_env = (\<lambda>z. 11)"
  "zmq_strerror stub_env = (\<lambda>e. ''error'')"
  "zmq_version stub_env = (4, 3, 4)"
  "zmq_ctx_new stub_env = (\<lambda>z. (1, z))"
  "zmq_init stub_env = (\<lambda>n z. (1, z))"
  "zmq_ctx_term stub_env = (\<lambda>c z. (0, z))"
  "zmq_ctx_shutdown stub_env = (\<lambda>c z. (0, z))"
  "zmq_ctx_set stub_env = (\<lambda>c o' v z. (0, z))"
  "zmq_ctx_get stub_env = (\<lambda>c o' z. (1, z))"
  "zmq_socket stub_env = (\<lambda>c t z. (7, z))"
  "zmq_close stub_env = (\<lambda>s z. (0, z))"
  "zmq_bind stub_env = (\<lambda>s a z. (0, z))"
  "zmq_unbind stub_env = (\<lambda>s a z. (0, z))"
  "zmq_connect stub_env = (\<lambda>s a z. (0, z))"
  "zmq_disconnect stub_env = (\<lambda>s a z. (0, z))"
  "zmq_setsockopt stub_env = (\<lambda>s o' v z. (0, z))"
  "zmq_getsockopt stub_env = (\<lambda>s o' v z. (0, v, z))"
  "zmq_send stub_env = (\<lambda>s d f z. (int (length d), z))"
  "zmq_recv stub_env = (\<lambda>s n f z. (0, [], z))"
  "zmq_poll stub_env = (\<lambda>its t z. (0, map (\<lambda>_. 0) its, z))"
  "zmq_socket_monitor stub_env = (\<lambda>s a e z. (0, z))"
  "zmq_msg_init stub_env = (\<lambda>z. (0, [], z))"
  "zmq_msg_init_size stub_env = (\<lambda>n z. (0, replicate n CHR 0x00, z))"
  "zmq_msg_close stub_env = (\<lambda>m z. (0, [], z))"
  "zmq_msg_zero stub_env = []"
  "zmq_msg_move stub_env = (\<lambda>b d s z. (0, s, [], z))"
  "zmq_msg_copy stub_env = (\<lambda>b d s z. (0, s, s, z))"
  "zmq_msg_data stub_env = (\<lambda>m. m)"
  "zmq_msg_ptr stub_env = (\<lambda>m. 1)"
  "zmq_msg_store stub_env = stub_store"
  "zmq_msg_size stub_env = length"
  "zmq_msg_more stub_env = (\<lambda>m. False)"
  "zmq_msg_get stub_env = (\<lambda>m o' z. (0, z))"
  "zmq_msg_set stub_env = (\<lambda>m o' v z. (0, m, z))"
  "zmq_msg_gets stub_env = (\<lambda>m s z. (None, z))"
  "zmq_msg_send stub_env = (\<lambda>m s f z. (int (length m), [], z))"
  "zmq_msg_recv stub_env = (\<lambda>m s f z. (2, ''hi'', z))"
  "zmq_device stub_env = (\<lambda>t f b z. (-1, z))"
  "zmq_proxy stub_env = (\<lambda>f b c z. (-1, z))"
  "zmq_proxy_steerable stub_env = (\<lambda>f b c n z. (0, z))"
  "zmq_has stub_env = (\<lambda>s. 0)"
  "zmq_z85_encode stub_env = (\<lambda>s. None)"
  "zmq_z85_decode stub_env = (\<lambda>s. None)"
  "zmq_curve_keypair stub_env = (\<lambda>z. (-1, [], [], z))"
  "zmq_curve_public stub_env = (\<lambda>s z. (-1, [], z))"
  "zmq_stopwatch_start stub_env = (\<lambda>z. (1, z))"
  "zmq_stopwatch_stop stub_env = (\<lambda>p z. (5, z))"
  "zmq_sleep stub_env = (\<lambda>s z. z)"
  "alloc_items stub_env = (\<lambda>n. True)"
  "malloc stub_env = (\<lambda>n. True)"
  "udata_size stub_env = (\<lambda>t. 64)"
  "call_lua stub_env = (\<lambda>f L. (None, L))"
  "macro stub_env = stub_macro"
  "str2num stub_env = (\<lambda>s. None)"
  "num2str stub_env = (\<lambda>q. ''1'')"
  "luaL_where stub_env = []"
  "argerror_text stub_env = (\<lambda>e. ''bad argument'')"
  "fmt_ptr stub_env = (\<lambda>p. ''0x1'')"
  "zmq_defined stub_env = (\<lambda>s. True)"
  "err_mode stub_env = ErrNumber"
  "use_send_as_buf stub_env = False"
  "use_temp_buffers stub_env = False"
  by (simp_all add: stub_env_def)

text \<open>The Lua state before the first call.\<close>

definition initial_state :: "'m \<Rightarrow> 'z \<Rightarrow> ('z, 'm) lua" where
  "initial_state m z = \<lparr>stk = [],
     zctxs = (\<lambda>_. \<lparr>zc_ctx = 0, zc_flags = 0, zc_socket_count = 0, zc_autoclose_ref = 0\<rparr>),
     zskts = (\<lambda>_. \<lparr>zs_skt = 0, zs_flags = 0, zs_ctx = None, zs_ctx_ref = 0, zs_onclose_ref = 0\<rparr>),
     zerrs = (\<lambda>_. 0), zplrs = (\<lambda>_. \<lparr>pl_items = None, pl_next = 0, pl_count = 0, pl_free_list = 0, pl_len = 0\<rparr>),
     zmsgs = (\<lambda>_. \<lparr>zm_msg = m, zm_flags = 0\<rparr>), zwatches = (\<lambda>_. 0),
     mtimers = (\<lambda>_. \<lparr>mt_start = 0, mt_fire = 0, mt_flags = 0\<rparr>),
     atimers = (\<lambda>_. \<lparr>at_start = 0, at_fire = 0, at_flags = 0\<rparr>),
     next_udata = 0, registry = (\<lambda>_. LNil), next_ref = 1, zst = z\<rparr>"

text \<open>A state with some open objects without relations between them, and given arguments.\<close>

definition demo_state :: "lval list \<Rightarrow> (nat, string) lua" where
  "demo_state args = initial_state ''hello'' 0\<lparr>stk := args,
     zctxs := (\<lambda>_. \<lparr>zc_ctx = 1, zc_flags = 0, zc_socket_count = 0, zc_autoclose_ref = LUA_NOREF\<rparr>),
     zskts := (\<lambda>_. \<lparr>zs_skt = 7, zs_flags = 0, zs_ctx = None, zs_ctx_ref = LUA_NOREF,
                  zs_onclose_ref = LUA_NOREF\<rparr>),
     next_udata := 10\<rparr>"

lemma demo_state_fields [simp]:
  "stk (demo_state args) = args"
  "zctxs (demo_state args) = (\<lambda>_. \<lparr>zc_ctx = 1, zc_flags = 0, zc_socket_count = 0, zc_autoclose_ref = LUA_NOREF\<rparr>)"
  "zskts (demo_state args) = (\<lambda>_. \<lparr>zs_skt = 7, zs_flags = 0, zs_ctx = None, zs_ctx_ref = LUA_NOREF,
     zs_onclose_ref = LUA_NOREF\<rparr>)"
  "zmsgs (demo_state args) = (\<lambda>_. \<lparr>zm_msg = ''hello'', zm_flags = 0\<rparr>)"
  "next_udata (demo_state args) = 10" "next_ref (demo_state args) = 1" "zst (demo_state args) = 0"
  "registry (demo_state args) = (\<lambda>_. LNil)" "zwatches (demo_state args) = (\<lambda>_. 0)"
  by (simp_all add: demo_state_def initial_state_def)

end
