(* ===== verification/LZUtils.thy ===== *)
theory LZUtils
  imports ZStub
begin

text \<open>
  \<open>lzutils.c\<close> and the argument guards of \<open>lzmq.c\<close>: typed userdata, tables of integer
  constants, and the interface of an object that can be closed.
\<close>

subsection \<open>Typed userdata\<close>

text \<open>The metatable of a userdata is chosen when it is created and scripts cannot replace it
  (\<open>__metatable\<close> is set); it is the \<open>utype\<close> of the value.\<close>

fun utype_name :: "utype \<Rightarrow> string" where
  "utype_name UContext = ''LuaZMQ: Context''"
| "utype_name USocket = ''LuaZMQ: Socket''"
| "utype_name UError = ''LuaZMQ: Error''"
| "utype_name UPoller = ''LuaZMQ: Poller''"
| "utype_name UMessage = ''LuaZMQ: Message''"
| "utype_name UStopwatch = ''LuaZMQ: stopwatch''"
| "utype_name UMonTimer = ''LuaZMQ3: monotonic timer''"
| "utype_name UAbsTimer = ''LuaZMQ3: absolute timer''"

definition luazmq_isudatap :: "('z, 'm) lua \<Rightarrow> int \<Rightarrow> utype \<Rightarrow> bool" where
  "luazmq_isudatap L i t = (case lua_at L i of LUser t' k \<Rightarrow> t' = t | _ \<Rightarrow> False)"

definition luazmq_toudatap :: "('z, 'm) lua \<Rightarrow> int \<Rightarrow> utype \<Rightarrow> nat option" where
  "luazmq_toudatap L i t =
     (case lua_at L i of LUser t' k \<Rightarrow> (if t' = t then Some k else None) | _ \<Rightarrow> None)"

definition luazmq_checkudatap :: "('z, 'm) lua \<Rightarrow> int \<Rightarrow> utype \<Rightarrow> lua_error + nat" where
  "luazmq_checkudatap L i t =
     (case luazmq_toudatap L i t of Some k \<Rightarrow> Inr k | None \<Rightarrow> Inl (TypeError i (utype_name t)))"

definition luazmq_newudata :: "utype \<Rightarrow> ('z, 'm) lua \<Rightarrow> nat \<times> ('z, 'm) lua" where
  "luazmq_newudata t L =
     (next_udata L, push (LUser t (next_udata L)) (L\<lparr>next_udata := Suc (next_udata L)\<rparr>))"

lemma checkudatap_user [simp]:
  "lua_at L i = LUser t k \<Longrightarrow> luazmq_checkudatap L i t = Inr k"
  by (simp add: luazmq_checkudatap_def luazmq_toudatap_def)

lemma checkudatap_iff:
  "luazmq_checkudatap L i t = Inr k \<longleftrightarrow> lua_at L i = LUser t k"
  by (auto simp: luazmq_checkudatap_def luazmq_toudatap_def split: lval.splits)

lemma isudatap_iff: "luazmq_isudatap L i t \<longleftrightarrow> (\<exists>k. lua_at L i = LUser t k)"
  by (auto simp: luazmq_isudatap_def split: lval.splits)

text \<open>A file descriptor argument (POSIX: an \<open>int\<close>) is a light userdata or a number.\<close>

definition luazmq_check_os_socket ::
    "('z, 'm) env \<Rightarrow> ('z, 'm) lua \<Rightarrow> int \<Rightarrow> string \<Rightarrow> lua_error + int" where
  "luazmq_check_os_socket E L i msg = (case lua_at L i of
     LLight p \<Rightarrow> Inr (c_int (int p))
   | v \<Rightarrow> (case tonumber E v of None \<Rightarrow> Inl (TypeError i msg)
           | Some q \<Rightarrow> Inr (c_int (lua_tointeger q))))"

definition luazmq_push_os_socket :: "int \<Rightarrow> ('z, 'm) lua \<Rightarrow> ('z, 'm) lua" where
  "luazmq_push_os_socket fd L = pushinteger fd L"

text \<open>What is pushed for a descriptor is read back as it.\<close>

lemma os_socket_roundtrip:
  "\<lbrakk> - 2147483648 \<le> fd; fd \<le> 2147483647 \<rbrakk> \<Longrightarrow>
     luazmq_check_os_socket E (luazmq_push_os_socket fd L) (- 1) msg = Inr fd"
  by (simp add: luazmq_check_os_socket_def luazmq_push_os_socket_def c_arith)

subsection \<open>Guards\<close>

definition luazmq_getcontext_at :: "('z, 'm) lua \<Rightarrow> int \<Rightarrow> lua_error + nat" where
  "luazmq_getcontext_at L i =
     (case luazmq_checkudatap L i UContext of Inl e \<Rightarrow> Inl e
      | Inr k \<Rightarrow>
          if has_flag (zc_flags (zctxs L k)) LUAZMQ_FLAG_CLOSED
          then Inl (ArgError 1 ''LuaZMQ: context is closed'')
          else if has_flag (zc_flags (zctxs L k)) LUAZMQ_FLAG_CTX_SHUTDOWN
          then Inl (ArgError 1 ''LuaZMQ: context is  shutdowned'')
          else Inr k)"

definition luazmq_getsocket_at :: "('z, 'm) lua \<Rightarrow> int \<Rightarrow> lua_error + nat" where
  "luazmq_getsocket_at L i =
     (case luazmq_checkudatap L i USocket of Inl e \<Rightarrow> Inl e
      | Inr k \<Rightarrow>
          if has_flag (zs_flags (zskts L k)) LUAZMQ_FLAG_CLOSED
          then Inl (ArgError 1 ''LuaZMQ: socket is closed'') else Inr k)"

definition luazmq_geterror_at :: "('z, 'm) lua \<Rightarrow> int \<Rightarrow> lua_error + nat" where
  "luazmq_geterror_at L i = luazmq_checkudatap L i UError"

definition luazmq_getpoller_at :: "('z, 'm) lua \<Rightarrow> int \<Rightarrow> lua_error + nat" where
  "luazmq_getpoller_at L i =
     (case luazmq_checkudatap L i UPoller of Inl e \<Rightarrow> Inl e
      | Inr k \<Rightarrow>
          if pl_items (zplrs L k) = None
          then Inl (ArgError 1 ''LuaZMQ: poller is closed'') else Inr k)"

definition luazmq_getmessage_at :: "('z, 'm) lua \<Rightarrow> int \<Rightarrow> lua_error + nat" where
  "luazmq_getmessage_at L i =
     (case luazmq_checkudatap L i UMessage of Inl e \<Rightarrow> Inl e
      | Inr k \<Rightarrow>
          if has_flag (zm_flags (zmsgs L k)) LUAZMQ_FLAG_CLOSED
          then Inl (ArgError 1 ''LuaZMQ: message is closed'') else Inr k)"

lemma getsocket_open:
  "\<lbrakk> lua_at L i = LUser USocket k; \<not> has_flag (zs_flags (zskts L k)) LUAZMQ_FLAG_CLOSED \<rbrakk> \<Longrightarrow>
     luazmq_getsocket_at L i = Inr k"
  by (simp add: luazmq_getsocket_at_def)

lemma getsocket_Inr:
  "luazmq_getsocket_at L i = Inr k \<longleftrightarrow>
     lua_at L i = LUser USocket k \<and> \<not> has_flag (zs_flags (zskts L k)) LUAZMQ_FLAG_CLOSED"
  by (auto simp: luazmq_getsocket_at_def checkudatap_iff split: sum.splits)

lemma getcontext_open:
  "\<lbrakk> lua_at L i = LUser UContext k; \<not> has_flag (zc_flags (zctxs L k)) LUAZMQ_FLAG_CLOSED;
     \<not> has_flag (zc_flags (zctxs L k)) LUAZMQ_FLAG_CTX_SHUTDOWN \<rbrakk> \<Longrightarrow>
     luazmq_getcontext_at L i = Inr k"
  by (simp add: luazmq_getcontext_at_def)

lemma getcontext_Inr:
  "luazmq_getcontext_at L i = Inr k \<longleftrightarrow>
     lua_at L i = LUser UContext k \<and> \<not> has_flag (zc_flags (zctxs L k)) LUAZMQ_FLAG_CLOSED \<and>
     \<not> has_flag (zc_flags (zctxs L k)) LUAZMQ_FLAG_CTX_SHUTDOWN"
  by (auto simp: luazmq_getcontext_at_def checkudatap_iff split: sum.splits)

lemma getmessage_open:
  "\<lbrakk> lua_at L i = LUser UMessage k; \<not> has_flag (zm_flags (zmsgs L k)) LUAZMQ_FLAG_CLOSED \<rbrakk> \<Longrightarrow>
     luazmq_getmessage_at L i = Inr k"
  by (simp add: luazmq_getmessage_at_def)

lemma getmessage_Inr:
  "luazmq_getmessage_at L i = Inr k \<longleftrightarrow>
     lua_at L i = LUser UMessage k \<and> \<not> has_flag (zm_flags (zmsgs L k)) LUAZMQ_FLAG_CLOSED"
  by (auto simp: luazmq_getmessage_at_def checkudatap_iff split: sum.splits)

lemma getpoller_open:
  "\<lbrakk> lua_at L i = LUser UPoller k; pl_items (zplrs L k) = Some xs \<rbrakk> \<Longrightarrow>
     luazmq_getpoller_at L i = Inr k"
  by (simp add: luazmq_getpoller_at_def)

lemma getpoller_Inr:
  "luazmq_getpoller_at L i = Inr k \<longleftrightarrow>
     lua_at L i = LUser UPoller k \<and> pl_items (zplrs L k) \<noteq> None"
  by (auto simp: luazmq_getpoller_at_def checkudatap_iff split: sum.splits)

definition luazmq_pass :: "('z, 'm) lua \<Rightarrow> ('z, 'm) lua outcome" where
  "luazmq_pass L = Ret 1 (push (LBool True) L)"

subsection \<open>Objects that can be closed\<close>

text \<open>
  The contract every closable object of the binding keeps: the method \<open>close\<close> (which is also
  the finalizer \<open>__gc\<close>) leaves the object closed when it returns true, does nothing but
  return true on a closed object, and the guard of the other methods rejects a closed object.
\<close>

locale closable =
  fixes ut :: utype
    and closed :: "('z, 'm) lua \<Rightarrow> nat \<Rightarrow> bool"
    and close_method :: "('z, 'm) lua \<Rightarrow> ('z, 'm) lua outcome"
    and get_at :: "('z, 'm) lua \<Rightarrow> int \<Rightarrow> lua_error + nat"
  assumes close_closes:
      "\<lbrakk> lua_at L 1 = LUser ut k; close_method L = Ret n L'; results n L' = [LBool True] \<rbrakk> \<Longrightarrow>
         closed L' k"
    and close_again:
      "\<lbrakk> lua_at L 1 = LUser ut k; closed L k \<rbrakk> \<Longrightarrow> close_method L = Ret 1 (push (LBool True) L)"
    and get_rejects:
      "\<lbrakk> lua_at L i = LUser ut k; closed L k \<rbrakk> \<Longrightarrow> \<exists>e. get_at L i = Inl e"
    and closed_stack: "closed (L\<lparr>stk := s\<rparr>) k = closed L k"
begin

text \<open>Closing twice is closing once.\<close>

lemma close_idempotent:
  assumes "lua_at L 1 = LUser ut k" "close_method L = Ret n L'" "results n L' = [LBool True]"
    and "lua_at (L'\<lparr>stk := s\<rparr>) 1 = LUser ut k"
  shows "close_method (L'\<lparr>stk := s\<rparr>) = Ret 1 (push (LBool True) (L'\<lparr>stk := s\<rparr>))"
  using assms by (intro close_again) (auto simp: closed_stack dest: close_closes)

text \<open>Any method that begins with the guard raises an error on a closed object, and changes
  nothing.\<close>

lemma guarded_method_raises:
  assumes "lua_at L i = LUser ut k" "closed L k"
  shows "\<exists>e. check (get_at L i) L body = Raise e L"
  using get_rejects [OF assms] by auto

lemma use_after_close:
  assumes "lua_at L 1 = LUser ut k" "close_method L = Ret n L'" "results n L' = [LBool True]"
    and "lua_at (L'\<lparr>stk := s\<rparr>) 1 = LUser ut k"
  shows "\<exists>e. check (get_at (L'\<lparr>stk := s\<rparr>) 1) (L'\<lparr>stk := s\<rparr>) body = Raise e (L'\<lparr>stk := s\<rparr>)"
  using assms by (intro guarded_method_raises) (auto simp: closed_stack dest: close_closes)

end

subsection \<open>Tables of constants\<close>

text \<open>A raw assignment to a table that is its list of pairs; the later of two assignments to
  a key wins.\<close>

fun rawset :: "'k \<Rightarrow> 'v \<Rightarrow> ('k \<times> 'v) list \<Rightarrow> ('k \<times> 'v) list" where
  "rawset k v [] = [(k, v)]"
| "rawset k v ((k', v') # t) = (if k' = k then (k, v) # t else (k', v') # rawset k v t)"

definition luazmq_register_consts ::
    "(string \<times> int) list \<Rightarrow> (lval \<times> lval) list \<Rightarrow> (lval \<times> lval) list" where
  "luazmq_register_consts cs t =
     fold (\<lambda>v. rawset (LStr (fst v)) (LNum (of_int (snd v)))) cs t"

definition luazmq_register_consts_invers ::
    "(string \<times> int) list \<Rightarrow> (lval \<times> lval) list \<Rightarrow> (lval \<times> lval) list" where
  "luazmq_register_consts_invers cs t =
     fold (\<lambda>v. rawset (LNum (of_int (snd v))) (LStr (fst v))) cs t"

lemma map_of_rawset [simp]: "map_of (rawset k v t) = (map_of t)(k \<mapsto> v)"
  by (induction k v t rule: rawset.induct) auto

lemma map_of_fold_rawset:
  "map_of (fold (\<lambda>x. rawset (f x) (g x)) xs t) = fold (\<lambda>x m. m(f x \<mapsto> g x)) xs (map_of t)"
  by (induction xs arbitrary: t) auto

lemma fold_upd_notin: "k \<notin> f ` set xs \<Longrightarrow> fold (\<lambda>x m. m(f x \<mapsto> g x)) xs m k = m k"
  by (induction xs arbitrary: m) auto

lemma fold_upd_distinct:
  "\<lbrakk> distinct (map f xs); x \<in> set xs \<rbrakk> \<Longrightarrow> fold (\<lambda>x m. m(f x \<mapsto> g x)) xs m (f x) = Some (g x)"
proof (induction xs arbitrary: m)
  case (Cons y ys)
  show ?case
  proof (cases "x = y")
    case True
    then have "f x \<notin> f ` set ys" using Cons.prems by auto
    from fold_upd_notin [OF this, of g "m(f x \<mapsto> g x)"] True show ?thesis
      by (simp only: fold.simps comp_apply fun_upd_same)
  next
    case False
    with Cons show ?thesis by simp
  qed
qed simp

lemma register_consts_lookup:
  assumes "distinct (map fst cs)" "(name, v) \<in> set cs"
  shows "map_of (luazmq_register_consts cs t) (LStr name) = Some (LNum (of_int v))"
proof -
  have "distinct (map (\<lambda>c. LStr (fst c)) cs)"
    using assms(1) by (simp add: distinct_map inj_on_def)
  from fold_upd_distinct [OF this assms(2), of "\<lambda>c. LNum (of_int (snd c))"] show ?thesis
    by (simp add: luazmq_register_consts_def map_of_fold_rawset)
qed

lemma register_consts_invers_lookup:
  assumes "distinct (map snd cs)" "(name, v) \<in> set cs"
  shows "map_of (luazmq_register_consts_invers cs t) (LNum (of_int v)) = Some (LStr name)"
proof -
  have "distinct (map (\<lambda>c. LNum (of_int (snd c))) cs)"
    using assms(1) by (simp add: distinct_map inj_on_def)
  from fold_upd_distinct [OF this assms(2), of "\<lambda>c. LStr (fst c)"] show ?thesis
    by (simp add: luazmq_register_consts_invers_def map_of_fold_rawset)
qed

text \<open>The inverse table only adds numeric keys, so it leaves the names alone.\<close>

lemma register_consts_invers_names:
  "map_of (luazmq_register_consts_invers cs t) (LStr s) = map_of t (LStr s)"
proof -
  have "LStr s \<notin> (\<lambda>c. LNum (of_int (snd c))) ` set cs" by auto
  from fold_upd_notin [OF this] show ?thesis
    by (simp add: luazmq_register_consts_invers_def map_of_fold_rawset)
qed

end
