(* ===== verification/ZError.thy ===== *)
theory ZError
  imports LZUtils
begin

text \<open>
  \<open>zerror.c\<close>: error objects (a number of \<open>errno\<close> in a userdata), their text, the names of the
  error numbers, and the table \<open>errors\<close> of the module.
\<close>

subsection \<open>Names of error numbers\<close>

text \<open>The cases of the switch in \<open>luazmq_err_getmnemo\<close>, in its order.\<close>

definition mnemo_names :: "string list" where
  "mnemo_names = [
    ''EFSM'', ''ENOCOMPATPROTO'', ''ETERM'', ''EMTHREAD'',
    ''ENOTSUP'', ''EPROTONOSUPPORT'', ''ENOBUFS'', ''ENETDOWN'', ''EADDRINUSE'', ''EADDRNOTAVAIL'',
    ''ECONNREFUSED'', ''EINPROGRESS'', ''ENOTSOCK'', ''EMSGSIZE'', ''EAFNOSUPPORT'', ''ENETUNREACH'',
    ''ECONNABORTED'', ''ECONNRESET'', ''ENOTCONN'', ''ETIMEDOUT'', ''EHOSTUNREACH'', ''ENETRESET'',
    ''ENOENT'', ''ESRCH'', ''EINTR'', ''EIO'', ''ENXIO'', ''E2BIG'', ''ENOEXEC'', ''EBADF'', ''ECHILD'',
    ''EAGAIN'', ''ENOMEM'', ''EACCES'', ''EFAULT'', ''EBUSY'', ''EEXIST'', ''EXDEV'', ''ENODEV'', ''ENOTDIR'',
    ''EISDIR'', ''ENFILE'', ''EMFILE'', ''ENOTTY'', ''EFBIG'', ''ENOSPC'', ''ESPIPE'', ''EROFS'', ''EMLINK'',
    ''EPIPE'', ''EDOM'', ''EDEADLK'', ''ENAMETOOLONG'', ''ENOLCK'', ''ENOSYS'', ''ENOTEMPTY'', ''EINVAL'',
    ''ERANGE'', ''EILSEQ'']"

definition luazmq_err_getmnemo :: "('z, 'm) env \<Rightarrow> int \<Rightarrow> string" where
  "luazmq_err_getmnemo E err =
     (case find (\<lambda>n. macro E n = err) mnemo_names of Some n \<Rightarrow> n | None \<Rightarrow> ''UNKNOWN'')"

text \<open>The rows of \<open>zmq_err_codes\<close>: a name and the value of its macro.\<close>

definition err_code_names :: "string list" where
  "err_code_names = [
    ''EPERM'', ''ENOENT'', ''ESRCH'', ''EINTR'', ''EIO'', ''ENXIO'', ''E2BIG'', ''ENOEXEC'', ''EBADF'',
    ''ECHILD'', ''EAGAIN'', ''ENOMEM'', ''EACCES'', ''EFAULT'', ''EBUSY'', ''EEXIST'', ''EXDEV'', ''ENODEV'',
    ''ENOTDIR'', ''EISDIR'', ''ENFILE'', ''EMFILE'', ''ENOTTY'', ''EFBIG'', ''ENOSPC'', ''ESPIPE'', ''EROFS'',
    ''EMLINK'', ''EPIPE'', ''EDOM'', ''EDEADLK'', ''ENAMETOOLONG'', ''ENOLCK'', ''ENOSYS'', ''ENOTEMPTY'',
    ''EINVAL'', ''ERANGE'', ''EILSEQ'',
    ''ENOTSUP'', ''EPROTONOSUPPORT'', ''ENOBUFS'', ''ENETDOWN'', ''EADDRINUSE'', ''EADDRNOTAVAIL'',
    ''ECONNREFUSED'', ''EINPROGRESS'', ''ENOTSOCK'', ''EMSGSIZE'', ''EAFNOSUPPORT'', ''ENETUNREACH'',
    ''ECONNABORTED'', ''ECONNRESET'', ''ENOTCONN'', ''ETIMEDOUT'', ''EHOSTUNREACH'', ''ENETRESET'',
    ''EFSM'', ''ENOCOMPATPROTO'', ''ETERM'', ''EMTHREAD'']"

definition zmq_err_codes :: "('z, 'm) env \<Rightarrow> (string \<times> int) list" where
  "zmq_err_codes E = map (\<lambda>n. (n, macro E n)) err_code_names"

subsection \<open>Error objects\<close>

definition luazmq_error_create :: "int \<Rightarrow> ('z, 'm) lua \<Rightarrow> ('z, 'm) lua" where
  "luazmq_error_create err L = (let (k, L) = luazmq_newudata UError L in
     L\<lparr>zerrs := (zerrs L)(k := err)\<rparr>)"

definition error_string :: "('z, 'm) env \<Rightarrow> int \<Rightarrow> string" where
  "error_string E err = ''[ZMQ]['' @ luazmq_err_getmnemo E err @ ''] '' @ zmq_strerror E err @
     '' ('' @ show_int err @ '')''"

definition luazmq_error_pushstring :: "('z, 'm) env \<Rightarrow> int \<Rightarrow> ('z, 'm) lua \<Rightarrow> ('z, 'm) lua" where
  "luazmq_error_pushstring E err L = push (LStr (error_string E err)) L"

definition luazmq_assert :: "('z, 'm) env \<Rightarrow> ('z, 'm) lua \<Rightarrow> ('z, 'm) lua outcome" where
  "luazmq_assert E L =
     (if \<not> toboolean (lua_at L 1) then
        (case lua_at L 2 of
           LNum q \<Rightarrow> Raise (ErrValue (LStr (error_string E (c_int (lua_tointeger q))))) L
         | LUser UError k \<Rightarrow> Raise (ErrValue (LStr (error_string E (zerrs L k)))) L
         | LNil \<Rightarrow> Raise (ErrValue (LStr (luaL_where E @ ''assertion failed!''))) L
         | _ \<Rightarrow> check (luaL_checkstring E L 2) L (\<lambda>s.
             Raise (ErrValue (LStr (luaL_where E @ s))) L))
      else Ret (lua_gettop L) L)"

definition luazmq_err_cat :: "('z, 'm) lua \<Rightarrow> ('z, 'm) lua outcome" where
  "luazmq_err_cat L = check (luazmq_geterror_at L 1) L (\<lambda>_. Ret 1 (push (LStr ''ZMQ'') L))"

definition luazmq_err_no :: "('z, 'm) lua \<Rightarrow> ('z, 'm) lua outcome" where
  "luazmq_err_no L = check (luazmq_geterror_at L 1) L (\<lambda>k. Ret 1 (pushinteger (zerrs L k) L))"

definition luazmq_err_msg :: "('z, 'm) env \<Rightarrow> ('z, 'm) lua \<Rightarrow> ('z, 'm) lua outcome" where
  "luazmq_err_msg E L =
     check (luazmq_geterror_at L 1) L (\<lambda>k. Ret 1 (push (LStr (zmq_strerror E (zerrs L k))) L))"

definition luazmq_err_mnemo :: "('z, 'm) env \<Rightarrow> ('z, 'm) lua \<Rightarrow> ('z, 'm) lua outcome" where
  "luazmq_err_mnemo E L =
     check (luazmq_geterror_at L 1) L (\<lambda>k. Ret 1 (push (LStr (luazmq_err_getmnemo E (zerrs L k))) L))"

definition luazmq_err_tostring :: "('z, 'm) env \<Rightarrow> ('z, 'm) lua \<Rightarrow> ('z, 'm) lua outcome" where
  "luazmq_err_tostring E L =
     check (luazmq_geterror_at L 1) L (\<lambda>k. Ret 1 (luazmq_error_pushstring E (zerrs L k) L))"

definition luazmq_err_equal :: "('z, 'm) lua \<Rightarrow> ('z, 'm) lua outcome" where
  "luazmq_err_equal L =
     check (luazmq_geterror_at L 1) L (\<lambda>lhs.
     check (luazmq_geterror_at L 2) L (\<lambda>rhs.
       Ret 1 (pushboolean (zerrs L lhs = zerrs L rhs) L)))"

definition luazmq_err_methods ::
    "('z, 'm) env \<Rightarrow> (string \<times> (('z, 'm) lua \<Rightarrow> ('z, 'm) lua outcome)) list" where
  "luazmq_err_methods E = [
     (''no'', luazmq_err_no),
     (''msg'', luazmq_err_msg E),
     (''mnemo'', luazmq_err_mnemo E),
     (''name'', luazmq_err_mnemo E),
     (''cat'', luazmq_err_cat),
     (''category'', luazmq_err_cat),
     (''__tostring'', luazmq_err_tostring E),
     (''__eq'', luazmq_err_equal)]"

text \<open>The functions \<open>error\<close> and \<open>strerror\<close> of the module (\<open>lzmq.c\<close>).\<close>

definition luazmq_error_create_fn :: "('z, 'm) env \<Rightarrow> ('z, 'm) lua \<Rightarrow> ('z, 'm) lua outcome" where
  "luazmq_error_create_fn E L =
     check (luaL_checkint E L 1) L (\<lambda>err. Ret 1 (luazmq_error_create err L))"

definition luazmq_error_tostring :: "('z, 'm) env \<Rightarrow> ('z, 'm) lua \<Rightarrow> ('z, 'm) lua outcome" where
  "luazmq_error_tostring E L =
     check (luaL_checkint E L 1) L (\<lambda>err. Ret 1 (luazmq_error_pushstring E err L))"

text \<open>What \<open>luazmq_error_initlib\<close> puts into the library table.\<close>

definition luazmq_error_initlib :: "('z, 'm) env \<Rightarrow> (lval \<times> lval) list \<Rightarrow> (lval \<times> lval) list" where
  "luazmq_error_initlib E lib =
     (let lib = luazmq_register_consts (zmq_err_codes E) lib;
          errors = luazmq_register_consts_invers (zmq_err_codes E)
                     (luazmq_register_consts (zmq_err_codes E) [])
      in rawset (LStr ''errors'') (LTable [] errors) lib)"

lemmas zerror_defs = luazmq_err_cat_def luazmq_err_no_def luazmq_err_msg_def luazmq_err_mnemo_def
  luazmq_err_tostring_def luazmq_err_equal_def luazmq_error_create_fn_def luazmq_error_tostring_def
  luazmq_geterror_at_def luazmq_error_pushstring_def

lemma error_create_fields [simp]:
  "stk (luazmq_error_create err L) = stk L @ [LUser UError (next_udata L)]"
  "zerrs (luazmq_error_create err L) = (zerrs L)(next_udata L := err)"
  "zctxs (luazmq_error_create err L) = zctxs L"
  "zskts (luazmq_error_create err L) = zskts L"
  "zplrs (luazmq_error_create err L) = zplrs L"
  "zmsgs (luazmq_error_create err L) = zmsgs L"
  "registry (luazmq_error_create err L) = registry L"
  "next_ref (luazmq_error_create err L) = next_ref L"
  "next_udata (luazmq_error_create err L) = Suc (next_udata L)"
  "zst (luazmq_error_create err L) = zst L"
  by (simp_all add: luazmq_error_create_def luazmq_newudata_def Let_def)

subsection \<open>Names and numbers\<close>

text \<open>The C compiler rejects a switch with two equal labels, so the values of the listed
  macros differ.\<close>

lemma find_inj: "\<lbrakk> inj_on f (set xs); x \<in> set xs \<rbrakk> \<Longrightarrow> find (\<lambda>y. f y = f x) xs = Some x"
  by (induction xs) (auto simp: inj_on_def)

lemma mnemo_of_name:
  "\<lbrakk> inj_on (macro E) (set mnemo_names); n \<in> set mnemo_names \<rbrakk> \<Longrightarrow>
     luazmq_err_getmnemo E (macro E n) = n"
  by (simp add: luazmq_err_getmnemo_def find_inj)

lemma mnemo_unknown:
  "err \<notin> macro E ` set mnemo_names \<Longrightarrow> luazmq_err_getmnemo E err = ''UNKNOWN''"
  by (auto simp: luazmq_err_getmnemo_def find_Some_iff image_iff split: option.split)

lemma distinct_err_code_names: "distinct err_code_names"
  by (simp add: err_code_names_def)

text \<open>The two lists name the same errors but one: \<open>EPERM\<close> has a code and no mnemonic.\<close>

lemma err_code_names_mnemo: "set err_code_names = insert ''EPERM'' (set mnemo_names)"
  by (auto simp: err_code_names_def mnemo_names_def)

lemma EPERM_no_mnemo: "''EPERM'' \<notin> set mnemo_names"
  by (simp add: mnemo_names_def)

lemma error_table_name:
  assumes "n \<in> set err_code_names"
  shows "map_of (luazmq_register_consts_invers (zmq_err_codes E)
           (luazmq_register_consts (zmq_err_codes E) [])) (LStr n) = Some (LNum (of_int (macro E n)))"
  using assms distinct_err_code_names
  by (simp add: register_consts_invers_names zmq_err_codes_def register_consts_lookup comp_def
      image_iff)

lemma error_table_code:
  assumes "inj_on (macro E) (set err_code_names)" "n \<in> set err_code_names"
  shows "map_of (luazmq_register_consts_invers (zmq_err_codes E) t)
           (LNum (of_int (macro E n))) = Some (LStr n)"
proof (rule register_consts_invers_lookup)
  show "distinct (map snd (zmq_err_codes E))"
    using assms(1) distinct_err_code_names by (simp add: zmq_err_codes_def comp_def distinct_map)
qed (use assms(2) in \<open>simp add: zmq_err_codes_def\<close>)

text \<open>C36: the table \<open>errors\<close> of the module leads from the name of every error to its number and
  from the number back to the name.\<close>

theorem errors_table_roundtrip:
  assumes "inj_on (macro E) (set err_code_names)" "n \<in> set err_code_names"
  shows "\<exists>t. map_of (luazmq_error_initlib E lib) (LStr ''errors'') = Some (LTable [] t) \<and>
     map_of t (LStr n) = Some (LNum (of_int (macro E n))) \<and>
     map_of t (LNum (of_int (macro E n))) = Some (LStr n)"
  using error_table_name [OF assms(2)] error_table_code [OF assms]
  by (simp add: luazmq_error_initlib_def Let_def)

text \<open>For the witnesses, the number of an error is its position in the list.\<close>

definition numbered_env :: "(nat, string) env" where
  "numbered_env = stub_env\<lparr>macro := \<lambda>s. int (length (takeWhile (\<lambda>x. x \<noteq> s) err_code_names))\<rparr>"

lemma numbered_inj: "inj_on (macro numbered_env) (set err_code_names)"
proof (rule inj_onI)
  fix x y
  assume "x \<in> set err_code_names" "y \<in> set err_code_names" "macro numbered_env x = macro numbered_env y"
  moreover have "err_code_names ! length (takeWhile (\<lambda>z. z \<noteq> w) err_code_names) = w"
    if "w \<in> set err_code_names" for w
    using that nth_length_takeWhile [of "\<lambda>z. z \<noteq> w" err_code_names]
    by (metis (mono_tags, lifting) length_takeWhile_le linorder_not_less order_antisym_conv set_takeWhileD
        takeWhile_eq_all_conv takeWhile_eq_take take_all)
  ultimately show "x = y" unfolding numbered_env_def by simp metis
qed

theorem errors_table_roundtrip_witness:
  "\<exists>t. map_of (luazmq_error_initlib numbered_env []) (LStr ''errors'') = Some (LTable [] t) \<and>
     map_of t (LStr ''ENOENT'') = Some (LNum 1) \<and> map_of t (LNum 1) = Some (LStr ''ENOENT'')"
proof -
  have "macro numbered_env ''ENOENT'' = 1" by (simp add: numbered_env_def err_code_names_def)
  then show ?thesis
    using errors_table_roundtrip [OF numbered_inj, of "''ENOENT''" "[]"]
    by (simp add: err_code_names_def)
qed

text \<open>\<open>err:name()\<close> is the name of the error number, for every error of the table but
  \<open>EPERM\<close>, whose name is \<open>UNKNOWN\<close>.\<close>

theorem err_mnemo_names:
  assumes "inj_on (macro E) (set err_code_names)" "n \<in> set err_code_names"
    and "lua_at L 1 = LUser UError k" "zerrs L k = macro E n"
  shows "luazmq_err_mnemo E L = Ret 1 (push (LStr (if n = ''EPERM'' then ''UNKNOWN'' else n)) L)"
proof -
  have sub: "inj_on (macro E) (set mnemo_names)"
    using assms(1) by (rule inj_on_subset) (auto simp: err_code_names_mnemo)
  have "luazmq_err_getmnemo E (macro E n) = (if n = ''EPERM'' then ''UNKNOWN'' else n)"
  proof (cases "n = ''EPERM''")
    case True
    then have "macro E n \<notin> macro E ` set mnemo_names"
      using assms(1,2) EPERM_no_mnemo by (auto simp: inj_on_def err_code_names_mnemo)
    with True show ?thesis by (simp add: mnemo_unknown)
  next
    case False
    with assms(2) have "n \<in> set mnemo_names" by (simp add: err_code_names_mnemo)
    with False show ?thesis by (simp add: mnemo_of_name [OF sub])
  qed
  then show ?thesis using assms(3,4) by (simp add: luazmq_err_mnemo_def luazmq_geterror_at_def)
qed

theorem err_mnemo_names_witness:
  "luazmq_err_mnemo numbered_env ((demo_state [LUser UError 0])\<lparr>zerrs := \<lambda>_. 0\<rparr>) =
     Ret 1 (push (LStr ''UNKNOWN'') ((demo_state [LUser UError 0])\<lparr>zerrs := \<lambda>_. 0\<rparr>))"
proof -
  have "macro numbered_env ''EPERM'' = 0" by (simp add: numbered_env_def err_code_names_def)
  then show ?thesis
    using err_mnemo_names [OF numbered_inj, of "''EPERM''" "(demo_state [LUser UError 0])\<lparr>zerrs := \<lambda>_. 0\<rparr>" 0]
    by (simp add: err_code_names_def lua_at_args)
qed

end
