(* ===== verification/ZCore.thy ===== *)
theory ZCore
  imports ZError
begin

text \<open>
  The core of \<open>lzmq.c\<close> (wrapping a context and a socket of libzmq, reporting an error of libzmq)
  and the life cycle of a socket (\<open>zsocket.c\<close>: closing, the \<open>on_close\<close> handler, the raw handle),
  with the invariant that ties the socket counter of a context to the sockets that are open.
\<close>

subsection \<open>Wrapping contexts and sockets\<close>

definition new_zcontext :: zcontext where
  "new_zcontext = \<lparr>zc_ctx = 0, zc_flags = 0, zc_socket_count = 0, zc_autoclose_ref = 0\<rparr>"

definition new_zsocket :: zsocket where
  "new_zsocket = \<lparr>zs_skt = 0, zs_flags = 0, zs_ctx = None, zs_ctx_ref = 0, zs_onclose_ref = 0\<rparr>"

text \<open>A pointer of libzmq is a number, 0 the null pointer.\<close>

definition luazmq_context :: "nat \<Rightarrow> bool \<Rightarrow> ('z, 'm) lua \<Rightarrow> ('z, 'm) lua outcome" where
  "luazmq_context ctx own L =
     (if ctx = 0 then Abort AssertFail else
      let (k, L) = luazmq_newudata UContext L;
          L = upd_ctx k (\<lambda>_. new_zcontext\<lparr>zc_ctx := ctx, zc_autoclose_ref := LUA_NOREF,
                zc_socket_count := 0\<rparr>) L;
          L = (if own then L else upd_ctx k (\<lambda>z. z\<lparr>zc_flags := LUAZMQ_FLAG_DONT_DESTROY\<rparr>) L)
      in Ret 1 L)"

definition luazmq_socket :: "nat \<Rightarrow> bool \<Rightarrow> ('z, 'm) lua \<Rightarrow> ('z, 'm) lua outcome" where
  "luazmq_socket skt own L =
     (if skt = 0 then Abort AssertFail else
      let (k, L) = luazmq_newudata USocket L;
          L = upd_skt k (\<lambda>_. new_zsocket\<lparr>zs_skt := skt, zs_onclose_ref := LUA_NOREF,
                zs_ctx_ref := LUA_NOREF\<rparr>) L;
          L = (if own then L else upd_skt k (\<lambda>z. z\<lparr>zs_flags := LUAZMQ_FLAG_DONT_DESTROY\<rparr>) L)
      in Ret 1 L)"

definition luazmq_init_socket :: "('z, 'm) lua \<Rightarrow> ('z, 'm) lua outcome" where
  "luazmq_init_socket L = (case lua_at L 1 of
     LLight src \<Rightarrow> luazmq_socket src False L
   | _ \<Rightarrow> Raise (ArgError 1 ''lightuserdata expected'') L)"

subsection \<open>The on\_close handler and errors of libzmq\<close>

text \<open>\<open>lua_pcall\<close> of a value without arguments and results: the stack below is kept, and an
  error value stays on top of it.\<close>

definition lua_pcall0 :: "('z, 'm) env \<Rightarrow> lval \<Rightarrow> ('z, 'm) lua \<Rightarrow> ('z, 'm) lua" where
  "lua_pcall0 E f L = (let (r, L') = call_lua E f (L\<lparr>stk := []\<rparr>) in
     L'\<lparr>stk := stk L @ (case r of None \<Rightarrow> [] | Some e \<Rightarrow> [e])\<rparr>)"

definition luazmq_skt_before_close :: "('z, 'm) env \<Rightarrow> nat \<Rightarrow> ('z, 'm) lua \<Rightarrow> ('z, 'm) lua" where
  "luazmq_skt_before_close E k L =
     (let L = luaL_unref (zs_ctx_ref (zskts L k)) L;
          L = upd_skt k (\<lambda>s. s\<lparr>zs_ctx_ref := LUA_NOREF\<rparr>) L
      in if zs_onclose_ref (zskts L k) = LUA_NOREF then L
         else let L = lua_pcall0 E (registry L (zs_onclose_ref (zskts L k))) L;
                  L = luaL_unref (zs_onclose_ref (zskts L k)) L
              in upd_skt k (\<lambda>s. s\<lparr>zs_onclose_ref := LUA_NOREF\<rparr>) L)"

text \<open>\<open>skt->ctx->socket_count--\<close> and the assertion after it.\<close>

definition dec_socket_count :: "nat \<Rightarrow> ('z, 'm) lua \<Rightarrow> ub + ('z, 'm) lua" where
  "dec_socket_count c L =
     (let L = upd_ctx c (\<lambda>z. z\<lparr>zc_socket_count := zc_socket_count z - 1\<rparr>) L
      in if 0 \<le> zc_socket_count (zctxs L c) then Inr L else Inl AssertFail)"

definition luazmq_geterrno ::
    "('z, 'm) env \<Rightarrow> nat option \<Rightarrow> ('z, 'm) lua \<Rightarrow> ub + int \<times> ('z, 'm) lua" where
  "luazmq_geterrno E sk L =
     (let err = zmq_errno E (zst L) in
      case sk of None \<Rightarrow> Inr (err, L)
      | Some k \<Rightarrow>
          if err = macro E ''ETERM'' \<and> \<not> has_flag (zs_flags (zskts L k)) LUAZMQ_FLAG_CLOSED \<and>
             has_flag (zs_flags (zskts L k)) LUAZMQ_FLAG_CLOSE_ON_ETERM
          then let L = L\<lparr>zst := snd (zmq_close E (zs_skt (zskts L k)) (zst L))\<rparr>;
                   L = upd_skt k (\<lambda>s. s\<lparr>zs_flags := set_flag (zs_flags s) LUAZMQ_FLAG_CLOSED\<rparr>) L;
                   L = luazmq_skt_before_close E k L
               in case zs_ctx (zskts L k) of
                    None \<Rightarrow> Inl NullDeref
                  | Some c \<Rightarrow> map_sum id (\<lambda>L. (err, L)) (dec_socket_count c L)
          else Inr (err, L))"

definition luazmq_fail_str :: "('z, 'm) env \<Rightarrow> nat option \<Rightarrow> ('z, 'm) lua \<Rightarrow> ub + ('z, 'm) lua" where
  "luazmq_fail_str E sk L =
     map_sum id (\<lambda>(err, L). luazmq_error_pushstring E err (push LNil L)) (luazmq_geterrno E sk L)"

definition luazmq_fail_no :: "('z, 'm) env \<Rightarrow> nat option \<Rightarrow> ('z, 'm) lua \<Rightarrow> ub + ('z, 'm) lua" where
  "luazmq_fail_no E sk L =
     map_sum id (\<lambda>(err, L). pushinteger err (push LNil L)) (luazmq_geterrno E sk L)"

definition luazmq_fail_obj :: "('z, 'm) env \<Rightarrow> nat option \<Rightarrow> ('z, 'm) lua \<Rightarrow> ub + ('z, 'm) lua" where
  "luazmq_fail_obj E sk L =
     map_sum id (\<lambda>(err, L). luazmq_error_create err (push LNil L)) (luazmq_geterrno E sk L)"

text \<open>The two values nil and the error are on the stack; a caller that adds no third value
  returns 2.\<close>

definition luazmq_fail :: "('z, 'm) env \<Rightarrow> nat option \<Rightarrow> ('z, 'm) lua \<Rightarrow> ub + ('z, 'm) lua" where
  "luazmq_fail E = (case err_mode E of ErrObject \<Rightarrow> luazmq_fail_obj E
     | ErrNumber \<Rightarrow> luazmq_fail_no E | ErrString \<Rightarrow> luazmq_fail_str E)"

definition fail_ret :: "('z, 'm) env \<Rightarrow> nat option \<Rightarrow> ('z, 'm) lua \<Rightarrow> ('z, 'm) lua outcome" where
  "fail_ret E sk L = ub_bind (luazmq_fail E sk L) (\<lambda>L. Ret 2 L)"

definition luazmq_allocfail :: "('z, 'm) lua \<Rightarrow> ('z, 'm) lua outcome" where
  "luazmq_allocfail L = Raise (ErrValue (LStr ''can not allocate enouth memory'')) L"

subsection \<open>The life cycle of a socket\<close>

definition luazmq_skt_context :: "('z, 'm) lua \<Rightarrow> ('z, 'm) lua outcome" where
  "luazmq_skt_context L =
     check (luazmq_getsocket_at L 1) L (\<lambda>k. Ret 1 (push (registry L (zs_ctx_ref (zskts L k))) L))"

definition luazmq_skt_handle :: "('z, 'm) lua \<Rightarrow> ('z, 'm) lua outcome" where
  "luazmq_skt_handle L =
     check (luazmq_getsocket_at L 1) L (\<lambda>k. Ret 1 (push (LLight (zs_skt (zskts L k))) L))"

definition luazmq_skt_reset_handle :: "('z, 'm) env \<Rightarrow> ('z, 'm) lua \<Rightarrow> ('z, 'm) lua outcome" where
  "luazmq_skt_reset_handle E L =
     check (luazmq_getsocket_at L 1) L (\<lambda>k.
       let own = (if lua_at L 3 = LNil then \<not> has_flag (zs_flags (zskts L k)) LUAZMQ_FLAG_DONT_DESTROY
                  else toboolean (lua_at L 3));
           close = toboolean (lua_at L 4);
           h = zs_skt (zskts L k)
       in case lua_at L 2 of
            LLight src \<Rightarrow>
              let L = upd_skt k (\<lambda>s. s\<lparr>zs_skt := src,
                    zs_flags := (if own then clear_flag (zs_flags s) LUAZMQ_FLAG_DONT_DESTROY
                                 else set_flag (zs_flags s) LUAZMQ_FLAG_DONT_DESTROY)\<rparr>) L
              in if close then Ret 1 (pushboolean True (L\<lparr>zst := snd (zmq_close E h (zst L))\<rparr>))
                 else Ret 1 (push (LLight h) L)
          | _ \<Rightarrow> Raise (ArgError 2 ''lightuserdata expected'') L)"

definition luazmq_skt_on_close :: "('z, 'm) lua \<Rightarrow> ('z, 'm) lua outcome" where
  "luazmq_skt_on_close L =
     check (luazmq_getsocket_at L 1) L (\<lambda>k.
       let L = lua_settop 2 L in
       if zs_onclose_ref (zskts L k) \<noteq> LUA_NOREF \<and> lua_at L 2 = LNil then
         Ret 0 (upd_skt k (\<lambda>s. s\<lparr>zs_onclose_ref := LUA_NOREF\<rparr>)
                  (luaL_unref (zs_onclose_ref (zskts L k)) L))
       else let (r, L) = luaL_ref L in
         Ret 0 (upd_skt k (\<lambda>s. s\<lparr>zs_onclose_ref := r\<rparr>) L))"

text \<open>The two parts of \<open>luazmq_skt_destroy\<close>: the socket of libzmq, and the counter.\<close>

definition skt_close_handle :: "('z, 'm) env \<Rightarrow> nat \<Rightarrow> ('z, 'm) lua \<Rightarrow> ub + ('z, 'm) lua" where
  "skt_close_handle E k L =
     (if has_flag (zs_flags (zskts L k)) LUAZMQ_FLAG_DONT_DESTROY then Inr L
      else
        let L = (case tonumber E (lua_at L 2) of None \<Rightarrow> L
                   | Some q \<Rightarrow> L\<lparr>zst := snd (zmq_setsockopt E (zs_skt (zskts L k))
                       (macro E ''ZMQ_LINGER'') (OInt (c_int (lua_tointeger q))) (zst L))\<rparr>);
            (ret, z) = zmq_close E (zs_skt (zskts L k)) (zst L)
        in if ret = -1 then Inl AssertFail else Inr (L\<lparr>zst := z\<rparr>))"

definition skt_uncount :: "nat \<Rightarrow> ('z, 'm) lua \<Rightarrow> ub + ('z, 'm) lua" where
  "skt_uncount k L = (case zs_ctx (zskts L k) of None \<Rightarrow> Inr L | Some c \<Rightarrow> dec_socket_count c L)"

definition luazmq_skt_destroy :: "('z, 'm) env \<Rightarrow> ('z, 'm) lua \<Rightarrow> ('z, 'm) lua outcome" where
  "luazmq_skt_destroy E L =
     check (luazmq_checkudatap L 1 USocket) L (\<lambda>k.
       if has_flag (zs_flags (zskts L k)) LUAZMQ_FLAG_CLOSED then luazmq_pass L
       else
         ub_bind (skt_close_handle E k (luazmq_skt_before_close E k L)) (\<lambda>L.
         ub_bind (skt_uncount k L) (\<lambda>L.
           luazmq_pass (upd_skt k (\<lambda>s. s\<lparr>zs_flags := set_flag (zs_flags s) LUAZMQ_FLAG_CLOSED\<rparr>) L))))"

definition luazmq_skt_closed :: "('z, 'm) lua \<Rightarrow> ('z, 'm) lua outcome" where
  "luazmq_skt_closed L =
     check (luazmq_checkudatap L 1 USocket) L (\<lambda>k.
       Ret 1 (pushboolean (has_flag (zs_flags (zskts L k)) LUAZMQ_FLAG_CLOSED) L))"

subsection \<open>Reporting an error leaves the objects alone\<close>

text \<open>No code sets the flag \<open>CLOSE_ON_ETERM\<close>; while it is clear, an error only pushes values.\<close>

definition err_push :: "('z, 'm) env \<Rightarrow> int \<Rightarrow> ('z, 'm) lua \<Rightarrow> ('z, 'm) lua" where
  "err_push E err L = (case err_mode E of ErrObject \<Rightarrow> luazmq_error_create err L
     | ErrNumber \<Rightarrow> pushinteger err L | ErrString \<Rightarrow> luazmq_error_pushstring E err L)"

definition err_val :: "('z, 'm) env \<Rightarrow> int \<Rightarrow> ('z, 'm) lua \<Rightarrow> lval" where
  "err_val E err L = (case err_mode E of ErrObject \<Rightarrow> LUser UError (next_udata L)
     | ErrNumber \<Rightarrow> LNum (of_int err) | ErrString \<Rightarrow> LStr (error_string E err))"

lemma err_push_fields [simp]:
  "stk (err_push E err L) = stk L @ [err_val E err L]"
  "zctxs (err_push E err L) = zctxs L"
  "zskts (err_push E err L) = zskts L"
  "zplrs (err_push E err L) = zplrs L"
  "zmsgs (err_push E err L) = zmsgs L"
  "registry (err_push E err L) = registry L"
  "next_ref (err_push E err L) = next_ref L"
  "zst (err_push E err L) = zst L"
  by (simp_all add: err_push_def err_val_def luazmq_error_pushstring_def split: err_type.split)

lemma err_push_error_object:
  "err_mode E = ErrObject \<Longrightarrow> zerrs (err_push E err L) (next_udata L) = err"
  by (simp add: err_push_def)

lemma err_val_push [simp]: "err_val E err (push v L) = err_val E err L"
  by (simp add: err_val_def split: err_type.split)

lemma results_err_push [simp]:
  "results 2 (err_push E err (push v L)) = [v, err_val E err L]"
  "results (Suc (Suc 0)) (err_push E err (push v L)) = [v, err_val E err L]"
  "results (Suc n) (err_push E err L) = results n L @ [err_val E err L]"
  by (simp_all add: results_def)

definition no_eterm_close :: "nat option \<Rightarrow> ('z, 'm) lua \<Rightarrow> bool" where
  "no_eterm_close sk L \<longleftrightarrow> (case sk of None \<Rightarrow> True
     | Some k \<Rightarrow> \<not> has_flag (zs_flags (zskts L k)) LUAZMQ_FLAG_CLOSE_ON_ETERM)"

lemma no_eterm_close_None [simp]: "no_eterm_close None L"
  by (simp add: no_eterm_close_def)

lemma luazmq_fail_plain:
  "no_eterm_close sk L \<Longrightarrow> luazmq_fail E sk L = Inr (err_push E (zmq_errno E (zst L)) (push LNil L))"
  by (cases sk) (simp_all add: no_eterm_close_def luazmq_fail_def luazmq_fail_obj_def luazmq_fail_no_def
      luazmq_fail_str_def luazmq_geterrno_def err_push_def split: err_type.split)

lemma fail_ret_plain:
  "no_eterm_close sk L \<Longrightarrow> fail_ret E sk L = Ret 2 (err_push E (zmq_errno E (zst L)) (push LNil L))"
  by (simp add: fail_ret_def luazmq_fail_plain)

subsection \<open>Open sockets and the counter of a context\<close>

text \<open>A socket counts for a context while it points to it and is not closed.\<close>

definition open_in :: "('z, 'm) lua \<Rightarrow> nat \<Rightarrow> nat \<Rightarrow> bool" where
  "open_in L c k \<longleftrightarrow> zs_ctx (zskts L k) = Some c \<and> \<not> has_flag (zs_flags (zskts L k)) LUAZMQ_FLAG_CLOSED"

definition open_sockets :: "('z, 'm) lua \<Rightarrow> nat \<Rightarrow> nat set" where
  "open_sockets L c = {k. open_in L c k}"

text \<open>
  The invariant: the counter of every context is the number of its open sockets. Addresses not
  handed out yet hold nothing, and no socket points to a context that does not exist. (An address
  that holds no context counts as a context without sockets.)
\<close>

definition counts_ok :: "('z, 'm) lua \<Rightarrow> bool" where
  "counts_ok L \<longleftrightarrow>
     (\<forall>k \<ge> next_udata L. zs_ctx (zskts L k) = None) \<and>
     (\<forall>k c. zs_ctx (zskts L k) = Some c \<longrightarrow> c < next_udata L) \<and>
     (\<forall>c. zc_socket_count (zctxs L c) = int (card (open_sockets L c)))"

text \<open>What every call that neither opens nor closes a socket keeps.\<close>

definition keeps :: "('z, 'm) lua \<Rightarrow> ('z, 'm) lua \<Rightarrow> bool" where
  "keeps L L' \<longleftrightarrow>
     (\<forall>c. zc_socket_count (zctxs L' c) = zc_socket_count (zctxs L c)) \<and>
     next_udata L \<le> next_udata L' \<and>
     (\<forall>k. zs_ctx (zskts L' k) = zs_ctx (zskts L k) \<and>
          has_flag (zs_flags (zskts L' k)) LUAZMQ_FLAG_CLOSED =
            has_flag (zs_flags (zskts L k)) LUAZMQ_FLAG_CLOSED \<and>
          has_flag (zs_flags (zskts L' k)) LUAZMQ_FLAG_CLOSE_ON_ETERM =
            has_flag (zs_flags (zskts L k)) LUAZMQ_FLAG_CLOSE_ON_ETERM)"

lemma keeps_refl [simp, intro]: "keeps L L"
  by (simp add: keeps_def)

lemma keeps_trans: "\<lbrakk> keeps L1 L2; keeps L2 L3 \<rbrakk> \<Longrightarrow> keeps L1 L3"
  by (auto simp: keeps_def)

lemma keeps_open_sockets: "keeps L L' \<Longrightarrow> open_sockets L' c = open_sockets L c"
  by (simp add: keeps_def open_sockets_def open_in_def)

lemma keeps_counts_ok: "\<lbrakk> keeps L L'; counts_ok L \<rbrakk> \<Longrightarrow> counts_ok L'"
proof -
  assume k: "keeps L L'" and ok: "counts_ok L"
  have "c < next_udata L'" if "zs_ctx (zskts L' j) = Some c" for j c
    using k ok that by (metis counts_ok_def keeps_def less_le_trans)
  with k ok show ?thesis
    by (simp add: counts_ok_def keeps_open_sockets) (simp add: keeps_def)
qed

lemma keeps_no_eterm: "\<lbrakk> keeps L L'; no_eterm_close sk L \<rbrakk> \<Longrightarrow> no_eterm_close sk L'"
  by (simp add: keeps_def no_eterm_close_def split: option.splits)

text \<open>Two states that agree on the fields \<open>keeps\<close> reads.\<close>

lemma keeps_same:
  "\<lbrakk> zctxs L' = zctxs L; zskts L' = zskts L; next_udata L \<le> next_udata L' \<rbrakk> \<Longrightarrow> keeps L L'"
  by (simp add: keeps_def)

lemma keeps_simps [simp]:
  "keeps L (push v L') = keeps L L'"
  "keeps L (lua_pop n L') = keeps L L'"
  "keeps L (lua_settop n L') = keeps L L'"
  "keeps L (L'\<lparr>stk := s\<rparr>) = keeps L L'"
  "keeps L (L'\<lparr>zst := z\<rparr>) = keeps L L'"
  "keeps L (L'\<lparr>zmsgs := m\<rparr>) = keeps L L'"
  "keeps L (L'\<lparr>zplrs := p\<rparr>) = keeps L L'"
  "keeps L (L'\<lparr>zwatches := w\<rparr>) = keeps L L'"
  "keeps L (L'\<lparr>zerrs := e\<rparr>) = keeps L L'"
  "keeps L (L'\<lparr>registry := r\<rparr>) = keeps L L'"
  "keeps L (L'\<lparr>next_ref := nr\<rparr>) = keeps L L'"
  "keeps L (upd_msg j f L') = keeps L L'"
  "keeps L (upd_plr j g L') = keeps L L'"
  "keeps L (luaL_unref ref L') = keeps L L'"
  "keeps L (lua_pushvalue i L') = keeps L L'"
  "keeps L (lua_insert i L') = keeps L L'"
  "keeps L (lua_remove i L') = keeps L L'"
  "keeps L (lua_replace i L') = keeps L L'"
  by (simp_all add: keeps_def upd_defs luaL_unref_def lua_pushvalue_def lua_insert_def
      lua_remove_def lua_replace_def Let_def)

lemma keeps_err_push [simp]: "keeps L L' \<Longrightarrow> keeps L (err_push E err L')"
  by (rule keeps_trans, assumption, rule keeps_same)
    (simp_all add: err_push_def luazmq_error_pushstring_def split: err_type.split)

lemma keeps_error_create [simp]: "keeps L L' \<Longrightarrow> keeps L (luazmq_error_create err L')"
  by (rule keeps_trans, assumption, rule keeps_same) simp_all

lemma keeps_newudata [simp]: "keeps L L' \<Longrightarrow> keeps L (snd (luazmq_newudata t L'))"
  by (rule keeps_trans, assumption, rule keeps_same) (simp_all add: luazmq_newudata_def)

lemma keeps_upd_skt:
  "\<lbrakk> keeps L L';
     zs_ctx (f (zskts L' k)) = zs_ctx (zskts L' k);
     has_flag (zs_flags (f (zskts L' k))) LUAZMQ_FLAG_CLOSED =
       has_flag (zs_flags (zskts L' k)) LUAZMQ_FLAG_CLOSED;
     has_flag (zs_flags (f (zskts L' k))) LUAZMQ_FLAG_CLOSE_ON_ETERM =
       has_flag (zs_flags (zskts L' k)) LUAZMQ_FLAG_CLOSE_ON_ETERM \<rbrakk> \<Longrightarrow>
     keeps L (upd_skt k f L')"
  by (simp add: keeps_def)

lemma keeps_upd_ctx:
  "\<lbrakk> keeps L L'; zc_socket_count (f (zctxs L' c)) = zc_socket_count (zctxs L' c) \<rbrakk> \<Longrightarrow>
     keeps L (upd_ctx c f L')"
  by (simp add: keeps_def)

lemma final_fail_ret:
  "\<lbrakk> no_eterm_close sk L'; keeps L L' \<rbrakk> \<Longrightarrow> final_state (keeps L) (fail_ret E sk L')"
  by (simp add: fail_ret_plain)

lemma final_pass [simp]: "final_state (keeps L) (luazmq_pass L') = keeps L L'"
  by (simp add: luazmq_pass_def)

subsection \<open>Closing a socket\<close>

text \<open>The flag \<open>CLOSE_ON_ETERM\<close> is never set, and the counters are right.\<close>

definition lz_inv :: "('z, 'm) lua \<Rightarrow> bool" where
  "lz_inv L \<longleftrightarrow> counts_ok L \<and>
     (\<forall>k. \<not> has_flag (zs_flags (zskts L k)) LUAZMQ_FLAG_CLOSE_ON_ETERM)"

definition keeps_skt :: "nat \<Rightarrow> ('z, 'm) lua \<Rightarrow> ('z, 'm) lua \<Rightarrow> bool" where
  "keeps_skt k L L' \<longleftrightarrow> zs_ctx (zskts L' k) = zs_ctx (zskts L k) \<and>
     has_flag (zs_flags (zskts L' k)) LUAZMQ_FLAG_CLOSED =
       has_flag (zs_flags (zskts L k)) LUAZMQ_FLAG_CLOSED"

lemma keeps_lz_inv: "\<lbrakk> keeps L L'; lz_inv L \<rbrakk> \<Longrightarrow> lz_inv L'"
  by (auto simp: lz_inv_def keeps_counts_ok) (simp add: keeps_def)

lemma lz_inv_no_eterm [simp]: "lz_inv L \<Longrightarrow> no_eterm_close sk L"
  by (simp add: lz_inv_def no_eterm_close_def split: option.split)

text \<open>A set of sockets that are closed stays closed: the invariant together with such a set.\<close>

definition live :: "nat set \<Rightarrow> ('z, 'm) lua \<Rightarrow> bool" where
  "live K L \<longleftrightarrow> lz_inv L \<and>
     (\<forall>k\<in>K. k < next_udata L \<and> has_flag (zs_flags (zskts L k)) LUAZMQ_FLAG_CLOSED)"

lemma live_empty: "live {} L = lz_inv L"
  by (simp add: live_def)

lemma liveD: "live K L \<Longrightarrow> lz_inv L"
  by (simp add: live_def)

lemma keeps_live: "\<lbrakk> keeps L L'; live K L \<rbrakk> \<Longrightarrow> live K L'"
  by (auto simp: live_def intro: keeps_lz_inv) (auto simp: keeps_def intro: less_le_trans)

text \<open>What the \<open>on_close\<close> handler of socket \<open>k\<close> may do while \<open>k\<close> is being closed: anything the
  binding allows (open and close other sockets, for instance), but not close \<open>k\<close> itself. Nothing
  it can call opens a closed socket again.\<close>

definition handler_safe :: "('z, 'm) env \<Rightarrow> nat \<Rightarrow> bool" where
  "handler_safe E k \<longleftrightarrow> (\<forall>K L. live K L \<longrightarrow>
     (let L' = snd (call_lua E (registry L (zs_onclose_ref (zskts L k))) L)
      in live K L' \<and> keeps_skt k L L'))"

lemma keeps_keeps_skt: "keeps L L' \<Longrightarrow> keeps_skt k L L'"
  by (simp add: keeps_def keeps_skt_def)

lemma keeps_skt_trans: "\<lbrakk> keeps_skt k L1 L2; keeps_skt k L2 L3 \<rbrakk> \<Longrightarrow> keeps_skt k L1 L3"
  by (simp add: keeps_skt_def)

lemma pcall0_inv:
  assumes "handler_safe E k" "live K L" and f: "f = registry L (zs_onclose_ref (zskts L k))"
  shows "live K (lua_pcall0 E f L) \<and> keeps_skt k L (lua_pcall0 E f L)"
proof -
  let ?L0 = "L\<lparr>stk := []\<rparr>"
  have "live K ?L0" using assms(2) by (rule keeps_live [rotated]) simp
  with assms(1) have "live K (snd (call_lua E (registry ?L0 (zs_onclose_ref (zskts ?L0 k))) ?L0)) \<and>
      keeps_skt k ?L0 (snd (call_lua E (registry ?L0 (zs_onclose_ref (zskts ?L0 k))) ?L0))"
    unfolding handler_safe_def Let_def by blast
  then have h: "live K (snd (call_lua E f ?L0))" "keeps_skt k ?L0 (snd (call_lua E f ?L0))"
    by (simp_all add: f)
  have "keeps (snd (call_lua E f ?L0)) (lua_pcall0 E f L)"
    by (simp add: lua_pcall0_def split: prod.split)
  with h show ?thesis by (auto simp: keeps_def keeps_skt_def intro: keeps_live)
qed

lemma before_close_inv:
  assumes "handler_safe E k" "live K L"
  shows "live K (luazmq_skt_before_close E k L) \<and> keeps_skt k L (luazmq_skt_before_close E k L)"
proof -
  let ?L1 = "upd_skt k (\<lambda>s. s\<lparr>zs_ctx_ref := LUA_NOREF\<rparr>) (luaL_unref (zs_ctx_ref (zskts L k)) L)"
  let ?f = "registry ?L1 (zs_onclose_ref (zskts ?L1 k))"
  let ?L2 = "lua_pcall0 E ?f ?L1"
  let ?L3 = "upd_skt k (\<lambda>s. s\<lparr>zs_onclose_ref := LUA_NOREF\<rparr>)
               (luaL_unref (zs_onclose_ref (zskts ?L2 k)) ?L2)"
  have k1: "keeps L ?L1" by (rule keeps_upd_skt) simp_all
  then have i1: "live K ?L1" using assms(2) by (rule keeps_live)
  have i2: "live K ?L2 \<and> keeps_skt k ?L1 ?L2" by (rule pcall0_inv [OF assms(1) i1]) (rule refl)
  have k3: "keeps ?L2 ?L3" by (rule keeps_upd_skt) simp_all
  have "luazmq_skt_before_close E k L = ?L1 \<or> luazmq_skt_before_close E k L = ?L3"
    unfolding luazmq_skt_before_close_def Let_def
    by (cases "zs_onclose_ref (zskts ?L1 k) = LUA_NOREF") (simp_all only: if_True if_False simp_thms)
  moreover have "live K ?L3" using k3 conjunct1 [OF i2] by (rule keeps_live)
  moreover have "keeps_skt k L ?L3"
    using keeps_skt_trans [OF keeps_skt_trans [OF keeps_keeps_skt [OF k1] conjunct2 [OF i2]]
      keeps_keeps_skt [OF k3]] .
  ultimately show ?thesis using i1 keeps_keeps_skt [OF k1] by metis
qed

text \<open>The socket that is closed is one of those the counter counts, so the decrement is safe.\<close>

lemma finite_open_sockets: "counts_ok L \<Longrightarrow> finite (open_sockets L c)"
proof -
  assume "counts_ok L"
  then have "open_sockets L c \<subseteq> {..<next_udata L}"
    by (auto simp: counts_ok_def open_sockets_def open_in_def) (metis not_less option.distinct(1))
  then show ?thesis by (rule finite_subset) simp
qed

definition close_flag :: "nat \<Rightarrow> ('z, 'm) lua \<Rightarrow> ('z, 'm) lua" where
  "close_flag k L = upd_skt k (\<lambda>s. s\<lparr>zs_flags := set_flag (zs_flags s) LUAZMQ_FLAG_CLOSED\<rparr>) L"

lemma open_sockets_close:
  "open_sockets (close_flag k L) c = open_sockets L c - {k}"
  by (auto simp: close_flag_def open_sockets_def open_in_def)

lemma live_close_flag:
  "\<lbrakk> live K L; lz_inv (close_flag k L'); zskts L' = zskts L; next_udata L' = next_udata L \<rbrakk> \<Longrightarrow>
     live K (close_flag k L')"
  by (auto simp: live_def close_flag_def)

lemma dec_count_close:
  assumes inv: "live K L" and op: "open_in L c k"
  shows "\<exists>L'. dec_socket_count c L = Inr L' \<and> live K (close_flag k L')"
proof -
  let ?L' = "upd_ctx c (\<lambda>z. z\<lparr>zc_socket_count := zc_socket_count z - 1\<rparr>) L"
  have ok: "counts_ok L" using inv by (simp add: live_def lz_inv_def)
  have mem: "k \<in> open_sockets L c" using op by (simp add: open_sockets_def)
  have fin: "finite (open_sockets L d)" for d by (rule finite_open_sockets [OF ok])
  have pos: "1 \<le> card (open_sockets L c)" using mem fin by (metis One_nat_def Suc_leI card_gt_0_iff empty_iff)
  have count: "zc_socket_count (zctxs L d) = int (card (open_sockets L d))" for d
    using ok by (simp add: counts_ok_def)
  have "k \<notin> open_sockets L d" if "d \<noteq> c" for d
    using op that by (auto simp: open_sockets_def open_in_def)
  then have card: "int (card (open_sockets L d - {k})) = zc_socket_count (zctxs ?L' d)" for d
    using mem pos fin by (cases "d = c") (simp_all add: count card_Diff_singleton)
  have same: "open_sockets ?L' d = open_sockets L d" for d by (simp add: open_sockets_def open_in_def)
  have "counts_ok (close_flag k ?L')"
    using ok card by (simp add: counts_ok_def open_sockets_close same) (simp add: close_flag_def)
  moreover have "dec_socket_count c L = Inr ?L'"
    using pos by (simp add: dec_socket_count_def count)
  moreover have "\<not> has_flag (zs_flags (zskts (close_flag k ?L') j)) LUAZMQ_FLAG_CLOSE_ON_ETERM" for j
    using inv by (simp add: live_def lz_inv_def close_flag_def)
  ultimately have "lz_inv (close_flag k ?L')" by (simp add: lz_inv_def)
  from live_close_flag [OF inv this] show ?thesis using \<open>dec_socket_count c L = Inr ?L'\<close> by simp
qed

text \<open>In a good state, reporting an error only pushes values.\<close>

lemma inv_fail:
  "\<lbrakk> lz_inv L; keeps L L' \<rbrakk> \<Longrightarrow>
     luazmq_fail E sk L' = Inr (err_push E (zmq_errno E (zst L')) (push LNil L'))"
  by (rule luazmq_fail_plain, rule lz_inv_no_eterm, rule keeps_lz_inv)

lemma inv_fail_ret: "\<lbrakk> lz_inv L; keeps L L' \<rbrakk> \<Longrightarrow> final_state (keeps L) (fail_ret E sk L')"
  by (rule final_fail_ret, rule lz_inv_no_eterm, rule keeps_lz_inv)

lemma luaL_ref_fields [simp]:
  "zctxs (snd (luaL_ref L)) = zctxs L" "zskts (snd (luaL_ref L)) = zskts L"
  "next_udata (snd (luaL_ref L)) = next_udata L" "zst (snd (luaL_ref L)) = zst L"
  by (simp_all add: luaL_ref_def Let_def)

lemma keeps_luaL_ref [simp]: "keeps L (snd (luaL_ref L')) = keeps L L'"
  by (simp add: keeps_def)

lemma skt_simple_keep:
  assumes inv: "lz_inv L"
  shows "final_state (keeps L) (luazmq_skt_context L)" "final_state (keeps L) (luazmq_skt_handle L)"
    "final_state (keeps L) (luazmq_skt_reset_handle E L)" "final_state (keeps L) (luazmq_skt_on_close L)"
    "final_state (keeps L) (luazmq_skt_closed L)"
  by (auto simp: luazmq_skt_context_def luazmq_skt_handle_def luazmq_skt_reset_handle_def
      luazmq_skt_on_close_def luazmq_skt_closed_def Let_def case_prod_unfold
      split: sum.split lval.split if_splits intro!: keeps_upd_skt)

text \<open>A socket of no context is not counted.\<close>

lemma close_uncounted:
  assumes "live K L" "zs_ctx (zskts L k) = None"
  shows "live K (close_flag k L)"
proof -
  have "open_sockets L d - {k} = open_sockets L d" for d
    using assms(2) by (auto simp: open_sockets_def open_in_def)
  then have "counts_ok (close_flag k L)"
    using assms(1) by (simp add: live_def lz_inv_def counts_ok_def open_sockets_close) (simp add: close_flag_def)
  then have "lz_inv (close_flag k L)" using assms(1) by (simp add: live_def lz_inv_def close_flag_def)
  then show ?thesis using live_close_flag [OF assms(1)] by blast
qed

definition close_never_fails :: "('z, 'm) env \<Rightarrow> bool" where
  "close_never_fails E \<longleftrightarrow> (\<forall>s z. fst (zmq_close E s z) \<noteq> -1)"

lemma close_handle_ok:
  assumes "close_never_fails E"
  shows "\<exists>z. skt_close_handle E k L = Inr (L\<lparr>zst := z\<rparr>)"
proof (cases "has_flag (zs_flags (zskts L k)) LUAZMQ_FLAG_DONT_DESTROY")
  case True
  have "L\<lparr>zst := zst L\<rparr> = L" by simp
  then show ?thesis using True unfolding skt_close_handle_def by metis
next
  case False
  then show ?thesis using assms
    by (simp add: skt_close_handle_def close_never_fails_def case_prod_unfold Let_def split: option.split)
      blast
qed

lemma skt_destroy_inv:
  assumes arg: "lua_at L 1 = LUser USocket k" and inv: "live K L" and h: "handler_safe E k"
    and cl: "close_never_fails E"
  shows "\<exists>L'. luazmq_skt_destroy E L = Ret 1 L' \<and> results 1 L' = [LBool True] \<and> live K L' \<and>
           has_flag (zs_flags (zskts L' k)) LUAZMQ_FLAG_CLOSED"
proof (cases "has_flag (zs_flags (zskts L k)) LUAZMQ_FLAG_CLOSED")
  case True
  then show ?thesis using arg keeps_live [OF _ inv, of "push (LBool True) L"]
    by (simp add: luazmq_skt_destroy_def luazmq_pass_def)
next
  case False
  define B where "B = luazmq_skt_before_close E k L"
  have b: "live K B" "keeps_skt k L B" using before_close_inv [OF h inv] by (auto simp: B_def)
  obtain z' where z': "skt_close_handle E k B = Inr (B\<lparr>zst := z'\<rparr>)"
    using close_handle_ok [OF cl] by blast
  let ?Z = "B\<lparr>zst := z'\<rparr>"
  have inv': "live K ?Z" using b(1) by (rule keeps_live [rotated]) simp
  have out: "luazmq_skt_destroy E L =
      ub_bind (skt_uncount k ?Z) (\<lambda>L. luazmq_pass (close_flag k L))"
    using False arg by (simp add: luazmq_skt_destroy_def z' close_flag_def flip: B_def)
  show ?thesis
  proof (cases "zs_ctx (zskts B k)")
    case None
    then show ?thesis
      using close_uncounted [OF inv'] keeps_live [of "close_flag k ?Z" "push (LBool True) (close_flag k ?Z)"]
      by (simp add: out luazmq_pass_def skt_uncount_def) (simp add: close_flag_def)
  next
    case (Some c)
    then have "open_in ?Z c k" using False b(2) by (simp add: open_in_def keeps_skt_def)
    from dec_count_close [OF inv' this] obtain D where
      "dec_socket_count c ?Z = Inr D" "live K (close_flag k D)" by blast
    then show ?thesis
      using Some keeps_live [of "close_flag k D" "push (LBool True) (close_flag k D)"]
      by (simp add: out luazmq_pass_def skt_uncount_def) (simp add: close_flag_def)
  qed
qed

interpretation socket: closable USocket
    "\<lambda>L k. has_flag (zs_flags (zskts L k)) LUAZMQ_FLAG_CLOSED" "luazmq_skt_destroy E"
    luazmq_getsocket_at for E
proof unfold_locales
  fix L L' :: "('a, 'b) lua" and k n
  assume "lua_at L 1 = LUser USocket k" "luazmq_skt_destroy E L = Ret n L'"
  then show "has_flag (zs_flags (zskts L' k)) LUAZMQ_FLAG_CLOSED"
    by (cases "skt_close_handle E k (luazmq_skt_before_close E k L)")
      (auto simp: luazmq_skt_destroy_def luazmq_pass_def split: if_splits elim!: ub_bind.elims)
qed (auto simp: luazmq_skt_destroy_def luazmq_pass_def luazmq_getsocket_at_def)

text \<open>Once the handler has been called it is forgotten, and so is the reference to the context.\<close>

lemma before_close_refs:
  "zs_onclose_ref (zskts (luazmq_skt_before_close E k L) k) = LUA_NOREF"
  by (simp add: luazmq_skt_before_close_def Let_def)

text \<open>Without a handler, closing is: the linger period if one is given, \<open>zmq_close\<close> unless the
  socket is not owned, one socket less, closed.\<close>

lemma before_close_no_handler:
  assumes "zs_onclose_ref (zskts L k) = LUA_NOREF"
  shows "luazmq_skt_before_close E k L =
    upd_skt k (\<lambda>s. s\<lparr>zs_ctx_ref := LUA_NOREF\<rparr>) (luaL_unref (zs_ctx_ref (zskts L k)) L)"
  using assms by (simp add: luazmq_skt_before_close_def Let_def luaL_unref_def)

end
