(* ===== verification/ZMessage.thy ===== *)
theory ZMessage
  imports ZCore
begin

text \<open>
  \<open>zmsg.c\<close>: message objects. The message itself (\<open>zmq_msg_t\<close>) belongs to libzmq; what the
  lemmas need of it is collected in the predicate \<open>zmq_messages\<close>.
\<close>

subsection \<open>Copying bytes into a message\<close>

text \<open>\<open>memcpy((char*)zmq_msg_data(&msg) + pos, data, size)\<close>: undefined outside the message.\<close>

definition msg_memcpy :: "('z, 'm) env \<Rightarrow> 'm \<Rightarrow> int \<Rightarrow> string \<Rightarrow> 'm option" where
  "msg_memcpy E m pos d =
     (if d = [] then Some m
      else if 0 \<le> pos \<and> pos + int (length d) \<le> int (zmq_msg_size E m)
      then Some (zmq_msg_store E m (nat pos) d) else None)"

text \<open>The two loops of \<open>msg_init_data_multi\<close> and \<open>sendv\<close>: check \<open>n\<close> string arguments from
  position \<open>i\<close>, and copy strings one after the other.\<close>

fun check_strings :: "('z, 'm) env \<Rightarrow> ('z, 'm) lua \<Rightarrow> int \<Rightarrow> nat \<Rightarrow> lua_error + string list" where
  "check_strings E L i 0 = Inr []"
| "check_strings E L i (Suc n) = (case luaL_checklstring E L i of Inl e \<Rightarrow> Inl e
     | Inr s \<Rightarrow> (case check_strings E L (i + 1) n of Inl e \<Rightarrow> Inl e | Inr ss \<Rightarrow> Inr (s # ss)))"

fun msg_fill :: "('z, 'm) env \<Rightarrow> 'm \<Rightarrow> nat \<Rightarrow> string list \<Rightarrow> 'm option" where
  "msg_fill E m pos [] = Some m"
| "msg_fill E m pos (d # ds) = (case msg_memcpy E m (int pos) d of None \<Rightarrow> None
     | Some m' \<Rightarrow> msg_fill E m' (pos + length d) ds)"

definition total_size :: "string list \<Rightarrow> nat" where
  "total_size ss = sum_list (map length ss)"

subsection \<open>Creating messages\<close>

definition set_msg :: "nat \<Rightarrow> 'm \<Rightarrow> ('z, 'm) lua \<Rightarrow> ('z, 'm) lua" where
  "set_msg k m L = upd_msg k (\<lambda>z. z\<lparr>zm_msg := m\<rparr>) L"

definition new_message :: "('z, 'm) env \<Rightarrow> ('z, 'm) lua \<Rightarrow> nat \<times> ('z, 'm) lua" where
  "new_message E L = (let (k, L) = luazmq_newudata UMessage L in
     (k, upd_msg k (\<lambda>_. \<lparr>zm_msg = zmq_msg_zero E, zm_flags = 0\<rparr>) L))"

definition luazmq_msg_init :: "('z, 'm) env \<Rightarrow> ('z, 'm) lua \<Rightarrow> ('z, 'm) lua outcome" where
  "luazmq_msg_init E L =
     (let (k, L) = new_message E L; (err, m, z) = zmq_msg_init E (zst L);
          L = set_msg k m L\<lparr>zst := z\<rparr>
      in if err = -1 then fail_ret E None L else Ret 1 L)"

text \<open>A new message of a given size, then \<open>body\<close>.\<close>

definition init_sized ::
    "('z, 'm) env \<Rightarrow> nat \<Rightarrow> nat \<Rightarrow> ('z, 'm) lua \<Rightarrow> (('z, 'm) lua \<Rightarrow> ('z, 'm) lua outcome)
       \<Rightarrow> ('z, 'm) lua outcome" where
  "init_sized E k n L body =
     (let (err, m, z) = zmq_msg_init_size E n (zst L);
          L = set_msg k m L\<lparr>zst := z\<rparr>
      in if err = -1 then fail_ret E None L else body L)"

definition luazmq_msg_init_size :: "('z, 'm) env \<Rightarrow> ('z, 'm) lua \<Rightarrow> ('z, 'm) lua outcome" where
  "luazmq_msg_init_size E L =
     check (luaL_checkinteger E L 1) L (\<lambda>n.
       let (k, L) = new_message E L in init_sized E k (c_size_t n) L (Ret 1))"

definition luazmq_msg_init_data :: "('z, 'm) env \<Rightarrow> ('z, 'm) lua \<Rightarrow> ('z, 'm) lua outcome" where
  "luazmq_msg_init_data E L =
     (let (k, L) = new_message E L in
      check (luaL_checklstring E L 1) L (\<lambda>data.
      init_sized E k (length data) L (\<lambda>L.
      ub_check OutOfBounds (msg_memcpy E (zm_msg (zmsgs L k)) 0 data) (\<lambda>m. Ret 1 (set_msg k m L)))))"

definition luazmq_msg_init_data_multi :: "('z, 'm) env \<Rightarrow> ('z, 'm) lua \<Rightarrow> ('z, 'm) lua outcome" where
  "luazmq_msg_init_data_multi E L =
     check (check_strings E L 1 (lua_gettop L)) L (\<lambda>ss.
       if total_size ss = 0 then luazmq_msg_init E L
       else let (k, L) = new_message E L in
         init_sized E k (total_size ss) L (\<lambda>L.
         ub_check OutOfBounds (msg_fill E (zm_msg (zmsgs L k)) 0 ss) (\<lambda>m. Ret 1 (set_msg k m L))))"

text \<open>The copying loop of \<open>msg_init_data_array\<close>; the size was computed with \<open>lua_rawlen\<close>, the
  bytes come from \<open>luaL_checklstring\<close>, which also accepts numbers.\<close>

fun fill_array :: "('z, 'm) env \<Rightarrow> nat \<Rightarrow> nat \<Rightarrow> lval list \<Rightarrow> ('z, 'm) lua \<Rightarrow> ('z, 'm) lua outcome" where
  "fill_array E k pos [] L = Ret 1 L"
| "fill_array E k pos (v # vs) L =
     check (luaL_checklstring E (push v L) (-1)) (push v L) (\<lambda>d.
     ub_check OutOfBounds (msg_memcpy E (zm_msg (zmsgs L k)) (int pos) d) (\<lambda>m.
       fill_array E k (pos + length d) vs (set_msg k m L)))"

text \<open>The values \<open>lua_rawgeti(L, 1, i)\<close> for \<open>i\<close> from 1 to \<open>lua_rawlen(L, 1)\<close>.\<close>

definition raw_elements :: "('z, 'm) env \<Rightarrow> lval \<Rightarrow> lval list option" where
  "raw_elements E v = (let n = rawlen E v in
     if n = 0 then Some [] else those (map (\<lambda>i. rawgeti v (int i)) [1..<Suc n]))"

definition luazmq_msg_init_data_array :: "('z, 'm) env \<Rightarrow> ('z, 'm) lua \<Rightarrow> ('z, 'm) lua outcome" where
  "luazmq_msg_init_data_array E L =
     ub_check BadCast (raw_elements E (lua_at L 1)) (\<lambda>vs.
      let sz = sum_list (map (rawlen E) vs) in
      if sz = 0 then luazmq_msg_init E L
      else let (k, L) = new_message E L in
        init_sized E k sz L (fill_array E k 0 vs))"

subsection \<open>Methods\<close>

definition luazmq_msg_close :: "('z, 'm) env \<Rightarrow> ('z, 'm) lua \<Rightarrow> ('z, 'm) lua outcome" where
  "luazmq_msg_close E L =
     check (luazmq_checkudatap L 1 UMessage) L (\<lambda>k.
       if has_flag (zm_flags (zmsgs L k)) LUAZMQ_FLAG_CLOSED then luazmq_pass L
       else let (_, m, z) = zmq_msg_close E (zm_msg (zmsgs L k)) (zst L) in
         luazmq_pass (upd_msg k (\<lambda>g. g\<lparr>zm_msg := m,
           zm_flags := set_flag (zm_flags g) LUAZMQ_FLAG_CLOSED\<rparr>) (L\<lparr>zst := z\<rparr>)))"

definition luazmq_msg_closed :: "('z, 'm) lua \<Rightarrow> ('z, 'm) lua outcome" where
  "luazmq_msg_closed L =
     check (luazmq_checkudatap L 1 UMessage) L (\<lambda>k.
       Ret 1 (pushboolean (has_flag (zm_flags (zmsgs L k)) LUAZMQ_FLAG_CLOSED) L))"

text \<open>\<open>move\<close> and \<open>copy\<close> share their code; \<open>op\<close> is the function of libzmq.\<close>

definition move_or_copy ::
    "('z, 'm) env \<Rightarrow> (bool \<Rightarrow> 'm \<Rightarrow> 'm \<Rightarrow> 'z \<Rightarrow> int \<times> 'm \<times> 'm \<times> 'z) \<Rightarrow> nat \<Rightarrow> nat
       \<Rightarrow> ('z, 'm) lua \<Rightarrow> ('z, 'm) lua outcome" where
  "move_or_copy E op dst src L =
     (let (err, d, s, z) = op (dst = src) (zm_msg (zmsgs L dst)) (zm_msg (zmsgs L src)) (zst L);
          L = set_msg dst d (set_msg src s L)\<lparr>zst := z\<rparr>
      in if err = -1 then fail_ret E None L else Ret 1 L)"

definition msg_transfer ::
    "('z, 'm) env \<Rightarrow> (bool \<Rightarrow> 'm \<Rightarrow> 'm \<Rightarrow> 'z \<Rightarrow> int \<times> 'm \<times> 'm \<times> 'z) \<Rightarrow> ('z, 'm) lua
       \<Rightarrow> ('z, 'm) lua outcome" where
  "msg_transfer E op L =
     (if lua_gettop L = 1 then
        check (luazmq_getmessage_at L 1) L (\<lambda>src.
          let (dst, L) = new_message E L; (err, m, z) = zmq_msg_init E (zst L);
              L = set_msg dst m L\<lparr>zst := z\<rparr>
          in if err = -1 then fail_ret E None L else move_or_copy E op dst src L)
      else
        check (luazmq_getmessage_at L 1) L (\<lambda>dst.
        check (luazmq_getmessage_at L 2) L (\<lambda>src.
          move_or_copy E op dst src (lua_pushvalue 1 L))))"

definition luazmq_msg_move :: "('z, 'm) env \<Rightarrow> ('z, 'm) lua \<Rightarrow> ('z, 'm) lua outcome" where
  "luazmq_msg_move E = msg_transfer E (zmq_msg_move E)"

definition luazmq_msg_copy :: "('z, 'm) env \<Rightarrow> ('z, 'm) lua \<Rightarrow> ('z, 'm) lua outcome" where
  "luazmq_msg_copy E = msg_transfer E (zmq_msg_copy E)"

definition luazmq_msg_size :: "('z, 'm) env \<Rightarrow> ('z, 'm) lua \<Rightarrow> ('z, 'm) lua outcome" where
  "luazmq_msg_size E L =
     check (luazmq_getmessage_at L 1) L (\<lambda>k.
       Ret 1 (pushnumber (int (zmq_msg_size E (zm_msg (zmsgs L k)))) L))"

definition luazmq_msg_data :: "('z, 'm) env \<Rightarrow> ('z, 'm) lua \<Rightarrow> ('z, 'm) lua outcome" where
  "luazmq_msg_data E L =
     check (luazmq_getmessage_at L 1) L (\<lambda>k.
       Ret 1 (push (LStr (take (zmq_msg_size E (zm_msg (zmsgs L k)))
         (zmq_msg_data E (zm_msg (zmsgs L k))))) L))"

definition luazmq_msg_pointer :: "('z, 'm) env \<Rightarrow> ('z, 'm) lua \<Rightarrow> ('z, 'm) lua outcome" where
  "luazmq_msg_pointer E L =
     check (luazmq_getmessage_at L 1) L (\<lambda>k.
       Ret 1 (push (LLight (zmq_msg_ptr E (zm_msg (zmsgs L k)))) L))"

text \<open>Replace message \<open>k\<close> by a new one of \<open>n\<close> bytes that starts with the first \<open>keep\<close> bytes
  of the old one: the common part of \<open>set_data\<close> and \<open>set_size\<close>.\<close>

definition msg_resize ::
    "('z, 'm) env \<Rightarrow> nat \<Rightarrow> nat \<Rightarrow> nat \<Rightarrow> ('z, 'm) lua \<Rightarrow> (('z, 'm) lua \<Rightarrow> ('z, 'm) lua outcome)
       \<Rightarrow> ('z, 'm) lua outcome" where
  "msg_resize E k n keep L body =
     (let (err, m, z) = zmq_msg_init_size E n (zst L); L = L\<lparr>zst := z\<rparr> in
      if err = -1 then fail_ret E None L
      else ub_check OutOfBounds (msg_memcpy E m 0 (take keep (zmq_msg_data E (zm_msg (zmsgs L k))))) (\<lambda>m.
        let (err, d, m, z) = zmq_msg_move E False (zm_msg (zmsgs L k)) m (zst L);
            (_, _, z) = zmq_msg_close E m z;
            L = set_msg k d L\<lparr>zst := z\<rparr>
        in if err = -1 then fail_ret E None L else body L))"

definition luazmq_msg_set_data :: "('z, 'm) env \<Rightarrow> ('z, 'm) lua \<Rightarrow> ('z, 'm) lua outcome" where
  "luazmq_msg_set_data E L =
     check (luazmq_getmessage_at L 1) L (\<lambda>k.
     check (if 3 \<le> lua_gettop L then luaL_optint E L 2 1 else Inr 1) L (\<lambda>start_pos.
     check (luaL_checklstring E L (if 3 \<le> lua_gettop L then 3 else 2)) L (\<lambda>data.
     check (argcheck (0 \<le> start_pos) 2 ''can not be negative or zero'') L (\<lambda>_.
       let start_pos = start_pos - 1;
           end_pos = c_size_t (start_pos + int (length data));
           osize = zmq_msg_size E (zm_msg (zmsgs L k));
           store = (\<lambda>L. ub_check OutOfBounds (msg_memcpy E (zm_msg (zmsgs L k)) start_pos data)
                      (\<lambda>m. luazmq_pass (set_msg k m L)))
       in if osize < end_pos then msg_resize E k end_pos osize L store else store L))))"

definition luazmq_msg_set_size :: "('z, 'm) env \<Rightarrow> ('z, 'm) lua \<Rightarrow> ('z, 'm) lua outcome" where
  "luazmq_msg_set_size E L =
     check (luazmq_getmessage_at L 1) L (\<lambda>k.
     check (luaL_checkinteger E L 2) L (\<lambda>n.
       let nsize = c_size_t n; osize = zmq_msg_size E (zm_msg (zmsgs L k))
       in if nsize = osize then luazmq_pass L
          else msg_resize E k nsize (if osize < nsize then osize else nsize) L luazmq_pass))"

definition luazmq_msg_more :: "('z, 'm) env \<Rightarrow> ('z, 'm) lua \<Rightarrow> ('z, 'm) lua outcome" where
  "luazmq_msg_more E L =
     check (luazmq_getmessage_at L 1) L (\<lambda>k.
       Ret 1 (pushboolean (zmq_msg_more E (zm_msg (zmsgs L k))) L))"

text \<open>\<open>get\<close> and \<open>set\<close> read the option from position 1, where the message is.\<close>

definition luazmq_msg_get :: "('z, 'm) env \<Rightarrow> ('z, 'm) lua \<Rightarrow> ('z, 'm) lua outcome" where
  "luazmq_msg_get E L =
     check (luazmq_getmessage_at L 1) L (\<lambda>k.
     check (luaL_checkinteger E L 1) L (\<lambda>optname.
       let (err, z) = zmq_msg_get E (zm_msg (zmsgs L k)) (c_int optname) (zst L); L = L\<lparr>zst := z\<rparr>
       in if err = -1 then fail_ret E None L else Ret 1 (pushinteger err L)))"

definition luazmq_msg_gets :: "('z, 'm) env \<Rightarrow> ('z, 'm) lua \<Rightarrow> ('z, 'm) lua outcome" where
  "luazmq_msg_gets E L =
     check (luazmq_getmessage_at L 1) L (\<lambda>k.
     check (luaL_checkstring E L 2) L (\<lambda>optname.
       let (value, z) = zmq_msg_gets E (zm_msg (zmsgs L k)) optname (zst L); L = L\<lparr>zst := z\<rparr>
       in case value of None \<Rightarrow> fail_ret E None L | Some v \<Rightarrow> Ret 1 (push (LStr (c_str v)) L)))"

definition luazmq_msg_set :: "('z, 'm) env \<Rightarrow> ('z, 'm) lua \<Rightarrow> ('z, 'm) lua outcome" where
  "luazmq_msg_set E L =
     check (luazmq_getmessage_at L 1) L (\<lambda>k.
     check (luaL_checkinteger E L 1) L (\<lambda>optname.
     check (luaL_checkinteger E L 2) L (\<lambda>optval.
       let (err, m, z) = zmq_msg_set E (zm_msg (zmsgs L k)) (c_int optname) (c_int optval) (zst L);
           L = set_msg k m L\<lparr>zst := z\<rparr>
       in if err = -1 then fail_ret E None L else luazmq_pass L)))"

definition luazmq_msg_send :: "('z, 'm) env \<Rightarrow> ('z, 'm) lua \<Rightarrow> ('z, 'm) lua outcome" where
  "luazmq_msg_send E L =
     check (luazmq_getmessage_at L 1) L (\<lambda>k.
     check (luazmq_getsocket_at L 2) L (\<lambda>s.
     check (luaL_optint E L 3 0) L (\<lambda>flags.
       let (err, m, z) = zmq_msg_send E (zm_msg (zmsgs L k)) (zs_skt (zskts L s)) flags (zst L);
           L = set_msg k m L\<lparr>zst := z\<rparr>
       in if err = -1 then fail_ret E (Some s) L else luazmq_pass L)))"

definition luazmq_msg_send_more :: "('z, 'm) env \<Rightarrow> ('z, 'm) lua \<Rightarrow> ('z, 'm) lua outcome" where
  "luazmq_msg_send_more E L =
     check (luaL_optint E L 3 0) L (\<lambda>flags.
       luazmq_msg_send E (pushinteger (flags OR macro E ''ZMQ_SNDMORE'') (lua_settop 2 L)))"

definition luazmq_msg_recv :: "('z, 'm) env \<Rightarrow> ('z, 'm) lua \<Rightarrow> ('z, 'm) lua outcome" where
  "luazmq_msg_recv E L =
     check (luazmq_getmessage_at L 1) L (\<lambda>k.
     check (luazmq_getsocket_at L 2) L (\<lambda>s.
     check (luaL_optint E L 3 0) L (\<lambda>flags.
       let (err, m, z) = zmq_msg_recv E (zm_msg (zmsgs L k)) (zs_skt (zskts L s)) flags (zst L);
           L = set_msg k m L\<lparr>zst := z\<rparr>
       in if err = -1 then fail_ret E (Some s) L
          else Ret 2 (pushboolean (zmq_msg_more E m) (lua_settop 1 L)))))"

definition luazmq_msg_get_opt :: "('z, 'm) env \<Rightarrow> string \<Rightarrow> ('z, 'm) lua \<Rightarrow> ('z, 'm) lua outcome" where
  "luazmq_msg_get_opt E optname L = luazmq_msg_get E (pushinteger (macro E optname) L)"

definition luazmq_msg_methods ::
    "('z, 'm) env \<Rightarrow> (string \<times> (('z, 'm) lua \<Rightarrow> ('z, 'm) lua outcome)) list" where
  "luazmq_msg_methods E = [
     (''close'', luazmq_msg_close E), (''closed'', luazmq_msg_closed),
     (''move'', luazmq_msg_move E), (''copy'', luazmq_msg_copy E),
     (''size'', luazmq_msg_size E), (''set_size'', luazmq_msg_set_size E),
     (''pointer'', luazmq_msg_pointer E), (''data'', luazmq_msg_data E),
     (''set_data'', luazmq_msg_set_data E), (''more'', luazmq_msg_more E),
     (''get'', luazmq_msg_get E), (''gets'', luazmq_msg_gets E), (''set'', luazmq_msg_set E),
     (''send'', luazmq_msg_send E), (''send_more'', luazmq_msg_send_more E),
     (''recv'', luazmq_msg_recv E), (''__tostring'', luazmq_msg_data E), (''__gc'', luazmq_msg_close E),
     (''srcfd'', luazmq_msg_get_opt E ''ZMQ_SRCFD''), (''get_srcfd'', luazmq_msg_get_opt E ''ZMQ_SRCFD''),
     (''shared'', luazmq_msg_get_opt E ''ZMQ_SHARED''), (''get_shared'', luazmq_msg_get_opt E ''ZMQ_SHARED'')]"

definition msg_options :: "('z, 'm) env \<Rightarrow> (string \<times> int) list" where
  "msg_options E = map (\<lambda>n. (n, macro E (''ZMQ_'' @ n))) [''MORE'', ''SRCFD'', ''SHARED'']"

interpretation message: closable UMessage
    "\<lambda>L k. has_flag (zm_flags (zmsgs L k)) LUAZMQ_FLAG_CLOSED" "luazmq_msg_close E"
    luazmq_getmessage_at for E
  by unfold_locales
    (auto simp: luazmq_msg_close_def luazmq_pass_def luazmq_getmessage_at_def Let_def
      split: if_splits prod.splits)

subsection \<open>What libzmq promises about messages\<close>

definition zmq_messages :: "('z, 'm) env \<Rightarrow> bool" where
  "zmq_messages E \<longleftrightarrow>
     (\<forall>m. length (zmq_msg_data E m) = zmq_msg_size E m) \<and>
     (\<forall>z. zmq_msg_size E (fst (snd (zmq_msg_init E z))) = 0) \<and>
     (\<forall>n z. zmq_msg_size E (fst (snd (zmq_msg_init_size E n z))) = n) \<and>
     (\<forall>m i d. i + length d \<le> zmq_msg_size E m \<longrightarrow>
        zmq_msg_data E (zmq_msg_store E m i d) =
          take i (zmq_msg_data E m) @ d @ drop (i + length d) (zmq_msg_data E m)) \<and>
     (\<forall>d s z. zmq_msg_data E (fst (snd (zmq_msg_move E False d s z))) = zmq_msg_data E s \<and>
        zmq_msg_data E (fst (snd (snd (zmq_msg_move E False d s z)))) = []) \<and>
     (\<forall>d s z. zmq_msg_data E (fst (snd (zmq_msg_copy E False d s z))) = zmq_msg_data E s \<and>
        zmq_msg_data E (fst (snd (snd (zmq_msg_copy E False d s z)))) = zmq_msg_data E s)"

text \<open>Memory is available: none of these calls fails.\<close>

definition messages_available :: "('z, 'm) env \<Rightarrow> bool" where
  "messages_available E \<longleftrightarrow>
     (\<forall>z. fst (zmq_msg_init E z) \<noteq> -1) \<and> (\<forall>n z. fst (zmq_msg_init_size E n z) \<noteq> -1) \<and>
     (\<forall>d s z. fst (zmq_msg_move E False d s z) \<noteq> -1) \<and> (\<forall>d s z. fst (zmq_msg_copy E False d s z) \<noteq> -1)"

text \<open>The library of the witnesses keeps these promises.\<close>

lemma stub_messages: "zmq_messages stub_env" "messages_available stub_env"
  by (simp_all add: zmq_messages_def messages_available_def stub_store_def)

lemma zmq_messages_data_length: "zmq_messages E \<Longrightarrow> length (zmq_msg_data E m) = zmq_msg_size E m"
  by (simp add: zmq_messages_def)

lemma zmq_messages_init_size: "zmq_messages E \<Longrightarrow> zmq_msg_init_size E n z = (r, m, z') \<Longrightarrow> zmq_msg_size E m = n"
  unfolding zmq_messages_def by (metis fst_conv snd_conv)

lemma zmq_messages_init: "zmq_messages E \<Longrightarrow> zmq_msg_init E z = (r, m, z') \<Longrightarrow> zmq_msg_data E m = []"
  unfolding zmq_messages_def by (metis fst_conv snd_conv length_0_conv)

lemma zmq_messages_store:
  "\<lbrakk> zmq_messages E; i + length d \<le> zmq_msg_size E m \<rbrakk> \<Longrightarrow> zmq_msg_data E (zmq_msg_store E m i d) =
     take i (zmq_msg_data E m) @ d @ drop (i + length d) (zmq_msg_data E m)"
  unfolding zmq_messages_def by metis

lemma zmq_messages_move:
  "\<lbrakk> zmq_messages E; zmq_msg_move E False d s z = (r, d', s', z') \<rbrakk> \<Longrightarrow>
     zmq_msg_data E d' = zmq_msg_data E s \<and> zmq_msg_data E s' = []"
  unfolding zmq_messages_def by (metis fst_conv snd_conv)

lemma zmq_messages_copy:
  "\<lbrakk> zmq_messages E; zmq_msg_copy E False d s z = (r, d', s', z') \<rbrakk> \<Longrightarrow>
     zmq_msg_data E d' = zmq_msg_data E s \<and> zmq_msg_data E s' = zmq_msg_data E s"
  unfolding zmq_messages_def by (metis fst_conv snd_conv)

lemma available_init_size:
  "\<lbrakk> messages_available E; zmq_msg_init_size E n z = (r, m, z') \<rbrakk> \<Longrightarrow> r \<noteq> -1"
  unfolding messages_available_def by (metis fst_conv)

lemma available_init: "\<lbrakk> messages_available E; zmq_msg_init E z = (r, m, z') \<rbrakk> \<Longrightarrow> r \<noteq> -1"
  unfolding messages_available_def by (metis fst_conv)

lemma available_move:
  "\<lbrakk> messages_available E; zmq_msg_move E False d s z = (r, d', s', z') \<rbrakk> \<Longrightarrow> r \<noteq> -1"
  unfolding messages_available_def by (metis fst_conv)

lemma available_copy:
  "\<lbrakk> messages_available E; zmq_msg_copy E False d s z = (r, d', s', z') \<rbrakk> \<Longrightarrow> r \<noteq> -1"
  unfolding messages_available_def by (metis fst_conv)

subsection \<open>Bytes\<close>

lemma msg_memcpy_data:
  assumes "zmq_messages E" "i + length d \<le> zmq_msg_size E m"
  shows "\<exists>m'. msg_memcpy E m (int i) d = Some m' \<and> zmq_msg_size E m' = zmq_msg_size E m \<and>
    zmq_msg_data E m' = take i (zmq_msg_data E m) @ d @ drop (i + length d) (zmq_msg_data E m)"
proof (cases "d = []")
  case False
  have "zmq_msg_size E (zmq_msg_store E m i d) = zmq_msg_size E m"
    using zmq_messages_store [OF assms] assms(2) zmq_messages_data_length [OF assms(1), of m]
      zmq_messages_data_length [OF assms(1), of "zmq_msg_store E m i d"] by simp
  with False zmq_messages_store [OF assms] assms(2) show ?thesis by (simp add: msg_memcpy_def)
qed (simp add: msg_memcpy_def)

lemma msg_fill_data:
  assumes "zmq_messages E" "i + total_size ss \<le> zmq_msg_size E m"
  shows "\<exists>m'. msg_fill E m i ss = Some m' \<and> zmq_msg_data E m' =
    take i (zmq_msg_data E m) @ concat ss @ drop (i + total_size ss) (zmq_msg_data E m)"
  using assms(2)
proof (induction ss arbitrary: i m)
  case (Cons d ds)
  have "i + length d \<le> zmq_msg_size E m" using Cons.prems by (simp add: total_size_def)
  from msg_memcpy_data [OF assms(1) this] obtain m1 where
    m1: "msg_memcpy E m (int i) d = Some m1" "zmq_msg_size E m1 = zmq_msg_size E m"
      "zmq_msg_data E m1 = take i (zmq_msg_data E m) @ d @ drop (i + length d) (zmq_msg_data E m)"
    by blast
  have "(i + length d) + total_size ds \<le> zmq_msg_size E m1" using Cons.prems m1(2) by (simp add: total_size_def)
  from Cons.IH [OF this] obtain m2 where
    m2: "msg_fill E m1 (i + length d) ds = Some m2"
      "zmq_msg_data E m2 = take (i + length d) (zmq_msg_data E m1) @ concat ds @
         drop (i + length d + total_size ds) (zmq_msg_data E m1)" by blast
  have len: "length (take i (zmq_msg_data E m)) = i"
    using Cons.prems zmq_messages_data_length [OF assms(1), of m] by simp
  then have "take (i + length d) (zmq_msg_data E m1) = take i (zmq_msg_data E m) @ d"
    by (simp add: m1(3))
  moreover have "drop (i + length d + total_size ds) (zmq_msg_data E m1) =
      drop (i + total_size (d # ds)) (zmq_msg_data E m)"
    using len by (simp add: m1(3) total_size_def ac_simps)
  ultimately show ?case using m1(1) m2 by simp
qed (simp add: total_size_def)

lemma check_strings_all:
  "stk L = pre @ map LStr ss @ post \<Longrightarrow>
     check_strings E L (int (length pre) + 1) (length ss) = Inr ss"
proof (induction ss arbitrary: pre)
  case (Cons s ss)
  have "lua_at L (int (length pre) + 1) = LStr s" using Cons.prems by (simp add: lua_at_pos nth_append)
  moreover have "check_strings E L (int (length (pre @ [LStr s])) + 1) (length ss) = Inr ss"
    using Cons.prems by (intro Cons.IH) simp
  ultimately show ?case by (simp add: checklstring_str add.commute)
qed simp

definition msg_bytes :: "('z, 'm) env \<Rightarrow> ('z, 'm) lua \<Rightarrow> nat \<Rightarrow> string" where
  "msg_bytes E L k = zmq_msg_data E (zm_msg (zmsgs L k))"

definition msg_open :: "('z, 'm) lua \<Rightarrow> nat \<Rightarrow> bool" where
  "msg_open L k \<longleftrightarrow> \<not> has_flag (zm_flags (zmsgs L k)) LUAZMQ_FLAG_CLOSED"

subsection \<open>What the methods do to the bytes\<close>

lemma lua_at_push_str: "lua_at L 1 = LStr s \<Longrightarrow> lua_at (push v L) 1 = LStr s"
  by (cases "stk L") (auto simp: lua_at_pos)

lemma new_message_fields [simp]:
  "fst (new_message E L) = next_udata L"
  "stk (snd (new_message E L)) = stk L @ [LUser UMessage (next_udata L)]"
  "zst (snd (new_message E L)) = zst L"
  "zm_flags (zmsgs (snd (new_message E L)) (next_udata L)) = 0"
  "k \<noteq> next_udata L \<Longrightarrow> zmsgs (snd (new_message E L)) k = zmsgs L k"
  "zctxs (snd (new_message E L)) = zctxs L" "zskts (snd (new_message E L)) = zskts L"
  "next_udata (snd (new_message E L)) = Suc (next_udata L)"
  by (simp_all add: new_message_def luazmq_newudata_def Let_def)

lemma set_msg_fields [simp]:
  "zm_msg (zmsgs (set_msg k m L) k) = m" "zm_flags (zmsgs (set_msg k m L) j) = zm_flags (zmsgs L j)"
  "j \<noteq> k \<Longrightarrow> zmsgs (set_msg k m L) j = zmsgs L j"
  "stk (set_msg k m L) = stk L" "lua_at (set_msg k m L) i = lua_at L i" "zst (set_msg k m L) = zst L"
  "zctxs (set_msg k m L) = zctxs L" "zskts (set_msg k m L) = zskts L"
  "next_udata (set_msg k m L) = next_udata L"
  by (simp_all add: set_msg_def upd_msg_def)

lemma keeps_set_msg [simp]: "keeps L (set_msg k m L') = keeps L L'"
  by (simp add: set_msg_def)

lemma init_sized_ok:
  assumes "messages_available E" "zmq_msg_init_size E n (zst L) = (r, m, z)"
  shows "init_sized E k n L body = body (set_msg k m L\<lparr>zst := z\<rparr>)"
  using assms available_init_size [OF assms] by (simp add: init_sized_def)

lemma msg_init_data_bytes:
  assumes laws: "zmq_messages E" "messages_available E" and arg: "lua_at L 1 = LStr s"
  shows "\<exists>L'. luazmq_msg_init_data E L = Ret 1 L' \<and> results 1 L' = [LUser UMessage (next_udata L)] \<and>
    msg_bytes E L' (next_udata L) = s \<and> msg_open L' (next_udata L)"
proof -
  obtain r m z where i: "zmq_msg_init_size E (length s) (zst L) = (r, m, z)" by (metis surj_pair)
  obtain kL where n: "new_message E L = kL" and k: "fst kL = next_udata L" by (metis new_message_fields(1))
  let ?L = "snd kL"
  have a: "lua_at ?L 1 = LStr s"
    using arg n by (simp add: new_message_def luazmq_newudata_def Let_def lua_at_push_str flip: n)
  obtain m' where m': "msg_memcpy E m 0 s = Some m'" "zmq_msg_data E m' = s"
    using msg_memcpy_data [OF laws(1), of 0 s m] zmq_messages_init_size [OF laws(1) i]
      zmq_messages_data_length [OF laws(1), of m] by auto
  have "zst ?L = zst L" by (simp flip: n)
  then have "luazmq_msg_init_data E L = Ret 1 (set_msg (next_udata L) m' (set_msg (next_udata L) m ?L\<lparr>zst := z\<rparr>))"
    using init_sized_ok [OF laws(2), of "length s" ?L r m z] i m'(1) k
    by (simp add: luazmq_msg_init_data_def n case_prod_unfold checklstring_str [OF a])
  then show ?thesis
    using m'(2) by (simp add: msg_bytes_def msg_open_def results_def flip: n)
qed

text \<open>C33: a message made from a string gives the string back, zero bytes included:
  \<open>msg_init_data(s):data()\<close> is \<open>s\<close>.\<close>

theorem msg_data_roundtrip:
  assumes laws: "zmq_messages E" "messages_available E" and arg: "lua_at L 1 = LStr s"
  shows "\<exists>L' k. luazmq_msg_init_data E L = Ret 1 L' \<and> results 1 L' = [LUser UMessage k] \<and>
    luazmq_msg_data E (L'\<lparr>stk := [LUser UMessage k]\<rparr>) =
      Ret 1 (push (LStr s) (L'\<lparr>stk := [LUser UMessage k]\<rparr>))"
proof -
  obtain L' where L': "luazmq_msg_init_data E L = Ret 1 L'" "results 1 L' = [LUser UMessage (next_udata L)]"
      "msg_bytes E L' (next_udata L) = s" "msg_open L' (next_udata L)"
    using msg_init_data_bytes [OF assms] by blast
  have "luazmq_getmessage_at (L'\<lparr>stk := [LUser UMessage (next_udata L)]\<rparr>) 1 = Inr (next_udata L)"
    using L'(4) by (simp add: getmessage_Inr lua_at_args msg_open_def)
  then show ?thesis using L' zmq_messages_data_length [OF laws(1)]
    by (intro exI [of _ L'] exI [of _ "next_udata L"]) (simp add: luazmq_msg_data_def msg_bytes_def)
qed

theorem msg_data_roundtrip_witness:
  "\<exists>L' k. luazmq_msg_init_data stub_env (demo_state [LStr ''a'']) = Ret 1 L' \<and>
     luazmq_msg_data stub_env (L'\<lparr>stk := [LUser UMessage k]\<rparr>) =
       Ret 1 (push (LStr ''a'') (L'\<lparr>stk := [LUser UMessage k]\<rparr>))"
  using msg_data_roundtrip [OF stub_messages, of "demo_state [LStr ''a'']" "''a''"]
  by (auto simp: lua_at_args)

text \<open>C34: the strings given to \<open>msg_init_data_multi\<close> follow one another in the new message, in
  their order; no arguments, or only empty strings, make an empty message.\<close>

theorem msg_init_data_multi_bytes:
  assumes laws: "zmq_messages E" "messages_available E" and args: "stk L = map LStr ss"
  shows "\<exists>L'. luazmq_msg_init_data_multi E L = Ret 1 L' \<and>
    results 1 L' = [LUser UMessage (next_udata L)] \<and>
    msg_bytes E L' (next_udata L) = concat ss \<and> msg_open L' (next_udata L)"
proof -
  have cs: "check_strings E L 1 (lua_gettop L) = Inr ss"
    using check_strings_all [of L "[]" ss "[]"] args by (simp add: lua_gettop_def)
  show ?thesis
  proof (cases "total_size ss = 0")
    case True
    obtain r m z where i: "zmq_msg_init E (zst L) = (r, m, z)" by (metis surj_pair)
    have "concat ss = []" using True by (simp add: total_size_def)
    then show ?thesis
      using cs True i available_init [OF laws(2) i] zmq_messages_init [OF laws(1) i]
      by (simp add: luazmq_msg_init_data_multi_def luazmq_msg_init_def case_prod_unfold msg_bytes_def
          msg_open_def results_def Let_def)
  next
    case False
    obtain r m z where i: "zmq_msg_init_size E (total_size ss) (zst L) = (r, m, z)" by (metis surj_pair)
    obtain m' where m': "msg_fill E m 0 ss = Some m'" "zmq_msg_data E m' = concat ss"
      using msg_fill_data [OF laws(1), of 0 ss m] zmq_messages_init_size [OF laws(1) i]
        zmq_messages_data_length [OF laws(1), of m] by auto
    let ?L = "snd (new_message E L)"
    have "luazmq_msg_init_data_multi E L =
        Ret 1 (set_msg (next_udata L) m' (set_msg (next_udata L) m ?L\<lparr>zst := z\<rparr>))"
      using init_sized_ok [OF laws(2), of "total_size ss" ?L r m z] i m'(1) False cs
      by (simp add: luazmq_msg_init_data_multi_def case_prod_unfold)
    then show ?thesis using m'(2) by (simp add: msg_bytes_def msg_open_def results_def)
  qed
qed

theorem msg_init_data_multi_bytes_witness:
  "\<exists>L'. luazmq_msg_init_data_multi stub_env (demo_state [LStr ''ab'', LStr [], LStr ''c'']) = Ret 1 L' \<and>
     msg_bytes stub_env L' 10 = ''abc''"
  using msg_init_data_multi_bytes [OF stub_messages, of "demo_state [LStr ''ab'', LStr [], LStr ''c'']"
      "[''ab'', [], ''c'']"] by auto

lemma fill_array_strings:
  assumes "zmq_messages E" "i + total_size ss \<le> zmq_msg_size E (zm_msg (zmsgs L k))"
  shows "\<exists>m. fill_array E k i (map LStr ss) L = Ret 1 (set_msg k m L) \<and>
    msg_fill E (zm_msg (zmsgs L k)) i ss = Some m"
  using assms(2)
proof (induction ss arbitrary: i L)
  case Nil
  have "set_msg k (zm_msg (zmsgs L k)) L = L" by (simp add: set_msg_def upd_msg_def)
  then show ?case by simp
next
  case (Cons d ds)
  have "i + length d \<le> zmq_msg_size E (zm_msg (zmsgs L k))" using Cons.prems by (simp add: total_size_def)
  from msg_memcpy_data [OF assms(1) this] obtain m1 where
    m1: "msg_memcpy E (zm_msg (zmsgs L k)) (int i) d = Some m1"
      "zmq_msg_size E m1 = zmq_msg_size E (zm_msg (zmsgs L k))" by blast
  have "(i + length d) + total_size ds \<le> zmq_msg_size E (zm_msg (zmsgs (set_msg k m1 L) k))"
    using Cons.prems m1(2) by (simp add: total_size_def)
  from Cons.IH [OF this] m1(1) show ?case
    by (auto simp: checklstring_str set_msg_def upd_msg_def)
qed

lemma those_Some: "those (map Some xs) = Some xs"
  by (induction xs) auto

lemma raw_elements_table [simp]: "raw_elements E (LTable xs h) = Some xs"
proof -
  have "map (\<lambda>i. rawgeti (LTable xs h) (int i)) [1..<Suc (length xs)] = map Some xs"
    by (rule nth_equalityI) (auto simp del: upt_Suc)
  then show ?thesis by (simp add: raw_elements_def those_Some del: rawgeti.simps upt_Suc)
qed

text \<open>\<open>msg_init_data_array\<close> makes the message that \<open>msg_init_data_multi\<close> makes, from a table of strings.\<close>

theorem msg_init_data_array_bytes:
  assumes laws: "zmq_messages E" "messages_available E"
    and args: "lua_at L 1 = LTable (map LStr ss) h"
  shows "\<exists>L'. luazmq_msg_init_data_array E L = Ret 1 L' \<and>
    results 1 L' = [LUser UMessage (next_udata L)] \<and>
    msg_bytes E L' (next_udata L) = concat ss \<and> msg_open L' (next_udata L)"
proof -
  have sz: "sum_list (map (rawlen E) (map LStr ss)) = total_size ss"
    by (simp add: total_size_def comp_def)
  show ?thesis
  proof (cases "total_size ss = 0")
    case True
    obtain r m z where i: "zmq_msg_init E (zst L) = (r, m, z)" by (metis surj_pair)
    have "concat ss = []" using True by (simp add: total_size_def)
    then show ?thesis
      using True i available_init [OF laws(2) i] zmq_messages_init [OF laws(1) i] sz
      by (simp add: luazmq_msg_init_data_array_def args luazmq_msg_init_def case_prod_unfold msg_bytes_def
          msg_open_def results_def Let_def)
  next
    case False
    obtain r m z where i: "zmq_msg_init_size E (total_size ss) (zst L) = (r, m, z)" by (metis surj_pair)
    let ?L = "set_msg (next_udata L) m (snd (new_message E L))\<lparr>zst := z\<rparr>"
    have le: "0 + total_size ss \<le> zmq_msg_size E (zm_msg (zmsgs ?L (next_udata L)))"
      using zmq_messages_init_size [OF laws(1) i] by simp
    obtain m' where m': "fill_array E (next_udata L) 0 (map LStr ss) ?L = Ret 1 (set_msg (next_udata L) m' ?L)"
      and fill: "msg_fill E (zm_msg (zmsgs ?L (next_udata L))) 0 ss = Some m'"
      using fill_array_strings [OF laws(1) le] by blast
    have "zmq_msg_data E m' = concat ss"
      using msg_fill_data [OF laws(1) le] fill zmq_messages_init_size [OF laws(1) i]
        zmq_messages_data_length [OF laws(1), of m] by auto
    moreover have nz: "\<exists>n \<in> set ss. n \<noteq> []" using False by (auto simp: total_size_def)
    have "luazmq_msg_init_data_array E L = Ret 1 (set_msg (next_udata L) m' ?L)"
      using init_sized_ok [OF laws(2), of "total_size ss" "snd (new_message E L)" r m z] i m' False sz nz
      by (auto simp add: luazmq_msg_init_data_array_def args case_prod_unfold Let_def)
    ultimately show ?thesis by (simp add: msg_bytes_def msg_open_def results_def)
  qed
qed

theorem msg_init_data_array_bytes_witness:
  "\<exists>L'. luazmq_msg_init_data_array stub_env (demo_state [LTable [LStr ''ab'', LStr ''c''] []]) = Ret 1 L' \<and>
     msg_bytes stub_env L' 10 = ''abc''"
  using msg_init_data_array_bytes [OF stub_messages, of "demo_state [LTable [LStr ''ab'', LStr ''c''] []]"
      "[''ab'', ''c'']" "[]"] by (auto simp: lua_at_args)

text \<open>An array with a number in it makes the code write past the end of the message: \<open>lua_rawlen\<close>
  of the number is 0, so the message is too small for the digits that are copied.\<close>

theorem msg_init_data_array_number:
  assumes laws: "zmq_messages E" "messages_available E"
    and args: "lua_at L 1 = LTable [LNum q, LStr s] h" and s: "s \<noteq> []" "num2str E q \<noteq> []"
  shows "luazmq_msg_init_data_array E L = Abort OutOfBounds"
proof -
  obtain r m z where i: "zmq_msg_init_size E (length s) (zst L) = (r, m, z)" by (metis surj_pair)
  let ?L = "set_msg (next_udata L) m (snd (new_message E L))\<lparr>zst := z\<rparr>"
  have size: "zmq_msg_size E m = length s" using zmq_messages_init_size [OF laws(1) i] .
  have num: "luaL_checklstring E (push (LNum q) ?L) (-1) = Inr (num2str E q)"
    by (simp add: luaL_checklstring_def)
  have str: "luaL_checklstring E (push (LStr s) L') (-1) = Inr s" for L' :: "('a, 'b) lua"
    by (simp add: luaL_checklstring_def)
  have "fill_array E (next_udata L) 0 [LNum q, LStr s] ?L = Abort OutOfBounds"
  proof (cases "length (num2str E q) \<le> zmq_msg_size E m")
    case True
    then obtain m1 where "msg_memcpy E m 0 (num2str E q) = Some m1" "zmq_msg_size E m1 = length s"
      using msg_memcpy_data [OF laws(1), of 0 "num2str E q" m] size by auto
    then show ?thesis using num s by (simp add: str) (simp add: msg_memcpy_def)
  next
    case False
    then have "msg_memcpy E m 0 (num2str E q) = None" using s by (simp add: msg_memcpy_def)
    then show ?thesis using num by simp
  qed
  then show ?thesis
    using init_sized_ok [OF laws(2), of "length s" "snd (new_message E L)" r m z] i s(1)
    by (simp add: luazmq_msg_init_data_array_def args case_prod_unfold Let_def del: fill_array.simps)
qed

theorem msg_init_data_array_number_witness:
  "luazmq_msg_init_data_array stub_env (demo_state [LTable [LNum 1, LStr ''a''] []]) = Abort OutOfBounds"
  using msg_init_data_array_number [OF stub_messages, of "demo_state [LTable [LNum 1, LStr ''a''] []]" 1 "''a''" "[]"]
  by (simp add: lua_at_args)

lemma message_is_no_integer:
  "luazmq_getmessage_at L i = Inr k \<Longrightarrow> luaL_checkinteger E L i = Inl (TypeError i ''number'')"
  by (simp add: getmessage_Inr luaL_checkinteger_def luaL_checknumber_def)

lemma msg_get_raises: "\<exists>e. luazmq_msg_get E L = Raise e L"
  by (cases "luazmq_getmessage_at L 1") (simp_all add: luazmq_msg_get_def message_is_no_integer)

lemma msg_set_raises: "\<exists>e. luazmq_msg_set E L = Raise e L"
  by (cases "luazmq_getmessage_at L 1") (simp_all add: luazmq_msg_set_def message_is_no_integer)

text \<open>\<open>msg:get\<close> and \<open>msg:set\<close> look for the option in the message itself, so no call of them ever
  reaches libzmq.\<close>

theorem msg_options_unreachable:
  "(\<exists>e. luazmq_msg_get E L = Raise e L) \<and> (\<exists>e. luazmq_msg_set E L = Raise e L) \<and>
   (\<exists>e. luazmq_msg_get_opt E n L = Raise e (pushinteger (macro E n) L))"
  unfolding luazmq_msg_get_opt_def using msg_get_raises msg_set_raises by blast

text \<open>Resizing keeps a prefix.\<close>

lemma msg_resize_ok:
  assumes laws: "zmq_messages E" "messages_available E"
    and keep: "keep \<le> n" "keep \<le> length (msg_bytes E L k)"
  shows "\<exists>m z. msg_resize E k n keep L body = body (set_msg k m L\<lparr>zst := z\<rparr>) \<and>
    length (zmq_msg_data E m) = n \<and> take keep (zmq_msg_data E m) = take keep (msg_bytes E L k)"
proof -
  let ?old = "zm_msg (zmsgs L k)"
  obtain r m z where i: "zmq_msg_init_size E n (zst L) = (r, m, z)" by (metis surj_pair)
  have size: "zmq_msg_size E m = n" using zmq_messages_init_size [OF laws(1) i] .
  let ?d = "take keep (zmq_msg_data E ?old)"
  have len: "length ?d = keep" using keep(2) by (simp add: msg_bytes_def)
  obtain m1 where m1: "msg_memcpy E m 0 ?d = Some m1" "zmq_msg_size E m1 = n"
      "zmq_msg_data E m1 = ?d @ drop keep (zmq_msg_data E m)"
    using msg_memcpy_data [OF laws(1), of 0 ?d m] size keep(1) len by auto
  obtain r2 d2 s2 z2 where mv: "zmq_msg_move E False ?old m1 z = (r2, d2, s2, z2)" by (metis surj_pair)
  have d2: "zmq_msg_data E d2 = zmq_msg_data E m1" using zmq_messages_move [OF laws(1) mv] by simp
  have "msg_resize E k n keep L body =
      body (set_msg k d2 (L\<lparr>zst := z\<rparr>)\<lparr>zst := snd (snd (zmq_msg_close E s2 z2))\<rparr>)"
    using i available_init_size [OF laws(2) i] m1(1) mv available_move [OF laws(2) mv]
    by (simp add: msg_resize_def Let_def case_prod_unfold)
  moreover have "set_msg k d2 (L\<lparr>zst := z\<rparr>)\<lparr>zst := w\<rparr> = set_msg k d2 L\<lparr>zst := w\<rparr>" for w
    by (simp add: set_msg_def upd_msg_def)
  moreover have "take keep (zmq_msg_data E d2) = take keep (msg_bytes E L k)"
    using d2 m1(3) len by (simp add: msg_bytes_def)
  moreover have "length (zmq_msg_data E d2) = n"
    using d2 m1(2) zmq_messages_data_length [OF laws(1), of m1] by simp
  ultimately show ?thesis by metis
qed

lemma c_size_t_nonneg: "\<lbrakk> 0 \<le> x; x < 18446744073709551616 \<rbrakk> \<Longrightarrow> int (c_size_t x) = x"
  by (simp add: c_size_t_id)

text \<open>\<open>set_size\<close> gives the message the size asked for, and keeps the bytes that fit.\<close>

theorem msg_set_size_bytes:
  assumes laws: "zmq_messages E" "messages_available E"
    and arg: "lua_at L 1 = LUser UMessage k" "msg_open L k"
    and n: "luaL_checkinteger E L 2 = Inr n" "0 \<le> n"
  shows "\<exists>L'. luazmq_msg_set_size E L = Ret 1 L' \<and> results 1 L' = [LBool True] \<and>
    length (msg_bytes E L' k) = nat n \<and>
    (let c = min (nat n) (length (msg_bytes E L k)) in take c (msg_bytes E L' k) = take c (msg_bytes E L k))"
proof -
  let ?o = "zmq_msg_size E (zm_msg (zmsgs L k))"
  have g: "luazmq_getmessage_at L 1 = Inr k" using arg by (simp add: getmessage_open msg_open_def)
  have o: "length (msg_bytes E L k) = ?o" by (simp add: msg_bytes_def zmq_messages_data_length [OF laws(1)])
  have "n \<le> 9223372036854775807" using checkinteger_range [OF n(1)] by simp
  then have nsz: "c_size_t n = nat n" using n(2) by (simp add: c_size_t_id)
  show ?thesis
  proof (cases "nat n = ?o")
    case True
    then show ?thesis using o by (simp add: luazmq_msg_set_size_def g n nsz luazmq_pass_def msg_bytes_def)
  next
    case False
    let ?c = "min (nat n) ?o"
    have c: "(if ?o < nat n then ?o else nat n) = ?c" by simp
    obtain m z where rs: "msg_resize E k (nat n) ?c L luazmq_pass =
          luazmq_pass (set_msg k m L\<lparr>zst := z\<rparr>)" "length (zmq_msg_data E m) = nat n"
        "take ?c (zmq_msg_data E m) = take ?c (msg_bytes E L k)"
      using msg_resize_ok [OF laws, of ?c "nat n" L k luazmq_pass] o by auto
    then have "luazmq_msg_set_size E L = Ret 1 (push (LBool True) (set_msg k m L\<lparr>zst := z\<rparr>))"
      using False by (simp add: luazmq_msg_set_size_def g n nsz Let_def luazmq_pass_def min_def
          split: if_splits)
    then show ?thesis using rs(2,3) o by (simp add: msg_bytes_def)
  qed
qed

theorem msg_set_size_bytes_witness:
  "\<exists>L'. luazmq_msg_set_size stub_env (demo_state [LUser UMessage 0, LNum 3]) = Ret 1 L' \<and>
     length (msg_bytes stub_env L' 0) = 3 \<and> take 3 (msg_bytes stub_env L' 0) = ''hel''"
  using msg_set_size_bytes [OF stub_messages, of "demo_state [LUser UMessage 0, LNum 3]" 0 3]
  by (auto simp: lua_at_args arg_simps luaL_checkinteger_def msg_open_def msg_bytes_def Let_def)

text \<open>C35: \<open>set_data\<close> overwrites the bytes from a 1-based position on, and makes the message longer
  when it has to; the bytes between the old end and the position are whatever the new message
  holds.\<close>

theorem msg_set_data_bytes:
  assumes laws: "zmq_messages E" "messages_available E"
    and args: "stk L = [LUser UMessage k, LNum (of_int (int p)), LStr d]" "msg_open L k"
    and p: "1 \<le> p" "int p \<le> 2147483647" and d: "p + length d < 18446744073709551616"
  defines "old \<equiv> msg_bytes E L k"
  shows "\<exists>L' pad. luazmq_msg_set_data E L = Ret 1 L' \<and> results 1 L' = [LBool True] \<and>
    length pad = p - 1 - length old \<and>
    msg_bytes E L' k = take (p - 1) (old @ pad) @ d @ drop (p - 1 + length d) old"
proof -
  let ?o = "zmq_msg_size E (zm_msg (zmsgs L k))"
  have g: "luazmq_getmessage_at L 1 = Inr k"
    using args by (simp add: getmessage_open msg_open_def lua_at_args)
  have o: "length old = ?o" by (simp add: old_def msg_bytes_def zmq_messages_data_length [OF laws(1)])
  have ar: "lua_gettop L = 3" "luaL_optint E L 2 1 = Inr (int p)" "luaL_checklstring E L 3 = Inr d"
    using args p by (simp_all add: lua_gettop_def lua_at_args optint_of_int checklstring_str)
  have st: "int p - 1 = int (p - 1)" using p by simp
  have en: "c_size_t (int (p - 1) + int (length d)) = p - 1 + length d"
    using d by (simp add: c_size_t_id flip: of_nat_add)
  let ?store = "\<lambda>L. ub_check OutOfBounds (msg_memcpy E (zm_msg (zmsgs L k)) (int (p - 1)) d)
                      (\<lambda>m. luazmq_pass (set_msg k m L))"
  have run: "luazmq_msg_set_data E L =
      (if ?o < p - 1 + length d then msg_resize E k (p - 1 + length d) ?o L ?store else ?store L)"
    by (simp add: luazmq_msg_set_data_def g ar st en Let_def del: One_nat_def)
  show ?thesis
  proof (cases "?o < p - 1 + length d")
    case False
    then obtain m where m: "msg_memcpy E (zm_msg (zmsgs L k)) (int (p - 1)) d = Some m"
        "zmq_msg_data E m = take (p - 1) old @ d @ drop (p - 1 + length d) old"
      using msg_memcpy_data [OF laws(1), of "p - 1" d "zm_msg (zmsgs L k)"]
      by (auto simp: old_def msg_bytes_def)
    with False o run show ?thesis
      by (intro exI [of _ "push (LBool True) (set_msg k m L)"] exI [of _ "[]"])
        (simp add: luazmq_pass_def msg_bytes_def)
  next
    case True
    let ?n = "p - 1 + length d"
    obtain m z where rs: "msg_resize E k ?n ?o L ?store = ?store (set_msg k m L\<lparr>zst := z\<rparr>)"
        "length (zmq_msg_data E m) = ?n" "take ?o (zmq_msg_data E m) = take ?o old"
      using msg_resize_ok [OF laws, of ?o ?n L k ?store] True o by (auto simp: old_def)
    obtain m' where m': "msg_memcpy E m (int (p - 1)) d = Some m'"
        "zmq_msg_data E m' = take (p - 1) (zmq_msg_data E m) @ d @ drop ?n (zmq_msg_data E m)"
      using msg_memcpy_data [OF laws(1), of "p - 1" d m] rs(2) zmq_messages_data_length [OF laws(1), of m]
      by auto
    define pad where "pad = take (p - 1 - ?o) (drop ?o (zmq_msg_data E m))"
    have "take (p - 1) (zmq_msg_data E m) = take (p - 1) (take ?o (zmq_msg_data E m) @ pad)"
      unfolding pad_def by (metis le_add_diff_inverse linorder_le_cases min.absorb1 min.absorb2 take_add
          take_take append_Nil2 diff_is_0_eq take0)
    then have "zmq_msg_data E m' = take (p - 1) (old @ pad) @ d @ drop ?n old"
      using m'(2) rs(2,3) True o by simp
    moreover have "length pad = p - 1 - ?o" using rs(2) True by (simp add: pad_def)
    ultimately show ?thesis using True run rs(1) m'(1) o
      by (intro exI [of _ "push (LBool True) (set_msg k m' (set_msg k m L\<lparr>zst := z\<rparr>))"] exI [of _ pad])
        (simp add: luazmq_pass_def msg_bytes_def)
  qed
qed

theorem msg_set_data_bytes_witness:
  "\<exists>L'. luazmq_msg_set_data stub_env (demo_state [LUser UMessage 0, LNum 5, LStr ''ium'']) = Ret 1 L' \<and>
     msg_bytes stub_env L' 0 = ''hellium''"
  using msg_set_data_bytes [OF stub_messages, of "demo_state [LUser UMessage 0, LNum 5, LStr ''ium'']" 0 5 "''ium''"]
  by (auto simp: msg_open_def msg_bytes_def)

text \<open>Position 0 passes the check of \<open>set_data\<close>, and the code writes in front of the message.\<close>

theorem msg_set_data_zero:
  assumes args: "stk L = [LUser UMessage k, LNum 0, LStr d]" "msg_open L k"
    and d: "d \<noteq> []" "length d - 1 \<le> zmq_msg_size E (zm_msg (zmsgs L k))" "length d < 2 ^ 63"
  shows "luazmq_msg_set_data E L = Abort OutOfBounds"
proof -
  have g: "luazmq_getmessage_at L 1 = Inr k"
    using args by (simp add: getmessage_open msg_open_def lua_at_args)
  have ar: "lua_gettop L = 3" "luaL_optint E L 2 1 = Inr 0" "luaL_checklstring E L 3 = Inr d"
    using args optint_of_int [of L 2 0 E 1] by (simp_all add: lua_gettop_def lua_at_args checklstring_str)
  obtain c cs where cs: "d = c # cs" using d(1) by (cases d) auto
  then have "c_size_t (int (length cs)) = length cs" using d(3) by (intro c_size_t_of_nat) simp
  then show ?thesis using d(2) cs by (simp add: luazmq_msg_set_data_def g ar msg_memcpy_def Let_def)
qed

theorem msg_set_data_zero_witness:
  "luazmq_msg_set_data stub_env (demo_state [LUser UMessage 0, LNum 0, LStr ''ab'']) = Abort OutOfBounds"
  using msg_set_data_zero [of "demo_state [LUser UMessage 0, LNum 0, LStr ''ab'']" 0 "''ab''" stub_env]
  by (simp add: msg_open_def)

text \<open>\<open>dst:move(src)\<close> moves the bytes: the destination has them, the source is empty.\<close>

theorem msg_move_bytes:
  assumes laws: "zmq_messages E" "messages_available E"
    and args: "stk L = [LUser UMessage d, LUser UMessage s]" "msg_open L d" "msg_open L s" "d \<noteq> s"
  shows "\<exists>L'. luazmq_msg_move E L = Ret 1 L' \<and> results 1 L' = [LUser UMessage d] \<and>
    msg_bytes E L' d = msg_bytes E L s \<and> msg_bytes E L' s = []"
proof -
  obtain r d' s' z where mv: "zmq_msg_move E False (zm_msg (zmsgs L d)) (zm_msg (zmsgs L s)) (zst L) = (r, d', s', z)"
    by (metis surj_pair)
  have g: "luazmq_getmessage_at L 1 = Inr d" "luazmq_getmessage_at L 2 = Inr s"
    using args by (simp_all add: getmessage_open msg_open_def lua_at_args)
  show ?thesis
    using mv zmq_messages_move [OF laws(1) mv] available_move [OF laws(2) mv] args g
    by (simp add: luazmq_msg_move_def msg_transfer_def move_or_copy_def lua_gettop_def lua_pushvalue_def
        msg_bytes_def lua_at_args results_def)
qed

theorem msg_move_bytes_witness:
  "\<exists>L'. luazmq_msg_move stub_env (demo_state [LUser UMessage 0, LUser UMessage 1]) = Ret 1 L' \<and>
     msg_bytes stub_env L' 0 = ''hello'' \<and> msg_bytes stub_env L' 1 = []"
  using msg_move_bytes [OF stub_messages, of "demo_state [LUser UMessage 0, LUser UMessage 1]" 0 1]
  by (auto simp: msg_open_def msg_bytes_def)

text \<open>\<open>src:copy()\<close> makes a new message with the bytes of the source, and leaves the source as
  it is.\<close>

theorem msg_copy_bytes:
  assumes laws: "zmq_messages E" "messages_available E"
    and args: "stk L = [LUser UMessage s]" "msg_open L s" "s \<noteq> next_udata L"
  shows "\<exists>L'. luazmq_msg_copy E L = Ret 1 L' \<and> results 1 L' = [LUser UMessage (next_udata L)] \<and>
    msg_bytes E L' (next_udata L) = msg_bytes E L s \<and> msg_bytes E L' s = msg_bytes E L s"
proof -
  obtain r0 m0 z0 where i: "zmq_msg_init E (zst L) = (r0, m0, z0)" by (metis surj_pair)
  obtain r d' s' z where cp: "zmq_msg_copy E False m0 (zm_msg (zmsgs L s)) z0 = (r, d', s', z)"
    by (metis surj_pair)
  have g: "luazmq_getmessage_at L 1 = Inr s"
    using args by (simp_all add: getmessage_open msg_open_def lua_at_args)
  show ?thesis
    using i cp zmq_messages_copy [OF laws(1) cp] available_copy [OF laws(2) cp] args g
      available_init [OF laws(2) i]
    by (simp add: luazmq_msg_copy_def msg_transfer_def move_or_copy_def lua_gettop_def case_prod_unfold Let_def
        msg_bytes_def results_def)
qed

theorem msg_copy_bytes_witness:
  "\<exists>L'. luazmq_msg_copy stub_env (demo_state [LUser UMessage 0]) = Ret 1 L' \<and>
     msg_bytes stub_env L' 10 = ''hello'' \<and> msg_bytes stub_env L' 0 = ''hello''"
  using msg_copy_bytes [OF stub_messages, of "demo_state [LUser UMessage 0]" 0]
  by (auto simp: msg_open_def msg_bytes_def)

text \<open>No message method opens or closes a socket.\<close>

lemma keeps_new_message [simp]: "keeps L L' \<Longrightarrow> keeps L (snd (new_message E L'))"
  by (rule keeps_trans, assumption, rule keeps_same) simp_all

lemma final_fail_ret_None [simp]: "keeps L L' \<Longrightarrow> final_state (keeps L) (fail_ret E None L')"
  by (rule final_fail_ret) simp_all

lemma keeps_init_sized:
  "\<lbrakk> keeps L L'; \<And>M. keeps L M \<Longrightarrow> final_state (keeps L) (body M) \<rbrakk> \<Longrightarrow>
     final_state (keeps L) (init_sized E k n L' body)"
  by (simp add: init_sized_def Let_def case_prod_unfold)

lemma keeps_msg_resize:
  "\<lbrakk> keeps L L'; \<And>M. keeps L M \<Longrightarrow> final_state (keeps L) (body M) \<rbrakk> \<Longrightarrow>
     final_state (keeps L) (msg_resize E k n m L' body)"
  by (simp add: msg_resize_def Let_def case_prod_unfold split: option.split)

lemma keeps_fill_array: "keeps L L' \<Longrightarrow> final_state (keeps L) (fill_array E k i vs L')"
  by (induction vs arbitrary: i L') (simp_all split: sum.split option.split)

lemma keeps_msg_init: "keeps L L' \<Longrightarrow> final_state (keeps L) (luazmq_msg_init E L')"
  by (simp add: luazmq_msg_init_def Let_def case_prod_unfold)

lemma msg_create_keep:
  "final_state (keeps L) (luazmq_msg_init E L)"
  "final_state (keeps L) (luazmq_msg_init_size E L)"
  "final_state (keeps L) (luazmq_msg_init_data E L)"
  "final_state (keeps L) (luazmq_msg_init_data_multi E L)"
  "final_state (keeps L) (luazmq_msg_init_data_array E L)"
  by (simp_all add: keeps_msg_init luazmq_msg_init_size_def luazmq_msg_init_data_def
      luazmq_msg_init_data_multi_def luazmq_msg_init_data_array_def case_prod_unfold Let_def
      keeps_init_sized keeps_fill_array split: sum.split option.split)

lemma move_or_copy_keep: "keeps L L' \<Longrightarrow> final_state (keeps L) (move_or_copy E op d s L')"
  by (simp add: move_or_copy_def Let_def case_prod_unfold)

lemma msg_send_keep:
  assumes "lz_inv L'" "keeps L L'"
  shows "final_state (keeps L) (luazmq_msg_send E L')"
proof -
  have "no_eterm_close sk (set_msg k m L'\<lparr>zst := z\<rparr>)" for sk k m z
    using assms(1) by (simp add: lz_inv_def no_eterm_close_def split: option.split)
  then show ?thesis using assms(2)
    by (simp add: luazmq_msg_send_def Let_def case_prod_unfold final_fail_ret split: sum.split)
qed

lemma msg_recv_keep:
  assumes "lz_inv L" shows "final_state (keeps L) (luazmq_msg_recv E L)"
proof -
  have "no_eterm_close sk (set_msg k m L\<lparr>zst := z\<rparr>)" for sk k m z
    using assms by (simp add: lz_inv_def no_eterm_close_def split: option.split)
  then show ?thesis
    by (simp add: luazmq_msg_recv_def Let_def case_prod_unfold final_fail_ret split: sum.split)
qed

lemma msg_methods_keep:
  assumes inv: "lz_inv L" and m: "m \<in> set (map snd (luazmq_msg_methods E))"
  shows "final_state (keeps L) (m L)"
proof -
  have inv': "lz_inv (pushinteger x (lua_settop 2 L))" for x
    by (rule keeps_lz_inv [OF _ inv]) simp
  have "final_state (keeps L) (luazmq_msg_send_more E L)"
    using msg_send_keep [OF inv', of L] by (simp add: luazmq_msg_send_more_def split: sum.split)
  moreover have "final_state (keeps L) (luazmq_msg_get_opt E n L)" for n
    using msg_get_raises [of E "pushinteger (macro E n) L"] by (auto simp: luazmq_msg_get_opt_def)
  moreover have "final_state (keeps L) (luazmq_msg_get E L)" "final_state (keeps L) (luazmq_msg_set E L)"
    using msg_get_raises [of E L] msg_set_raises [of E L] by auto
  moreover have "final_state (keeps L) (msg_transfer E op L)" for op
    by (simp add: msg_transfer_def Let_def case_prod_unfold move_or_copy_keep split: sum.split)
  moreover have "final_state (keeps L) (luazmq_msg_set_data E L)"
    by (simp add: luazmq_msg_set_data_def Let_def keeps_msg_resize split: sum.split option.split)
  moreover have "final_state (keeps L) (luazmq_msg_set_size E L)"
    by (simp add: luazmq_msg_set_size_def Let_def keeps_msg_resize split: sum.split)
  moreover have "final_state (keeps L) (luazmq_msg_gets E L)"
    by (simp add: luazmq_msg_gets_def Let_def case_prod_unfold split: sum.split option.split)
  moreover have "final_state (keeps L) (luazmq_msg_close E L)" "final_state (keeps L) (luazmq_msg_closed L)"
    "final_state (keeps L) (luazmq_msg_size E L)" "final_state (keeps L) (luazmq_msg_data E L)"
    "final_state (keeps L) (luazmq_msg_pointer E L)" "final_state (keeps L) (luazmq_msg_more E L)"
    by (simp_all add: luazmq_msg_close_def luazmq_msg_closed_def luazmq_msg_size_def luazmq_msg_data_def
        luazmq_msg_pointer_def luazmq_msg_more_def case_prod_unfold Let_def split: sum.split)
  ultimately show ?thesis
    using m msg_send_keep [OF inv] msg_recv_keep [OF inv]
    by (auto simp: luazmq_msg_methods_def luazmq_msg_move_def luazmq_msg_copy_def)
qed

end
