(* ===== verification/ZSocketIO.thy ===== *)
theory ZSocketIO
  imports ZMessage
begin

text \<open>
  \<open>zsocket.c\<close>: sending, receiving, endpoints, polling and the option handlers of a socket. A
  receive loop that libzmq could keep alive for ever is a \<open>partial_function\<close>: \<open>None\<close> is a call
  that does not return.
\<close>

subsection \<open>Endpoints\<close>

text \<open>\<open>op\<close> is \<open>zmq_bind\<close>, \<open>zmq_unbind\<close>, \<open>zmq_connect\<close> or \<open>zmq_disconnect\<close>; a table of
  endpoints is handled in order up to the first failure.\<close>

fun endpoint_loop ::
    "('z, 'm) env \<Rightarrow> (nat \<Rightarrow> string \<Rightarrow> 'z \<Rightarrow> int \<times> 'z) \<Rightarrow> nat \<Rightarrow> lval list \<Rightarrow> ('z, 'm) lua
       \<Rightarrow> ('z, 'm) lua outcome" where
  "endpoint_loop E op k [] L = luazmq_pass L"
| "endpoint_loop E op k (v # vs) L =
     check (luaL_checkstring E (push v L) (-1)) (push v L) (\<lambda>val.
       let (ret, z) = op (zs_skt (zskts L k)) val (zst L); L = L\<lparr>zst := z\<rparr>
       in if ret = -1
          then ub_bind (luazmq_fail E (Some k) L) (\<lambda>L. Ret 3 (push (LStr val) L))
          else endpoint_loop E op k vs L)"

definition skt_method_1 ::
    "('z, 'm) env \<Rightarrow> (nat \<Rightarrow> string \<Rightarrow> 'z \<Rightarrow> int \<times> 'z) \<Rightarrow> ('z, 'm) lua \<Rightarrow> ('z, 'm) lua outcome" where
  "skt_method_1 E op L =
     check (luazmq_getsocket_at L 1) L (\<lambda>k.
       if \<not> is_table (lua_at L 2) then
         check (luaL_checkstring E L 2) L (\<lambda>val.
           let (ret, z) = op (zs_skt (zskts L k)) val (zst L); L = L\<lparr>zst := z\<rparr>
           in if ret = -1 then fail_ret E (Some k) L else luazmq_pass L)
       else ub_check BadCast (raw_elements E (lua_at L 2)) (\<lambda>vs. endpoint_loop E op k vs L))"

definition luazmq_skt_bind :: "('z, 'm) env \<Rightarrow> ('z, 'm) lua \<Rightarrow> ('z, 'm) lua outcome" where
  "luazmq_skt_bind E = skt_method_1 E (zmq_bind E)"

definition luazmq_skt_unbind :: "('z, 'm) env \<Rightarrow> ('z, 'm) lua \<Rightarrow> ('z, 'm) lua outcome" where
  "luazmq_skt_unbind E = skt_method_1 E (zmq_unbind E)"

definition luazmq_skt_connect :: "('z, 'm) env \<Rightarrow> ('z, 'm) lua \<Rightarrow> ('z, 'm) lua outcome" where
  "luazmq_skt_connect E = skt_method_1 E (zmq_connect E)"

definition luazmq_skt_disconnect :: "('z, 'm) env \<Rightarrow> ('z, 'm) lua \<Rightarrow> ('z, 'm) lua outcome" where
  "luazmq_skt_disconnect E = skt_method_1 E (zmq_disconnect E)"

definition RANDOM_PORT_BASE :: int where "RANDOM_PORT_BASE = 0xC000"
definition RANDOM_PORT_MAX :: int where "RANDOM_PORT_MAX = 0xFFFF"

text \<open>\<open>LUAZMQ_ALLOC_TEMP\<close>: a buffer of 128 bytes on the C stack if that is enough.\<close>

definition alloc_temp :: "('z, 'm) env \<Rightarrow> nat \<Rightarrow> bool" where
  "alloc_temp E n \<longleftrightarrow> (use_temp_buffers E \<and> n \<le> 128) \<or> malloc E n"

definition port_address :: "string \<Rightarrow> int \<Rightarrow> string" where
  "port_address base p = base @ '':'' @ show_int p"

fun port_loop ::
    "('z, 'm) env \<Rightarrow> nat \<Rightarrow> string \<Rightarrow> int \<Rightarrow> nat \<Rightarrow> ('z, 'm) lua \<Rightarrow> ('z, 'm) lua outcome" where
  "port_loop E k base p 0 L = fail_ret E (Some k) L"
| "port_loop E k base p (Suc tries) L =
     (if RANDOM_PORT_MAX < p then fail_ret E (Some k) L
      else
        let (ret, z) = zmq_bind E (zs_skt (zskts L k)) (c_str (port_address base p)) (zst L);
            L = L\<lparr>zst := z\<rparr>
        in if ret \<noteq> -1 then Ret 1 (pushinteger p L)
           else if zmq_errno E (zst L) = macro E ''EADDRINUSE'' \<or> zmq_errno E (zst L) = macro E ''EACCES''
           then port_loop E k base (p + 1) tries L
           else fail_ret E (Some k) L)"

definition luazmq_skt_bind_to_random_port ::
    "('z, 'm) env \<Rightarrow> ('z, 'm) lua \<Rightarrow> ('z, 'm) lua outcome" where
  "luazmq_skt_bind_to_random_port E L =
     check (luazmq_getsocket_at L 1) L (\<lambda>k.
     check (luaL_checklstring E L 2) L (\<lambda>base.
     check (luaL_optint E L 3 RANDOM_PORT_BASE) L (\<lambda>base_port.
     ub_check IntOverflow (if RANDOM_PORT_MAX - base_port + 1 \<le> INT_MAX
         then Some (RANDOM_PORT_MAX - base_port + 1) else None) (\<lambda>dflt.
     check (luaL_optint E L 4 dflt) L (\<lambda>max_tries.
     check (argcheck (0 < base_port \<and> base_port \<le> RANDOM_PORT_MAX) 3 ''invalid port number'') L (\<lambda>_.
     check (argcheck (0 < max_tries) 4 ''invalid max tries value'') L (\<lambda>_.
       if \<not> alloc_temp E (length base + 10) then Abort NullDeref
       else port_loop E k base base_port (nat max_tries) L)))))))"

subsection \<open>Sending\<close>

text \<open>One part: a message of the right size, filled, sent and closed. The result is that of the
  call that failed, or of \<open>zmq_msg_send\<close>.\<close>

definition send_part ::
    "('z, 'm) env \<Rightarrow> nat \<Rightarrow> string \<Rightarrow> int \<Rightarrow> 'z \<Rightarrow> ub + int \<times> 'z" where
  "send_part E skt data flags z =
     (let (ret, m, z) = zmq_msg_init_size E (length data) z in
      if ret = -1 then Inr (-1, z)
      else case msg_memcpy E m 0 data of None \<Rightarrow> Inl OutOfBounds
      | Some m \<Rightarrow>
          let (ret, m, z) = zmq_msg_send E m skt flags z; (_, _, z) = zmq_msg_close E m z
          in Inr (ret, z))"

definition luazmq_skt_send :: "('z, 'm) env \<Rightarrow> ('z, 'm) lua \<Rightarrow> ('z, 'm) lua outcome" where
  "luazmq_skt_send E L =
     check (luazmq_getsocket_at L 1) L (\<lambda>k.
     check (luaL_checklstring E L 2) L (\<lambda>data.
     check (luaL_optint E L 3 0) L (\<lambda>flags.
     ub_bind (if use_send_as_buf E then Inr (zmq_send E (zs_skt (zskts L k)) data flags (zst L))
              else send_part E (zs_skt (zskts L k)) data flags (zst L)) (\<lambda>(ret, z).
       let L = L\<lparr>zst := z\<rparr> in
       if ret = -1 then fail_ret E (Some k) L else luazmq_pass L))))"

definition luazmq_skt_send_msg :: "('z, 'm) env \<Rightarrow> ('z, 'm) lua \<Rightarrow> ('z, 'm) lua outcome" where
  "luazmq_skt_send_msg E L =
     check (luazmq_getsocket_at L 1) L (\<lambda>k.
     check (luazmq_getmessage_at L 2) L (\<lambda>j.
     check (luaL_optint E L 3 0) L (\<lambda>flags.
       let (ret, m, z) = zmq_msg_send E (zm_msg (zmsgs L j)) (zs_skt (zskts L k)) flags (zst L);
           L = set_msg j m L\<lparr>zst := z\<rparr>
       in if ret = -1 then fail_ret E (Some k) L else luazmq_pass L)))"

definition luazmq_skt_send_more :: "('z, 'm) env \<Rightarrow> ('z, 'm) lua \<Rightarrow> ('z, 'm) lua outcome" where
  "luazmq_skt_send_more E L =
     check (luaL_optint E L 3 0) L (\<lambda>flags.
       luazmq_skt_send E (pushinteger (flags OR macro E ''ZMQ_SNDMORE'') (lua_settop 2 L)))"

text \<open>The loop of \<open>send_all\<close>: part \<open>i\<close> to part \<open>n\<close>, \<open>m\<close> of them. A part stays on the stack. After
  part \<open>INT_MAX\<close> the increment of \<open>i\<close> overflows.\<close>

fun send_all_loop ::
    "('z, 'm) env \<Rightarrow> nat \<Rightarrow> lval \<Rightarrow> int \<Rightarrow> int \<Rightarrow> nat \<Rightarrow> ('z, 'm) lua \<Rightarrow> ('z, 'm) lua outcome" where
  "send_all_loop E k t flags i 0 L = luazmq_pass L"
| "send_all_loop E k t flags i (Suc m) L =
     ub_check BadCast (rawgeti t i) (\<lambda>v.
     check (luaL_checklstring E (push v L) (-1)) (push v L) (\<lambda>data.
     ub_bind (send_part E (zs_skt (zskts L k)) data (if m = 0 then flags else macro E ''ZMQ_SNDMORE'')
                (zst L)) (\<lambda>(ret, z).
       let L = push v L\<lparr>zst := z\<rparr> in
       if ret = -1
       then ub_bind (luazmq_fail E (Some k) L) (\<lambda>L. Ret 3 (pushinteger i L))
       else if i = INT_MAX then Abort IntOverflow
       else send_all_loop E k t flags (i + 1) m L)))"

definition luazmq_skt_send_all :: "('z, 'm) env \<Rightarrow> ('z, 'm) lua \<Rightarrow> ('z, 'm) lua outcome" where
  "luazmq_skt_send_all E L =
     check (luazmq_getsocket_at L 1) L (\<lambda>k.
     check (luaL_optint E L 3 0) L (\<lambda>flags.
     check (luaL_optint E L 4 1) L (\<lambda>i.
     check (if lua_at L 5 = LNil then Inr (c_int (int (rawlen E (lua_at L 2))))
            else case luaL_checkint E L 5 of Inl e \<Rightarrow> Inl e
            | Inr n \<Rightarrow> map_sum id (\<lambda>_. n) (argcheck (i \<le> n) 5 ''invalid range'')) L (\<lambda>n.
       if flags AND NOT (macro E ''ZMQ_SNDMORE'') \<noteq> 0
       then Ret 2 (luazmq_error_create (macro E ''ENOTSUP'') (push LNil L))
       else send_all_loop E k (lua_at L 2) flags i (nat (n - i + 1)) L))))"

text \<open>\<open>sendx\<close>: the arguments from stack position \<open>i\<close> on, \<open>m\<close> of them.\<close>

fun sendx_loop ::
    "('z, 'm) env \<Rightarrow> nat \<Rightarrow> int \<Rightarrow> int \<Rightarrow> nat \<Rightarrow> ('z, 'm) lua \<Rightarrow> ('z, 'm) lua outcome" where
  "sendx_loop E k last_flag i 0 L = luazmq_pass L"
| "sendx_loop E k last_flag i (Suc m) L =
     check (luaL_checklstring E L i) L (\<lambda>data.
     ub_bind (send_part E (zs_skt (zskts L k)) data
                (if m = 0 then last_flag else macro E ''ZMQ_SNDMORE'') (zst L)) (\<lambda>(ret, z).
       let L = L\<lparr>zst := z\<rparr> in
       if ret = -1
       then ub_bind (luazmq_fail E (Some k) L) (\<lambda>L. Ret 3 (pushinteger i L))
       else sendx_loop E k last_flag (i + 1) m L))"

definition luazmq_skt_sendx_impl :: "('z, 'm) env \<Rightarrow> int \<Rightarrow> ('z, 'm) lua \<Rightarrow> ('z, 'm) lua outcome" where
  "luazmq_skt_sendx_impl E last_flag L =
     check (luazmq_getsocket_at L 1) L (\<lambda>k. sendx_loop E k last_flag 2 (lua_gettop L - 1) L)"

definition luazmq_skt_sendv_impl :: "('z, 'm) env \<Rightarrow> int \<Rightarrow> ('z, 'm) lua \<Rightarrow> ('z, 'm) lua outcome" where
  "luazmq_skt_sendv_impl E flags L =
     check (luazmq_getsocket_at L 1) L (\<lambda>k.
     check (check_strings E L 2 (lua_gettop L - 1)) L (\<lambda>ss.
       let (ret, m, z) = (if total_size ss = 0 then zmq_msg_init E (zst L)
                          else zmq_msg_init_size E (total_size ss) (zst L));
           L = L\<lparr>zst := z\<rparr>
       in if ret = -1 then fail_ret E (Some k) L
          else ub_check OutOfBounds (msg_fill E m 0 ss) (\<lambda>m.
            let (ret, m, z) = zmq_msg_send E m (zs_skt (zskts L k)) flags (zst L);
                (_, _, z) = zmq_msg_close E m z;
                L = L\<lparr>zst := z\<rparr>
            in if ret = -1 then fail_ret E (Some k) L else luazmq_pass L)))"

definition luazmq_skt_sendx :: "('z, 'm) env \<Rightarrow> ('z, 'm) lua \<Rightarrow> ('z, 'm) lua outcome" where
  "luazmq_skt_sendx E = luazmq_skt_sendx_impl E 0"

definition luazmq_skt_sendx_more :: "('z, 'm) env \<Rightarrow> ('z, 'm) lua \<Rightarrow> ('z, 'm) lua outcome" where
  "luazmq_skt_sendx_more E = luazmq_skt_sendx_impl E (macro E ''ZMQ_SNDMORE'')"

definition luazmq_skt_sendv :: "('z, 'm) env \<Rightarrow> ('z, 'm) lua \<Rightarrow> ('z, 'm) lua outcome" where
  "luazmq_skt_sendv E = luazmq_skt_sendv_impl E 0"

definition luazmq_skt_sendv_more :: "('z, 'm) env \<Rightarrow> ('z, 'm) lua \<Rightarrow> ('z, 'm) lua outcome" where
  "luazmq_skt_sendv_more E = luazmq_skt_sendv_impl E (macro E ''ZMQ_SNDMORE'')"

subsection \<open>Receiving\<close>

definition set_more :: "nat \<Rightarrow> bool \<Rightarrow> ('z, 'm) lua \<Rightarrow> ('z, 'm) lua" where
  "set_more k b L = upd_skt k (\<lambda>s. s\<lparr>zs_flags :=
     (if b then set_flag (zs_flags s) LUAZMQ_FLAG_MORE
      else clear_flag (zs_flags s) LUAZMQ_FLAG_MORE)\<rparr>) L"

text \<open>\<open>lua_pushlstring(L, zmq_msg_data(&msg), zmq_msg_size(&msg))\<close>\<close>

definition msg_string :: "('z, 'm) env \<Rightarrow> 'm \<Rightarrow> string" where
  "msg_string E m = take (zmq_msg_size E m) (zmq_msg_data E m)"

definition luazmq_skt_recv :: "('z, 'm) env \<Rightarrow> ('z, 'm) lua \<Rightarrow> ('z, 'm) lua outcome" where
  "luazmq_skt_recv E L =
     check (luazmq_getsocket_at L 1) L (\<lambda>k.
     check (luaL_optint E L 2 0) L (\<lambda>flags.
       let (ret, m, z) = zmq_msg_init E (zst L); L = L\<lparr>zst := z\<rparr> in
       if ret = -1 then fail_ret E (Some k) L
       else let (ret, m, z) = zmq_msg_recv E m (zs_skt (zskts L k)) flags (zst L) in
         if ret = -1 then
           let (_, _, z) = zmq_msg_close E m z in fail_ret E (Some k) (L\<lparr>zst := z\<rparr>)
         else
           let more = zmq_msg_more E m;
               L = pushboolean more (set_more k more (push (LStr (msg_string E m)) (L\<lparr>zst := z\<rparr>)));
               (_, _, z) = zmq_msg_close E m (zst L)
           in Ret 2 (L\<lparr>zst := z\<rparr>)))"

fun opt_int :: "optval \<Rightarrow> int" where
  "opt_int (OInt x) = x"
| "opt_int _ = 0"

definition luazmq_skt_recv_len :: "('z, 'm) env \<Rightarrow> ('z, 'm) lua \<Rightarrow> ('z, 'm) lua outcome" where
  "luazmq_skt_recv_len E L =
     check (luazmq_getsocket_at L 1) L (\<lambda>k.
     check (luaL_checkint E L 2) L (\<lambda>n.
     check (luaL_optint E L 3 0) L (\<lambda>flags.
       let len = c_size_t n in
       if \<not> alloc_temp E len then luazmq_allocfail L
       else
         let (ret, data, z) = zmq_recv E (zs_skt (zskts L k)) len flags (zst L); L = L\<lparr>zst := z\<rparr> in
         if ret = -1 then fail_ret E (Some k) L
         else if ret < 0 then Abort AssertFail
         else
           let got = (if nat ret < len then nat ret else len) in
           if length data < got then Abort Uninitialised
           else
             let L = push (LStr (take got data)) L;
                 (r, val, z) = zmq_getsockopt E (zs_skt (zskts L k)) (macro E ''ZMQ_RCVMORE'') (OInt 0) (zst L);
                 L = L\<lparr>zst := z\<rparr>
             in if r = -1 then fail_ret E (Some k) L
                else let more = (opt_int val \<noteq> 0) in
                  Ret 3 (pushinteger ret (pushboolean more (set_more k more L))))))"

definition luazmq_skt_recv_msg :: "('z, 'm) env \<Rightarrow> ('z, 'm) lua \<Rightarrow> ('z, 'm) lua outcome" where
  "luazmq_skt_recv_msg E L =
     check (luazmq_getsocket_at L 1) L (\<lambda>k.
     check (luazmq_getmessage_at L 2) L (\<lambda>j.
     check (luaL_optint E L 3 0) L (\<lambda>flags.
       let (ret, m, z) = zmq_msg_recv E (zm_msg (zmsgs L j)) (zs_skt (zskts L k)) flags (zst L);
           L = set_msg j m L\<lparr>zst := z\<rparr>
       in if ret = -1 then fail_ret E (Some k) L
          else let more = zmq_msg_more E m in
            Ret 2 (pushboolean more (set_more k more (lua_settop 2 L))))))"

text \<open>The fields of a monitor event, as \<open>memcpy\<close> reads them on a little-endian machine: 16 bits
  unsigned, 32 bits signed.\<close>

fun le_value :: "string \<Rightarrow> int" where
  "le_value [] = 0"
| "le_value (c # cs) = of_char c + 256 * le_value cs"

definition luazmq_skt_recv_event :: "('z, 'm) env \<Rightarrow> ('z, 'm) lua \<Rightarrow> ('z, 'm) lua outcome" where
  "luazmq_skt_recv_event E L =
     check (luazmq_getsocket_at L 1) L (\<lambda>k.
     check (luaL_optint E L 2 0) L (\<lambda>flags.
       let (_, m1, z) = zmq_msg_init E (zst L); (_, m2, z) = zmq_msg_init E z;
           (rc, m1, z) = zmq_msg_recv E m1 (zs_skt (zskts L k)) flags z
       in if rc = -1 then
            let (_, _, z) = zmq_msg_close E m1 z; (_, _, z) = zmq_msg_close E m2 z
            in fail_ret E (Some k) (L\<lparr>zst := z\<rparr>)
          else if \<not> zmq_msg_more E m1 then Abort AssertFail
          else if zmq_msg_size E m1 \<noteq> 6 then Abort AssertFail
          else
            let (rc, m2, z) = zmq_msg_recv E m2 (zs_skt (zskts L k)) flags z in
            if rc = -1 then
              let (_, _, z) = zmq_msg_close E m1 z; (_, _, z) = zmq_msg_close E m2 z
              in fail_ret E (Some k) (L\<lparr>zst := z\<rparr>)
            else if zmq_msg_more E m2 then Abort AssertFail
            else
              let data = zmq_msg_data E m1;
                  event_id = le_value (take 2 data);
                  event_value = c_int (le_value (take 4 (drop 2 data)));
                  (_, _, z) = zmq_msg_close E m1 z;
                  L = push (LStr (msg_string E m2)) (pushnumber event_value (pushnumber event_id L));
                  (_, _, z) = zmq_msg_close E m2 z
              in Ret 3 (L\<lparr>zst := z\<rparr>)))"

fun is_userdata :: "lval \<Rightarrow> bool" where
  "is_userdata (LUser t k) = True"
| "is_userdata (LLight p) = True"
| "is_userdata _ = False"

definition luazmq_skt_recv_new_msg :: "('z, 'm) env \<Rightarrow> ('z, 'm) lua \<Rightarrow> ('z, 'm) lua outcome" where
  "luazmq_skt_recv_new_msg E L =
     (if is_userdata (lua_at L 2) then luazmq_skt_recv_msg E L
      else check (luaL_optint E L 2 0) L (\<lambda>_.
        after (luazmq_msg_init E L) (\<lambda>n L.
          if n \<noteq> 1 then Ret n L
          else after (luazmq_skt_recv_msg E (lua_insert 2 L)) (\<lambda>n L.
            if lua_at L (- int n) = LNil then
              check (luazmq_getmessage_at L 2) L (\<lambda>j.
                let (_, m, z) = zmq_msg_close E (zm_msg (zmsgs L j)) (zst L) in
                Ret n (upd_msg j (\<lambda>g. g\<lparr>zm_msg := m,
                  zm_flags := set_flag (zm_flags g) LUAZMQ_FLAG_CLOSED\<rparr>) (L\<lparr>zst := z\<rparr>)))
            else Ret n L))))"

definition luazmq_skt_more :: "('z, 'm) lua \<Rightarrow> ('z, 'm) lua outcome" where
  "luazmq_skt_more L =
     check (luazmq_getsocket_at L 1) L (\<lambda>k.
       Ret 1 (pushboolean (has_flag (zs_flags (zskts L k)) LUAZMQ_FLAG_MORE) L))"

text \<open>\<open>acc\<close> holds the parts stored in the result table so far.\<close>

partial_function (option) recv_all_loop ::
    "('z, 'm) env \<Rightarrow> nat \<Rightarrow> int \<Rightarrow> lval list \<Rightarrow> ('z, 'm) lua \<Rightarrow> ('z, 'm) lua outcome option" where
  "recv_all_loop E k flags acc L =
     (let (ret, m, z) = zmq_msg_init E (zst L); L = L\<lparr>zst := z\<rparr> in
      if ret = -1
      then Some (ub_bind (luazmq_fail E (Some k) (push (LTable acc []) L))
                   (\<lambda>L. Ret 3 (push (LTable acc []) L)))
      else
        let (ret, m, z) = zmq_msg_recv E m (zs_skt (zskts L k)) flags (zst L); L = L\<lparr>zst := z\<rparr> in
        if ret = -1
        then Some (ub_bind (luazmq_fail E (Some k) (push (LTable acc []) L)) (\<lambda>L.
               let (_, _, z) = zmq_msg_close E m (zst L)
               in Ret 3 (push (LTable acc []) (L\<lparr>zst := z\<rparr>))))
        else
          let acc = acc @ [LStr (msg_string E m)];
              (_, _, z) = zmq_msg_close E m (zst L);
              L = L\<lparr>zst := z\<rparr>
          in if zmq_msg_more E m then recv_all_loop E k flags acc L
             else Some (Ret 1 (push (LTable acc []) L)))"

definition luazmq_skt_recv_all :: "('z, 'm) env \<Rightarrow> ('z, 'm) lua \<Rightarrow> ('z, 'm) lua outcome option" where
  "luazmq_skt_recv_all E L =
     (case luazmq_getsocket_at L 1 of Inl e \<Rightarrow> Some (Raise e L)
      | Inr k \<Rightarrow> (case luaL_optint E L 2 0 of Inl e \<Rightarrow> Some (Raise e L)
         | Inr flags \<Rightarrow> recv_all_loop E k flags [] L))"

text \<open>\<open>recvx\<close> leaves the parts on the stack. On an error, \<open>ret\<close> is 2 and the loop
  \<open>for(j = ret; j >= 0; --j) lua_insert(L, 1)\<close> runs three times.\<close>

definition recvx_error :: "nat \<Rightarrow> ('z, 'm) lua \<Rightarrow> ('z, 'm) lua outcome" where
  "recvx_error i L = Ret (2 + i) ((lua_insert 1 ^^ 3) L)"

partial_function (option) recvx_loop ::
    "('z, 'm) env \<Rightarrow> nat \<Rightarrow> int \<Rightarrow> nat \<Rightarrow> ('z, 'm) lua \<Rightarrow> ('z, 'm) lua outcome option" where
  "recvx_loop E k flags i L =
     (let (ret, m, z) = zmq_msg_init E (zst L); L = L\<lparr>zst := z\<rparr> in
      if ret = -1 then Some (ub_bind (luazmq_fail E (Some k) L) (recvx_error i))
      else
        let (ret, m, z) = zmq_msg_recv E m (zs_skt (zskts L k)) flags (zst L); L = L\<lparr>zst := z\<rparr> in
        if ret = -1
        then let (_, _, z) = zmq_msg_close E m (zst L)
             in Some (ub_bind (luazmq_fail E (Some k) (L\<lparr>zst := z\<rparr>)) (recvx_error i))
        else
          let L = push (LStr (msg_string E m)) L;
              (_, _, z) = zmq_msg_close E m (zst L);
              L = L\<lparr>zst := z\<rparr>
          in if zmq_msg_more E m then recvx_loop E k flags (Suc i) L
             else Some (Ret (Suc i) L))"

definition luazmq_skt_recvx :: "('z, 'm) env \<Rightarrow> ('z, 'm) lua \<Rightarrow> ('z, 'm) lua outcome option" where
  "luazmq_skt_recvx E L =
     (case luazmq_getsocket_at L 1 of Inl e \<Rightarrow> Some (Raise e L)
      | Inr k \<Rightarrow> (case luaL_optint E L 2 0 of Inl e \<Rightarrow> Some (Raise e L)
         | Inr flags \<Rightarrow> recvx_loop E k flags 0 (lua_settop 1 L)))"

subsection \<open>Polling and monitoring\<close>

definition luazmq_skt_poll :: "('z, 'm) env \<Rightarrow> ('z, 'm) lua \<Rightarrow> ('z, 'm) lua outcome" where
  "luazmq_skt_poll E L =
     check (luazmq_getsocket_at L 1) L (\<lambda>k.
     check (luaL_optint E L 2 (-1)) L (\<lambda>timeout.
     check (luaL_optint E L 3 (macro E ''ZMQ_POLLIN'')) L (\<lambda>mask.
       let items = [\<lparr>it_socket = SPtr (zs_skt (zskts L k)), it_fd = 0, it_events = c_short mask,
                     it_revents = 0\<rparr>];
           (ret, rs, z) = zmq_poll E items timeout (zst L);
           L = L\<lparr>zst := z\<rparr>
       in if ret = -1 then fail_ret E (Some k) L
          else let revents = it_revents (hd (store_revents items rs)) in
            Ret 2 (pushinteger revents (pushboolean (revents AND mask \<noteq> 0) L)))))"

fun is_number :: "lval \<Rightarrow> bool" where
  "is_number (LNum q) = True"
| "is_number _ = False"

definition luazmq_skt_monitor :: "('z, 'm) env \<Rightarrow> ('z, 'm) lua \<Rightarrow> ('z, 'm) lua outcome" where
  "luazmq_skt_monitor E L =
     check (luazmq_getsocket_at L 1) L (\<lambda>k.
       let run = (\<lambda>bind events.
             let (ret, z) = zmq_socket_monitor E (zs_skt (zskts L k)) (Some bind) events (zst L);
                 L = L\<lparr>zst := z\<rparr>
             in if ret = -1 then fail_ret E (Some k) L else Ret 1 (push (LStr bind) L))
       in if lua_gettop L = 1 \<or> is_number (lua_at L 2) then
            check (luaL_optint E L 2 (macro E ''ZMQ_EVENT_ALL'')) L (\<lambda>events.
              run (''inproc://lzmq.monitor.'' @ fmt_ptr E (zs_skt (zskts L k))) events)
          else
            check (luaL_checkstring E L 2) L (\<lambda>bind.
            check (luaL_optint E L 3 (macro E ''ZMQ_EVENT_ALL'')) L (\<lambda>events. run bind events)))"

definition luazmq_skt_reset_monitor :: "('z, 'm) env \<Rightarrow> ('z, 'm) lua \<Rightarrow> ('z, 'm) lua outcome" where
  "luazmq_skt_reset_monitor E L =
     check (luazmq_getsocket_at L 1) L (\<lambda>k.
       let (ret, z) = zmq_socket_monitor E (zs_skt (zskts L k)) None 0 (zst L); L = L\<lparr>zst := z\<rparr>
       in if ret = -1 then fail_ret E (Some k) L else luazmq_pass L)"

text \<open>\<open>has_event\<close> replaces each argument by the answer for it, in place.\<close>

fun has_event_loop ::
    "('z, 'm) env \<Rightarrow> int \<Rightarrow> int \<Rightarrow> nat \<Rightarrow> nat \<Rightarrow> ('z, 'm) lua \<Rightarrow> ('z, 'm) lua outcome" where
  "has_event_loop E v i n 0 L = Ret n L"
| "has_event_loop E v i n (Suc m) L =
     check (luaL_checkint E L i) L (\<lambda>ev.
       has_event_loop E v (i + 1) n m (lua_replace i (pushboolean (v AND ev \<noteq> 0) L)))"

definition luazmq_skt_has_event :: "('z, 'm) env \<Rightarrow> ('z, 'm) lua \<Rightarrow> ('z, 'm) lua outcome" where
  "luazmq_skt_has_event E L =
     check (luazmq_getsocket_at L 1) L (\<lambda>k.
       let top = lua_gettop L;
           (ret, val, z) = zmq_getsockopt E (zs_skt (zskts L k)) (macro E ''ZMQ_EVENTS'') (OInt 0) (zst L);
           L = L\<lparr>zst := z\<rparr>
       in if ret = -1 then fail_ret E (Some k) L
          else check (luaL_checkint E L 2) L (\<lambda>_.
            has_event_loop E (opt_int val) 2 (top - 1) (top - 1) L))"

subsection \<open>No socket is opened or closed\<close>

lemma keeps_set_more [simp]: "keeps L L' \<Longrightarrow> keeps L (set_more k b L')"
  unfolding set_more_def by (rule keeps_upd_skt) simp_all

lemma endpoint_loop_keep:
  assumes inv: "lz_inv L"
  shows "keeps L L' \<Longrightarrow> final_state (keeps L) (endpoint_loop E op k vs L')"
  by (induction vs arbitrary: L')
    (simp_all add: inv_fail [OF inv] case_prod_unfold Let_def split: sum.split)

lemma method_1_keep:
  assumes inv: "lz_inv L" shows "final_state (keeps L) (skt_method_1 E op L)"
  by (simp add: skt_method_1_def case_prod_unfold Let_def endpoint_loop_keep [OF inv] inv_fail_ret [OF inv]
      split: sum.split option.split)

lemma port_loop_keep:
  assumes inv: "lz_inv L"
  shows "keeps L L' \<Longrightarrow> final_state (keeps L) (port_loop E k base p n L')"
  by (induction n arbitrary: p L')
    (simp_all add: inv_fail_ret [OF inv] case_prod_unfold Let_def)

lemma send_keep:
  assumes inv: "lz_inv L" and k: "keeps L L'"
  shows "final_state (keeps L) (luazmq_skt_send E L')"
  using k by (simp add: luazmq_skt_send_def inv_fail_ret [OF inv] case_prod_unfold Let_def split: sum.split)

lemma send_all_loop_keep:
  assumes inv: "lz_inv L"
  shows "keeps L L' \<Longrightarrow> final_state (keeps L) (send_all_loop E k t fl i n L')"
  by (induction n arbitrary: i L')
    (simp_all add: inv_fail [OF inv] case_prod_unfold Let_def split: sum.split option.split)

lemma sendx_loop_keep:
  assumes inv: "lz_inv L"
  shows "keeps L L' \<Longrightarrow> final_state (keeps L) (sendx_loop E k fl i n L')"
  by (induction n arbitrary: i L')
    (simp_all add: inv_fail [OF inv] case_prod_unfold Let_def split: sum.split)

lemma recv_msg_keep:
  assumes inv: "lz_inv L" and k: "keeps L L'"
  shows "final_state (keeps L) (luazmq_skt_recv_msg E L')"
  using k by (simp add: luazmq_skt_recv_msg_def inv_fail_ret [OF inv] case_prod_unfold Let_def split: sum.split)

lemma has_event_loop_keep: "keeps L L' \<Longrightarrow> final_state (keeps L) (has_event_loop E v i n m L')"
  by (induction m arbitrary: i L') (simp_all split: sum.split)

lemma final_after:
  "\<lbrakk> final_state (keeps L) r; \<And>n M. keeps L M \<Longrightarrow> final_state (keeps L) (f n M) \<rbrakk> \<Longrightarrow>
     final_state (keeps L) (after r f)"
  by (cases r) simp_all

lemma recv_new_msg_keep:
  assumes inv: "lz_inv L" shows "final_state (keeps L) (luazmq_skt_recv_new_msg E L)"
proof -
  have "final_state (keeps L) (after (luazmq_skt_recv_msg E (lua_insert 2 M)) (\<lambda>n L.
      if lua_at L (- int n) = LNil then
        check (luazmq_getmessage_at L 2) L (\<lambda>j.
          let (_, m, z) = zmq_msg_close E (zm_msg (zmsgs L j)) (zst L) in
          Ret n (upd_msg j (\<lambda>g. g\<lparr>zm_msg := m,
            zm_flags := set_flag (zm_flags g) LUAZMQ_FLAG_CLOSED\<rparr>) (L\<lparr>zst := z\<rparr>)))
      else Ret n L))" if "keeps L M" for M
    using that recv_msg_keep [OF inv, of "lua_insert 2 M" E]
    by (intro final_after) (simp_all add: case_prod_unfold Let_def split: sum.split)
  then show ?thesis
    using keeps_msg_init [of L L E] recv_msg_keep [OF inv, of L E]
    by (simp add: luazmq_skt_recv_new_msg_def final_after split: sum.split)
qed

lemma skt_io_keep:
  assumes inv: "lz_inv L"
  shows "final_state (keeps L) (luazmq_skt_bind E L)" "final_state (keeps L) (luazmq_skt_unbind E L)"
    "final_state (keeps L) (luazmq_skt_connect E L)" "final_state (keeps L) (luazmq_skt_disconnect E L)"
    "final_state (keeps L) (luazmq_skt_bind_to_random_port E L)"
    "final_state (keeps L) (luazmq_skt_send E L)" "final_state (keeps L) (luazmq_skt_send_msg E L)"
    "final_state (keeps L) (luazmq_skt_send_more E L)" "final_state (keeps L) (luazmq_skt_send_all E L)"
    "final_state (keeps L) (luazmq_skt_sendx_impl E fl L)" "final_state (keeps L) (luazmq_skt_sendv_impl E fl L)"
    "final_state (keeps L) (luazmq_skt_recv E L)" "final_state (keeps L) (luazmq_skt_recv_len E L)"
    "final_state (keeps L) (luazmq_skt_recv_msg E L)" "final_state (keeps L) (luazmq_skt_recv_new_msg E L)"
    "final_state (keeps L) (luazmq_skt_recv_event E L)" "final_state (keeps L) (luazmq_skt_more L)"
    "final_state (keeps L) (luazmq_skt_poll E L)" "final_state (keeps L) (luazmq_skt_monitor E L)"
    "final_state (keeps L) (luazmq_skt_reset_monitor E L)" "final_state (keeps L) (luazmq_skt_has_event E L)"
  by (simp_all add: luazmq_skt_bind_def luazmq_skt_unbind_def luazmq_skt_connect_def
      luazmq_skt_disconnect_def method_1_keep [OF inv] luazmq_skt_bind_to_random_port_def
      port_loop_keep [OF inv] send_keep [OF inv] luazmq_skt_send_msg_def luazmq_skt_send_more_def
      luazmq_skt_send_all_def send_all_loop_keep [OF inv] luazmq_skt_sendx_impl_def sendx_loop_keep [OF inv]
      luazmq_skt_sendv_impl_def luazmq_skt_recv_def luazmq_skt_recv_len_def luazmq_allocfail_def
      recv_msg_keep [OF inv] recv_new_msg_keep [OF inv] luazmq_skt_recv_event_def luazmq_skt_more_def
      luazmq_skt_poll_def luazmq_skt_monitor_def luazmq_skt_reset_monitor_def luazmq_skt_has_event_def
      has_event_loop_keep inv_fail_ret [OF inv] case_prod_unfold Let_def split: sum.split option.split)

lemma recv_all_loop_keep:
  assumes inv: "lz_inv L" and r: "recv_all_loop E k fl acc L' = Some r"
  shows "keeps L L' \<Longrightarrow> final_state (keeps L) r"
  using r
proof (induction rule: recv_all_loop.raw_induct [rotated, consumes 1, case_names step])
  case (step rec E k fl acc L' r)
  from step(2,3) show ?case
    by (auto simp: inv_fail [OF inv] case_prod_unfold Let_def split: if_splits elim: step(1))
qed

lemma final_recvx_error [simp]: "final_state (keeps L) (recvx_error i L') = keeps L L'"
  by (simp add: recvx_error_def numeral_3_eq_3)

lemma recvx_loop_keep:
  assumes inv: "lz_inv L" and r: "recvx_loop E k fl i L' = Some r"
  shows "keeps L L' \<Longrightarrow> final_state (keeps L) r"
  using r
proof (induction rule: recvx_loop.raw_induct [rotated, consumes 1, case_names step])
  case (step rec E k fl i L' r)
  from step(2,3) show ?case
    by (auto simp: inv_fail [OF inv] case_prod_unfold Let_def split: if_splits elim: step(1))
qed

lemma skt_loops_keep:
  assumes inv: "lz_inv L"
  shows "luazmq_skt_recv_all E L = Some r \<Longrightarrow> final_state (keeps L) r"
    "luazmq_skt_recvx E L = Some r \<Longrightarrow> final_state (keeps L) r"
  by (auto simp: luazmq_skt_recv_all_def luazmq_skt_recvx_def split: sum.splits
      intro: recv_all_loop_keep [OF inv] recvx_loop_keep [OF inv])

end
