(* ===== verification/ZSocketOpt.thy ===== *)
theory ZSocketOpt
  imports ZSocketIO
begin

text \<open>
  \<open>zsocket.c\<close>: reading and writing socket options, the option tables (which name stands for
  which option of libzmq, and the C type it has), the text of a socket, and the method table.
  A row of a table that is inside an \<open>#if defined\<close> exists when \<open>zmq_defined\<close> says so.
\<close>

subsection \<open>Options by type\<close>

definition skt_setopt ::
    "('z, 'm) env \<Rightarrow> nat \<Rightarrow> int \<Rightarrow> optval \<Rightarrow> ('z, 'm) lua \<Rightarrow> ('z, 'm) lua outcome" where
  "skt_setopt E k opt v L =
     (let (ret, z) = zmq_setsockopt E (zs_skt (zskts L k)) opt v (zst L); L = L\<lparr>zst := z\<rparr>
      in if ret = -1 then fail_ret E (Some k) L else luazmq_pass L)"

text \<open>\<open>put\<close> pushes the value read; the value passed in only tells the type.\<close>

definition skt_getopt ::
    "('z, 'm) env \<Rightarrow> int \<Rightarrow> optval \<Rightarrow> (optval \<Rightarrow> lval) \<Rightarrow> ('z, 'm) lua \<Rightarrow> ('z, 'm) lua outcome" where
  "skt_getopt E opt v0 put L =
     check (luazmq_getsocket_at L 1) L (\<lambda>k.
       let (ret, v, z) = zmq_getsockopt E (zs_skt (zskts L k)) opt v0 (zst L); L = L\<lparr>zst := z\<rparr>
       in if ret = -1 then fail_ret E (Some k) L else Ret 1 (push (put v) L))"

definition luazmq_skt_set_int :: "('z, 'm) env \<Rightarrow> int \<Rightarrow> ('z, 'm) lua \<Rightarrow> ('z, 'm) lua outcome" where
  "luazmq_skt_set_int E opt L =
     check (luazmq_getsocket_at L 1) L (\<lambda>k.
     check (luaL_checkint E L 2) L (\<lambda>x. skt_setopt E k opt (OInt x) L))"

definition luazmq_skt_set_u64 :: "('z, 'm) env \<Rightarrow> int \<Rightarrow> ('z, 'm) lua \<Rightarrow> ('z, 'm) lua outcome" where
  "luazmq_skt_set_u64 E opt L =
     check (luazmq_getsocket_at L 1) L (\<lambda>k.
     check (luaL_checknumber E L 2) L (\<lambda>q.
     ub_check BadCast (num_to_u64 q) (\<lambda>w. skt_setopt E k opt (OU64 (uint w)) L)))"

definition luazmq_skt_set_i64 :: "('z, 'm) env \<Rightarrow> int \<Rightarrow> ('z, 'm) lua \<Rightarrow> ('z, 'm) lua outcome" where
  "luazmq_skt_set_i64 E opt L =
     check (luazmq_getsocket_at L 1) L (\<lambda>k.
     check (luaL_checknumber E L 2) L (\<lambda>q.
     ub_check BadCast (num_to_i64 q) (\<lambda>w. skt_setopt E k opt (OI64 (sint w)) L)))"

definition luazmq_skt_set_str :: "('z, 'm) env \<Rightarrow> int \<Rightarrow> ('z, 'm) lua \<Rightarrow> ('z, 'm) lua outcome" where
  "luazmq_skt_set_str E opt L =
     check (luazmq_getsocket_at L 1) L (\<lambda>k.
     check (luaL_checklstring E L 2) L (\<lambda>s. skt_setopt E k opt (OBytes s) L))"

definition luazmq_skt_set_fdt :: "('z, 'm) env \<Rightarrow> int \<Rightarrow> ('z, 'm) lua \<Rightarrow> ('z, 'm) lua outcome" where
  "luazmq_skt_set_fdt E opt L =
     check (luazmq_getsocket_at L 1) L (\<lambda>k.
     check (luazmq_check_os_socket E L 2 ''file descriptor expected'') L (\<lambda>fd.
       skt_setopt E k opt (OFd fd) L))"

text \<open>A list of values, set one by one; the values stay on the stack.\<close>

fun set_str_loop ::
    "('z, 'm) env \<Rightarrow> nat \<Rightarrow> int \<Rightarrow> nat \<Rightarrow> lval list \<Rightarrow> ('z, 'm) lua \<Rightarrow> ('z, 'm) lua outcome" where
  "set_str_loop E k opt i [] L = luazmq_pass L"
| "set_str_loop E k opt i (v # vs) L =
     check (luaL_checklstring E (push v L) (-1)) (push v L) (\<lambda>s.
       let (ret, z) = zmq_setsockopt E (zs_skt (zskts L k)) opt (OBytes s) (zst L);
           L = push v L\<lparr>zst := z\<rparr>
       in if ret = -1
          then ub_bind (luazmq_fail E (Some k) L) (\<lambda>L. Ret 3 (pushnumber (int i) L))
          else set_str_loop E k opt (Suc i) vs L)"

definition luazmq_skt_set_str_arr :: "('z, 'm) env \<Rightarrow> int \<Rightarrow> ('z, 'm) lua \<Rightarrow> ('z, 'm) lua outcome" where
  "luazmq_skt_set_str_arr E opt L =
     (if \<not> is_table (lua_at L 2) then luazmq_skt_set_str E opt L
      else check (luazmq_getsocket_at L 1) L (\<lambda>k.
        ub_check BadCast (raw_elements E (lua_at L 2)) (\<lambda>vs. set_str_loop E k opt 1 vs L)))"

text \<open>The values libzmq returns, as Lua values.\<close>

fun opt_i64 :: "optval \<Rightarrow> int" where
  "opt_i64 (OI64 x) = x"
| "opt_i64 _ = 0"

fun opt_u64 :: "optval \<Rightarrow> int" where
  "opt_u64 (OU64 x) = x"
| "opt_u64 _ = 0"

fun opt_fd :: "optval \<Rightarrow> int" where
  "opt_fd (OFd x) = x"
| "opt_fd _ = 0"

fun opt_bytes :: "optval \<Rightarrow> string" where
  "opt_bytes (OBytes s) = s"
| "opt_bytes _ = []"

definition luazmq_skt_get_int :: "('z, 'm) env \<Rightarrow> int \<Rightarrow> ('z, 'm) lua \<Rightarrow> ('z, 'm) lua outcome" where
  "luazmq_skt_get_int E opt = skt_getopt E opt (OInt 0) (\<lambda>v. LNum (of_int (opt_int v)))"

definition luazmq_skt_get_u64 :: "('z, 'm) env \<Rightarrow> int \<Rightarrow> ('z, 'm) lua \<Rightarrow> ('z, 'm) lua outcome" where
  "luazmq_skt_get_u64 E opt = skt_getopt E opt (OU64 0) (\<lambda>v. LNum (int_to_num (opt_u64 v)))"

definition luazmq_skt_get_i64 :: "('z, 'm) env \<Rightarrow> int \<Rightarrow> ('z, 'm) lua \<Rightarrow> ('z, 'm) lua outcome" where
  "luazmq_skt_get_i64 E opt = skt_getopt E opt (OI64 0) (\<lambda>v. LNum (int_to_num (opt_i64 v)))"

definition luazmq_skt_get_fdt :: "('z, 'm) env \<Rightarrow> int \<Rightarrow> ('z, 'm) lua \<Rightarrow> ('z, 'm) lua outcome" where
  "luazmq_skt_get_fdt E opt = skt_getopt E opt (OFd 0) (\<lambda>v. LNum (of_int (opt_fd v)))"

definition luazmq_skt_get_str :: "('z, 'm) env \<Rightarrow> int \<Rightarrow> ('z, 'm) lua \<Rightarrow> ('z, 'm) lua outcome" where
  "luazmq_skt_get_str E opt = skt_getopt E opt (OBytes []) (\<lambda>v. LStr (opt_bytes v))"

subsection \<open>The option tables\<close>

datatype access = RW | RO | WO

datatype opt_type = T_int | T_u64 | T_i64 | T_str | T_str_arr | T_fdt

text \<open>\<open>DEFINE_SKT_OPT_*(name, option, type)\<close>: the guard, the access, and the three arguments.\<close>

definition skt_opt_defs_1 :: "(string \<times> access \<times> string \<times> string \<times> opt_type) list" where
  "skt_opt_defs_1 = [
    (''ZMQ_AFFINITY'', RW, ''affinity'', ''ZMQ_AFFINITY'', T_u64),
    (''ZMQ_IDENTITY'', RW, ''identity'', ''ZMQ_IDENTITY'', T_str),
    (''ZMQ_SUBSCRIBE'', WO, ''subscribe'', ''ZMQ_SUBSCRIBE'', T_str_arr),
    (''ZMQ_UNSUBSCRIBE'', WO, ''unsubscribe'', ''ZMQ_UNSUBSCRIBE'', T_str_arr),
    (''ZMQ_RATE'', RW, ''rate'', ''ZMQ_RATE'', T_int),
    (''ZMQ_RECOVERY_IVL'', RW, ''recovery_ivl'', ''ZMQ_RECOVERY_IVL'', T_int),
    (''ZMQ_SNDBUF'', RW, ''sndbuf'', ''ZMQ_SNDBUF'', T_int),
    (''ZMQ_RCVBUF'', RW, ''rcvbuf'', ''ZMQ_RCVBUF'', T_int),
    (''ZMQ_RCVMORE'', RO, ''rcvmore'', ''ZMQ_RCVMORE'', T_int),
    (''ZMQ_FD'', RO, ''fd'', ''ZMQ_FD'', T_fdt),
    (''ZMQ_EVENTS'', RO, ''events'', ''ZMQ_EVENTS'', T_int),
    (''ZMQ_TYPE'', RO, ''type'', ''ZMQ_TYPE'', T_int),
    (''ZMQ_LINGER'', RW, ''linger'', ''ZMQ_LINGER'', T_int),
    (''ZMQ_RECONNECT_IVL'', RW, ''reconnect_ivl'', ''ZMQ_RECONNECT_IVL'', T_int),
    (''ZMQ_BACKLOG'', RW, ''backlog'', ''ZMQ_BACKLOG'', T_int),
    (''ZMQ_RECONNECT_IVL_MAX'', RW, ''reconnect_ivl_max'', ''ZMQ_RECONNECT_IVL_MAX'', T_int),
    (''ZMQ_MAXMSGSIZE'', RW, ''maxmsgsize'', ''ZMQ_MAXMSGSIZE'', T_i64),
    (''ZMQ_SNDHWM'', RW, ''sndhwm'', ''ZMQ_SNDHWM'', T_int),
    (''ZMQ_RCVHWM'', RW, ''rcvhwm'', ''ZMQ_RCVHWM'', T_int),
    (''ZMQ_MULTICAST_HOPS'', RW, ''multicast_hops'', ''ZMQ_MULTICAST_HOPS'', T_int),
    (''ZMQ_RCVTIMEO'', RW, ''rcvtimeo'', ''ZMQ_RCVTIMEO'', T_int),
    (''ZMQ_SNDTIMEO'', RW, ''sndtimeo'', ''ZMQ_SNDTIMEO'', T_int),
    (''ZMQ_IPV4ONLY'', RW, ''ipv4only'', ''ZMQ_IPV4ONLY'', T_int),
    (''ZMQ_LAST_ENDPOINT'', RO, ''last_endpoint'', ''ZMQ_LAST_ENDPOINT'', T_str),
    (''ZMQ_ROUTER_MANDATORY'', WO, ''router_mandatory'', ''ZMQ_ROUTER_MANDATORY'', T_int),
    (''ZMQ_TCP_KEEPALIVE'', RW, ''tcp_keepalive'', ''ZMQ_TCP_KEEPALIVE'', T_int),
    (''ZMQ_TCP_KEEPALIVE_CNT'', RW, ''tcp_keepalive_cnt'', ''ZMQ_TCP_KEEPALIVE_CNT'', T_int),
    (''ZMQ_TCP_KEEPALIVE_IDLE'', RW, ''tcp_keepalive_idle'', ''ZMQ_TCP_KEEPALIVE_IDLE'', T_int),
    (''ZMQ_TCP_KEEPALIVE_INTVL'', RW, ''tcp_keepalive_intvl'', ''ZMQ_TCP_KEEPALIVE_INTVL'', T_int),
    (''ZMQ_TCP_ACCEPT_FILTER'', WO, ''tcp_accept_filter'', ''ZMQ_TCP_ACCEPT_FILTER'', T_str_arr),
    (''ZMQ_IMMEDIATE'', RW, ''immediate'', ''ZMQ_IMMEDIATE'', T_int),
    (''ZMQ_DELAY_ATTACH_ON_CONNECT'', RW, ''delay_attach_on_connect'', ''ZMQ_DELAY_ATTACH_ON_CONNECT'', T_int),
    (''ZMQ_XPUB_VERBOSE'', RW, ''xpub_verbose'', ''ZMQ_XPUB_VERBOSE'', T_int),
    (''ZMQ_ROUTER_RAW'', RW, ''router_raw'', ''ZMQ_ROUTER_RAW'', T_int),
    (''ZMQ_IPV6'', RW, ''ipv6'', ''ZMQ_IPV6'', T_int),
    (''ZMQ_MECHANISM'', RO, ''mechanism'', ''ZMQ_MECHANISM'', T_int),
    (''ZMQ_PLAIN_SERVER'', RW, ''plain_server'', ''ZMQ_PLAIN_SERVER'', T_int),
    (''ZMQ_PLAIN_USERNAME'', RW, ''plain_username'', ''ZMQ_PLAIN_USERNAME'', T_str),
    (''ZMQ_PLAIN_PASSWORD'', RW, ''plain_password'', ''ZMQ_PLAIN_PASSWORD'', T_str),
    (''ZMQ_CURVE_SERVER'', RW, ''curve_server'', ''ZMQ_CURVE_SERVER'', T_int)]"

definition skt_opt_defs_2 :: "(string \<times> access \<times> string \<times> string \<times> opt_type) list" where
  "skt_opt_defs_2 = [
    (''ZMQ_CURVE_PUBLICKEY'', RW, ''curve_publickey'', ''ZMQ_CURVE_PUBLICKEY'', T_str),
    (''ZMQ_CURVE_SECRETKEY'', RW, ''curve_secretkey'', ''ZMQ_CURVE_SECRETKEY'', T_str),
    (''ZMQ_CURVE_SERVERKEY'', RW, ''curve_serverkey'', ''ZMQ_CURVE_SERVERKEY'', T_str),
    (''ZMQ_PROBE_ROUTER'', WO, ''probe_router'', ''ZMQ_PROBE_ROUTER'', T_int),
    (''ZMQ_REQ_CORRELATE'', WO, ''req_correlate'', ''ZMQ_REQ_CORRELATE'', T_int),
    (''ZMQ_REQ_RELAXED'', WO, ''req_relaxed'', ''ZMQ_REQ_RELAXED'', T_int),
    (''ZMQ_CONFLATE'', WO, ''conflate'', ''ZMQ_CONFLATE'', T_int),
    (''ZMQ_ZAP_DOMAIN'', RW, ''zap_domain'', ''ZMQ_ZAP_DOMAIN'', T_str),
    (''ZMQ_ROUTER_HANDOVER'', WO, ''router_handover'', ''ZMQ_ROUTER_HANDOVER'', T_int),
    (''ZMQ_TOS'', RW, ''tos'', ''ZMQ_TOS'', T_int),
    (''ZMQ_IPC_FILTER_PID'', WO, ''ipc_filter_pid'', ''ZMQ_IPC_FILTER_PID'', T_int),
    (''ZMQ_IPC_FILTER_UID'', WO, ''ipc_filter_uid'', ''ZMQ_IPC_FILTER_UID'', T_int),
    (''ZMQ_IPC_FILTER_GID'', WO, ''ipc_filter_gid'', ''ZMQ_IPC_FILTER_GID'', T_int),
    (''ZMQ_CONNECT_RID'', WO, ''connect_rid'', ''ZMQ_CONNECT_RID'', T_str),
    (''ZMQ_GSSAPI_SERVER'', RW, ''gssapi_server'', ''ZMQ_GSSAPI_SERVER'', T_int),
    (''ZMQ_GSSAPI_PRINCIPAL'', RW, ''gssapi_principal'', ''ZMQ_GSSAPI_PRINCIPAL'', T_str),
    (''ZMQ_GSSAPI_SERVICE_PRINCIPAL'', RW, ''gssapi_service_principal'', ''ZMQ_GSSAPI_SERVICE_PRINCIPAL'', T_str),
    (''ZMQ_GSSAPI_PLAINTEXT'', RW, ''gssapi_plaintext'', ''ZMQ_GSSAPI_PLAINTEXT'', T_str),
    (''ZMQ_HANDSHAKE_IVL'', RW, ''handshake_ivl'', ''ZMQ_HANDSHAKE_IVL'', T_int),
    (''ZMQ_IDENTITY_FD'', RO, ''identity_fd'', ''ZMQ_IDENTITY_FD'', T_fdt),
    (''ZMQ_SOCKS_PROXY'', RW, ''socks_proxy'', ''ZMQ_SOCKS_PROXY'', T_str),
    (''ZMQ_XPUB_NODROP'', WO, ''xpub_nodrop'', ''ZMQ_XPUB_NODROP'', T_int),
    (''ZMQ_BLOCKY'', RW, ''blocky'', ''ZMQ_BLOCKY'', T_int),
    (''ZMQ_XPUB_MANUAL'', WO, ''xpub_manual'', ''ZMQ_XPUB_MANUAL'', T_int),
    (''ZMQ_XPUB_WELCOME_MSG'', WO, ''xpub_welcome_msg'', ''ZMQ_XPUB_WELCOME_MSG'', T_str),
    (''ZMQ_STREAM_NOTIFY'', WO, ''stream_notify'', ''ZMQ_STREAM_NOTIFY'', T_int),
    (''ZMQ_INVERT_MATCHING'', RW, ''invert_matching'', ''ZMQ_INVERT_MATCHING'', T_int),
    (''ZMQ_HEARTBEAT_IVL'', WO, ''heartbeat_ivl'', ''ZMQ_HEARTBEAT_IVL'', T_int),
    (''ZMQ_HEARTBEAT_TTL'', WO, ''heartbeat_ttl'', ''ZMQ_HEARTBEAT_TTL'', T_int),
    (''ZMQ_HEARTBEAT_TIMEOUT'', WO, ''heartbeat_timeout'', ''ZMQ_HEARTBEAT_TIMEOUT'', T_int),
    (''ZMQ_XPUB_VERBOSER'', WO, ''xpub_verboser'', ''ZMQ_XPUB_VERBOSER'', T_int),
    (''ZMQ_CONNECT_TIMEOUT'', RW, ''connect_timeout'', ''ZMQ_CONNECT_TIMEOUT'', T_int),
    (''ZMQ_TCP_MAXRT'', RW, ''tcp_maxrt'', ''ZMQ_TCP_MAXRT'', T_int),
    (''ZMQ_THREAD_SAFE'', RO, ''thread_safe'', ''ZMQ_THREAD_SAFE'', T_int),
    (''ZMQ_MULTICAST_MAXTPDU'', RW, ''multicast_maxtpdu'', ''ZMQ_MULTICAST_MAXTPDU'', T_int),
    (''ZMQ_VMCI_BUFFER_SIZE'', RW, ''vmci_buffer_size'', ''ZMQ_VMCI_BUFFER_SIZE'', T_u64),
    (''ZMQ_VMCI_BUFFER_MIN_SIZE'', RW, ''vmci_buffer_min_size'', ''ZMQ_VMCI_BUFFER_MIN_SIZE'', T_u64),
    (''ZMQ_VMCI_BUFFER_MAX_SIZE'', RW, ''vmci_buffer_max_size'', ''ZMQ_VMCI_BUFFER_MAX_SIZE'', T_u64),
    (''ZMQ_VMCI_CONNECT_TIMEOUT'', RW, ''vmci_connect_timeout'', ''ZMQ_VMCI_CONNECT_TIMEOUT'', T_int),
    (''ZMQ_USE_FD'', RW, ''use_fd'', ''ZMQ_USE_FD'', T_fdt)]"

definition skt_opt_defs :: "(string \<times> access \<times> string \<times> string \<times> opt_type) list" where
  "skt_opt_defs = skt_opt_defs_1 @ skt_opt_defs_2"

text \<open>\<open>REGISTER_SKT_OPT_*(name)\<close>, in the method table.\<close>

definition skt_opt_regs_1 :: "(string \<times> access \<times> string) list" where
  "skt_opt_regs_1 = [
    (''ZMQ_AFFINITY'', RW, ''affinity''),
    (''ZMQ_IDENTITY'', RW, ''identity''),
    (''ZMQ_SUBSCRIBE'', WO, ''subscribe''),
    (''ZMQ_UNSUBSCRIBE'', WO, ''unsubscribe''),
    (''ZMQ_RATE'', RW, ''rate''),
    (''ZMQ_RECOVERY_IVL'', RW, ''recovery_ivl''),
    (''ZMQ_SNDBUF'', RW, ''sndbuf''),
    (''ZMQ_RCVBUF'', RW, ''rcvbuf''),
    (''ZMQ_RCVMORE'', RO, ''rcvmore''),
    (''ZMQ_FD'', RO, ''fd''),
    (''ZMQ_EVENTS'', RO, ''events''),
    (''ZMQ_TYPE'', RO, ''type''),
    (''ZMQ_LINGER'', RW, ''linger''),
    (''ZMQ_RECONNECT_IVL'', RW, ''reconnect_ivl''),
    (''ZMQ_BACKLOG'', RW, ''backlog''),
    (''ZMQ_RECONNECT_IVL_MAX'', RW, ''reconnect_ivl_max''),
    (''ZMQ_MAXMSGSIZE'', RW, ''maxmsgsize''),
    (''ZMQ_SNDHWM'', RW, ''sndhwm''),
    (''ZMQ_RCVHWM'', RW, ''rcvhwm''),
    (''ZMQ_MULTICAST_HOPS'', RW, ''multicast_hops''),
    (''ZMQ_RCVTIMEO'', RW, ''rcvtimeo''),
    (''ZMQ_SNDTIMEO'', RW, ''sndtimeo''),
    (''ZMQ_IPV4ONLY'', RW, ''ipv4only''),
    (''ZMQ_LAST_ENDPOINT'', RO, ''last_endpoint''),
    (''ZMQ_ROUTER_MANDATORY'', WO, ''router_mandatory''),
    (''ZMQ_TCP_KEEPALIVE'', RW, ''tcp_keepalive''),
    (''ZMQ_TCP_KEEPALIVE_CNT'', RW, ''tcp_keepalive_cnt''),
    (''ZMQ_TCP_KEEPALIVE_IDLE'', RW, ''tcp_keepalive_idle''),
    (''ZMQ_TCP_KEEPALIVE_INTVL'', RW, ''tcp_keepalive_intvl''),
    (''ZMQ_TCP_ACCEPT_FILTER'', WO, ''tcp_accept_filter''),
    (''ZMQ_IMMEDIATE'', RW, ''immediate''),
    (''ZMQ_DELAY_ATTACH_ON_CONNECT'', RW, ''delay_attach_on_connect''),
    (''ZMQ_XPUB_VERBOSE'', RW, ''xpub_verbose''),
    (''ZMQ_ROUTER_RAW'', RW, ''router_raw''),
    (''ZMQ_IPV6'', RW, ''ipv6''),
    (''ZMQ_MECHANISM'', RO, ''mechanism''),
    (''ZMQ_PLAIN_SERVER'', RW, ''plain_server''),
    (''ZMQ_PLAIN_USERNAME'', RW, ''plain_username''),
    (''ZMQ_PLAIN_PASSWORD'', RW, ''plain_password''),
    (''ZMQ_CURVE_SERVER'', RW, ''curve_server'')]"

definition skt_opt_regs_2 :: "(string \<times> access \<times> string) list" where
  "skt_opt_regs_2 = [
    (''ZMQ_CURVE_PUBLICKEY'', RW, ''curve_publickey''),
    (''ZMQ_CURVE_SECRETKEY'', RW, ''curve_secretkey''),
    (''ZMQ_CURVE_SERVERKEY'', RW, ''curve_serverkey''),
    (''ZMQ_PROBE_ROUTER'', WO, ''probe_router''),
    (''ZMQ_REQ_CORRELATE'', WO, ''req_correlate''),
    (''ZMQ_REQ_RELAXED'', WO, ''req_relaxed''),
    (''ZMQ_CONFLATE'', WO, ''conflate''),
    (''ZMQ_ZAP_DOMAIN'', RW, ''zap_domain''),
    (''ZMQ_ROUTER_HANDOVER'', WO, ''router_handover''),
    (''ZMQ_TOS'', RW, ''tos''),
    (''ZMQ_IPC_FILTER_PID'', WO, ''ipc_filter_pid''),
    (''ZMQ_IPC_FILTER_UID'', WO, ''ipc_filter_uid''),
    (''ZMQ_IPC_FILTER_GID'', WO, ''ipc_filter_gid''),
    (''ZMQ_CONNECT_RID'', WO, ''connect_rid''),
    (''ZMQ_GSSAPI_SERVER'', RW, ''gssapi_server''),
    (''ZMQ_GSSAPI_PRINCIPAL'', RW, ''gssapi_principal''),
    (''ZMQ_GSSAPI_SERVICE_PRINCIPAL'', RW, ''gssapi_service_principal''),
    (''ZMQ_GSSAPI_PLAINTEXT'', RW, ''gssapi_plaintext''),
    (''ZMQ_HANDSHAKE_IVL'', RW, ''handshake_ivl''),
    (''ZMQ_IDENTITY_FD'', RO, ''identity_fd''),
    (''ZMQ_SOCKS_PROXY'', RW, ''socks_proxy''),
    (''ZMQ_XPUB_NODROP'', WO, ''xpub_nodrop''),
    (''ZMQ_BLOCKY'', RW, ''blocky''),
    (''ZMQ_XPUB_MANUAL'', WO, ''xpub_manual''),
    (''ZMQ_XPUB_WELCOME_MSG'', WO, ''xpub_welcome_msg''),
    (''ZMQ_STREAM_NOTIFY'', WO, ''stream_notify''),
    (''ZMQ_INVERT_MATCHING'', RW, ''invert_matching''),
    (''ZMQ_HEARTBEAT_IVL'', WO, ''heartbeat_ivl''),
    (''ZMQ_HEARTBEAT_TTL'', WO, ''heartbeat_ttl''),
    (''ZMQ_HEARTBEAT_TIMEOUT'', WO, ''heartbeat_timeout''),
    (''ZMQ_XPUB_VERBOSER'', WO, ''xpub_verboser''),
    (''ZMQ_CONNECT_TIMEOUT'', RW, ''connect_timeout''),
    (''ZMQ_TCP_MAXRT'', RW, ''tcp_maxrt''),
    (''ZMQ_THREAD_SAFE'', RO, ''thread_safe''),
    (''ZMQ_MULTICAST_MAXTPDU'', RW, ''multicast_maxtpdu''),
    (''ZMQ_VMCI_BUFFER_SIZE'', RW, ''vmci_buffer_size''),
    (''ZMQ_VMCI_BUFFER_MIN_SIZE'', RW, ''vmci_buffer_min_size''),
    (''ZMQ_VMCI_BUFFER_MAX_SIZE'', RW, ''vmci_buffer_max_size''),
    (''ZMQ_VMCI_CONNECT_TIMEOUT'', RW, ''vmci_connect_timeout''),
    (''ZMQ_USE_FD'', RW, ''use_fd'')]"

definition skt_opt_regs :: "(string \<times> access \<times> string) list" where
  "skt_opt_regs = skt_opt_regs_1 @ skt_opt_regs_2"

text \<open>\<open>DEFINE_ZMQ_CONST(NAME)\<close>, in the table of constants.\<close>

definition skt_opt_consts_1 :: "(string \<times> string) list" where
  "skt_opt_consts_1 = [
    (''ZMQ_AFFINITY'', ''AFFINITY''),
    (''ZMQ_IDENTITY'', ''IDENTITY''),
    (''ZMQ_SUBSCRIBE'', ''SUBSCRIBE''),
    (''ZMQ_UNSUBSCRIBE'', ''UNSUBSCRIBE''),
    (''ZMQ_RATE'', ''RATE''),
    (''ZMQ_RECOVERY_IVL'', ''RECOVERY_IVL''),
    (''ZMQ_SNDBUF'', ''SNDBUF''),
    (''ZMQ_RCVBUF'', ''RCVBUF''),
    (''ZMQ_RCVMORE'', ''RCVMORE''),
    (''ZMQ_FD'', ''FD''),
    (''ZMQ_EVENTS'', ''EVENTS''),
    (''ZMQ_TYPE'', ''TYPE''),
    (''ZMQ_LINGER'', ''LINGER''),
    (''ZMQ_RECONNECT_IVL'', ''RECONNECT_IVL''),
    (''ZMQ_BACKLOG'', ''BACKLOG''),
    (''ZMQ_RECONNECT_IVL_MAX'', ''RECONNECT_IVL_MAX''),
    (''ZMQ_MAXMSGSIZE'', ''MAXMSGSIZE''),
    (''ZMQ_SNDHWM'', ''SNDHWM''),
    (''ZMQ_RCVHWM'', ''RCVHWM''),
    (''ZMQ_MULTICAST_HOPS'', ''MULTICAST_HOPS''),
    (''ZMQ_RCVTIMEO'', ''RCVTIMEO''),
    (''ZMQ_SNDTIMEO'', ''SNDTIMEO''),
    (''ZMQ_IPV4ONLY'', ''IPV4ONLY''),
    (''ZMQ_LAST_ENDPOINT'', ''LAST_ENDPOINT''),
    (''ZMQ_ROUTER_MANDATORY'', ''ROUTER_MANDATORY''),
    (''ZMQ_TCP_KEEPALIVE'', ''TCP_KEEPALIVE''),
    (''ZMQ_TCP_KEEPALIVE_CNT'', ''TCP_KEEPALIVE_CNT''),
    (''ZMQ_TCP_KEEPALIVE_IDLE'', ''TCP_KEEPALIVE_IDLE''),
    (''ZMQ_TCP_KEEPALIVE_INTVL'', ''TCP_KEEPALIVE_INTVL''),
    (''ZMQ_TCP_ACCEPT_FILTER'', ''TCP_ACCEPT_FILTER''),
    (''ZMQ_IMMEDIATE'', ''IMMEDIATE''),
    (''ZMQ_DELAY_ATTACH_ON_CONNECT'', ''DELAY_ATTACH_ON_CONNECT''),
    (''ZMQ_XPUB_VERBOSE'', ''XPUB_VERBOSE''),
    (''ZMQ_ROUTER_RAW'', ''ROUTER_RAW''),
    (''ZMQ_IPV6'', ''IPV6''),
    (''ZMQ_MECHANISM'', ''MECHANISM''),
    (''ZMQ_PLAIN_SERVER'', ''PLAIN_SERVER''),
    (''ZMQ_PLAIN_USERNAME'', ''PLAIN_USERNAME''),
    (''ZMQ_PLAIN_PASSWORD'', ''PLAIN_PASSWORD''),
    (''ZMQ_CURVE_SERVER'', ''CURVE_SERVER'')]"

definition skt_opt_consts_2 :: "(string \<times> string) list" where
  "skt_opt_consts_2 = [
    (''ZMQ_CURVE_PUBLICKEY'', ''CURVE_PUBLICKEY''),
    (''ZMQ_CURVE_SECRETKEY'', ''CURVE_SECRETKEY''),
    (''ZMQ_CURVE_SERVERKEY'', ''CURVE_SERVERKEY''),
    (''ZMQ_PROBE_ROUTER'', ''PROBE_ROUTER''),
    (''ZMQ_REQ_CORRELATE'', ''REQ_CORRELATE''),
    (''ZMQ_REQ_RELAXED'', ''REQ_RELAXED''),
    (''ZMQ_CONFLATE'', ''CONFLATE''),
    (''ZMQ_ZAP_DOMAIN'', ''ZAP_DOMAIN''),
    (''ZMQ_ROUTER_HANDOVER'', ''ROUTER_HANDOVER''),
    (''ZMQ_TOS'', ''TOS''),
    (''ZMQ_IPC_FILTER_PID'', ''IPC_FILTER_PID''),
    (''ZMQ_IPC_FILTER_UID'', ''IPC_FILTER_UID''),
    (''ZMQ_IPC_FILTER_GID'', ''IPC_FILTER_GID''),
    (''ZMQ_CONNECT_RID'', ''CONNECT_RID''),
    (''ZMQ_GSSAPI_SERVER'', ''GSSAPI_SERVER''),
    (''ZMQ_GSSAPI_PRINCIPAL'', ''GSSAPI_PRINCIPAL''),
    (''ZMQ_GSSAPI_SERVICE_PRINCIPAL'', ''GSSAPI_SERVICE_PRINCIPAL''),
    (''ZMQ_GSSAPI_PLAINTEXT'', ''GSSAPI_PLAINTEXT''),
    (''ZMQ_HANDSHAKE_IVL'', ''HANDSHAKE_IVL''),
    (''ZMQ_IDENTITY_FD'', ''IDENTITY_FD''),
    (''ZMQ_SOCKS_PROXY'', ''SOCKS_PROXY''),
    (''ZMQ_XPUB_NODROP'', ''XPUB_NODROP''),
    (''ZMQ_BLOCKY'', ''BLOCKY''),
    (''ZMQ_XPUB_MANUAL'', ''XPUB_MANUAL''),
    (''ZMQ_XPUB_WELCOME_MSG'', ''XPUB_WELCOME_MSG''),
    (''ZMQ_STREAM_NOTIFY'', ''STREAM_NOTIFY''),
    (''ZMQ_INVERT_MATCHING'', ''INVERT_MATCHING''),
    (''ZMQ_HEARTBEAT_IVL'', ''HEARTBEAT_IVL''),
    (''ZMQ_HEARTBEAT_TTL'', ''HEARTBEAT_TTL''),
    (''ZMQ_HEARTBEAT_TIMEOUT'', ''HEARTBEAT_TIMEOUT''),
    (''ZMQ_XPUB_VERBOSER'', ''XPUB_VERBOSER''),
    (''ZMQ_CONNECT_TIMEOUT'', ''CONNECT_TIMEOUT''),
    (''ZMQ_TCP_MAXRT'', ''TCP_MAXRT''),
    (''ZMQ_THREAD_SAFE'', ''THREAD_SAFE''),
    (''ZMQ_MULTICAST_MAXTPDU'', ''MULTICAST_MAXTPDU''),
    (''ZMQ_VMCI_BUFFER_SIZE'', ''VMCI_BUFFER_SIZE''),
    (''ZMQ_VMCI_BUFFER_MIN_SIZE'', ''VMCI_BUFFER_MIN_SIZE''),
    (''ZMQ_VMCI_BUFFER_MAX_SIZE'', ''VMCI_BUFFER_MAX_SIZE''),
    (''ZMQ_VMCI_CONNECT_TIMEOUT'', ''VMCI_CONNECT_TIMEOUT''),
    (''ZMQ_USE_FD'', ''USE_FD'')]"

definition skt_opt_consts :: "(string \<times> string) list" where
  "skt_opt_consts = skt_opt_consts_1 @ skt_opt_consts_2"

definition luazmq_skt_set_opt ::
    "('z, 'm) env \<Rightarrow> opt_type \<Rightarrow> int \<Rightarrow> ('z, 'm) lua \<Rightarrow> ('z, 'm) lua outcome" where
  "luazmq_skt_set_opt E t = (case t of T_int \<Rightarrow> luazmq_skt_set_int E | T_u64 \<Rightarrow> luazmq_skt_set_u64 E
     | T_i64 \<Rightarrow> luazmq_skt_set_i64 E | T_str \<Rightarrow> luazmq_skt_set_str E
     | T_str_arr \<Rightarrow> luazmq_skt_set_str_arr E | T_fdt \<Rightarrow> luazmq_skt_set_fdt E)"

text \<open>No option of type \<open>str_arr\<close> is readable.\<close>

definition luazmq_skt_get_opt ::
    "('z, 'm) env \<Rightarrow> opt_type \<Rightarrow> int \<Rightarrow> ('z, 'm) lua \<Rightarrow> ('z, 'm) lua outcome" where
  "luazmq_skt_get_opt E t = (case t of T_int \<Rightarrow> luazmq_skt_get_int E | T_u64 \<Rightarrow> luazmq_skt_get_u64 E
     | T_i64 \<Rightarrow> luazmq_skt_get_i64 E | T_str \<Rightarrow> luazmq_skt_get_str E
     | T_str_arr \<Rightarrow> luazmq_skt_get_str E | T_fdt \<Rightarrow> luazmq_skt_get_fdt E)"

definition skt_options :: "('z, 'm) env \<Rightarrow> (string \<times> int) list" where
  "skt_options E = map (\<lambda>(g, n). (n, macro E (''ZMQ_'' @ n)))
     (filter (\<lambda>(g, n). zmq_defined E g) skt_opt_consts)"

text \<open>Options by number.\<close>

definition luazmq_skt_getopt_int :: "('z, 'm) env \<Rightarrow> ('z, 'm) lua \<Rightarrow> ('z, 'm) lua outcome" where
  "luazmq_skt_getopt_int E L = check (luaL_checkint E L 2) L (\<lambda>opt. luazmq_skt_get_int E opt L)"

definition luazmq_skt_getopt_i64 :: "('z, 'm) env \<Rightarrow> ('z, 'm) lua \<Rightarrow> ('z, 'm) lua outcome" where
  "luazmq_skt_getopt_i64 E L = check (luaL_checkint E L 2) L (\<lambda>opt. luazmq_skt_get_i64 E opt L)"

definition luazmq_skt_getopt_u64 :: "('z, 'm) env \<Rightarrow> ('z, 'm) lua \<Rightarrow> ('z, 'm) lua outcome" where
  "luazmq_skt_getopt_u64 E L = check (luaL_checkint E L 2) L (\<lambda>opt. luazmq_skt_get_u64 E opt L)"

definition luazmq_skt_getopt_str :: "('z, 'm) env \<Rightarrow> ('z, 'm) lua \<Rightarrow> ('z, 'm) lua outcome" where
  "luazmq_skt_getopt_str E L =
     check (luaL_checkint E L 2) L (\<lambda>opt. luazmq_skt_get_str E opt (lua_remove 2 L))"

definition luazmq_skt_setopt_int :: "('z, 'm) env \<Rightarrow> ('z, 'm) lua \<Rightarrow> ('z, 'm) lua outcome" where
  "luazmq_skt_setopt_int E L = check (luaL_checkint E L 2) L (\<lambda>opt. luazmq_skt_set_int E opt L)"

definition luazmq_skt_setopt_i64 :: "('z, 'm) env \<Rightarrow> ('z, 'm) lua \<Rightarrow> ('z, 'm) lua outcome" where
  "luazmq_skt_setopt_i64 E L = check (luaL_checkint E L 2) L (\<lambda>opt. luazmq_skt_set_i64 E opt L)"

definition luazmq_skt_setopt_u64 :: "('z, 'm) env \<Rightarrow> ('z, 'm) lua \<Rightarrow> ('z, 'm) lua outcome" where
  "luazmq_skt_setopt_u64 E L = check (luaL_checkint E L 2) L (\<lambda>opt. luazmq_skt_set_u64 E opt L)"

definition luazmq_skt_setopt_str :: "('z, 'm) env \<Rightarrow> ('z, 'm) lua \<Rightarrow> ('z, 'm) lua outcome" where
  "luazmq_skt_setopt_str E L = check (luaL_checkint E L 2) L (\<lambda>opt. luazmq_skt_set_str E opt L)"

subsection \<open>Socket types and the text of a socket\<close>

definition skt_type_names :: "string list" where
  "skt_type_names = [''PAIR'', ''PUB'', ''SUB'', ''REQ'', ''REP'', ''DEALER'', ''ROUTER'', ''PULL'', ''PUSH'',
     ''XPUB'', ''XSUB'', ''STREAM'', ''SERVER'', ''CLIENT'', ''RADIO'', ''DISH'', ''GATHER'', ''SCATTER'', ''DGRAM'']"

definition luazmq_skt_type_name :: "('z, 'm) env \<Rightarrow> int \<Rightarrow> string option" where
  "luazmq_skt_type_name E typ =
     find (\<lambda>n. zmq_defined E (''ZMQ_'' @ n) \<and> macro E (''ZMQ_'' @ n) = typ) skt_type_names"

definition luazmq_skt_tostring :: "('z, 'm) env \<Rightarrow> ('z, 'm) lua \<Rightarrow> ('z, 'm) lua outcome" where
  "luazmq_skt_tostring E L =
     check (luazmq_checkudatap L 1 USocket) L (\<lambda>k.
       let text = (\<lambda>t. ''LuaZMQ: Socket['' @ t @ ''] ('' @ fmt_ptr E k @ '')'') in
       if has_flag (zs_flags (zskts L k)) LUAZMQ_FLAG_CLOSED
       then Ret 1 (push (LStr (text ''-1'' @ '' - closed'')) L)
       else
         let (rc, v, z) = zmq_getsockopt E (zs_skt (zskts L k)) (macro E ''ZMQ_TYPE'') (OInt 0) (zst L);
             L = L\<lparr>zst := z\<rparr>
         in if rc = -1 then Ret 1 (push (LStr (text ''-1'')) L)
            else case luazmq_skt_type_name E (opt_int v) of
                Some name \<Rightarrow> Ret 1 (push (LStr (text name)) L)
              | None \<Rightarrow> Ret 1 (push (LStr (text (show_int (opt_int v)))) L))"

definition skt_types :: "('z, 'm) env \<Rightarrow> (string \<times> int) list" where
  "skt_types E = map (\<lambda>n. (n, macro E (''ZMQ_'' @ n)))
     ([''PAIR'', ''PUB'', ''SUB'', ''REQ'', ''REP'', ''DEALER'', ''ROUTER'', ''PULL'', ''PUSH'', ''XPUB'', ''XSUB'',
       ''XREQ'', ''XREP''] @ filter (\<lambda>n. zmq_defined E (''ZMQ_'' @ n)) [''STREAM''])"

definition skt_flags :: "('z, 'm) env \<Rightarrow> (string \<times> int) list" where
  "skt_flags E = map (\<lambda>n. (n, macro E (''ZMQ_'' @ n)))
     ([''SNDMORE'', ''DONTWAIT''] @ filter (\<lambda>n. zmq_defined E (''ZMQ_'' @ n)) [''NOBLOCK''])"

definition skt_security_mechanism :: "('z, 'm) env \<Rightarrow> (string \<times> int) list" where
  "skt_security_mechanism E = map (\<lambda>n. (n, macro E (''ZMQ_'' @ n)))
     (filter (\<lambda>n. zmq_defined E (''ZMQ_'' @ n)) [''NULL'', ''PLAIN'', ''CURVE''])"

subsection \<open>The method table\<close>

text \<open>The names an option registration adds, and the function behind each: the one
  \<open>DEFINE_SKT_OPT_*\<close> generated for this option.\<close>

definition opt_methods ::
    "('z, 'm) env \<Rightarrow> access \<Rightarrow> string \<Rightarrow> (string \<times> (('z, 'm) lua \<Rightarrow> ('z, 'm) lua outcome)) list" where
  "opt_methods E a n = (case find (\<lambda>(g, b, m, opt, t). m = n) skt_opt_defs of None \<Rightarrow> []
     | Some (g, b, m, opt, t) \<Rightarrow>
         let get = luazmq_skt_get_opt E t (macro E opt); set = luazmq_skt_set_opt E t (macro E opt)
         in case a of RW \<Rightarrow> [(''set_'' @ n, set), (''get_'' @ n, get)]
            | RO \<Rightarrow> [(''get_'' @ n, get), (n, get)]
            | WO \<Rightarrow> [(''set_'' @ n, set), (n, set)])"

definition skt_opt_methods ::
    "('z, 'm) env \<Rightarrow> (string \<times> (('z, 'm) lua \<Rightarrow> ('z, 'm) lua outcome)) list" where
  "skt_opt_methods E = concat (map (\<lambda>(g, a, n). opt_methods E a n)
     (filter (\<lambda>(g, a, n). zmq_defined E g) skt_opt_regs))"

definition skt_base_methods ::
    "('z, 'm) env \<Rightarrow> (string \<times> (('z, 'm) lua \<Rightarrow> ('z, 'm) lua outcome)) list" where
  "skt_base_methods E = [
     (''bind'', luazmq_skt_bind E), (''unbind'', luazmq_skt_unbind E),
     (''connect'', luazmq_skt_connect E), (''disconnect'', luazmq_skt_disconnect E),
     (''poll'', luazmq_skt_poll E), (''send'', luazmq_skt_send E), (''send_msg'', luazmq_skt_send_msg E),
     (''sendx'', luazmq_skt_sendx E), (''sendx_more'', luazmq_skt_sendx_more E),
     (''sendv'', luazmq_skt_sendv E), (''sendv_more'', luazmq_skt_sendv_more E),
     (''send_more'', luazmq_skt_send_more E), (''recv'', luazmq_skt_recv E),
     (''recv_msg'', luazmq_skt_recv_msg E), (''recv_new_msg'', luazmq_skt_recv_new_msg E),
     (''recv_len'', luazmq_skt_recv_len E), (''recv_event'', luazmq_skt_recv_event E),
     (''send_all'', luazmq_skt_send_all E), (''send_multipart'', luazmq_skt_send_all E),
     (''more'', luazmq_skt_more), (''monitor'', luazmq_skt_monitor E),
     (''reset_monitor'', luazmq_skt_reset_monitor E), (''handle'', luazmq_skt_handle),
     (''reset_handle'', luazmq_skt_reset_handle E), (''lightuserdata'', luazmq_skt_handle),
     (''context'', luazmq_skt_context), (''bind_to_random_port'', luazmq_skt_bind_to_random_port E),
     (''has_event'', luazmq_skt_has_event E),
     (''getopt_int'', luazmq_skt_getopt_int E), (''getopt_i64'', luazmq_skt_getopt_i64 E),
     (''getopt_u64'', luazmq_skt_getopt_u64 E), (''getopt_str'', luazmq_skt_getopt_str E),
     (''setopt_int'', luazmq_skt_setopt_int E), (''setopt_i64'', luazmq_skt_setopt_i64 E),
     (''setopt_u64'', luazmq_skt_setopt_u64 E), (''setopt_str'', luazmq_skt_setopt_str E),
     (''__tostring'', luazmq_skt_tostring E), (''on_close'', luazmq_skt_on_close),
     (''__gc'', luazmq_skt_destroy E), (''close'', luazmq_skt_destroy E), (''closed'', luazmq_skt_closed)]"

text \<open>The methods that may not return are kept apart.\<close>

definition skt_loop_methods ::
    "('z, 'm) env \<Rightarrow> (string \<times> (('z, 'm) lua \<Rightarrow> ('z, 'm) lua outcome option)) list" where
  "skt_loop_methods E = [
     (''recvx'', luazmq_skt_recvx E),
     (''recv_all'', luazmq_skt_recv_all E), (''recv_multipart'', luazmq_skt_recv_all E)]"

definition luazmq_skt_methods ::
    "('z, 'm) env \<Rightarrow> (string \<times> (('z, 'm) lua \<Rightarrow> ('z, 'm) lua outcome option)) list" where
  "luazmq_skt_methods E =
     map (\<lambda>(n, f). (n, \<lambda>L. Some (f L))) (skt_base_methods E) @ skt_loop_methods E @
     map (\<lambda>(n, f). (n, \<lambda>L. Some (f L))) (skt_opt_methods E)"

subsection \<open>No socket is opened or closed by an option\<close>

lemma setopt_keep: "\<lbrakk> lz_inv L; keeps L L' \<rbrakk> \<Longrightarrow> final_state (keeps L) (skt_setopt E k opt v L')"
  by (simp add: skt_setopt_def inv_fail_ret case_prod_unfold Let_def)

lemma getopt_keep: "\<lbrakk> lz_inv L; keeps L L' \<rbrakk> \<Longrightarrow> final_state (keeps L) (skt_getopt E opt v put L')"
  by (simp add: skt_getopt_def inv_fail_ret case_prod_unfold Let_def split: sum.split)

lemma set_str_loop_keep:
  assumes inv: "lz_inv L"
  shows "keeps L L' \<Longrightarrow> final_state (keeps L) (set_str_loop E k opt i vs L')"
  by (induction vs arbitrary: i L')
    (simp_all add: inv_fail [OF inv] case_prod_unfold Let_def split: sum.split)

lemma set_opt_keep:
  assumes inv: "lz_inv L"
  shows "final_state (keeps L) (luazmq_skt_set_opt E t opt L)"
  by (cases t) (simp_all add: luazmq_skt_set_opt_def luazmq_skt_set_int_def luazmq_skt_set_u64_def
      luazmq_skt_set_i64_def luazmq_skt_set_str_def luazmq_skt_set_str_arr_def luazmq_skt_set_fdt_def
      setopt_keep [OF inv] set_str_loop_keep [OF inv] split: sum.split option.split)

lemma get_opt_keep:
  assumes inv: "lz_inv L" and k: "keeps L L'"
  shows "final_state (keeps L) (luazmq_skt_get_opt E t opt L')"
  using k by (cases t) (simp_all add: luazmq_skt_get_opt_def luazmq_skt_get_int_def luazmq_skt_get_u64_def
      luazmq_skt_get_i64_def luazmq_skt_get_str_def luazmq_skt_get_fdt_def getopt_keep [OF inv])

lemma opt_methods_keep:
  assumes inv: "lz_inv L" and m: "(n, f) \<in> set (opt_methods E a name)"
  shows "final_state (keeps L) (f L)"
proof -
  obtain t opt where "f = luazmq_skt_get_opt E t opt \<or> f = luazmq_skt_set_opt E t opt"
    using m by (cases a) (auto simp: opt_methods_def Let_def split: option.splits)
  then show ?thesis using set_opt_keep [OF inv] get_opt_keep [OF inv] by auto
qed

lemma skt_opt_methods_keep:
  "\<lbrakk> lz_inv L; (n, f) \<in> set (skt_opt_methods E) \<rbrakk> \<Longrightarrow> final_state (keeps L) (f L)"
  by (auto simp: skt_opt_methods_def intro: opt_methods_keep)

lemma numbered_opt_keep:
  assumes inv: "lz_inv L"
  shows "final_state (keeps L) (luazmq_skt_getopt_int E L)" "final_state (keeps L) (luazmq_skt_getopt_i64 E L)"
    "final_state (keeps L) (luazmq_skt_getopt_u64 E L)" "final_state (keeps L) (luazmq_skt_getopt_str E L)"
    "final_state (keeps L) (luazmq_skt_setopt_int E L)" "final_state (keeps L) (luazmq_skt_setopt_i64 E L)"
    "final_state (keeps L) (luazmq_skt_setopt_u64 E L)" "final_state (keeps L) (luazmq_skt_setopt_str E L)"
  using get_opt_keep [OF inv, of L E T_int] get_opt_keep [OF inv, of L E T_i64]
    get_opt_keep [OF inv, of L E T_u64] get_opt_keep [OF inv, of "lua_remove 2 L" E T_str]
    set_opt_keep [OF inv, of E T_int] set_opt_keep [OF inv, of E T_i64]
    set_opt_keep [OF inv, of E T_u64] set_opt_keep [OF inv, of E T_str]
  by (simp_all add: luazmq_skt_getopt_int_def luazmq_skt_getopt_i64_def luazmq_skt_getopt_u64_def
      luazmq_skt_getopt_str_def luazmq_skt_setopt_int_def luazmq_skt_setopt_i64_def
      luazmq_skt_setopt_u64_def luazmq_skt_setopt_str_def luazmq_skt_set_opt_def luazmq_skt_get_opt_def
      split: sum.split)

lemma tostring_keep: "final_state (keeps L) (luazmq_skt_tostring E L)"
  by (simp add: luazmq_skt_tostring_def case_prod_unfold Let_def split: sum.split option.split)

text \<open>Every method of a socket but \<open>close\<close> and the loops.\<close>

lemma skt_base_methods_keep:
  assumes inv: "lz_inv L" and m: "(n, f) \<in> set (skt_base_methods E)"
  shows "f = luazmq_skt_destroy E \<or> final_state (keeps L) (f L)"
  using m unfolding skt_base_methods_def
  by (auto simp: luazmq_skt_sendx_def luazmq_skt_sendx_more_def luazmq_skt_sendv_def
      luazmq_skt_sendv_more_def skt_io_keep [OF inv] skt_simple_keep [OF inv] numbered_opt_keep [OF inv]
      tostring_keep)

lemma skt_loop_methods_keep:
  assumes inv: "lz_inv L" and m: "(n, f) \<in> set (skt_loop_methods E)" and r: "f L = Some r"
  shows "final_state (keeps L) r"
  using m r unfolding skt_loop_methods_def
  by (auto intro: skt_loops_keep [OF inv])

end
