(* ===== verification/ZContext.thy ===== *)
theory ZContext
  imports ZSocketOpt
begin

text \<open>
  \<open>zcontext.c\<close>: contexts, the list of sockets a context closes when it is destroyed, options given
  to constructors, and opening a socket. The functions find methods by name in the metatable of
  an object, which is the method table of its type.
\<close>

subsection \<open>Calling methods\<close>

text \<open>\<open>luazmq_pcall_method\<close> without results: \<open>f\<close> runs on a stack of its own; the flag tells
  whether it returned, and an error value is left on the stack if not.\<close>

definition luazmq_pcall_method ::
    "('z, 'm) env \<Rightarrow> (('z, 'm) lua \<Rightarrow> ('z, 'm) lua outcome) \<Rightarrow> lval list \<Rightarrow> ('z, 'm) lua
       \<Rightarrow> ub + bool \<times> ('z, 'm) lua" where
  "luazmq_pcall_method E f args L = (case f (L\<lparr>stk := args\<rparr>) of
     Ret n L' \<Rightarrow> Inr (True, L'\<lparr>stk := stk L\<rparr>)
   | Raise e L' \<Rightarrow> Inr (False, L'\<lparr>stk := stk L @ [error_value E e]\<rparr>)
   | Abort u \<Rightarrow> Inl u)"

definition adjust :: "nat \<Rightarrow> lval list \<Rightarrow> lval list" where
  "adjust n vs = take n (vs @ replicate n LNil)"

text \<open>The value of a string key in a table, without metamethods.\<close>

fun getfield :: "lval \<Rightarrow> string \<Rightarrow> lval" where
  "getfield (LTable xs h) s = (case map_of h (LStr s) of Some v \<Rightarrow> v | None \<Rightarrow> LNil)"
| "getfield _ s = LNil"

fun fields :: "lval \<Rightarrow> (lval \<times> lval) list" where
  "fields (LTable xs h) = h"
| "fields _ = []"

text \<open>\<open>apply_options\<close>: for each string key that has a setter, \<open>lua_call\<close> the setter; when it
  returns nil, close the object and return nil and the error. The fields come in the order of
  the traversal of the table.\<close>

fun apply_options ::
    "('z, 'm) env \<Rightarrow> (string \<Rightarrow> (('z, 'm) lua \<Rightarrow> ('z, 'm) lua outcome) option)
       \<Rightarrow> (('z, 'm) lua \<Rightarrow> ('z, 'm) lua outcome) \<Rightarrow> lval \<Rightarrow> (lval \<times> lval) list \<Rightarrow> ('z, 'm) lua
       \<Rightarrow> (('z, 'm) lua \<Rightarrow> ('z, 'm) lua outcome) \<Rightarrow> ('z, 'm) lua outcome" where
  "apply_options E meth close_meth obj [] L body = body L"
| "apply_options E meth close_meth obj ((key, v) # kvs) L body =
     (case key of LStr s \<Rightarrow>
        (case meth (''set_'' @ s) of None \<Rightarrow> apply_options E meth close_meth obj kvs L body
         | Some f \<Rightarrow>
             (case f (L\<lparr>stk := [obj, v]\<rparr>) of
                Ret n L' \<Rightarrow>
                  let rs = adjust 2 (results n L') in
                  if hd rs = LNil then
                    ub_bind (luazmq_pcall_method E close_meth [obj] (L'\<lparr>stk := stk L @ [key] @ rs\<rparr>))
                      (\<lambda>(_, L). Ret 2 L)
                  else apply_options E meth close_meth obj kvs (L'\<lparr>stk := stk L\<rparr>) body
              | Raise e L' \<Rightarrow> Raise e L'
              | Abort u \<Rightarrow> Abort u))
      | _ \<Rightarrow> apply_options E meth close_meth obj kvs L body)"

definition apply_bind_connect ::
    "('z, 'm) env \<Rightarrow> (('z, 'm) lua \<Rightarrow> ('z, 'm) lua outcome) \<Rightarrow> (('z, 'm) lua \<Rightarrow> ('z, 'm) lua outcome)
       \<Rightarrow> lval \<Rightarrow> lval \<Rightarrow> ('z, 'm) lua \<Rightarrow> (('z, 'm) lua \<Rightarrow> ('z, 'm) lua outcome) \<Rightarrow> ('z, 'm) lua outcome" where
  "apply_bind_connect E f close_meth obj address L body =
     (if address = LNil then body L
      else case f (L\<lparr>stk := [obj, address]\<rparr>) of
          Ret n L' \<Rightarrow>
            let rs = adjust 3 (results n L') in
            if hd rs = LNil then
              ub_bind (luazmq_pcall_method E close_meth [obj] (L'\<lparr>stk := stk L @ rs\<rparr>))
                (\<lambda>(_, L'). Ret 3 (lua_settop (length (stk L @ rs)) L'))
            else body (L'\<lparr>stk := stk L\<rparr>)
        | Raise e L' \<Rightarrow> Raise e L'
        | Abort u \<Rightarrow> Abort u)"

subsection \<open>Options and the list of sockets\<close>

definition luazmq_ctx_lightuserdata :: "('z, 'm) lua \<Rightarrow> ('z, 'm) lua outcome" where
  "luazmq_ctx_lightuserdata L =
     check (luazmq_getcontext_at L 1) L (\<lambda>c. Ret 1 (push (LLight (zc_ctx (zctxs L c))) L))"

definition luazmq_ctx_tostring :: "('z, 'm) env \<Rightarrow> ('z, 'm) lua \<Rightarrow> ('z, 'm) lua outcome" where
  "luazmq_ctx_tostring E L =
     check (luazmq_checkudatap L 1 UContext) L (\<lambda>c.
       let text = ''LuaZMQ: Context ('' @ fmt_ptr E c @ '')'' in
       if has_flag (zc_flags (zctxs L c)) LUAZMQ_FLAG_CLOSED
       then Ret 1 (push (LStr (text @ '' - closed'')) L) else Ret 1 (push (LStr text) L))"

definition luazmq_ctx_set :: "('z, 'm) env \<Rightarrow> ('z, 'm) lua \<Rightarrow> ('z, 'm) lua outcome" where
  "luazmq_ctx_set E L =
     check (luazmq_getcontext_at L 1) L (\<lambda>c.
     check (luaL_checkint E L 2) L (\<lambda>option_name.
     check (luaL_checkint E L 3) L (\<lambda>option_value.
       let (ret, z) = zmq_ctx_set E (zc_ctx (zctxs L c)) option_name option_value (zst L);
           L = L\<lparr>zst := z\<rparr>
       in if ret = -1 then fail_ret E None L else luazmq_pass L)))"

definition luazmq_ctx_get :: "('z, 'm) env \<Rightarrow> ('z, 'm) lua \<Rightarrow> ('z, 'm) lua outcome" where
  "luazmq_ctx_get E L =
     check (luazmq_getcontext_at L 1) L (\<lambda>c.
     check (luaL_checkint E L 2) L (\<lambda>option_name.
       let (ret, z) = zmq_ctx_get E (zc_ctx (zctxs L c)) option_name (zst L); L = L\<lparr>zst := z\<rparr>
       in if ret = -1 then fail_ret E None L else Ret 1 (pushinteger ret L)))"

text \<open>The list is a table in the registry, with the sockets as keys.\<close>

definition create_autoclose_list :: "('z, 'm) lua \<Rightarrow> int \<times> ('z, 'm) lua" where
  "create_autoclose_list L = luaL_ref (push (LTable [] []) L)"

fun table_set :: "lval \<Rightarrow> lval \<Rightarrow> lval \<Rightarrow> lval" where
  "table_set (LTable xs h) k v = LTable xs (rawset k v h)"
| "table_set t k v = t"

definition luazmq_ctx_autoclose :: "('z, 'm) lua \<Rightarrow> ('z, 'm) lua outcome" where
  "luazmq_ctx_autoclose L =
     check (luazmq_getcontext_at L 1) L (\<lambda>c.
     check (luazmq_getsocket_at L 2) L (\<lambda>s.
       let L = lua_settop 2 L;
           L = (if zc_autoclose_ref (zctxs L c) = LUA_NOREF then
                  let (r, L) = create_autoclose_list L
                  in upd_ctx c (\<lambda>z. z\<lparr>zc_autoclose_ref := r\<rparr>) L
                else L);
           r = zc_autoclose_ref (zctxs L c)
       in Ret 0 (L\<lparr>registry := (registry L)(r :=
            table_set (registry L r) (LUser USocket s) (LBool True))\<rparr>)))"

definition call_socket_destroy ::
    "('z, 'm) env \<Rightarrow> lval \<Rightarrow> int \<Rightarrow> ('z, 'm) lua \<Rightarrow> ub + ('z, 'm) lua" where
  "call_socket_destroy E skt linger L =
     (case luazmq_pcall_method E (luazmq_skt_destroy E)
        (if linger < -1 then [skt] else [skt, LNum (of_int linger)]) L of
        Inl u \<Rightarrow> Inl u | Inr (ok, L') \<Rightarrow> Inr (L'\<lparr>stk := stk L\<rparr>))"

fun close_all :: "('z, 'm) env \<Rightarrow> lval list \<Rightarrow> int \<Rightarrow> ('z, 'm) lua \<Rightarrow> ub + ('z, 'm) lua" where
  "close_all E [] linger L = Inr L"
| "close_all E (s # ss) linger L = (case call_socket_destroy E s linger L of Inl u \<Rightarrow> Inl u
     | Inr L' \<Rightarrow> close_all E ss linger L')"

text \<open>The traversal is over the sockets listed when it begins.\<close>

definition luazmq_ctx_close_sockets ::
    "('z, 'm) env \<Rightarrow> nat \<Rightarrow> int \<Rightarrow> ('z, 'm) lua \<Rightarrow> ub + ('z, 'm) lua" where
  "luazmq_ctx_close_sockets E c linger L =
     (if zc_autoclose_ref (zctxs L c) = LUA_NOREF then Inr L
      else
        let t = registry L (zc_autoclose_ref (zctxs L c)) in
        if \<not> is_table t then Inl AssertFail
        else map_sum id (\<lambda>L. upd_ctx c (\<lambda>z. z\<lparr>zc_autoclose_ref := LUA_NOREF\<rparr>)
                (luaL_unref (zc_autoclose_ref (zctxs L c)) L))
          (close_all E (map fst (fields t)) linger (push t L)))"

definition luazmq_ctx_skt_count :: "('z, 'm) lua \<Rightarrow> ('z, 'm) lua outcome" where
  "luazmq_ctx_skt_count L =
     check (luazmq_getcontext_at L 1) L (\<lambda>c. Ret 1 (pushinteger (zc_socket_count (zctxs L c)) L))"

subsection \<open>Shutting down and destroying\<close>

definition luazmq_ctx_shutdown :: "('z, 'm) env \<Rightarrow> ('z, 'm) lua \<Rightarrow> ('z, 'm) lua outcome" where
  "luazmq_ctx_shutdown E L =
     check (luazmq_getcontext_at L 1) L (\<lambda>c.
     check (luaL_optint E L 2 (-2)) L (\<lambda>linger.
     ub_bind (luazmq_ctx_close_sockets E c linger L) (\<lambda>L.
       let done = (\<lambda>L. luazmq_pass
             (upd_ctx c (\<lambda>z. z\<lparr>zc_flags := set_flag (zc_flags z) LUAZMQ_FLAG_CTX_SHUTDOWN\<rparr>) L))
       in if has_flag (zc_flags (zctxs L c)) LUAZMQ_FLAG_DONT_DESTROY then done L
          else let (ret, z) = zmq_ctx_shutdown E (zc_ctx (zctxs L c)) (zst L); L = L\<lparr>zst := z\<rparr>
            in if ret = -1 then fail_ret E None L else done L)))"

definition luazmq_ctx_shutdowned :: "('z, 'm) lua \<Rightarrow> ('z, 'm) lua outcome" where
  "luazmq_ctx_shutdowned L =
     check (luazmq_checkudatap L 1 UContext) L (\<lambda>c.
       Ret 1 (pushboolean (has_flag (zc_flags (zctxs L c)) LUAZMQ_FLAG_CTX_SHUTDOWN) L))"

definition luazmq_ctx_destroy :: "('z, 'm) env \<Rightarrow> ('z, 'm) lua \<Rightarrow> ('z, 'm) lua outcome" where
  "luazmq_ctx_destroy E L =
     check (luazmq_checkudatap L 1 UContext) L (\<lambda>c.
       if has_flag (zc_flags (zctxs L c)) LUAZMQ_FLAG_CLOSED then luazmq_pass L
       else
         check (luaL_optint E L 2 (-2)) L (\<lambda>linger.
         ub_bind (luazmq_ctx_close_sockets E c linger L) (\<lambda>L.
           let done = (\<lambda>L. luazmq_pass
                 (upd_ctx c (\<lambda>z. z\<lparr>zc_flags := set_flag (zc_flags z) LUAZMQ_FLAG_CLOSED\<rparr>) L))
           in if has_flag (zc_flags (zctxs L c)) LUAZMQ_FLAG_DONT_DESTROY then done L
              else let (ret, z) = zmq_ctx_term E (zc_ctx (zctxs L c)) (zst L); L = L\<lparr>zst := z\<rparr>
                in if ret = -1 then fail_ret E None L else done L)))"

definition luazmq_ctx_closed :: "('z, 'm) lua \<Rightarrow> ('z, 'm) lua outcome" where
  "luazmq_ctx_closed L =
     check (luazmq_checkudatap L 1 UContext) L (\<lambda>c.
       Ret 1 (pushboolean (has_flag (zc_flags (zctxs L c)) LUAZMQ_FLAG_CLOSED) L))"

definition luazmq_ctx_set_opt :: "('z, 'm) env \<Rightarrow> string \<Rightarrow> ('z, 'm) lua \<Rightarrow> ('z, 'm) lua outcome" where
  "luazmq_ctx_set_opt E optname L = luazmq_ctx_set E (lua_insert 2 (pushinteger (macro E optname) L))"

definition luazmq_ctx_get_opt :: "('z, 'm) env \<Rightarrow> string \<Rightarrow> ('z, 'm) lua \<Rightarrow> ('z, 'm) lua outcome" where
  "luazmq_ctx_get_opt E optname L = luazmq_ctx_get E (pushinteger (macro E optname) L)"

definition ctx_opts :: "(string \<times> string) list" where
  "ctx_opts = [(''io_threads'', ''ZMQ_IO_THREADS''), (''max_sockets'', ''ZMQ_MAX_SOCKETS''),
     (''socket_limit'', ''ZMQ_SOCKET_LIMIT''), (''thread_priority'', ''ZMQ_THREAD_PRIORITY''),
     (''thread_sched_policy'', ''ZMQ_THREAD_SCHED_POLICY''), (''max_msgsz'', ''ZMQ_MAX_MSGSZ'')]"

definition ctx_opt_defined :: "('z, 'm) env \<Rightarrow> string \<Rightarrow> bool" where
  "ctx_opt_defined E opt \<longleftrightarrow> opt \<in> {''ZMQ_IO_THREADS'', ''ZMQ_MAX_SOCKETS''} \<or> zmq_defined E opt"

definition ctx_opt_methods ::
    "('z, 'm) env \<Rightarrow> (string \<times> (('z, 'm) lua \<Rightarrow> ('z, 'm) lua outcome)) list" where
  "ctx_opt_methods E = concat (map (\<lambda>(n, opt). [(''set_'' @ n, luazmq_ctx_set_opt E opt),
     (''get_'' @ n, luazmq_ctx_get_opt E opt)]) (filter (\<lambda>(n, opt). ctx_opt_defined E opt) ctx_opts))"

definition ctx_options :: "('z, 'm) env \<Rightarrow> (string \<times> int) list" where
  "ctx_options E = map (\<lambda>n. (n, macro E (''ZMQ_'' @ n)))
     (filter (\<lambda>n. ctx_opt_defined E (''ZMQ_'' @ n)) [''IO_THREADS'', ''MAX_SOCKETS'', ''SOCKET_LIMIT'',
        ''THREAD_PRIORITY'', ''THREAD_SCHED_POLICY'', ''MAX_MSGSZ''])"

subsection \<open>Creating contexts\<close>

definition new_context :: "nat \<Rightarrow> uchar \<Rightarrow> ('z, 'm) lua \<Rightarrow> nat \<times> ('z, 'm) lua" where
  "new_context ctx flags L = (let (c, L) = luazmq_newudata UContext L in
     (c, upd_ctx c (\<lambda>_. new_zcontext\<lparr>zc_ctx := ctx, zc_flags := flags,
            zc_autoclose_ref := LUA_NOREF, zc_socket_count := 0\<rparr>) L))"

definition luazmq_context_create :: "('z, 'm) env \<Rightarrow> ('z, 'm) lua \<Rightarrow> ('z, 'm) lua outcome" where
  "luazmq_context_create E L =
     (let opts = lua_at L 1; (ctx, z) = zmq_ctx_new E (zst L);
          (c, L) = new_context ctx 0 (L\<lparr>zst := z\<rparr>)
      in apply_options E (map_of (ctx_opt_methods E)) (luazmq_ctx_destroy E) (LUser UContext c)
           (fields opts) L (Ret 1))"

text \<open>In \<open>init\<close> the argument is read after the object has been pushed, and before its fields are
  set.\<close>

definition luazmq_context_init :: "('z, 'm) env \<Rightarrow> ('z, 'm) lua \<Rightarrow> ('z, 'm) lua outcome" where
  "luazmq_context_init E L =
     (let (c, L) = luazmq_newudata UContext L; L = upd_ctx c (\<lambda>_. new_zcontext) L in
      check (luaL_optint E L 1 1) L (\<lambda>n.
        let (ctx, z) = zmq_init E n (zst L)
        in Ret 1 (upd_ctx c (\<lambda>y. y\<lparr>zc_ctx := ctx, zc_autoclose_ref := LUA_NOREF,
             zc_socket_count := 0\<rparr>) (L\<lparr>zst := z\<rparr>))))"

definition luazmq_init_ctx :: "('z, 'm) lua \<Rightarrow> ('z, 'm) lua outcome" where
  "luazmq_init_ctx L = (case lua_at L 1 of
     LLight src \<Rightarrow>
       if src \<noteq> 0 then Ret 1 (snd (new_context src LUAZMQ_FLAG_DONT_DESTROY L))
       else Raise (ArgError 1 ''lightuserdata expected'') L
   | _ \<Rightarrow> Raise (ArgError 1 ''You must provide zmq context as lightuserdata'') L)"

subsection \<open>Opening a socket\<close>

definition socket_type_names :: "('z, 'm) env \<Rightarrow> string list" where
  "socket_type_names E = [''PAIR'', ''PUB'', ''SUB'', ''REQ'', ''REP'', ''DEALER'', ''ROUTER'', ''PULL'', ''PUSH'',
     ''XPUB'', ''XSUB''] @ (if zmq_defined E ''ZMQ_STREAM'' then [''STREAM''] else [])"

definition type_of_name :: "('z, 'm) env \<Rightarrow> string \<Rightarrow> int option" where
  "type_of_name E s = map_option (\<lambda>n. macro E (''ZMQ_'' @ n)) (find (\<lambda>n. n = s) (socket_type_names E))"

definition num_to_int :: "rat \<Rightarrow> int option" where
  "num_to_int q = (let x = c_trunc q in
     if - 2147483648 \<le> x \<and> x \<le> 2147483647 then Some x else None)"

definition type_of_value ::
    "('z, 'm) env \<Rightarrow> lval \<Rightarrow> int \<Rightarrow> ('z, 'm) lua \<Rightarrow> (int \<Rightarrow> ('z, 'm) lua outcome) \<Rightarrow> ('z, 'm) lua outcome
       \<Rightarrow> ('z, 'm) lua outcome" where
  "type_of_value E v pos L body other =
     (case tonumber E v of Some q \<Rightarrow> ub_check BadCast (num_to_int q) body
      | None \<Rightarrow> (case v of LStr s \<Rightarrow>
          (case type_of_name E (c_str s) of Some t \<Rightarrow> body t
           | None \<Rightarrow> Raise (ArgError pos (''invalid option '' @ s)) L)
        | _ \<Rightarrow> other))"

definition socket_type ::
    "('z, 'm) env \<Rightarrow> ('z, 'm) lua \<Rightarrow> int \<Rightarrow> (int \<Rightarrow> ('z, 'm) lua outcome) \<Rightarrow> ('z, 'm) lua outcome" where
  "socket_type E L pos body =
     type_of_value E (lua_at L pos) pos L body
       (let err = Raise (ArgError pos ''Socket type expected'') L in
        case rawgeti (lua_at L pos) 1 of None \<Rightarrow> err
        | Some v \<Rightarrow> type_of_value E v (-1) (push v L) body err)"

text \<open>\<open>ctx->socket_count++\<close> and the assertion after it.\<close>

definition inc_socket_count :: "nat \<Rightarrow> ('z, 'm) lua \<Rightarrow> ub + ('z, 'm) lua" where
  "inc_socket_count c L =
     (if INT_MAX \<le> zc_socket_count (zctxs L c) then Inl IntOverflow
      else let L = upd_ctx c (\<lambda>z. z\<lparr>zc_socket_count := zc_socket_count z + 1\<rparr>) L
        in if 0 < zc_socket_count (zctxs L c) then Inr L else Inl AssertFail)"

text \<open>The end of \<open>luazmq_ctx_socket\<close>: the socket goes on the list of the context, and refers to
  it.\<close>

definition ctx_adopt :: "('z, 'm) env \<Rightarrow> nat \<Rightarrow> ('z, 'm) lua \<Rightarrow> ('z, 'm) lua outcome" where
  "ctx_adopt E s L =
     ub_bind (luazmq_pcall_method E luazmq_ctx_autoclose [lua_at L 1, LUser USocket s] L) (\<lambda>(ok, L).
       if \<not> ok then
         ub_bind (luazmq_pcall_method E (luazmq_skt_destroy E) [LUser USocket s] L) (\<lambda>(_, L').
           Raise (ErrValue (lua_at L (-1))) (lua_settop (length (stk L)) L'))
       else
         let (r, L) = luaL_ref (lua_pushvalue 1 L)
         in Ret 1 (upd_skt s (\<lambda>z. z\<lparr>zs_ctx_ref := r\<rparr>) L))"

definition new_ctx_socket :: "nat \<Rightarrow> nat \<Rightarrow> ('z, 'm) lua \<Rightarrow> nat \<times> (ub + ('z, 'm) lua)" where
  "new_ctx_socket c skt L = (let (s, L) = luazmq_newudata USocket L;
       L = upd_skt s (\<lambda>_. new_zsocket\<lparr>zs_skt := skt, zs_onclose_ref := LUA_NOREF,
             zs_ctx_ref := LUA_NOREF\<rparr>) L
     in (s, map_sum id (upd_skt s (\<lambda>z. z\<lparr>zs_ctx := Some c\<rparr>)) (inc_socket_count c L)))"

definition luazmq_ctx_socket :: "('z, 'm) env \<Rightarrow> ('z, 'm) lua \<Rightarrow> ('z, 'm) lua outcome" where
  "luazmq_ctx_socket E L =
     check (luazmq_getcontext_at L 1) L (\<lambda>c.
     socket_type E L 2 (\<lambda>stype.
       let opts = (if is_table (lua_at L 2) then lua_at L 2 else lua_at L 3);
           (skt, z) = zmq_socket E (zc_ctx (zctxs L c)) stype (zst L);
           L = L\<lparr>zst := z\<rparr>
       in if skt = 0 then fail_ret E None L
          else
            let (s, made) = new_ctx_socket c skt L; close = luazmq_skt_destroy E; self = LUser USocket s in
            ub_bind made (\<lambda>L.
            apply_options E (map_of (skt_base_methods E @ skt_opt_methods E)) close self (fields opts) L (\<lambda>L.
            apply_bind_connect E (luazmq_skt_bind E) close self (getfield opts ''bind'') L (\<lambda>L.
            apply_bind_connect E (luazmq_skt_connect E) close self (getfield opts ''connect'') L
              (ctx_adopt E s))))))"

definition luazmq_ctx_methods ::
    "('z, 'm) env \<Rightarrow> (string \<times> (('z, 'm) lua \<Rightarrow> ('z, 'm) lua outcome)) list" where
  "luazmq_ctx_methods E = [
     (''__tostring'', luazmq_ctx_tostring E), (''__gc'', luazmq_ctx_destroy E),
     (''destroy'', luazmq_ctx_destroy E), (''closed'', luazmq_ctx_closed),
     (''socket'', luazmq_ctx_socket E), (''autoclose'', luazmq_ctx_autoclose),
     (''term'', luazmq_ctx_destroy E), (''set'', luazmq_ctx_set E), (''get'', luazmq_ctx_get E),
     (''lightuserdata'', luazmq_ctx_lightuserdata), (''socket_count'', luazmq_ctx_skt_count),
     (''shutdown'', luazmq_ctx_shutdown E), (''shutdowned'', luazmq_ctx_shutdowned)] @ ctx_opt_methods E"

interpretation ctxobj: closable UContext
    "\<lambda>L c. has_flag (zc_flags (zctxs L c)) LUAZMQ_FLAG_CLOSED" "luazmq_ctx_destroy E"
    luazmq_getcontext_at for E
proof unfold_locales
  fix L L' :: "('a, 'b) lua" and c n
  assume a: "lua_at L 1 = LUser UContext c" "luazmq_ctx_destroy E L = Ret n L'"
    "results n L' = [LBool True]"
  show "has_flag (zc_flags (zctxs L' c)) LUAZMQ_FLAG_CLOSED"
  proof (cases "has_flag (zc_flags (zctxs L c)) LUAZMQ_FLAG_CLOSED")
    case True
    with a show ?thesis by (auto simp: luazmq_ctx_destroy_def luazmq_pass_def)
  next
    case False
    obtain l where l: "luaL_optint E L 2 (-2) = Inr l"
      using a False by (cases "luaL_optint E L 2 (-2)") (auto simp: luazmq_ctx_destroy_def)
    obtain M where "luazmq_ctx_close_sockets E c l L = Inr M"
      using a False l by (cases "luazmq_ctx_close_sockets E c l L") (auto simp: luazmq_ctx_destroy_def)
    with a False l show ?thesis
      by (auto simp: luazmq_ctx_destroy_def luazmq_pass_def fail_ret_plain case_prod_unfold Let_def
          split: if_splits)
  qed
qed (auto simp: luazmq_ctx_destroy_def luazmq_pass_def luazmq_getcontext_at_def)

subsection \<open>Opening a socket\<close>

text \<open>A socket is on the list of a context if it is a key of the table.\<close>

definition listed :: "('z, 'm) lua \<Rightarrow> nat \<Rightarrow> nat \<Rightarrow> bool" where
  "listed L c s \<longleftrightarrow> LUser USocket s \<in> fst ` set (fields (registry L (zc_autoclose_ref (zctxs L c))))"

lemma rawset_key: "k \<in> fst ` set (rawset k v t)"
  by (induction k v t rule: rawset.induct) auto

text \<open>The reference to the list of a context is unset or valid.\<close>

definition list_ok :: "('z, 'm) lua \<Rightarrow> nat \<Rightarrow> bool" where
  "list_ok L c \<longleftrightarrow> zc_autoclose_ref (zctxs L c) = LUA_NOREF \<or>
     is_table (registry L (zc_autoclose_ref (zctxs L c))) \<and> zc_autoclose_ref (zctxs L c) < next_ref L"

lemma autoclose_adds:
  assumes "luazmq_getcontext_at L 1 = Inr c" "luazmq_getsocket_at L 2 = Inr s" "list_ok L c" "0 \<le> next_ref L"
  shows "\<exists>L'. luazmq_ctx_autoclose L = Ret 0 L' \<and> listed L' c s \<and> zskts L' = zskts L \<and> zst L' = zst L \<and>
    next_udata L' = next_udata L \<and> zc_autoclose_ref (zctxs L' c) < next_ref L' \<and>
    (\<forall>d. zc_socket_count (zctxs L' d) = zc_socket_count (zctxs L d)) \<and>  0 \<le> next_ref L'"
proof (cases "zc_autoclose_ref (zctxs L c) = LUA_NOREF")
  case True
  then show ?thesis using assms
    by (simp add: luazmq_ctx_autoclose_def create_autoclose_list_def luaL_ref_def Let_def listed_def rawset_key)
next
  case False
  then obtain xs h where "registry L (zc_autoclose_ref (zctxs L c)) = LTable xs h"
    using assms(3) by (cases "registry L (zc_autoclose_ref (zctxs L c))") (auto simp: list_ok_def)
  then show ?thesis using assms False
    by (simp add: luazmq_ctx_autoclose_def Let_def listed_def rawset_key list_ok_def)
qed

lemma adopt_ok:
  assumes c: "luazmq_getcontext_at M 1 = Inr c" and s: "\<not> has_flag (zs_flags (zskts M s)) LUAZMQ_FLAG_CLOSED"
    and auto: "list_ok M c" "0 \<le> next_ref M" and top: "stk M = xs @ [v]" "xs \<noteq> []"
  shows "\<exists>M'. ctx_adopt E s M = Ret 1 M' \<and> results 1 M' = [v] \<and> listed M' c s \<and>
    (\<forall>d. zc_socket_count (zctxs M' d) = zc_socket_count (zctxs M d)) \<and>
    registry M' (zs_ctx_ref (zskts M' s)) = LUser UContext c \<and>
    zs_skt (zskts M' s) = zs_skt (zskts M s) \<and> zs_ctx (zskts M' s) = zs_ctx (zskts M s) \<and>
    zs_flags (zskts M' s) = zs_flags (zskts M s)"
proof -
  have g: "lua_at M 1 = LUser UContext c" "stk M \<noteq> []" using c top by (simp_all add: getcontext_Inr)
  let ?A = "M\<lparr>stk := [LUser UContext c, LUser USocket s]\<rparr>"
  have "luazmq_getcontext_at ?A 1 = Inr c" "luazmq_getsocket_at ?A 2 = Inr s"
    using c s by (simp_all add: getcontext_Inr getsocket_Inr lua_at_args)
  from autoclose_adds [OF this] auto obtain A' where A':
    "luazmq_ctx_autoclose ?A = Ret 0 A'" "listed A' c s" "zskts A' = zskts M"
    "zc_autoclose_ref (zctxs A' c) < next_ref A'" "0 \<le> next_ref A'"
    "\<forall>d. zc_socket_count (zctxs A' d) = zc_socket_count (zctxs M d)"
    by (auto simp: list_ok_def)
  have p: "luazmq_pcall_method E luazmq_ctx_autoclose [lua_at M 1, LUser USocket s] M =
      Inr (True, A'\<lparr>stk := stk M\<rparr>)"
    using A'(1) by (simp add: luazmq_pcall_method_def g)
  have l1: "lua_at (A'\<lparr>stk := xs @ [v]\<rparr>) 1 = LUser UContext c"
    using g top by (cases xs) (simp_all add: lua_at_pos)
  show ?thesis
    using A' top l1 by (simp add: ctx_adopt_def p luaL_ref_def lua_pushvalue_def Let_def listed_def results_def)
qed

text \<open>C6: \<open>ctx:socket(type)\<close> opens one socket: the new object holds the socket of libzmq, is open,
  belongs to the context, is counted by it, is on the list of sockets the context closes, and
  \<open>skt:context()\<close> will find the context.\<close>

theorem ctx_socket_opens:
  assumes c: "luazmq_getcontext_at L 1 = Inr c" and stk: "stk L = [LUser UContext c, LNum (of_int t)]"
    and t: "- 2147483648 \<le> t" "t \<le> 2147483647"
    and open': "zmq_socket E (zc_ctx (zctxs L c)) t (zst L) = (skt, z)" "skt \<noteq> 0"
    and count: "0 \<le> zc_socket_count (zctxs L c)" "zc_socket_count (zctxs L c) < INT_MAX"
    and auto: "list_ok L c" "0 \<le> next_ref L"
  defines "s \<equiv> next_udata L"
  shows "\<exists>L'. luazmq_ctx_socket E L = Ret 1 L' \<and> results 1 L' = [LUser USocket s] \<and>
      zs_skt (zskts L' s) = skt \<and> open_in L' c s \<and>
      zc_socket_count (zctxs L' c) = zc_socket_count (zctxs L c) + 1 \<and> listed L' c s \<and>
      registry L' (zs_ctx_ref (zskts L' s)) = LUser UContext c"
proof -
  have g: "lua_at L 1 = LUser UContext c" "lua_at L 2 = LNum (of_int t)" "lua_at L 3 = LNil"
    using stk by (simp_all add: lua_at_args)
  define M where "M = upd_skt s (\<lambda>s. s\<lparr>zs_ctx := Some c\<rparr>)
     (upd_ctx c (\<lambda>z. z\<lparr>zc_socket_count := zc_socket_count z + 1\<rparr>)
       (upd_skt s (\<lambda>_. new_zsocket\<lparr>zs_skt := skt, zs_onclose_ref := LUA_NOREF, zs_ctx_ref := LUA_NOREF\<rparr>)
          (push (LUser USocket s) (L\<lparr>zst := z, next_udata := Suc s\<rparr>))))"
  have m: "luazmq_ctx_socket E L = ctx_adopt E s M"
    using count
    by (simp add: luazmq_ctx_socket_def c g socket_type_def type_of_value_def num_to_int_def t open'
        new_ctx_socket_def luazmq_newudata_def inc_socket_count_def apply_bind_connect_def Let_def s_def M_def)
  have "luazmq_getcontext_at M 1 = Inr c" "\<not> has_flag (zs_flags (zskts M s)) LUAZMQ_FLAG_CLOSED"
      "list_ok M c" "0 \<le> next_ref M" "stk M = stk L @ [LUser USocket s]" "stk L \<noteq> []"
    using c auto stk
    by (simp_all add: M_def getcontext_Inr new_zsocket_def list_ok_def lua_at_args)
  from adopt_ok [OF this, of E] show ?thesis
    unfolding m by (auto simp: M_def new_zsocket_def open_in_def)
qed

theorem ctx_socket_opens_witness:
  "\<exists>L'. luazmq_ctx_socket stub_env (demo_state [LUser UContext 0, LNum 3]) = Ret 1 L' \<and>
      results 1 L' = [LUser USocket 10] \<and> open_in L' 0 10 \<and> zc_socket_count (zctxs L' 0) = 1"
  using ctx_socket_opens [of "demo_state [LUser UContext 0, LNum 3]" 0 3 stub_env 7 0]
  by (auto simp: getcontext_Inr lua_at_args list_ok_def INT_MAX_def)

end
