(* ===== verification/ZPoller.thy ===== *)
theory ZPoller
  imports ZCore
begin

text \<open>
  \<open>zpoller.c\<close>: the methods of a poller object, on top of the item array of \<open>poller.c\<close>. The
  interface between the two files is the locale \<open>item_table\<close>; the array of \<open>poller.c\<close>
  implements it.
\<close>

subsection \<open>The interface of poller.c\<close>

text \<open>\<open>item = &(poller->items[idx]); item->... = ...\<close>\<close>

definition put_item :: "zpoller \<Rightarrow> int \<Rightarrow> (pollitem \<Rightarrow> pollitem) \<Rightarrow> zpoller option" where
  "put_item p idx f = (case pl_items p of None \<Rightarrow> None
     | Some xs \<Rightarrow> if 0 \<le> idx \<and> nat idx < length xs
                  then Some (p\<lparr>pl_items := Some (xs[nat idx := f (xs ! nat idx)])\<rparr>) else None)"

text \<open>\<open>del1 P\<close> drops the first item for which \<open>P\<close> holds.\<close>

fun del1 :: "('x \<Rightarrow> bool) \<Rightarrow> 'x list \<Rightarrow> 'x list" where
  "del1 P [] = []"
| "del1 P (x # xs) = (if P x then xs else x # del1 P xs)"

text \<open>A table of items: lookup of the first item that matches, a new item at the end, an update
  in place, and removal that keeps the order.\<close>

locale item_table =
  fixes rep :: "'p \<Rightarrow> pollitem list \<Rightarrow> bool"
    and room :: "'p \<Rightarrow> bool"
    and find_sock :: "'p \<Rightarrow> sockp \<Rightarrow> int option"
    and find_fd :: "'p \<Rightarrow> int \<Rightarrow> int option"
    and get_free :: "'p \<Rightarrow> (int \<times> 'p) option"
    and put :: "'p \<Rightarrow> int \<Rightarrow> (pollitem \<Rightarrow> pollitem) \<Rightarrow> 'p option"
    and remove :: "'p \<Rightarrow> int \<Rightarrow> 'p option"
  assumes find_sock: "rep p its \<Longrightarrow> find_sock p s = Some (first_index (\<lambda>it. it_socket it = s) its)"
    and find_fd: "rep p its \<Longrightarrow> find_fd p fd = Some (first_index (\<lambda>it. it_fd it = fd) its)"
    and get_free: "\<lbrakk> rep p its; room p \<rbrakk> \<Longrightarrow>
      \<exists>p'. get_free p = Some (int (length its), p') \<and> rep p' (its @ [zero_item])"
    and put: "\<lbrakk> rep p its; 0 \<le> i; i < int (length its) \<rbrakk> \<Longrightarrow>
      \<exists>p'. put p i f = Some p' \<and> rep p' (its[nat i := f (its ! nat i)])"
    and remove: "\<lbrakk> rep p its; no_tag its; 0 \<le> i; i < int (length its) \<rbrakk> \<Longrightarrow>
      \<exists>p'. remove p i = Some p' \<and> rep p' (take (nat i) its @ drop (Suc (nat i)) its)"
begin

text \<open>Taking a slot and filling it appends an item.\<close>

lemma append_item:
  assumes "rep p its" "room p"
  shows "\<exists>p'. (case get_free p of None \<Rightarrow> None | Some (i, q) \<Rightarrow> map_option (Pair i) (put q i f)) =
      Some (int (length its), p') \<and> rep p' (its @ [f zero_item])"
proof -
  obtain q where q: "get_free p = Some (int (length its), q)" "rep q (its @ [zero_item])"
    using get_free [OF assms] by blast
  then obtain p' where "put q (int (length its)) f = Some p'" "rep p' (its @ [f zero_item])"
    using put [of q "its @ [zero_item]" "int (length its)" f] by auto
  then show ?thesis using q by simp
qed

text \<open>An item that was found can be removed.\<close>

lemma take_drop_del1:
  "0 \<le> first_index P its \<Longrightarrow>
     take (nat (first_index P its)) its @ drop (Suc (nat (first_index P its))) its = del1 P its"
proof (induction its)
  case (Cons x xs)
  show ?case
  proof (cases "P x")
    case False
    with Cons.prems have ge: "0 \<le> first_index P xs" by (auto simp: Let_def split: if_splits)
    with False Cons.IH show ?thesis by (simp add: Let_def nat_add_distrib)
  qed simp
qed simp

lemma remove_found:
  assumes "rep p its" "no_tag its" "0 \<le> first_index P its"
  shows "\<exists>p'. remove p (first_index P its) = Some p' \<and> rep p' (del1 P its)"
  using remove [OF assms first_index_less] take_drop_del1 [OF assms(3)] by metis

end

lemma put_item_rep:
  assumes "poller_rep p its" "0 \<le> i" "i < int (length its)"
  shows "\<exists>p'. put_item p i f = Some p' \<and> poller_rep p' (its[nat i := f (its ! nat i)])"
proof -
  have "nat i < length its" using assms by simp
  with assms show ?thesis
    by (auto simp: put_item_def poller_rep_def nth_append list_update_append)
qed

interpretation ptable: item_table poller_rep
    "\<lambda>p. pl_len p \<le> INT_MAX - 10 \<and> alloc (nat (pl_len p + 10))"
    poller_find_sock_item poller_find_fd_item "poller_get_free_item alloc" put_item poller_remove_item
  for alloc
proof unfold_locales
  fix p its s fd i f
  assume "poller_rep p its"
  then show "poller_find_sock_item p s = Some (first_index (\<lambda>it. it_socket it = s) its)"
    and "poller_find_fd_item p fd = Some (first_index (\<lambda>it. it_fd it = fd) its)"
    by (rule find_sock_rep, rule find_fd_rep)
next
  fix p its
  assume "poller_rep p its" "pl_len p \<le> INT_MAX - 10 \<and> alloc (nat (pl_len p + 10))"
  then show "\<exists>p'. poller_get_free_item alloc p = Some (int (length its), p') \<and>
      poller_rep p' (its @ [zero_item])"
    using poller_get_free_item_rep by blast
qed (use put_item_rep poller_remove_item_untagged in blast)+

subsection \<open>The methods\<close>

text \<open>The argument is a socket object, or a file descriptor.\<close>

definition luazmq_check_socket ::
    "('z, 'm) env \<Rightarrow> ('z, 'm) lua \<Rightarrow> int \<Rightarrow> lua_error + nat option \<times> int" where
  "luazmq_check_socket E L i = (case lua_at L i of
     LUser t k \<Rightarrow> map_sum id (\<lambda>k. (Some k, 0)) (luazmq_getsocket_at L i)
   | _ \<Rightarrow> map_sum id (\<lambda>fd. (None, fd)) (luazmq_check_os_socket E L i ''number or ZMQ socket''))"

definition luazmq_poller_create :: "('z, 'm) env \<Rightarrow> ('z, 'm) lua \<Rightarrow> ('z, 'm) lua outcome" where
  "luazmq_poller_create E L =
     check (luaL_optinteger E L 1 10) L (\<lambda>n.
       let n = take_bit 32 n;
           (k, L) = luazmq_newudata UPoller L;
           L = upd_plr k (\<lambda>_. poller_init (alloc_items E) (c_int n)) L
       in if pl_items (zplrs L k) = None
          then Ret 2 (push (LStr ''memory allocation error'') (push LNil L)) else Ret 1 L)"

definition luazmq_plr_close :: "('z, 'm) lua \<Rightarrow> ('z, 'm) lua outcome" where
  "luazmq_plr_close L =
     check (luazmq_checkudatap L 1 UPoller) L (\<lambda>k.
       luazmq_pass (if pl_items (zplrs L k) \<noteq> None then upd_plr k poller_cleanup L else L))"

definition luazmq_plr_closed :: "('z, 'm) lua \<Rightarrow> ('z, 'm) lua outcome" where
  "luazmq_plr_closed L =
     check (luazmq_checkudatap L 1 UPoller) L (\<lambda>k.
       Ret 1 (pushboolean (pl_items (zplrs L k) = None) L))"

definition fill_item :: "sockp \<Rightarrow> int \<Rightarrow> int \<Rightarrow> pollitem \<Rightarrow> pollitem" where
  "fill_item s fd events it = it\<lparr>it_socket := s, it_fd := fd, it_events := events\<rparr>"

definition poller_add_item ::
    "(nat \<Rightarrow> bool) \<Rightarrow> zpoller \<Rightarrow> (pollitem \<Rightarrow> pollitem) \<Rightarrow> (int \<times> zpoller) option" where
  "poller_add_item alloc p f = (case poller_get_free_item alloc p of None \<Rightarrow> None
     | Some (idx, q) \<Rightarrow> map_option (Pair idx) (put_item q idx f))"

definition sock_ptr :: "('z, 'm) lua \<Rightarrow> nat option \<Rightarrow> sockp" where
  "sock_ptr L sock = (case sock of Some s \<Rightarrow> SPtr (zs_skt (zskts L s)) | None \<Rightarrow> SNull)"

definition luazmq_plr_add :: "('z, 'm) env \<Rightarrow> ('z, 'm) lua \<Rightarrow> ('z, 'm) lua outcome" where
  "luazmq_plr_add E L =
     check (luazmq_getpoller_at L 1) L (\<lambda>k.
     check (luaL_checkinteger E L 3) L (\<lambda>ev. let events = c_short ev in
     check (luazmq_check_socket E L 2) L (\<lambda>(sock, fd).
       ub_check OutOfBounds
         (poller_add_item (alloc_items E) (zplrs L k) (fill_item (sock_ptr L sock) fd events))
         (\<lambda>(idx, p). Ret 1 (pushinteger idx (upd_plr k (\<lambda>_. p) L))))))"

definition plr_find :: "zpoller \<Rightarrow> sockp option \<Rightarrow> int \<Rightarrow> int option" where
  "plr_find p sock fd = (case sock of Some s \<Rightarrow> poller_find_sock_item p s
     | None \<Rightarrow> poller_find_fd_item p fd)"

text \<open>In \<open>modify\<close> the code reads \<open>sock->skt\<close> without a test of \<open>sock\<close>.\<close>

definition luazmq_plr_modify :: "('z, 'm) env \<Rightarrow> ('z, 'm) lua \<Rightarrow> ('z, 'm) lua outcome" where
  "luazmq_plr_modify E L =
     check (luazmq_getpoller_at L 1) L (\<lambda>k.
     check (luaL_checkinteger E L 3) L (\<lambda>ev. let events = c_short ev in
     check (luazmq_check_socket E L 2) L (\<lambda>(sock, fd).
       let sp = map_option (\<lambda>s. SPtr (zs_skt (zskts L s))) sock in
       ub_check OutOfBounds (plr_find (zplrs L k) sp fd) (\<lambda>idx.
         if events \<noteq> 0 then
           ub_check OutOfBounds
             (if idx < 0 then poller_get_free_item (alloc_items E) (zplrs L k)
              else Some (idx, zplrs L k)) (\<lambda>(idx, p).
           ub_check NullDeref sp (\<lambda>s.
           ub_check OutOfBounds (put_item p idx (fill_item s fd events)) (\<lambda>p.
             Ret 1 (pushinteger idx (upd_plr k (\<lambda>_. p) L)))))
         else if 0 \<le> idx then
           ub_check OutOfBounds (poller_remove_item (zplrs L k) idx) (\<lambda>p.
             Ret 1 (pushinteger idx (upd_plr k (\<lambda>_. p) L)))
         else Ret 1 (pushinteger idx L)))))"

definition luazmq_plr_remove :: "('z, 'm) env \<Rightarrow> ('z, 'm) lua \<Rightarrow> ('z, 'm) lua outcome" where
  "luazmq_plr_remove E L =
     check (luazmq_getpoller_at L 1) L (\<lambda>k.
     check (luazmq_check_socket E L 2) L (\<lambda>(sock, fd).
       let sp = map_option (\<lambda>s. SPtr (zs_skt (zskts L s))) sock in
       ub_check OutOfBounds (plr_find (zplrs L k) sp fd) (\<lambda>idx.
         if 0 \<le> idx then
           ub_check OutOfBounds (poller_remove_item (zplrs L k) idx) (\<lambda>p.
             Ret 1 (pushinteger idx (upd_plr k (\<lambda>_. p) L)))
         else Ret 1 (pushinteger idx L))))"

definition luazmq_plr_poll :: "('z, 'm) env \<Rightarrow> ('z, 'm) lua \<Rightarrow> ('z, 'm) lua outcome" where
  "luazmq_plr_poll E L =
     check (luazmq_getpoller_at L 1) L (\<lambda>k.
     check (luaL_checkinteger E L 2) L (\<lambda>timeout.
       ub_check OutOfBounds (poller_poll (zmq_poll E) (zplrs L k) timeout (zst L)) (\<lambda>(err, p, z).
         let L = (upd_plr k (\<lambda>_. p\<lparr>pl_next := (if 0 < err then pl_count p - 1 else -1)\<rparr>) L)\<lparr>zst := z\<rparr>
         in if err = -1 then fail_ret E None L
            else if err < 0 then Abort AssertFail
            else Ret 1 (pushinteger err L))))"

definition luazmq_plr_next_revents_idx :: "('z, 'm) lua \<Rightarrow> ('z, 'm) lua outcome" where
  "luazmq_plr_next_revents_idx L =
     check (luazmq_getpoller_at L 1) L (\<lambda>k.
       ub_check OutOfBounds (poller_next_revents (zplrs L k)) (\<lambda>(idx, r, p).
         Ret 2 (pushinteger (case r of None \<Rightarrow> 0 | Some v \<Rightarrow> v)
                  (pushinteger idx (upd_plr k (\<lambda>_. p) L)))))"

definition luazmq_plr_count :: "('z, 'm) lua \<Rightarrow> ('z, 'm) lua outcome" where
  "luazmq_plr_count L =
     check (luazmq_getpoller_at L 1) L (\<lambda>k. Ret 1 (pushinteger (pl_count (zplrs L k)) L))"

definition luazmq_plr_methods ::
    "('z, 'm) env \<Rightarrow> (string \<times> (('z, 'm) lua \<Rightarrow> ('z, 'm) lua outcome)) list" where
  "luazmq_plr_methods E = [
     (''add'', luazmq_plr_add E),
     (''modify'', luazmq_plr_modify E),
     (''remove'', luazmq_plr_remove E),
     (''poll'', luazmq_plr_poll E),
     (''next_revents_idx'', luazmq_plr_next_revents_idx),
     (''count'', luazmq_plr_count),
     (''close'', luazmq_plr_close),
     (''closed'', luazmq_plr_closed),
     (''__gc'', luazmq_plr_close)]"

definition poll_flags :: "('z, 'm) env \<Rightarrow> (string \<times> int) list" where
  "poll_flags E = map (\<lambda>n. (n, macro E (''ZMQ_'' @ n))) [''POLLIN'', ''POLLOUT'', ''POLLERR'']"

interpretation poller: closable UPoller "\<lambda>L k. pl_items (zplrs L k) = None"
    luazmq_plr_close luazmq_getpoller_at
  by unfold_locales
    (auto simp: luazmq_plr_close_def luazmq_pass_def luazmq_getpoller_at_def poller_cleanup_def
      split: if_splits)

subsection \<open>What the methods do to the list of polled items\<close>

abbreviation sock_item :: "sockp \<Rightarrow> int \<Rightarrow> pollitem" where
  "sock_item s ev \<equiv> \<lparr>it_socket = s, it_fd = 0, it_events = ev, it_revents = 0\<rparr>"

lemma fill_item_zero [simp]:
  "fill_item s fd ev zero_item = \<lparr>it_socket = s, it_fd = fd, it_events = ev, it_revents = 0\<rparr>"
  by (simp add: fill_item_def zero_item_def)



text \<open>The state in which a method is called with a socket.\<close>

definition called_with :: "('z, 'm) lua \<Rightarrow> nat \<Rightarrow> pollitem list \<Rightarrow> nat \<Rightarrow> bool" where
  "called_with L k its s \<longleftrightarrow> lua_at L 1 = LUser UPoller k \<and> poller_rep (zplrs L k) its \<and>
     lua_at L 2 = LUser USocket s \<and> \<not> has_flag (zs_flags (zskts L s)) LUAZMQ_FLAG_CLOSED"

lemma called_with_args:
  assumes "called_with L k its s"
  shows "luazmq_getpoller_at L 1 = Inr k" "luazmq_check_socket E L 2 = Inr (Some s, 0)"
    "poller_rep (zplrs L k) its"
  using assms
  by (auto simp: called_with_def luazmq_check_socket_def getsocket_open poller_rep_def
      intro!: getpoller_open)

definition poller_room :: "('z, 'm) env \<Rightarrow> zpoller \<Rightarrow> bool" where
  "poller_room E p \<longleftrightarrow> pl_len p \<le> INT_MAX - 10 \<and> alloc_items E (nat (pl_len p + 10))"

text \<open>A state with poller 0, for the witnesses.\<close>

definition demo_poller :: "pollitem list \<Rightarrow> zpoller" where
  "demo_poller its = \<lparr>pl_items = Some (its @ replicate (10 - length its) zero_item), pl_next = -1,
     pl_count = int (length its), pl_free_list = -1, pl_len = 10\<rparr>"

definition demo_plr :: "pollitem list \<Rightarrow> lval list \<Rightarrow> (nat, string) lua" where
  "demo_plr its args = upd_plr 0 (\<lambda>_. demo_poller its) (demo_state args)"

lemma demo_plr_simps [simp]:
  "stk (demo_plr its args) = args" "zplrs (demo_plr its args) 0 = demo_poller its"
  "zskts (demo_plr its args) = zskts (demo_state args)" "zst (demo_plr its args) = 0"
  by (simp_all add: demo_plr_def)

lemma demo_poller_rep: "length its \<le> 10 \<Longrightarrow> poller_rep (demo_poller its) its"
  by (simp add: demo_poller_def poller_rep_def)

lemma demo_called_with:
  "length its \<le> 10 \<Longrightarrow> called_with (demo_plr its (LUser UPoller 0 # LUser USocket 0 # args)) 0 its 0"
  "poller_room stub_env (demo_poller its)"
  by (simp_all add: called_with_def poller_room_def lua_at_args demo_poller_rep)
    (simp add: demo_poller_def INT_MAX_def)

text \<open>Adding a socket appends one item with the given events to the polled items, and returns
  its index.\<close>

theorem plr_add_socket:
  assumes "called_with L k its s" "poller_room E (zplrs L k)"
    and ev: "luaL_checkinteger E L 3 = Inr ev"
  shows "\<exists>p'. luazmq_plr_add E L = Ret 1 (pushinteger (int (length its)) (upd_plr k (\<lambda>_. p') L)) \<and>
    poller_rep p' (its @ [sock_item (SPtr (zs_skt (zskts L s))) (c_short ev)])"
proof -
  note c = called_with_args [OF assms(1)]
  let ?f = "fill_item (SPtr (zs_skt (zskts L s))) 0 (c_short ev)"
  obtain p' where p': "poller_add_item (alloc_items E) (zplrs L k) ?f = Some (int (length its), p')"
      "poller_rep p' (its @ [?f zero_item])"
    using ptable.append_item [OF c(3), of "alloc_items E"] assms(2)
    unfolding poller_room_def poller_add_item_def by blast
  then show ?thesis using c(1,2)
    by (intro exI [of _ p']) (simp add: luazmq_plr_add_def ev sock_ptr_def Let_def)
qed

theorem plr_add_socket_witness:
  "\<exists>L'. luazmq_plr_add stub_env (demo_plr [] [LUser UPoller 0, LUser USocket 0, LNum 1]) = Ret 1 L' \<and>
     poller_rep (zplrs L' 0) [sock_item (SPtr 7) (c_short 1)]"
  using plr_add_socket [OF demo_called_with(1) [of "[]" "[LNum 1]"], of stub_env 1]
    demo_called_with(2) [of "[]"] by (auto simp: lua_at_args arg_simps luaL_checkinteger_def)





text \<open>Changing the events of a file descriptor dereferences a null pointer, whether the
  descriptor is in the poller or not.\<close>

theorem plr_modify_fd:
  assumes "lua_at L 1 = LUser UPoller k" "poller_rep (zplrs L k) its" "poller_room E (zplrs L k)"
    and fd: "lua_at L 2 = LNum (of_int fd)"
    and ev: "luaL_checkinteger E L 3 = Inr ev" "c_short ev \<noteq> 0"
  shows "luazmq_plr_modify E L = Abort NullDeref"
proof -
  have g: "luazmq_getpoller_at L 1 = Inr k"
    using assms(1,2) by (auto simp: poller_rep_def intro!: getpoller_open)
  obtain fd' where s: "luazmq_check_socket E L 2 = Inr (None, fd')"
    using fd by (simp add: luazmq_check_socket_def luazmq_check_os_socket_def)
  obtain q where q: "poller_get_free_item (alloc_items E) (zplrs L k) = Some q"
    using ptable.get_free [OF assms(2), of "alloc_items E"] assms(3) unfolding poller_room_def by blast
  show ?thesis
    using ptable.find_fd [OF assms(2)] q
    by (simp add: luazmq_plr_modify_def g s ev plr_find_def Let_def case_prod_unfold)
qed

theorem plr_modify_fd_witness:
  "luazmq_plr_modify stub_env (demo_plr [] [LUser UPoller 0, LNum (of_int 3), LNum 1]) = Abort NullDeref"
  using plr_modify_fd [of "demo_plr [] [LUser UPoller 0, LNum (of_int 3), LNum 1]" 0 "[]" stub_env 3 1]
    demo_called_with(2) [of "[]"]
  by (simp add: lua_at_args arg_simps luaL_checkinteger_def demo_poller_rep c_short_def)

subsection \<open>Polling, and walking over the events\<close>




lemma scan_revents_result:
  "\<lbrakk> scan_revents xs n = Some (i, nxt, r); 0 \<le> i \<rbrakk> \<Longrightarrow> nxt = i - 1 \<and> r \<noteq> 0"
  by (induction n) (auto split: if_splits)

text \<open>Removing an item below the position of the walk moves the items above it down, and the
  walk reports an item a second time.\<close>

theorem removal_repeats_event:
  assumes rep: "poller_rep p [x, y]" and untagged: "no_tag [x, y]"
    and reported: "poller_next_revents p = Some (1, Some (it_revents y), q)"
  shows "\<exists>r r'. poller_remove_item q 0 = Some r \<and> poller_rep r [y] \<and>
     poller_next_revents r = Some (0, Some (it_revents y), r')"
proof -
  have q: "q = p\<lparr>pl_next := 0\<rparr>" and y: "it_revents y \<noteq> 0"
    using reported by (auto simp: poller_next_revents_def Let_def split: if_splits option.splits
        dest!: scan_revents_result)
  then have "poller_rep q [x, y]" using rep by (auto simp: poller_rep_def)
  with untagged obtain r where r: "poller_remove_item q 0 = Some r" "poller_rep r [y]" "pl_next r = 0"
    using poller_remove_item_rep [of q "[x, y]" 0] by (auto simp: no_tag_def q)
  then show ?thesis using y by (auto simp: poller_next_revents_def poller_rep_def Let_def)
qed

abbreviation fired_item :: "sockp \<Rightarrow> pollitem" where
  "fired_item s \<equiv> \<lparr>it_socket = s, it_fd = 0, it_events = 1, it_revents = 1\<rparr>"

theorem removal_repeats_event_witness:
  "\<exists>r r'. poller_remove_item ((demo_poller [fired_item (SPtr 5), fired_item (SPtr 7)])\<lparr>pl_next := 0\<rparr>) 0 =
       Some r \<and> poller_next_revents r = Some (0, Some 1, r')"
proof -
  let ?its = "[fired_item (SPtr 5), fired_item (SPtr 7)]"
  let ?p = "(demo_poller ?its)\<lparr>pl_next := 1\<rparr>" and ?q = "(demo_poller ?its)\<lparr>pl_next := 0\<rparr>"
  have "poller_rep ?p ?its" "no_tag ?its"
    by (simp_all add: poller_rep_def demo_poller_def no_tag_def tag_value)
  moreover have "poller_next_revents ?p = Some (1, Some (it_revents (fired_item (SPtr 7))), ?q)"
    by (simp add: poller_next_revents_def demo_poller_def Let_def)
  ultimately show ?thesis using removal_repeats_event by fastforce
qed

subsection \<open>The methods keep every poller well-formed\<close>

definition pollers_ok :: "('z, 'm) lua \<Rightarrow> bool" where
  "pollers_ok L \<longleftrightarrow> (\<forall>k. pl_items (zplrs L k) \<noteq> None \<longrightarrow> poller_ok (zplrs L k))"

lemma pollers_ok_upd [intro]:
  "\<lbrakk> pollers_ok L; pl_items p \<noteq> None \<Longrightarrow> poller_ok p \<rbrakk> \<Longrightarrow> pollers_ok (upd_plr k (\<lambda>_. p) L)"
  by (simp add: pollers_ok_def)

lemma pollers_ok_fields [simp]:
  "pollers_ok (push v L) = pollers_ok L" "pollers_ok (L\<lparr>zst := z\<rparr>) = pollers_ok L"
  "pollers_ok (err_push E err L) = pollers_ok L"
  by (simp_all add: pollers_ok_def)

lemma get_free_item_ok:
  assumes rep: "poller_rep p its" and g: "poller_get_free_item alloc p = Some (i, q)"
  shows "i = int (length its) \<and> poller_rep q (its @ [zero_item])"
proof (cases "pl_len p \<le> pl_count p + 1")
  case True
  then have "pl_len p \<le> INT_MAX - 10 \<and> alloc (nat (pl_len p + 10))"
    using g rep
    by (auto simp: poller_get_free_item_def poller_rep_def poller_resize_items_def Let_def
        split: if_splits)
  with ptable.get_free [OF rep, of alloc] g show ?thesis by auto
next
  case False
  then have q: "i = int (length its)" "q = p\<lparr>pl_count := pl_count p + 1\<rparr>"
    using g rep by (auto simp: poller_get_free_item_def poller_rep_def Let_def split: if_splits)
  have "replicate (nat (pl_len p) - length its) zero_item =
      zero_item # replicate (nat (pl_len p) - Suc (length its)) zero_item"
    using False rep by (cases "nat (pl_len p) - length its") (auto simp: poller_rep_def simp flip: replicate_Suc)
  then show ?thesis using rep False q by (auto simp: poller_rep_def)
qed

lemma add_item_ok:
  assumes "poller_ok p" "poller_add_item alloc p f = Some (i, q)"
  shows "poller_ok q"
proof -
  obtain its where its: "poller_rep p its" using assms(1) by (auto simp: poller_ok_def)
  obtain r where r: "poller_get_free_item alloc p = Some (i, r)" "put_item r i f = Some q"
    using assms(2) by (auto simp: poller_add_item_def split: option.splits)
  from get_free_item_ok [OF its r(1)] ptable.put [of r "its @ [zero_item]" i f] r(2)
  show ?thesis by (auto simp: poller_ok_def)
qed

lemma put_new_ok:
  assumes ok: "poller_ok p" and got: "poller_get_free_item alloc p = Some (i, q)"
    and put: "put_item q i f = Some r"
  shows "poller_ok r"
  using add_item_ok [OF ok, of alloc f i r] got put by (simp add: poller_add_item_def)

lemma put_found_ok:
  assumes ok: "poller_ok p" and find: "plr_find p sp fd = Some idx"
    and pos: "0 \<le> idx" and put: "put_item p idx f = Some r"
  shows "poller_ok r"
proof -
  obtain its where its: "poller_rep p its" using ok by (auto simp: poller_ok_def)
  obtain P where "idx = first_index P its"
    using find ptable.find_sock [OF its] ptable.find_fd [OF its]
    by (auto simp: plr_find_def split: option.splits)
  then have idx: "idx < int (length its)" using first_index_less [of P its] by simp
  with ptable.put [OF its pos idx, of f] put show ?thesis by (auto simp: poller_ok_def)
qed

lemma remove_item_ok:
  assumes "poller_ok p" "0 \<le> idx" "poller_remove_item p idx = Some q"
  shows "poller_ok q"
proof -
  obtain its where its: "poller_rep p its" using assms(1) by (auto simp: poller_ok_def)
  show ?thesis
  proof (cases "idx < int (length its)")
    case True
    from poller_remove_item_rep [OF its assms(2) this] assms(3) show ?thesis
      by (auto simp: poller_ok_def)
  next
    case False
    then show ?thesis using its assms(1,3) by (simp add: poller_remove_item_def poller_rep_def Let_def)
  qed
qed

lemma poll_ok:
  assumes "poller_ok p" "poller_poll zp p timeout z = Some (n, q, z')"
  shows "poller_ok (q\<lparr>pl_next := pl_count q - 1\<rparr>)" "poller_ok (q\<lparr>pl_next := -1\<rparr>)"
proof -
  obtain its where its: "poller_rep p its" using assms(1) by (auto simp: poller_ok_def)
  obtain rs where "poller_rep q (store_revents its rs)"
    using poller_poll_rep [OF its, of zp timeout z] assms(2) by (cases "zp its timeout z") auto
  then show "poller_ok (q\<lparr>pl_next := pl_count q - 1\<rparr>)" "poller_ok (q\<lparr>pl_next := -1\<rparr>)"
    by (auto simp: poller_ok_def poller_rep_def intro!: exI [of _ "store_revents its rs"])
qed

lemma next_ok:
  assumes "poller_ok p" "poller_next_revents p = Some (i, r, q)"
  shows "poller_ok q"
  using assms poller_next_revents_rep by (fastforce simp: poller_ok_def)

lemma getpoller_ok: "\<lbrakk> pollers_ok L; luazmq_getpoller_at L i = Inr k \<rbrakk> \<Longrightarrow> poller_ok (zplrs L k)"
  by (simp add: pollers_ok_def getpoller_Inr)

lemma poller_create_ok:
  assumes "pollers_ok L" shows "final_state pollers_ok (luazmq_poller_create E L)"
proof -
  have "poller_ok (poller_init a n)" if "pl_items (poller_init a n) \<noteq> None" for a n
    using that poller_init_rep [of n a] by (auto simp: poller_init_def poller_ok_def split: if_splits)
  then have "pollers_ok (upd_plr k (\<lambda>_. poller_init a n) (push v (L\<lparr>next_udata := u\<rparr>)))" for k a n v u
    using assms by (simp add: pollers_ok_def)
  then show ?thesis
    using assms by (simp add: luazmq_poller_create_def luazmq_newudata_def Let_def split: sum.split)
qed

text \<open>C14: whatever the arguments, a method of a poller leaves all pollers well-formed: the slots
  in use come first, the rest is zeroed, the free list is empty, and the position of the walk
  lies inside the array.\<close>

theorem plr_methods_ok:
  assumes ok: "pollers_ok L" and m: "m \<in> set (map snd (luazmq_plr_methods E))"
  shows "final_state pollers_ok (m L)"
proof -
  note g = getpoller_ok [OF ok]
  have "final_state pollers_ok (luazmq_plr_add E L)"
    using ok by (auto simp: luazmq_plr_add_def Let_def split: sum.split option.split prod.split
        dest: add_item_ok [OF g])
  moreover have "final_state pollers_ok (luazmq_plr_modify E L)"
    using ok by (auto simp: luazmq_plr_modify_def Let_def not_less
        split: sum.split option.split prod.split
        intro!: pollers_ok_upd intro: put_new_ok [OF g] put_found_ok [OF g] remove_item_ok [OF g])
  moreover have "final_state pollers_ok (luazmq_plr_remove E L)"
    using ok by (auto simp: luazmq_plr_remove_def Let_def split: sum.split option.split prod.split
        dest: remove_item_ok [OF g])
  moreover have "final_state pollers_ok (luazmq_plr_poll E L)"
    using ok by (auto simp: luazmq_plr_poll_def Let_def fail_ret_plain split: sum.split option.split prod.split
        intro!: pollers_ok_upd intro: poll_ok [OF g])
  moreover have "final_state pollers_ok (luazmq_plr_next_revents_idx L)"
    using ok by (auto simp: luazmq_plr_next_revents_idx_def split: sum.split option.split prod.split
        dest: next_ok [OF g])
  moreover have "final_state pollers_ok (luazmq_plr_count L)"
    using ok by (auto simp: luazmq_plr_count_def split: sum.split)
  moreover have "final_state pollers_ok (luazmq_plr_close L)"
    using ok by (auto simp: luazmq_plr_close_def luazmq_pass_def pollers_ok_def poller_cleanup_def split: sum.split)
  moreover have "final_state pollers_ok (luazmq_plr_closed L)"
    using ok by (auto simp: luazmq_plr_closed_def split: sum.split)
  ultimately show ?thesis using m by (auto simp: luazmq_plr_methods_def)
qed

theorem plr_methods_ok_witness:
  "final_state pollers_ok (luazmq_plr_add stub_env
     (demo_plr [] [LUser UPoller 0, LUser USocket 0, LNum 1]))"
proof (rule plr_methods_ok [where E = stub_env])
  show "pollers_ok (demo_plr [] [LUser UPoller 0, LUser USocket 0, LNum 1])"
    using demo_poller_rep [of "[]"]
    by (auto simp: pollers_ok_def demo_plr_def demo_state_def initial_state_def poller_ok_def)
qed (simp add: luazmq_plr_methods_def)

lemma plr_methods_keep:
  assumes m: "m \<in> set (map snd (luazmq_plr_methods E))"
  shows "final_state (keeps L) (m L)"
  using m
  by (auto simp: luazmq_plr_methods_def luazmq_plr_add_def luazmq_plr_modify_def luazmq_plr_remove_def
      luazmq_plr_poll_def luazmq_plr_next_revents_idx_def luazmq_plr_count_def luazmq_plr_close_def
      luazmq_plr_closed_def Let_def fail_ret_plain split: sum.split option.split prod.split)

lemma poller_create_keep: "final_state (keeps L) (luazmq_poller_create E L)"
  by (simp add: luazmq_poller_create_def luazmq_newudata_def Let_def split: sum.split)
    (simp add: keeps_def)

end
