(* ===== verification/ZLib.thy ===== *)
theory ZLib
  imports ZContext ZPoller
begin

text \<open>
  \<open>lzmq.c\<close>: the functions of the module itself (version, devices and proxies, Z85, CURVE keys),
  the stop watch, the function table of the module and its table of constants.
\<close>

subsection \<open>Version, devices and proxies\<close>

definition luazmq_version_text :: string where
  "luazmq_version_text = show_int 0 @ ''.'' @ show_int 4 @ ''.'' @ show_int 5 @ ''-dev''"

definition luazmq_push_version :: "('z, 'm) lua \<Rightarrow> ('z, 'm) lua outcome" where
  "luazmq_push_version L = Ret 1 (push (LStr luazmq_version_text) L)"

definition luazmq_version :: "('z, 'm) env \<Rightarrow> ('z, 'm) lua \<Rightarrow> ('z, 'm) lua outcome" where
  "luazmq_version E L =
     (let (major, minor, patch) = zmq_version E in
      if \<not> toboolean (lua_at L 1)
      then Ret 1 (push (LTable [LNum (of_int major), LNum (of_int minor), LNum (of_int patch)] []) L)
      else Ret 3 (pushinteger patch (pushinteger minor (pushinteger major L))))"

definition luazmq_device :: "('z, 'm) env \<Rightarrow> ('z, 'm) lua \<Rightarrow> ('z, 'm) lua outcome" where
  "luazmq_device E L =
     check (luaL_checkint E L 1) L (\<lambda>device_type.
     check (luazmq_getsocket_at L 2) L (\<lambda>fe.
     check (luazmq_getsocket_at L 3) L (\<lambda>be.
       let (ret, z) = zmq_device E device_type (zs_skt (zskts L fe)) (zs_skt (zskts L be)) (zst L)
       in if ret = -1 then fail_ret E None (L\<lparr>zst := z\<rparr>) else Abort AssertFail)))"

text \<open>An optional socket argument; the raw socket is what the functions need of it.\<close>

definition optsocket :: "('z, 'm) lua \<Rightarrow> int \<Rightarrow> lua_error + nat option" where
  "optsocket L i = (if lua_at L i = LNil then Inr None
     else map_sum id (\<lambda>k. Some (zs_skt (zskts L k))) (luazmq_getsocket_at L i))"

definition luazmq_proxy :: "('z, 'm) env \<Rightarrow> ('z, 'm) lua \<Rightarrow> ('z, 'm) lua outcome" where
  "luazmq_proxy E L =
     check (luazmq_getsocket_at L 1) L (\<lambda>fe.
     check (luazmq_getsocket_at L 2) L (\<lambda>be.
     check (optsocket L 3) L (\<lambda>cp.
       let (ret, z) = zmq_proxy E (zs_skt (zskts L fe)) (zs_skt (zskts L be)) cp (zst L)
       in if ret = -1 then fail_ret E None (L\<lparr>zst := z\<rparr>) else Abort AssertFail)))"

definition luazmq_proxy_steerable :: "('z, 'm) env \<Rightarrow> ('z, 'm) lua \<Rightarrow> ('z, 'm) lua outcome" where
  "luazmq_proxy_steerable E L =
     check (luazmq_getsocket_at L 1) L (\<lambda>fe.
     check (luazmq_getsocket_at L 2) L (\<lambda>be.
     check (optsocket L 3) L (\<lambda>cp.
     check (optsocket L 4) L (\<lambda>cn.
       let (ret, z) = zmq_proxy_steerable E (zs_skt (zskts L fe)) (zs_skt (zskts L be)) cp cn (zst L);
           L = L\<lparr>zst := z\<rparr>
       in if ret = -1 then fail_ret E None L else luazmq_pass L))))"

definition luazmq_has :: "('z, 'm) env \<Rightarrow> ('z, 'm) lua \<Rightarrow> ('z, 'm) lua outcome" where
  "luazmq_has E L =
     check (luaL_checkstring E L 1) L (\<lambda>capability.
       Ret 1 (pushboolean (zmq_has E capability \<noteq> 0) L))"

subsection \<open>Z85\<close>

text \<open>
  \<open>0.8 * len\<close>, converted to \<open>size_t\<close>: the constant is the double
  \<open>3602879701896397 / 2 ^ 52\<close>, the length is converted to a double, and the product is rounded
  to a double.
\<close>

definition times_0_8 :: "nat \<Rightarrow> nat" where
  "times_0_8 len = round53 (3602879701896397 * round53 len) div 2 ^ 52"

text \<open>\<open>zmq_z85_encode\<close> and \<open>zmq_z85_decode\<close> yield the bytes they write to the buffer (the
  encoder adds a zero byte), or nothing. What is pushed is the first \<open>n\<close> bytes of the buffer.\<close>

definition push_buffer :: "nat \<Rightarrow> string \<Rightarrow> nat \<Rightarrow> ('z, 'm) lua \<Rightarrow> ('z, 'm) lua outcome" where
  "push_buffer room bytes n L =
     (if room < length bytes then Abort OutOfBounds
      else if length bytes < n then Abort Uninitialised
      else Ret 1 (push (LStr (take n bytes)) L))"

definition luazmq_z85_encode :: "('z, 'm) env \<Rightarrow> ('z, 'm) lua \<Rightarrow> ('z, 'm) lua outcome" where
  "luazmq_z85_encode E L =
     check (luaL_checklstring E L 1) L (\<lambda>data.
       let len = length data; q = len div 4 in
       check (if len = 32 then Inr 41
              else map_sum id (\<lambda>_. q + len + 1)
                (argcheck (len = q * 4) 1 ''size of the block must be divisible by 4'')) L (\<lambda>dest_len.
         if \<not> alloc_temp E dest_len then Abort NullDeref
         else case zmq_z85_encode E data of
             None \<Rightarrow> Ret 1 (push LNil L)
           | Some s \<Rightarrow> push_buffer dest_len (s @ [CHR 0x00]) (dest_len - 1) L))"

definition luazmq_z85_decode :: "('z, 'm) env \<Rightarrow> ('z, 'm) lua \<Rightarrow> ('z, 'm) lua outcome" where
  "luazmq_z85_decode E L =
     check (luaL_checklstring E L 1) L (\<lambda>data.
       let len = length data; d = times_0_8 len in
       check (if len = 40 then Inr 32
              else map_sum id (\<lambda>_. d)
                (argcheck (len = d + d div 4) 1 ''size of the block must be divisible by 5'')) L (\<lambda>dest_len.
         if \<not> alloc_temp E dest_len then Abort NullDeref
         else case zmq_z85_decode E (c_str data) of
             None \<Rightarrow> Ret 1 (push LNil L)
           | Some s \<Rightarrow> push_buffer dest_len s dest_len L))"

subsection \<open>CURVE keys\<close>

text \<open>A key of 40 characters, as text or decoded to 32 bytes.\<close>

definition push_key :: "('z, 'm) env \<Rightarrow> bool \<Rightarrow> string \<Rightarrow> ('z, 'm) lua \<Rightarrow> ('z, 'm) lua outcome" where
  "push_key E as_bin key L =
     (if as_bin then
        (case zmq_z85_decode E key of None \<Rightarrow> Abort Uninitialised | Some s \<Rightarrow> push_buffer 32 s 32 L)
      else push_buffer 41 (key @ [CHR 0x00]) 40 L)"

definition luazmq_curve_keypair :: "('z, 'm) env \<Rightarrow> ('z, 'm) lua \<Rightarrow> ('z, 'm) lua outcome" where
  "luazmq_curve_keypair E L =
     (let as_bin = toboolean (lua_at L 1);
          (rc, public_key, secret_key, z) = zmq_curve_keypair E (zst L); L = L\<lparr>zst := z\<rparr>
      in if rc = -1 then fail_ret E None L
         else after (push_key E as_bin public_key L) (\<lambda>_ L.
              after (push_key E as_bin secret_key L) (\<lambda>_ L. Ret 2 L)))"

definition luazmq_curve_public :: "('z, 'm) env \<Rightarrow> ('z, 'm) lua \<Rightarrow> ('z, 'm) lua outcome" where
  "luazmq_curve_public E L =
     check (luaL_checkstring E L 1) L (\<lambda>secret_key.
       let as_bin = toboolean (lua_at L 2);
           (rc, public_key, z) = zmq_curve_public E secret_key (zst L); L = L\<lparr>zst := z\<rparr>
       in if rc = -1 then fail_ret E None L else push_key E as_bin public_key L)"

subsection \<open>The stop watch\<close>

text \<open>A stop watch object holds a pointer to a watch of libzmq, null while it is stopped.\<close>

definition upd_watch :: "nat \<Rightarrow> nat \<Rightarrow> ('z, 'm) lua \<Rightarrow> ('z, 'm) lua" where
  "upd_watch k p L = L\<lparr>zwatches := (zwatches L)(k := p)\<rparr>"

definition luazmq_stopwatch_create :: "('z, 'm) lua \<Rightarrow> ('z, 'm) lua outcome" where
  "luazmq_stopwatch_create L = (let (k, L) = luazmq_newudata UStopwatch L in Ret 1 (upd_watch k 0 L))"

text \<open>\<open>start\<close> returns the top of the stack, its last argument.\<close>

definition luazmq_stopwatch_start :: "('z, 'm) env \<Rightarrow> ('z, 'm) lua \<Rightarrow> ('z, 'm) lua outcome" where
  "luazmq_stopwatch_start E L =
     check (luazmq_checkudatap L 1 UStopwatch) L (\<lambda>k.
     check (argcheck (zwatches L k = 0) 1 ''LuaZMQ: timer alrady started'') L (\<lambda>_.
       let (p, z) = zmq_stopwatch_start E (zst L) in Ret 1 (upd_watch k p (L\<lparr>zst := z\<rparr>))))"

definition luazmq_stopwatch_stop :: "('z, 'm) env \<Rightarrow> ('z, 'm) lua \<Rightarrow> ('z, 'm) lua outcome" where
  "luazmq_stopwatch_stop E L =
     check (luazmq_checkudatap L 1 UStopwatch) L (\<lambda>k.
     check (argcheck (zwatches L k \<noteq> 0) 1 ''LuaZMQ: timer not started'') L (\<lambda>_.
       let (t, z) = zmq_stopwatch_stop E (zwatches L k) (zst L)
       in Ret 1 (upd_watch k 0 (pushnumber t (L\<lparr>zst := z\<rparr>)))))"

definition luazmq_stopwatch_close :: "('z, 'm) env \<Rightarrow> ('z, 'm) lua \<Rightarrow> ('z, 'm) lua outcome" where
  "luazmq_stopwatch_close E L =
     check (luazmq_checkudatap L 1 UStopwatch) L (\<lambda>k.
       luazmq_pass (if zwatches L k \<noteq> 0
         then upd_watch k 0 (L\<lparr>zst := snd (zmq_stopwatch_stop E (zwatches L k) (zst L))\<rparr>) else L))"

definition luazmq_utils_sleep :: "('z, 'm) env \<Rightarrow> ('z, 'm) lua \<Rightarrow> ('z, 'm) lua outcome" where
  "luazmq_utils_sleep E L =
     check (luaL_checkint E L 1) L (\<lambda>sec. luazmq_pass (L\<lparr>zst := zmq_sleep E sec (zst L)\<rparr>))"

definition luazmq_utilslib :: "('z, 'm) env \<Rightarrow> (string \<times> (('z, 'm) lua \<Rightarrow> ('z, 'm) lua outcome)) list" where
  "luazmq_utilslib E = [(''stopwatch'', luazmq_stopwatch_create), (''sleep'', luazmq_utils_sleep E)]"

definition luazmq_stopwatch_methods ::
    "('z, 'm) env \<Rightarrow> (string \<times> (('z, 'm) lua \<Rightarrow> ('z, 'm) lua outcome)) list" where
  "luazmq_stopwatch_methods E = [(''start'', luazmq_stopwatch_start E), (''stop'', luazmq_stopwatch_stop E),
     (''__gc'', luazmq_stopwatch_close E)]"

subsection \<open>The module\<close>

definition luazmqlib :: "('z, 'm) env \<Rightarrow> (string \<times> (('z, 'm) lua \<Rightarrow> ('z, 'm) lua outcome)) list" where
  "luazmqlib E =
     [(''version'', luazmq_version E)] @
     (if zmq_defined E ''LUAZMQ_SUPPORT_PROXY'' then [(''proxy'', luazmq_proxy E)] else []) @
     (if zmq_defined E ''LUAZMQ_SUPPORT_PROXY_STEERABLE''
      then [(''proxy_steerable'', luazmq_proxy_steerable E)] else []) @
     (if zmq_defined E ''LUAZMQ_SUPPORT_Z85''
      then [(''z85_encode'', luazmq_z85_encode E), (''z85_decode'', luazmq_z85_decode E)] else []) @
     (if zmq_defined E ''LUAZMQ_SUPPORT_CURVE_KEYPAIR'' then [(''curve_keypair'', luazmq_curve_keypair E)] else []) @
     (if zmq_defined E ''LUAZMQ_SUPPORT_CURVE_PUBLIC'' then [(''curve_public'', luazmq_curve_public E)] else []) @
     (if zmq_defined E ''ZMQ_HAS_CAPABILITIES'' then [(''has'', luazmq_has E)] else []) @
     [(''device'', luazmq_device E), (''assert'', luazmq_assert E),
      (''error'', luazmq_error_create_fn E), (''strerror'', luazmq_error_tostring E),
      (''context'', luazmq_context_create E), (''poller'', luazmq_poller_create E),
      (''init'', luazmq_context_init E), (''init_ctx'', luazmq_init_ctx),
      (''init_socket'', luazmq_init_socket), (''msg_init'', luazmq_msg_init E),
      (''msg_init_size'', luazmq_msg_init_size E), (''msg_init_data'', luazmq_msg_init_data E),
      (''msg_init_data_multi'', luazmq_msg_init_data_multi E),
      (''msg_init_data_array'', luazmq_msg_init_data_array E)]"

definition device_types :: "('z, 'm) env \<Rightarrow> (string \<times> int) list" where
  "device_types E = map (\<lambda>n. (n, macro E (''ZMQ_'' @ n))) [''STREAMER'', ''FORWARDER'', ''QUEUE'']"

definition events_types :: "('z, 'm) env \<Rightarrow> (string \<times> int) list" where
  "events_types E = map (\<lambda>n. (n, macro E (''ZMQ_'' @ n)))
     ([''EVENT_CONNECTED'', ''EVENT_CONNECT_DELAYED'', ''EVENT_CONNECT_RETRIED'', ''EVENT_LISTENING'',
       ''EVENT_BIND_FAILED'', ''EVENT_ACCEPTED'', ''EVENT_ACCEPT_FAILED'', ''EVENT_CLOSED'',
       ''EVENT_CLOSE_FAILED'', ''EVENT_DISCONNECTED''] @
      filter (\<lambda>n. zmq_defined E (''ZMQ_'' @ n)) [''EVENT_MONITOR_STOPPED''] @ [''EVENT_ALL''])"

subsection \<open>The length check of the decoder\<close>

text \<open>The detour through doubles is exact: for every length a string can have in practice it is
  four fifths of the length, rounded down.\<close>

lemma times_0_8_exact:
  assumes "n < 2 ^ 50" shows "times_0_8 n = 4 * n div 5"
proof -
  define M where "M = 3602879701896397 * n"
  let ?q = "4 * n div 5" and ?e = "nbits M - 53"
  have M5: "5 * M = 18014398509481985 * n" by (simp add: M_def)
  have up: "5 * ?q \<le> 4 * n" "4 * n \<le> 5 * ?q + 4" by auto
  have "round53 M < (?q + 1) * 2 ^ 52"
    using round53_error(1) [of M] M5 up assms by simp
  moreover have "?q * 2 ^ 52 \<le> round53 M"
  proof (cases "5 dvd n")
    case False
    then have "5 * ?q + 1 \<le> 4 * n" by presburger
    then show ?thesis using round53_error(2) [of M] M5 assms by simp
  next
    case True
    then obtain q where n: "n = 5 * q" by blast
    have "M < 2 ^ 102" using assms by (simp add: M_def)
    then have "?e \<le> 54" using nbits_le [of M 102] by simp
    then have "2 ^ ?e dvd (2::nat) ^ 54" by (rule le_imp_power_dvd)
    then have "2 ^ ?e dvd q * 2 ^ 54" by (rule dvd_mult)
    moreover have "q * 2 ^ 54 \<le> M" by (simp add: M_def n)
    ultimately have "q * 2 ^ 54 \<le> M div 2 ^ ?e * 2 ^ ?e"
      by (metis div_le_mono dvd_div_mult_self mult_le_mono1)
    then show ?thesis using round53_lower [of M] by (simp add: n)
  qed
  ultimately have "round53 M div 2 ^ 52 = ?q"
    by (intro div_nat_eqI) (simp_all add: mult.commute)
  then show ?thesis using assms by (simp add: times_0_8_def M_def round53_exact)
qed

lemma times_0_8_check:
  assumes "n < 2 ^ 50"
  shows "n = times_0_8 n + times_0_8 n div 4 \<longleftrightarrow> 5 dvd n"
proof -
  define q r where "q = n div 5" and "r = n mod 5"
  have n: "n = 5 * q + r" and "r < 5" by (simp_all add: q_def r_def)
  then have "r = 0 \<or> r = 1 \<or> r = 2 \<or> r = 3 \<or> r = 4" by auto
  moreover have "times_0_8 n = 4 * q + 4 * r div 5"
    using div_mult_self4 [of 5 "4 * q" "4 * r"] times_0_8_exact [OF assms] n by (simp add: algebra_simps)
  moreover have "5 dvd n \<longleftrightarrow> r = 0" by (simp add: r_def dvd_eq_mod_eq_0)
  ultimately show ?thesis using n by auto
qed

subsection \<open>No socket is opened or closed\<close>

lemma keeps_upd_watch [simp]: "keeps L (upd_watch k p L') = keeps L L'"
  by (simp add: upd_watch_def)

lemma keeps_push_buffer: "keeps L L' \<Longrightarrow> final_state (keeps L) (push_buffer room bytes n L')"
  by (simp add: push_buffer_def)

lemma keeps_push_key: "keeps L L' \<Longrightarrow> final_state (keeps L) (push_key E b key L')"
  by (simp add: push_key_def keeps_push_buffer split: option.split)

lemma keypair_keep: "final_state (keeps L) (luazmq_curve_keypair E L)"
  by (auto simp: luazmq_curve_keypair_def Let_def case_prod_unfold intro!: final_after keeps_push_key)

lemma lib_keep:
  "final_state (keeps L) (luazmq_version E L)" "final_state (keeps L) (luazmq_device E L)"
  "final_state (keeps L) (luazmq_proxy E L)" "final_state (keeps L) (luazmq_proxy_steerable E L)"
  "final_state (keeps L) (luazmq_has E L)" "final_state (keeps L) (luazmq_curve_public E L)"
  "final_state (keeps L) (luazmq_z85_encode E L)" "final_state (keeps L) (luazmq_z85_decode E L)"
  "final_state (keeps L) (luazmq_stopwatch_create L)" "final_state (keeps L) (luazmq_stopwatch_start E L)"
  "final_state (keeps L) (luazmq_stopwatch_stop E L)" "final_state (keeps L) (luazmq_stopwatch_close E L)"
  "final_state (keeps L) (luazmq_utils_sleep E L)"
  by (auto simp: luazmq_version_def luazmq_device_def luazmq_proxy_def luazmq_proxy_steerable_def
      luazmq_has_def luazmq_curve_public_def luazmq_z85_encode_def luazmq_z85_decode_def
      luazmq_stopwatch_create_def luazmq_stopwatch_start_def luazmq_stopwatch_stop_def
      luazmq_stopwatch_close_def luazmq_utils_sleep_def Let_def case_prod_unfold
      split: sum.split option.split intro!: keeps_push_buffer keeps_push_key)

lemma err_methods_keep:
  "(n, f) \<in> set (luazmq_err_methods E) \<Longrightarrow> final_state (keeps L) (f L)"
  by (auto simp: luazmq_err_methods_def zerror_defs split: sum.split)

lemma err_functions_keep:
  "final_state (keeps L) (luazmq_error_create_fn E L)" "final_state (keeps L) (luazmq_error_tostring E L)"
  "final_state (keeps L) (luazmq_assert E L)"
  by (simp_all add: zerror_defs luazmq_assert_def split: sum.split lval.split utype.split)

end
