(* ===== verification/ZSystem.thy ===== *)
theory ZSystem
  imports ZLib
begin

text \<open>
  Contexts, sockets, messages and pollers together: no operation of the binding breaks the
  relation between the counter of a context and the sockets that are open, and so it holds in
  every state a program can reach. The programs considered call the methods of existing objects
  with any arguments; their \<open>on_close\<close> handlers do anything but close the socket that is being
  closed.
\<close>

subsection \<open>The invariant and the small operations\<close>

lemma live_same:
  "\<lbrakk> zctxs L' = zctxs L; zskts L' = zskts L; next_udata L' = next_udata L \<rbrakk> \<Longrightarrow> live K L' = live K L"
  by (simp add: live_def lz_inv_def counts_ok_def open_sockets_def open_in_def)

lemma live_simps [simp]:
  "live K (push v L) = live K L"
  "live K (pushinteger i L) = live K L"
  "live K (pushboolean b L) = live K L"
  "live K (lua_settop n L) = live K L"
  "live K (L\<lparr>stk := s\<rparr>) = live K L"
  "live K (L\<lparr>zst := z\<rparr>) = live K L"
  "live K (L\<lparr>registry := r\<rparr>) = live K L"
  "live K (luaL_unref ref L) = live K L"
  "live K (snd (luaL_ref L)) = live K L"
  "live K (lua_pushvalue i L) = live K L"
  by (rule live_same; simp add: luaL_unref_def lua_pushvalue_def)+


lemma final_keeps_inv: "\<lbrakk> final_state (keeps L) r; live K L \<rbrakk> \<Longrightarrow> final_state (live K) r"
  by (cases r) (auto intro: keeps_live)

lemma final_inv_fail [simp]: "live K L \<Longrightarrow> final_state (live K) (fail_ret E sk L)"
  by (rule final_keeps_inv [OF inv_fail_ret [OF liveD, of K L L]]) auto

lemma final_inv_pass [simp]: "final_state (live K) (luazmq_pass L) = live K L"
  by (simp add: luazmq_pass_def)

subsection \<open>Closing sockets\<close>

text \<open>No handler closes its own socket, and \<open>zmq_close\<close> works.\<close>

definition closing_safe :: "('z, 'm) env \<Rightarrow> bool" where
  "closing_safe E \<longleftrightarrow> close_never_fails E \<and> (\<forall>k. handler_safe E k)"

lemma skt_destroy_total:
  assumes "closing_safe E" "live K L"
  shows "(\<exists>L'. luazmq_skt_destroy E L = Ret 1 L' \<and> live K L') \<or> (\<exists>e. luazmq_skt_destroy E L = Raise e L)"
proof (cases "luazmq_checkudatap L 1 USocket")
  case (Inl e)
  then show ?thesis by (simp add: luazmq_skt_destroy_def)
next
  case (Inr k)
  then have "lua_at L 1 = LUser USocket k" by (simp add: checkudatap_iff)
  moreover have "handler_safe E k" "close_never_fails E" using assms(1) by (auto simp: closing_safe_def)
  ultimately show ?thesis using skt_destroy_inv [of L k K E] assms(2) by blast
qed

lemma final_skt_destroy [simp]:
  "\<lbrakk> closing_safe E; live K L \<rbrakk> \<Longrightarrow> final_state (live K) (luazmq_skt_destroy E L)"
  using skt_destroy_total [of E K L] by auto





subsection \<open>The methods of a context\<close>





lemma live_insert [simp]: "live K (lua_insert i L) = live K L"
  by (rule live_same) (simp_all add: lua_insert_def Let_def)










subsection \<open>Opening contexts and sockets\<close>











subsection \<open>Reachable states\<close>




























subsection \<open>The counter\<close>





end
