(* ===== verification/ZClosed.thy ===== *)
theory ZClosed
  imports ZSystem
begin

text \<open>
  What happens to objects after they have been closed: a closed socket stays closed, and all its
  methods but the harmless ones raise an error; destroying a context closes the sockets on its
  list.
\<close>

subsection \<open>Methods of a closed socket\<close>


text \<open>A call that raises an error, and has only touched the stack.\<close>

fun rejected :: "('z, 'm) lua \<Rightarrow> ('z, 'm) lua outcome \<Rightarrow> bool" where
  "rejected L (Raise e L') \<longleftrightarrow> L'\<lparr>stk := []\<rparr> = L\<lparr>stk := []\<rparr>"
| "rejected L _ \<longleftrightarrow> False"

lemma rejected_guard [simp]: "g = Inl e \<Longrightarrow> rejected L (check g L k)"
  by simp


lemma remove_second [simp]:
  "lua_at (lua_remove 2 L) 1 = lua_at L 1" "zskts (lua_remove 2 L) = zskts L"
  "(lua_remove 2 L)\<lparr>stk := s\<rparr> = L\<lparr>stk := s\<rparr>"
  by (auto simp: lua_remove_def lua_at_def lua_absindex_def Let_def min_def nth_append)

lemma getsocket_remove [simp]: "luazmq_getsocket_at (lua_remove 2 L) 1 = luazmq_getsocket_at L 1"
  by (simp add: luazmq_getsocket_at_def luazmq_checkudatap_def luazmq_toudatap_def split: sum.split)

lemma rejected_remove [simp]: "rejected L (check (Inl e) (lua_remove 2 L) k)"
  by simp













subsection \<open>Destroying a context\<close>










subsection \<open>Failures\<close>




text \<open>C38: \<open>zmq.init()\<close> without the number of threads always raises an error - the argument is looked
  for after the new object has been pushed, and found to be the object - and leaves an object behind
  whose finalizer fails an assertion.\<close>

theorem init_without_argument:
  assumes "stk L = []" "\<not> is_table (registry L 0)"
  shows "\<exists>M. luazmq_context_init E L = Raise (TypeError 1 ''number'') M \<and>
    luazmq_ctx_destroy E (M\<lparr>stk := [LUser UContext (next_udata L)]\<rparr>) = Abort AssertFail"
proof -
  let ?c = "next_udata L"
  let ?M = "upd_ctx ?c (\<lambda>_. new_zcontext) (snd (luazmq_newudata UContext L))"
  have "lua_at ?M 1 = LUser UContext ?c" using assms(1) by (simp add: luazmq_newudata_def lua_at_args)
  then have "luazmq_context_init E L = Raise (TypeError 1 ''number'') ?M"
    by (simp add: luazmq_context_init_def luazmq_newudata_def luaL_optint_def luaL_checkint_def
        luaL_checkinteger_def luaL_checknumber_def Let_def)
  moreover have "luazmq_ctx_destroy E (?M\<lparr>stk := [LUser UContext ?c]\<rparr>) = Abort AssertFail"
    using assms(2) by (simp add: luazmq_ctx_destroy_def lua_at_args new_zcontext_def luazmq_newudata_def
        luazmq_ctx_close_sockets_def LUA_NOREF_def has_flag_def)
  ultimately show ?thesis by blast
qed

theorem init_without_argument_witness:
  "\<exists>M. luazmq_context_init stub_env (initial_state [] 0) = Raise (TypeError 1 ''number'') M"
  using init_without_argument [of "initial_state [] 0" stub_env] by (auto simp: initial_state_def)

end
