(* ===== verification/ZOpening.thy ===== *)
theory ZOpening
  imports ZSystem
begin

text \<open>
  \<open>ctx:socket(type, options)\<close> as a whole (\<open>zcontext.c\<close>): after the socket has been created, its options
  are set one by one, and it is bound and connected. Either all of this works, and the caller gets an
  open socket that is counted, or a step fails, and the caller gets its error, and the sockets and
  counters are as they were before.
\<close>

subsection \<open>Steps that leave sockets and contexts alone\<close>

definition same_objects :: "('z, 'm) lua \<Rightarrow> ('z, 'm) lua \<Rightarrow> bool" where
  "same_objects M L \<longleftrightarrow> zskts L = zskts M \<and> zctxs L = zctxs M"

lemma same_objects_refl [simp]: "same_objects M M"
  by (simp add: same_objects_def)


lemma same_objects_simps [simp]:
  "same_objects M (push v L) = same_objects M L"
  "same_objects M (pushnumber x L) = same_objects M L"
  "same_objects M (L\<lparr>stk := s\<rparr>) = same_objects M L"
  "same_objects M (L\<lparr>zst := z\<rparr>) = same_objects M L"
  "same_objects M (err_push E err L) = same_objects M L"
  "same_objects (L\<lparr>stk := s\<rparr>) M = same_objects L M"
  by (simp_all add: same_objects_def)






lemma pass_same [simp]: "final_state (same_objects M) (luazmq_pass L) = same_objects M L"
  by (simp add: luazmq_pass_def)










subsection \<open>Closing the new socket again\<close>



text \<open>Socket \<open>s\<close> of context \<open>c\<close> is no longer open and no longer counted; nothing else has changed.\<close>

definition rolled_back :: "nat \<Rightarrow> nat \<Rightarrow> ('z, 'm) lua \<Rightarrow> ('z, 'm) lua \<Rightarrow> bool" where
  "rolled_back c s M L \<longleftrightarrow> (\<forall>d. open_sockets L d = open_sockets M d - {s} \<and>
     zc_socket_count (zctxs L d) = zc_socket_count (zctxs M d) - (if d = c then 1 else 0))"




subsection \<open>All or nothing\<close>

text \<open>How the steps after the creation of the socket may return, seen from the state \<open>M\<close> after it.\<close>

fun settled :: "nat \<Rightarrow> nat \<Rightarrow> ('z, 'm) lua \<Rightarrow> ('z, 'm) lua outcome \<Rightarrow> bool" where
  "settled c s M (Ret n L) \<longleftrightarrow>
     n = 1 \<and> results 1 L = [LUser USocket s] \<and>
       (\<forall>d. open_sockets L d = open_sockets M d \<and> zc_socket_count (zctxs L d) = zc_socket_count (zctxs M d))
     \<or> (n = 2 \<or> n = 3) \<and> hd (results n L) = LNil \<and> rolled_back c s M L"
| "settled c s M _ \<longleftrightarrow> True"

lemma settled_ub_bind [simp]:
  "settled c s M (ub_bind r k) = (case r of Inl e \<Rightarrow> True | Inr a \<Rightarrow> settled c s M (k a))"
  by (cases r) simp_all


lemma adjust_length [simp]: "length (adjust n vs) = n"
  by (simp add: adjust_def)











lemma open_sockets_frame [simp]:
  "open_sockets (L\<lparr>zst := z\<rparr>) d = open_sockets L d" "open_sockets (L\<lparr>stk := vs\<rparr>) d = open_sockets L d"
  by (simp_all add: open_sockets_def open_in_def)

text \<open>The same from the state \<open>L\<close> before the call.\<close>

fun atomic :: "nat \<Rightarrow> nat \<Rightarrow> ('z, 'm) lua \<Rightarrow> ('z, 'm) lua outcome \<Rightarrow> bool" where
  "atomic c s L (Ret n L') \<longleftrightarrow>
     n = 1 \<and> results 1 L' = [LUser USocket s] \<and>
       (\<forall>d. open_sockets L' d = open_sockets L d \<union> (if d = c then {s} else {}) \<and>
         zc_socket_count (zctxs L' d) = zc_socket_count (zctxs L d) + (if d = c then 1 else 0))
     \<or> (n = 2 \<or> n = 3) \<and> hd (results n L') = LNil \<and>
       (\<forall>d. open_sockets L' d = open_sockets L d \<and> zc_socket_count (zctxs L' d) = zc_socket_count (zctxs L d))"
| "atomic c s L _ \<longleftrightarrow> True"


lemma atomic_ub_check [simp]:
  "atomic c s L (ub_check u r k) = (case r of None \<Rightarrow> True | Some a \<Rightarrow> atomic c s L (k a))"
  by (cases r) simp_all

















end
