(* ===== verification/ZContract.thy ===== *)
theory ZContract
  imports ZSystem
begin

text \<open>
  The contract of a \<open>lua_CFunction\<close>: the number a function returns is the number of results it has
  left on top of the stack, so it can never be more than the stack holds (Lua would read below the
  frame of the call). Every function of the binding keeps it, for all arguments and however the call
  ends.
\<close>

subsection \<open>The contract\<close>

fun delivers :: "('z, 'm) lua outcome \<Rightarrow> bool" where
  "delivers (Ret n L) \<longleftrightarrow> n \<le> length (stk L)"
| "delivers (Raise e L) \<longleftrightarrow> True"
| "delivers (Abort u) \<longleftrightarrow> True"

lemma delivers_check [simp]:
  "delivers (check r L k) = (case r of Inl e \<Rightarrow> True | Inr a \<Rightarrow> delivers (k a))"
  by (cases r) simp_all

lemma delivers_ub_bind:
  "delivers (ub_bind r k) = (case r of Inl e \<Rightarrow> True | Inr a \<Rightarrow> delivers (k a))"
  by (cases r) simp_all

lemma delivers_ub_check [simp]:
  "delivers (ub_check u r k) = (case r of None \<Rightarrow> True | Some a \<Rightarrow> delivers (k a))"
  by (cases r) simp_all


lemma delivers_pass [simp]: "delivers (luazmq_pass L)"
  by (simp add: luazmq_pass_def)

text \<open>Reporting an error pushes two values above what is there; the handler of the socket, if it is
  called before, can only add its error value.\<close>

lemma length_unref [simp]: "stk (luaL_unref r L) = stk L"
  by (simp add: luaL_unref_def)

lemma before_close_pushes: "length (stk L) \<le> length (stk (luazmq_skt_before_close E k L))"
  by (simp add: luazmq_skt_before_close_def lua_pcall0_def Let_def case_prod_unfold)

lemma geterrno_pushes: "luazmq_geterrno E sk L = Inr (err, L') \<Longrightarrow> length (stk L) \<le> length (stk L')"
  by (auto simp: luazmq_geterrno_def dec_socket_count_def Let_def
      split: option.splits if_splits intro!: order_trans [OF _ before_close_pushes])

lemma fail_pushes: "luazmq_fail E sk L = Inr L' \<Longrightarrow> length (stk L) + 2 \<le> length (stk L')"
  by (cases "luazmq_geterrno E sk L")
    (auto simp: luazmq_fail_def luazmq_fail_obj_def luazmq_fail_no_def luazmq_fail_str_def
      case_prod_unfold luazmq_error_pushstring_def split: err_type.splits dest: geterrno_pushes)

lemma delivers_fail:
  assumes "\<And>M. length (stk L) + 2 \<le> length (stk M) \<Longrightarrow> delivers (k M)"
  shows "delivers (ub_bind (luazmq_fail E sk L) k)"
  using assms fail_pushes [of E sk L] by (simp add: delivers_ub_bind split: sum.split)

lemma delivers_fail_ret [simp]: "delivers (fail_ret E sk L)"
  unfolding fail_ret_def by (rule delivers_fail) simp

lemma delivers_fail_push [simp]:
  "delivers (ub_bind (luazmq_fail E sk L) (\<lambda>L. Ret 3 (push v L)))"
  "delivers (ub_bind (luazmq_fail E sk L) (\<lambda>L. Ret 3 (pushinteger i L)))"
  "delivers (ub_bind (luazmq_fail E sk L) (\<lambda>L. Ret 3 (pushnumber i L)))"
  by (rule delivers_fail; simp)+


subsection \<open>Messages\<close>









lemma length_settop [simp]: "length (stk (lua_settop n L)) = n"
  by (simp add: stk_settop)


lemma gettop_le [simp]: "lua_gettop L \<le> length (stk L)"
  by (simp add: lua_gettop_def)

lemma pushvalue_nonempty [simp]: "stk (lua_pushvalue i L) \<noteq> []"
  by (simp add: lua_pushvalue_def)



subsection \<open>Errors, pollers, functions of the module\<close>





lemma newudata_nonempty [simp]: "stk (snd (luazmq_newudata t L)) \<noteq> []"
  by (simp add: luazmq_newudata_def)

lemma stk_upd_watch [simp]: "stk (upd_watch k p L) = stk L"
  by (simp add: upd_watch_def)



subsection \<open>Sockets\<close>

lemma stk_set_more [simp]: "stk (set_more k b L) = stk L"
  by (simp add: set_more_def)




lemmas delivers_send_part [simp] = delivers_ub_bind [of "send_part E p s fl z" for E p s fl z]














text \<open>Options, the life cycle of a socket.\<close>

lemma delivers_setopt [simp]: "delivers (skt_setopt E k opt v L)"
  by (simp add: skt_setopt_def case_prod_unfold Let_def)

lemma delivers_getopt [simp]: "delivers (skt_getopt E opt v put L)"
  by (simp add: skt_getopt_def case_prod_unfold Let_def split: sum.split)

lemma delivers_set_str_loop [simp]: "delivers (set_str_loop E k opt i vs L)"
  by (induction vs arbitrary: i L) (simp_all add: case_prod_unfold Let_def split: sum.split)





lemma destroy_delivers [simp]: "delivers (luazmq_skt_destroy E L)"
  by (simp add: luazmq_skt_destroy_def delivers_ub_bind split: sum.split)


subsection \<open>Contexts\<close>












subsection \<open>All functions\<close>



end
