(* ===== verification/ZTimer.thy ===== *)
theory ZTimer
  imports LZUtils
begin

text \<open>
  \<open>ztimer.c\<close>: the timer module (the POSIX branch, and the delta of the Windows tick counter).
  The clocks of the operating system are read through a record \<open>clock\<close>: what the call would
  return at the time of the method call.
\<close>

subsection \<open>Clocks and differences\<close>

record clock =
  gettimeofday :: "(int \<times> int) option"
  time_0 :: int
  clock_gettime :: "(int \<times> int) option"

definition U64Delta :: "64 word \<Rightarrow> 64 word \<Rightarrow> 64 word" where
  "U64Delta s e = (if s < e then e - s else - (s - e))"

definition GetUtcTime :: "clock \<Rightarrow> 64 word" where
  "GetUtcTime C = (case gettimeofday C of
     Some (sec, usec) \<Rightarrow> word_of_int sec * 1000 + word_of_int usec div 1000
   | None \<Rightarrow> word_of_int (time_0 C) * 1000)"

definition GetMonotonicTime :: "clock \<Rightarrow> 64 word" where
  "GetMonotonicTime C = (case clock_gettime C of
     Some (sec, nsec) \<Rightarrow> word_of_int sec * 1000 + word_of_int nsec div 1000000
   | None \<Rightarrow> GetUtcTime C)"

definition GetUtcDelta :: "64 word \<Rightarrow> 64 word \<Rightarrow> 64 word" where
  "GetUtcDelta s e = U64Delta s e"

definition GetMonotonicDelta :: "64 word \<Rightarrow> 64 word \<Rightarrow> 64 word" where
  "GetMonotonicDelta s e = U64Delta s e"

definition GetMonotonicElapsed :: "clock \<Rightarrow> 64 word \<Rightarrow> 64 word" where
  "GetMonotonicElapsed C s = GetMonotonicDelta s (GetMonotonicTime C)"

definition GetUtcElapsed :: "clock \<Rightarrow> 64 word \<Rightarrow> 64 word" where
  "GetUtcElapsed C s = GetUtcDelta s (GetUtcTime C)"

text \<open>The delta of the 32-bit tick counter (\<open>USE_TICK_COUNT\<close>).\<close>

definition GetTickDelta :: "32 word \<Rightarrow> 32 word \<Rightarrow> 32 word" where
  "GetTickDelta s e = (if e < s then (0xFFFFFFFF - s) + e else e - s)"

definition i64_sub :: "64 word \<Rightarrow> 64 word \<Rightarrow> 64 word option" where
  "i64_sub a b = (let d = sint a - sint b in
     if - (2 ^ 63) \<le> d \<and> d < 2 ^ 63 then Some (word_of_int d) else None)"

subsection \<open>Timer objects\<close>

definition LUAZMQ_FLAG_TIMER_CLOSED :: uchar where "LUAZMQ_FLAG_TIMER_CLOSED = 0x01"
definition LUAZMQ_FLAG_TIMER_STARTED :: uchar where "LUAZMQ_FLAG_TIMER_STARTED = 0x02"
definition LUAZMQ_FLAG_TIMER_SETTED :: uchar where "LUAZMQ_FLAG_TIMER_SETTED = 0x04"

definition upd_mt :: "nat \<Rightarrow> (zmonotonic_timer \<Rightarrow> zmonotonic_timer) \<Rightarrow> ('z, 'm) lua \<Rightarrow> ('z, 'm) lua" where
  "upd_mt k f L = L\<lparr>mtimers := (mtimers L)(k := f (mtimers L k))\<rparr>"

definition upd_at :: "nat \<Rightarrow> (zabsolute_timer \<Rightarrow> zabsolute_timer) \<Rightarrow> ('z, 'm) lua \<Rightarrow> ('z, 'm) lua" where
  "upd_at k f L = L\<lparr>atimers := (atimers L)(k := f (atimers L k))\<rparr>"

definition luazmq_getmontimer_at :: "('z, 'm) lua \<Rightarrow> int \<Rightarrow> lua_error + nat" where
  "luazmq_getmontimer_at L i =
     (case luazmq_checkudatap L i UMonTimer of Inl e \<Rightarrow> Inl e
      | Inr k \<Rightarrow>
          if has_flag (mt_flags (mtimers L k)) LUAZMQ_FLAG_TIMER_CLOSED
          then Inl (ArgError 1 ''LuaZMQ3: timer is closed'') else Inr k)"

definition luazmq_getabstimer_at :: "('z, 'm) lua \<Rightarrow> int \<Rightarrow> lua_error + nat" where
  "luazmq_getabstimer_at L i =
     (case luazmq_checkudatap L i UAbsTimer of Inl e \<Rightarrow> Inl e
      | Inr k \<Rightarrow>
          if has_flag (at_flags (atimers L k)) LUAZMQ_FLAG_TIMER_CLOSED
          then Inl (ArgError 1 ''LuaZMQ3: timer is closed'') else Inr k)"

subsection \<open>Monotonic timers\<close>

definition luazmq_timer_create_monotonic :: "('z, 'm) env \<Rightarrow> ('z, 'm) lua \<Rightarrow> ('z, 'm) lua outcome" where
  "luazmq_timer_create_monotonic E L =
     (let (k, L) = luazmq_newudata UMonTimer L;
          L = upd_mt k (\<lambda>_. \<lparr>mt_start = 0, mt_fire = 0, mt_flags = 0\<rparr>) L
      in case tonumber E (lua_at L 1) of
           None \<Rightarrow> Ret 1 L
         | Some q \<Rightarrow> ub_check BadCast (num_to_i64 q) (\<lambda>f.
             Ret 1 (upd_mt k (\<lambda>t. t\<lparr>mt_fire := f,
                      mt_flags := set_flag (mt_flags t) LUAZMQ_FLAG_TIMER_SETTED\<rparr>) L)))"

definition luazmq_montimer_close :: "('z, 'm) lua \<Rightarrow> ('z, 'm) lua outcome" where
  "luazmq_montimer_close L =
     check (luazmq_checkudatap L 1 UMonTimer) L (\<lambda>k.
       let L = (if has_flag (mt_flags (mtimers L k)) LUAZMQ_FLAG_TIMER_CLOSED then L
                else upd_mt k (\<lambda>t. t\<lparr>mt_flags := set_flag (mt_flags t) LUAZMQ_FLAG_TIMER_CLOSED\<rparr>) L)
       in Ret 1 (push (LBool True) L))"

definition luazmq_montimer_closed :: "('z, 'm) lua \<Rightarrow> ('z, 'm) lua outcome" where
  "luazmq_montimer_closed L =
     check (luazmq_checkudatap L 1 UMonTimer) L (\<lambda>k.
       Ret 1 (pushboolean (has_flag (mt_flags (mtimers L k)) LUAZMQ_FLAG_TIMER_CLOSED) L))"

definition luazmq_montimer_start :: "clock \<Rightarrow> ('z, 'm) env \<Rightarrow> ('z, 'm) lua \<Rightarrow> ('z, 'm) lua outcome" where
  "luazmq_montimer_start C E L =
     check (luazmq_getmontimer_at L 1) L (\<lambda>k.
       let L = upd_mt k (\<lambda>t. t\<lparr>mt_start := GetMonotonicTime C,
                 mt_flags := set_flag (mt_flags t) LUAZMQ_FLAG_TIMER_STARTED\<rparr>) L
       in case tonumber E (lua_at L 2) of
            None \<Rightarrow> Ret 1 (lua_settop 1 L)
          | Some q \<Rightarrow> ub_check BadCast (num_to_i64 q) (\<lambda>f.
              Ret 1 (lua_settop 1 (upd_mt k (\<lambda>t. t\<lparr>mt_fire := f,
                 mt_flags := set_flag (mt_flags t) LUAZMQ_FLAG_TIMER_SETTED\<rparr>) L))))"

definition luazmq_montimer_started :: "('z, 'm) lua \<Rightarrow> ('z, 'm) lua outcome" where
  "luazmq_montimer_started L =
     check (luazmq_getmontimer_at L 1) L (\<lambda>k.
       Ret 1 (pushboolean (has_flag (mt_flags (mtimers L k)) LUAZMQ_FLAG_TIMER_STARTED) L))"

definition luazmq_montimer_elapsed :: "clock \<Rightarrow> ('z, 'm) lua \<Rightarrow> ('z, 'm) lua outcome" where
  "luazmq_montimer_elapsed C L =
     check (luazmq_getmontimer_at L 1) L (\<lambda>k.
     check (argcheck (has_flag (mt_flags (mtimers L k)) LUAZMQ_FLAG_TIMER_STARTED) 1
              ''LuaZMQ3: timer not started'') L (\<lambda>_.
       Ret 1 (pushnumber (sint (GetMonotonicElapsed C (mt_start (mtimers L k)))) L)))"

definition luazmq_montimer_rest :: "clock \<Rightarrow> ('z, 'm) lua \<Rightarrow> ('z, 'm) lua outcome" where
  "luazmq_montimer_rest C L =
     check (luazmq_getmontimer_at L 1) L (\<lambda>k.
     check (argcheck (has_flag (mt_flags (mtimers L k)) LUAZMQ_FLAG_TIMER_STARTED) 1
              ''LuaZMQ3: timer not started'') L (\<lambda>_.
     check (argcheck (has_flag (mt_flags (mtimers L k)) LUAZMQ_FLAG_TIMER_SETTED) 1
              ''LuaZMQ3: timer not setted'') L (\<lambda>_.
       let elapsed = GetMonotonicElapsed C (mt_start (mtimers L k));
           fire = mt_fire (mtimers L k)
       in if sint fire \<le> sint elapsed then Ret 1 (pushinteger 0 L)
          else ub_check IntOverflow (i64_sub fire elapsed) (\<lambda>r. Ret 1 (pushnumber (sint r) L)))))"

definition luazmq_montimer_set :: "('z, 'm) env \<Rightarrow> ('z, 'm) lua \<Rightarrow> ('z, 'm) lua outcome" where
  "luazmq_montimer_set E L =
     check (luazmq_getmontimer_at L 1) L (\<lambda>k.
     check (luaL_checknumber E L 2) L (\<lambda>q.
     ub_check BadCast (num_to_i64 q) (\<lambda>f.
       Ret 1 (lua_settop 1 (upd_mt k (\<lambda>t. t\<lparr>mt_fire := f,
                 mt_flags := set_flag (mt_flags t) LUAZMQ_FLAG_TIMER_SETTED\<rparr>) L)))))"

definition luazmq_montimer_get :: "('z, 'm) lua \<Rightarrow> ('z, 'm) lua outcome" where
  "luazmq_montimer_get L =
     check (luazmq_getmontimer_at L 1) L (\<lambda>k.
       if has_flag (mt_flags (mtimers L k)) LUAZMQ_FLAG_TIMER_SETTED
       then Ret 1 (pushnumber (sint (mt_fire (mtimers L k))) L) else Ret 1 (push LNil L))"

definition luazmq_montimer_setted :: "('z, 'm) lua \<Rightarrow> ('z, 'm) lua outcome" where
  "luazmq_montimer_setted L =
     check (luazmq_getmontimer_at L 1) L (\<lambda>k.
       Ret 1 (pushboolean (has_flag (mt_flags (mtimers L k)) LUAZMQ_FLAG_TIMER_SETTED) L))"

definition luazmq_montimer_reset :: "('z, 'm) lua \<Rightarrow> ('z, 'm) lua outcome" where
  "luazmq_montimer_reset L =
     check (luazmq_getmontimer_at L 1) L (\<lambda>k.
       Ret 1 (push (LBool True)
         (upd_mt k (\<lambda>t. t\<lparr>mt_flags := clear_flag (mt_flags t) LUAZMQ_FLAG_TIMER_SETTED\<rparr>) L)))"

definition luazmq_montimer_stop :: "clock \<Rightarrow> ('z, 'm) lua \<Rightarrow> ('z, 'm) lua outcome" where
  "luazmq_montimer_stop C L =
     check (luazmq_getmontimer_at L 1) L (\<lambda>k.
     check (argcheck (has_flag (mt_flags (mtimers L k)) LUAZMQ_FLAG_TIMER_STARTED) 1
              ''LuaZMQ3: timer not started'') L (\<lambda>_.
       let L = pushnumber (sint (GetMonotonicElapsed C (mt_start (mtimers L k)))) L
       in Ret 1 (upd_mt k (\<lambda>t. t\<lparr>mt_flags := clear_flag (mt_flags t) LUAZMQ_FLAG_TIMER_STARTED\<rparr>) L)))"

definition luazmq_montimer_is_absolute :: "('z, 'm) lua \<Rightarrow> ('z, 'm) lua outcome" where
  "luazmq_montimer_is_absolute L =
     check (luazmq_getmontimer_at L 1) L (\<lambda>k. Ret 1 (pushboolean False L))"

definition luazmq_montimer_is_monotonic :: "('z, 'm) lua \<Rightarrow> ('z, 'm) lua outcome" where
  "luazmq_montimer_is_monotonic L =
     check (luazmq_getmontimer_at L 1) L (\<lambda>k. Ret 1 (pushboolean True L))"

subsection \<open>Absolute timers\<close>

definition luazmq_timer_create_absolute :: "('z, 'm) env \<Rightarrow> ('z, 'm) lua \<Rightarrow> ('z, 'm) lua outcome" where
  "luazmq_timer_create_absolute E L =
     (let (k, L) = luazmq_newudata UAbsTimer L;
          L = upd_at k (\<lambda>_. \<lparr>at_start = 0, at_fire = 0, at_flags = 0\<rparr>) L
      in case tonumber E (lua_at L 1) of
           None \<Rightarrow> Ret 1 L
         | Some q \<Rightarrow> ub_check BadCast (num_to_u64 q) (\<lambda>f.
             Ret 1 (upd_at k (\<lambda>t. t\<lparr>at_fire := f,
                      at_flags := set_flag (at_flags t) LUAZMQ_FLAG_TIMER_SETTED\<rparr>) L)))"

definition luazmq_abstimer_close :: "('z, 'm) lua \<Rightarrow> ('z, 'm) lua outcome" where
  "luazmq_abstimer_close L =
     check (luazmq_checkudatap L 1 UAbsTimer) L (\<lambda>k.
       let L = (if has_flag (at_flags (atimers L k)) LUAZMQ_FLAG_TIMER_CLOSED then L
                else upd_at k (\<lambda>t. t\<lparr>at_flags := set_flag (at_flags t) LUAZMQ_FLAG_TIMER_CLOSED\<rparr>) L)
       in Ret 1 (push (LBool True) L))"

definition luazmq_abstimer_closed :: "('z, 'm) lua \<Rightarrow> ('z, 'm) lua outcome" where
  "luazmq_abstimer_closed L =
     check (luazmq_checkudatap L 1 UAbsTimer) L (\<lambda>k.
       Ret 1 (pushboolean (has_flag (at_flags (atimers L k)) LUAZMQ_FLAG_TIMER_CLOSED) L))"

definition luazmq_abstimer_start :: "clock \<Rightarrow> ('z, 'm) env \<Rightarrow> ('z, 'm) lua \<Rightarrow> ('z, 'm) lua outcome" where
  "luazmq_abstimer_start C E L =
     check (luazmq_getabstimer_at L 1) L (\<lambda>k.
       let L = upd_at k (\<lambda>t. t\<lparr>at_start := GetUtcTime C,
                 at_flags := set_flag (at_flags t) LUAZMQ_FLAG_TIMER_STARTED\<rparr>) L
       in case tonumber E (lua_at L 2) of
            None \<Rightarrow> Ret 1 (lua_settop 1 L)
          | Some q \<Rightarrow> ub_check BadCast (num_to_u64 q) (\<lambda>f.
              Ret 1 (lua_settop 1 (upd_at k (\<lambda>t. t\<lparr>at_fire := f,
                 at_flags := set_flag (at_flags t) LUAZMQ_FLAG_TIMER_SETTED\<rparr>) L))))"

definition luazmq_abstimer_started :: "('z, 'm) lua \<Rightarrow> ('z, 'm) lua outcome" where
  "luazmq_abstimer_started L =
     check (luazmq_getabstimer_at L 1) L (\<lambda>k.
       Ret 1 (pushboolean (has_flag (at_flags (atimers L k)) LUAZMQ_FLAG_TIMER_STARTED) L))"

definition luazmq_abstimer_elapsed :: "clock \<Rightarrow> ('z, 'm) lua \<Rightarrow> ('z, 'm) lua outcome" where
  "luazmq_abstimer_elapsed C L =
     check (luazmq_getabstimer_at L 1) L (\<lambda>k.
     check (argcheck (has_flag (at_flags (atimers L k)) LUAZMQ_FLAG_TIMER_STARTED) 1
              ''LuaZMQ3: timer not started'') L (\<lambda>_.
       Ret 1 (pushnumber (sint (GetUtcElapsed C (at_start (atimers L k)))) L)))"

definition luazmq_abstimer_rest :: "clock \<Rightarrow> ('z, 'm) lua \<Rightarrow> ('z, 'm) lua outcome" where
  "luazmq_abstimer_rest C L =
     check (luazmq_getabstimer_at L 1) L (\<lambda>k.
     check (argcheck (has_flag (at_flags (atimers L k)) LUAZMQ_FLAG_TIMER_STARTED) 1
              ''LuaZMQ3: timer not started'') L (\<lambda>_.
     check (argcheck (has_flag (at_flags (atimers L k)) LUAZMQ_FLAG_TIMER_SETTED) 1
              ''LuaZMQ3: timer not setted'') L (\<lambda>_.
       let rest = GetUtcDelta (GetUtcTime C) (at_fire (atimers L k))
       in if sint rest \<le> 0 then Ret 1 (pushinteger 0 L)
          else Ret 1 (pushnumber (sint rest) L))))"

definition luazmq_abstimer_set :: "('z, 'm) env \<Rightarrow> ('z, 'm) lua \<Rightarrow> ('z, 'm) lua outcome" where
  "luazmq_abstimer_set E L =
     check (luazmq_getabstimer_at L 1) L (\<lambda>k.
     check (luaL_checknumber E L 2) L (\<lambda>q.
     ub_check BadCast (num_to_u64 q) (\<lambda>f.
       Ret 1 (lua_settop 1 (upd_at k (\<lambda>t. t\<lparr>at_fire := f,
                 at_flags := set_flag (at_flags t) LUAZMQ_FLAG_TIMER_SETTED\<rparr>) L)))))"

definition luazmq_abstimer_get :: "('z, 'm) lua \<Rightarrow> ('z, 'm) lua outcome" where
  "luazmq_abstimer_get L =
     check (luazmq_getabstimer_at L 1) L (\<lambda>k.
       if has_flag (at_flags (atimers L k)) LUAZMQ_FLAG_TIMER_SETTED
       then Ret 1 (pushnumber (uint (at_fire (atimers L k))) L) else Ret 1 (push LNil L))"

definition luazmq_abstimer_setted :: "('z, 'm) lua \<Rightarrow> ('z, 'm) lua outcome" where
  "luazmq_abstimer_setted L =
     check (luazmq_getabstimer_at L 1) L (\<lambda>k.
       Ret 1 (pushboolean (has_flag (at_flags (atimers L k)) LUAZMQ_FLAG_TIMER_SETTED) L))"

definition luazmq_abstimer_reset :: "('z, 'm) lua \<Rightarrow> ('z, 'm) lua outcome" where
  "luazmq_abstimer_reset L =
     check (luazmq_getabstimer_at L 1) L (\<lambda>k.
       Ret 1 (push (LBool True)
         (upd_at k (\<lambda>t. t\<lparr>at_flags := clear_flag (at_flags t) LUAZMQ_FLAG_TIMER_SETTED\<rparr>) L)))"

definition luazmq_abstimer_stop :: "clock \<Rightarrow> ('z, 'm) lua \<Rightarrow> ('z, 'm) lua outcome" where
  "luazmq_abstimer_stop C L =
     check (luazmq_getabstimer_at L 1) L (\<lambda>k.
     check (argcheck (has_flag (at_flags (atimers L k)) LUAZMQ_FLAG_TIMER_STARTED) 1
              ''LuaZMQ3: timer not started'') L (\<lambda>_.
       let L = pushnumber (sint (GetUtcElapsed C (at_start (atimers L k)))) L
       in Ret 1 (upd_at k (\<lambda>t. t\<lparr>at_flags := clear_flag (at_flags t) LUAZMQ_FLAG_TIMER_STARTED\<rparr>) L)))"

definition luazmq_abstimer_is_absolute :: "('z, 'm) lua \<Rightarrow> ('z, 'm) lua outcome" where
  "luazmq_abstimer_is_absolute L =
     check (luazmq_getabstimer_at L 1) L (\<lambda>k. Ret 1 (pushboolean True L))"

definition luazmq_abstimer_is_monotonic :: "('z, 'm) lua \<Rightarrow> ('z, 'm) lua outcome" where
  "luazmq_abstimer_is_monotonic L =
     check (luazmq_getabstimer_at L 1) L (\<lambda>k. Ret 1 (pushboolean False L))"

subsection \<open>Module functions\<close>

definition luazmq_timer_absolute_time :: "clock \<Rightarrow> ('z, 'm) lua \<Rightarrow> ('z, 'm) lua outcome" where
  "luazmq_timer_absolute_time C L = Ret 1 (pushnumber (uint (GetUtcTime C)) L)"

definition luazmq_timer_absolute_delta :: "('z, 'm) env \<Rightarrow> ('z, 'm) lua \<Rightarrow> ('z, 'm) lua outcome" where
  "luazmq_timer_absolute_delta E L =
     check (luaL_checknumber E L 1) L (\<lambda>q1. ub_check BadCast (num_to_u64 q1) (\<lambda>t1.
     check (luaL_checknumber E L 2) L (\<lambda>q2. ub_check BadCast (num_to_u64 q2) (\<lambda>t2.
       Ret 1 (pushnumber (sint (GetUtcDelta t1 t2)) L)))))"

definition luazmq_timer_absolute_elapsed :: "clock \<Rightarrow> ('z, 'm) env \<Rightarrow> ('z, 'm) lua \<Rightarrow> ('z, 'm) lua outcome" where
  "luazmq_timer_absolute_elapsed C E L =
     check (luaL_checknumber E L 1) L (\<lambda>q. ub_check BadCast (num_to_u64 q) (\<lambda>t.
       Ret 1 (pushnumber (sint (GetUtcElapsed C t)) L)))"

definition luazmq_timer_monotonic_time :: "clock \<Rightarrow> ('z, 'm) lua \<Rightarrow> ('z, 'm) lua outcome" where
  "luazmq_timer_monotonic_time C L = Ret 1 (pushnumber (uint (GetMonotonicTime C)) L)"

definition luazmq_timer_monotonic_delta :: "('z, 'm) env \<Rightarrow> ('z, 'm) lua \<Rightarrow> ('z, 'm) lua outcome" where
  "luazmq_timer_monotonic_delta E L =
     check (luaL_checknumber E L 1) L (\<lambda>q1. ub_check BadCast (num_to_u64 q1) (\<lambda>t1.
     check (luaL_checknumber E L 2) L (\<lambda>q2. ub_check BadCast (num_to_u64 q2) (\<lambda>t2.
       Ret 1 (pushnumber (sint (GetMonotonicDelta t1 t2)) L)))))"

definition luazmq_timer_monotonic_elapsed :: "clock \<Rightarrow> ('z, 'm) env \<Rightarrow> ('z, 'm) lua \<Rightarrow> ('z, 'm) lua outcome" where
  "luazmq_timer_monotonic_elapsed C E L =
     check (luaL_checknumber E L 1) L (\<lambda>q. ub_check BadCast (num_to_u64 q) (\<lambda>t.
       Ret 1 (pushnumber (sint (GetMonotonicElapsed C t)) L)))"

text \<open>\<open>nanosleep\<close> is a parameter: it takes the seconds and nanoseconds to sleep. C divides
  towards zero.\<close>

definition c_quot :: "int \<Rightarrow> int \<Rightarrow> int" where
  "c_quot a b = sgn a * (\<bar>a\<bar> div b)"

definition luazmq_timer_sleep ::
    "(int \<Rightarrow> int \<Rightarrow> 'z \<Rightarrow> 'z) \<Rightarrow> ('z, 'm) env \<Rightarrow> ('z, 'm) lua \<Rightarrow> ('z, 'm) lua outcome" where
  "luazmq_timer_sleep nanosleep E L =
     check (luaL_checkint E L 1) L (\<lambda>msecs.
       let tv_sec = c_quot msecs 1000; tv_nsec = (msecs - 1000 * tv_sec) * 1000000
       in Ret 1 (push (LBool True) (L\<lparr>zst := nanosleep tv_sec tv_nsec (zst L)\<rparr>)))"

subsection \<open>Differences are exact\<close>

lemma sint_of_int64:
  "\<lbrakk> - (2 ^ 63) \<le> x; x < 2 ^ 63 \<rbrakk> \<Longrightarrow> sint (word_of_int x :: 64 word) = x"
  by (simp only: sint_sbintrunc' len_num1) (simp add: signed_take_bit_int_eq_self)

lemma sint_word_diff:
  fixes s e :: "64 word"
  assumes "\<bar>uint e - uint s\<bar> < 2 ^ 63"
  shows "sint (e - s) = uint e - uint s"
  unfolding word_sub_wi using assms by (intro sint_of_int64) auto

lemma U64Delta_is_diff: "U64Delta s e = e - s"
  by (simp add: U64Delta_def)

lemma sint_U64Delta:
  "\<bar>uint e - uint s\<bar> < 2 ^ 63 \<Longrightarrow> sint (U64Delta s e) = uint e - uint s"
  by (simp add: U64Delta_is_diff sint_word_diff)

lemma sint_i64_sub: "i64_sub a b = Some r \<Longrightarrow> sint r = sint a - sint b"
  unfolding i64_sub_def Let_def by (metis option.distinct(1) option.inject sint_of_int64)

lemma i64_sub_Some:
  "\<bar>sint a - sint b\<bar> < 2 ^ 63 \<Longrightarrow> i64_sub a b = Some (word_of_int (sint a - sint b))"
  by (auto simp: i64_sub_def Let_def)

interpretation t_closed_started: flag_pair LUAZMQ_FLAG_TIMER_CLOSED LUAZMQ_FLAG_TIMER_STARTED
  by unfold_locales (simp_all add: LUAZMQ_FLAG_TIMER_CLOSED_def LUAZMQ_FLAG_TIMER_STARTED_def)

interpretation t_closed_setted: flag_pair LUAZMQ_FLAG_TIMER_CLOSED LUAZMQ_FLAG_TIMER_SETTED
  by unfold_locales (simp_all add: LUAZMQ_FLAG_TIMER_CLOSED_def LUAZMQ_FLAG_TIMER_SETTED_def)

interpretation t_started_closed: flag_pair LUAZMQ_FLAG_TIMER_STARTED LUAZMQ_FLAG_TIMER_CLOSED
  by unfold_locales (simp_all add: LUAZMQ_FLAG_TIMER_CLOSED_def LUAZMQ_FLAG_TIMER_STARTED_def)

interpretation t_started_setted: flag_pair LUAZMQ_FLAG_TIMER_STARTED LUAZMQ_FLAG_TIMER_SETTED
  by unfold_locales (simp_all add: LUAZMQ_FLAG_TIMER_STARTED_def LUAZMQ_FLAG_TIMER_SETTED_def)

interpretation t_setted_closed: flag_pair LUAZMQ_FLAG_TIMER_SETTED LUAZMQ_FLAG_TIMER_CLOSED
  by unfold_locales (simp_all add: LUAZMQ_FLAG_TIMER_CLOSED_def LUAZMQ_FLAG_TIMER_SETTED_def)

interpretation t_setted_started: flag_pair LUAZMQ_FLAG_TIMER_SETTED LUAZMQ_FLAG_TIMER_STARTED
  by unfold_locales (simp_all add: LUAZMQ_FLAG_TIMER_STARTED_def LUAZMQ_FLAG_TIMER_SETTED_def)

interpretation montimer: closable UMonTimer
    "\<lambda>L k. has_flag (mt_flags (mtimers L k)) LUAZMQ_FLAG_TIMER_CLOSED"
    luazmq_montimer_close luazmq_getmontimer_at
  by unfold_locales
    (auto simp: luazmq_montimer_close_def luazmq_getmontimer_at_def upd_mt_def Let_def split: if_splits)

interpretation abstimer: closable UAbsTimer
    "\<lambda>L k. has_flag (at_flags (atimers L k)) LUAZMQ_FLAG_TIMER_CLOSED"
    luazmq_abstimer_close luazmq_getabstimer_at
  by unfold_locales
    (auto simp: luazmq_abstimer_close_def luazmq_getabstimer_at_def upd_at_def Let_def split: if_splits)

subsection \<open>What a timer is: the abstract specification\<close>

text \<open>
  A timer is closed or not, may be running since a point of time, and may have a fire value:
  an interval for a monotonic timer, a point of time for an absolute one. Times are unbounded
  integers here.
\<close>

datatype tkind = Monotonic | Absolute

datatype timer_op =
  OpClose | OpClosed | OpStart "rat option" | OpStarted | OpElapsed | OpRest | OpSet rat | OpGet
| OpSetted | OpReset | OpStop | OpIsAbsolute | OpIsMonotonic

record tspec =
  ts_closed :: bool
  ts_running :: "int option"
  ts_fire :: "int option"

definition err_closed :: lua_error where
  "err_closed = ArgError 1 ''LuaZMQ3: timer is closed''"

definition err_not_started :: lua_error where
  "err_not_started = ArgError 1 ''LuaZMQ3: timer not started''"

definition err_not_setted :: lua_error where
  "err_not_setted = ArgError 1 ''LuaZMQ3: timer not setted''"

definition rest_of :: "tkind \<Rightarrow> int \<Rightarrow> int \<Rightarrow> int \<Rightarrow> int" where
  "rest_of kind now s f = max 0 (case kind of Monotonic \<Rightarrow> f - (now - s) | Absolute \<Rightarrow> f - now)"

fun timer_spec :: "tkind \<Rightarrow> int \<Rightarrow> lval \<Rightarrow> timer_op \<Rightarrow> tspec \<Rightarrow> (lua_error + lval list) \<times> tspec" where
  "timer_spec kind now self OpClose t = (Inr [LBool True], t\<lparr>ts_closed := True\<rparr>)"
| "timer_spec kind now self OpClosed t = (Inr [LBool (ts_closed t)], t)"
| "timer_spec kind now self op t =
    (if ts_closed t then (Inl err_closed, t) else
     case op of
       OpStart None \<Rightarrow> (Inr [self], t\<lparr>ts_running := Some now\<rparr>)
     | OpStart (Some q) \<Rightarrow> (Inr [self], t\<lparr>ts_running := Some now, ts_fire := Some (c_trunc q)\<rparr>)
     | OpStarted \<Rightarrow> (Inr [LBool (ts_running t \<noteq> None)], t)
     | OpElapsed \<Rightarrow> (case ts_running t of None \<Rightarrow> (Inl err_not_started, t)
         | Some s \<Rightarrow> (Inr [LNum (int_to_num (now - s))], t))
     | OpRest \<Rightarrow> (case ts_running t of None \<Rightarrow> (Inl err_not_started, t)
         | Some s \<Rightarrow> (case ts_fire t of None \<Rightarrow> (Inl err_not_setted, t)
             | Some f \<Rightarrow> (Inr [LNum (int_to_num (rest_of kind now s f))], t)))
     | OpSet q \<Rightarrow> (Inr [self], t\<lparr>ts_fire := Some (c_trunc q)\<rparr>)
     | OpGet \<Rightarrow> (Inr [case ts_fire t of None \<Rightarrow> LNil | Some f \<Rightarrow> LNum (int_to_num f)], t)
     | OpSetted \<Rightarrow> (Inr [LBool (ts_fire t \<noteq> None)], t)
     | OpReset \<Rightarrow> (Inr [LBool True], t\<lparr>ts_fire := None\<rparr>)
     | OpStop \<Rightarrow> (case ts_running t of None \<Rightarrow> (Inl err_not_started, t)
         | Some s \<Rightarrow> (Inr [LNum (int_to_num (now - s))], t\<lparr>ts_running := None\<rparr>))
     | OpIsAbsolute \<Rightarrow> (Inr [LBool (kind = Absolute)], t)
     | OpIsMonotonic \<Rightarrow> (Inr [LBool (kind = Monotonic)], t)
     | _ \<Rightarrow> (Inr [], t))"

subsection \<open>The method tables implement it\<close>

fun op_args :: "timer_op \<Rightarrow> lval list" where
  "op_args (OpStart (Some q)) = [LNum q]"
| "op_args (OpSet q) = [LNum q]"
| "op_args _ = []"

fun luazmq_montimer_methods ::
    "timer_op \<Rightarrow> clock \<Rightarrow> ('z, 'm) env \<Rightarrow> ('z, 'm) lua \<Rightarrow> ('z, 'm) lua outcome" where
  "luazmq_montimer_methods OpClose C E = luazmq_montimer_close"
| "luazmq_montimer_methods OpClosed C E = luazmq_montimer_closed"
| "luazmq_montimer_methods (OpSet q) C E = luazmq_montimer_set E"
| "luazmq_montimer_methods OpGet C E = luazmq_montimer_get"
| "luazmq_montimer_methods OpReset C E = luazmq_montimer_reset"
| "luazmq_montimer_methods OpSetted C E = luazmq_montimer_setted"
| "luazmq_montimer_methods (OpStart q) C E = luazmq_montimer_start C E"
| "luazmq_montimer_methods OpStarted C E = luazmq_montimer_started"
| "luazmq_montimer_methods OpElapsed C E = luazmq_montimer_elapsed C"
| "luazmq_montimer_methods OpRest C E = luazmq_montimer_rest C"
| "luazmq_montimer_methods OpStop C E = luazmq_montimer_stop C"
| "luazmq_montimer_methods OpIsAbsolute C E = luazmq_montimer_is_absolute"
| "luazmq_montimer_methods OpIsMonotonic C E = luazmq_montimer_is_monotonic"

fun luazmq_abstimer_methods ::
    "timer_op \<Rightarrow> clock \<Rightarrow> ('z, 'm) env \<Rightarrow> ('z, 'm) lua \<Rightarrow> ('z, 'm) lua outcome" where
  "luazmq_abstimer_methods OpClose C E = luazmq_abstimer_close"
| "luazmq_abstimer_methods OpClosed C E = luazmq_abstimer_closed"
| "luazmq_abstimer_methods (OpSet q) C E = luazmq_abstimer_set E"
| "luazmq_abstimer_methods OpGet C E = luazmq_abstimer_get"
| "luazmq_abstimer_methods OpReset C E = luazmq_abstimer_reset"
| "luazmq_abstimer_methods OpSetted C E = luazmq_abstimer_setted"
| "luazmq_abstimer_methods (OpStart q) C E = luazmq_abstimer_start C E"
| "luazmq_abstimer_methods OpStarted C E = luazmq_abstimer_started"
| "luazmq_abstimer_methods OpElapsed C E = luazmq_abstimer_elapsed C"
| "luazmq_abstimer_methods OpRest C E = luazmq_abstimer_rest C"
| "luazmq_abstimer_methods OpStop C E = luazmq_abstimer_stop C"
| "luazmq_abstimer_methods OpIsAbsolute C E = luazmq_abstimer_is_absolute"
| "luazmq_abstimer_methods OpIsMonotonic C E = luazmq_abstimer_is_monotonic"

definition mt_abs :: "zmonotonic_timer \<Rightarrow> tspec" where
  "mt_abs t = \<lparr>ts_closed = has_flag (mt_flags t) LUAZMQ_FLAG_TIMER_CLOSED,
     ts_running = (if has_flag (mt_flags t) LUAZMQ_FLAG_TIMER_STARTED then Some (uint (mt_start t)) else None),
     ts_fire = (if has_flag (mt_flags t) LUAZMQ_FLAG_TIMER_SETTED then Some (sint (mt_fire t)) else None)\<rparr>"

definition at_abs :: "zabsolute_timer \<Rightarrow> tspec" where
  "at_abs t = \<lparr>ts_closed = has_flag (at_flags t) LUAZMQ_FLAG_TIMER_CLOSED,
     ts_running = (if has_flag (at_flags t) LUAZMQ_FLAG_TIMER_STARTED then Some (uint (at_start t)) else None),
     ts_fire = (if has_flag (at_flags t) LUAZMQ_FLAG_TIMER_SETTED then Some (uint (at_fire t)) else None)\<rparr>"

text \<open>The outcome of a method call on object \<open>k\<close> is the one the specification gives, and the
  other objects are untouched.\<close>

definition meets ::
    "(('z, 'm) lua \<Rightarrow> nat \<Rightarrow> 'o) \<Rightarrow> ('o \<Rightarrow> tspec) \<Rightarrow> nat \<Rightarrow> ('z, 'm) lua \<Rightarrow> ('z, 'm) lua outcome
       \<Rightarrow> (lua_error + lval list) \<times> tspec \<Rightarrow> bool" where
  "meets obj view k L out spec =
     (case (out, fst spec) of
        (Ret n L', Inr vs) \<Rightarrow> results n L' = vs \<and> view (obj L' k) = snd spec \<and>
           (\<forall>j. j \<noteq> k \<longrightarrow> obj L' j = obj L j)
      | (Raise e L', Inl e') \<Rightarrow> e = e' \<and> L' = L \<and> view (obj L k) = snd spec
      | _ \<Rightarrow> False)"

text \<open>The arguments of a call that are in the range of the C types.\<close>

fun op_fits :: "(rat \<Rightarrow> 64 word option) \<Rightarrow> timer_op \<Rightarrow> bool" where
  "op_fits cast (OpStart (Some q)) = (cast q \<noteq> None)"
| "op_fits cast (OpSet q) = (cast q \<noteq> None)"
| "op_fits cast _ = True"

lemmas montimer_defs = luazmq_montimer_close_def luazmq_montimer_closed_def luazmq_montimer_start_def
  luazmq_montimer_started_def luazmq_montimer_elapsed_def luazmq_montimer_rest_def
  luazmq_montimer_set_def luazmq_montimer_get_def luazmq_montimer_setted_def
  luazmq_montimer_reset_def luazmq_montimer_stop_def luazmq_montimer_is_absolute_def
  luazmq_montimer_is_monotonic_def luazmq_getmontimer_at_def

lemmas abstimer_defs = luazmq_abstimer_close_def luazmq_abstimer_closed_def luazmq_abstimer_start_def
  luazmq_abstimer_started_def luazmq_abstimer_elapsed_def luazmq_abstimer_rest_def
  luazmq_abstimer_set_def luazmq_abstimer_get_def luazmq_abstimer_setted_def
  luazmq_abstimer_reset_def luazmq_abstimer_stop_def luazmq_abstimer_is_absolute_def
  luazmq_abstimer_is_monotonic_def luazmq_getabstimer_at_def

lemma results_settop_args [simp]:
  "stk L = a # xs \<Longrightarrow> results (Suc 0) (lua_settop (Suc 0) L) = [a]"
  by (simp_all add: results_def lua_settop_def)

lemma upd_mt_simps [simp]:
  "stk (upd_mt k f L) = stk L" "lua_at (upd_mt k f L) i = lua_at L i"
  "mtimers (upd_mt k f L) = (mtimers L)(k := f (mtimers L k))"
  "results n (upd_mt k f L) = results n L"
  by (simp_all add: upd_mt_def)

lemma upd_at_simps [simp]:
  "stk (upd_at k f L) = stk L" "lua_at (upd_at k f L) i = lua_at L i"
  "atimers (upd_at k f L) = (atimers L)(k := f (atimers L k))"
  "results n (upd_at k f L) = results n L"
  by (simp_all add: upd_at_def)

lemma montimer_meets_spec:
  fixes L :: "('z, 'm) lua"
  assumes stk: "stk L = LUser UMonTimer k # op_args op"
    and fits: "op_fits num_to_i64 op"
    and near: "\<bar>uint (GetMonotonicTime C) - uint (mt_start (mtimers L k))\<bar> < 2 ^ 63"
    and rest: "\<bar>sint (mt_fire (mtimers L k)) -
                (uint (GetMonotonicTime C) - uint (mt_start (mtimers L k)))\<bar> < 2 ^ 63"
  shows "meets mtimers mt_abs k L (luazmq_montimer_methods op C E L)
           (timer_spec Monotonic (uint (GetMonotonicTime C)) (LUser UMonTimer k) op
              (mt_abs (mtimers L k)))"
proof -
  have el: "sint (GetMonotonicElapsed C (mt_start (mtimers L k))) =
      uint (GetMonotonicTime C) - uint (mt_start (mtimers L k))"
    using near by (simp add: GetMonotonicElapsed_def GetMonotonicDelta_def sint_U64Delta)
  have sub: "i64_sub (mt_fire (mtimers L k)) (GetMonotonicElapsed C (mt_start (mtimers L k))) =
      Some (word_of_int (sint (mt_fire (mtimers L k)) - (uint (GetMonotonicTime C) - uint (mt_start (mtimers L k)))))"
    using rest i64_sub_Some [of "mt_fire (mtimers L k)" "GetMonotonicElapsed C (mt_start (mtimers L k))"]
    by (simp only: el)
  show ?thesis
  proof (cases op)
    case (OpStart q)
    then show ?thesis
      using stk fits
      by (cases q) (auto simp: meets_def montimer_defs mt_abs_def lua_at_args err_closed_def
          num_to_i64_Some results_settop_args Let_def)
  next
    case OpRest
    let ?d = "sint (mt_fire (mtimers L k)) - (uint (GetMonotonicTime C) - uint (mt_start (mtimers L k)))"
    define r where "r = (word_of_int ?d :: 64 word)"
    have r: "sint r = ?d" unfolding r_def using rest by (intro sint_of_int64) auto
    show ?thesis
      using OpRest stk el r sub [folded r_def]
      by (auto simp: meets_def montimer_defs mt_abs_def lua_at_args err_closed_def err_not_started_def
          err_not_setted_def rest_of_def Let_def max_def)
  next
    case OpElapsed
    then show ?thesis using stk el by (auto simp: meets_def montimer_defs mt_abs_def lua_at_args err_closed_def err_not_started_def)
  next
    case OpStop
    then show ?thesis using stk el by (auto simp: meets_def montimer_defs mt_abs_def lua_at_args err_closed_def err_not_started_def Let_def)
  qed (use stk fits in \<open>auto simp: meets_def montimer_defs mt_abs_def lua_at_args err_closed_def
          luaL_checknumber_def num_to_i64_Some results_settop_args Let_def\<close>)
qed

lemma abstimer_meets_spec:
  fixes L :: "('z, 'm) lua"
  assumes stk: "stk L = LUser UAbsTimer k # op_args op"
    and fits: "op_fits num_to_u64 op"
    and near: "\<bar>uint (GetUtcTime C) - uint (at_start (atimers L k))\<bar> < 2 ^ 63"
    and rest: "\<bar>uint (at_fire (atimers L k)) - uint (GetUtcTime C)\<bar> < 2 ^ 63"
  shows "meets atimers at_abs k L (luazmq_abstimer_methods op C E L)
           (timer_spec Absolute (uint (GetUtcTime C)) (LUser UAbsTimer k) op (at_abs (atimers L k)))"
proof -
  have el: "sint (GetUtcElapsed C (at_start (atimers L k))) =
      uint (GetUtcTime C) - uint (at_start (atimers L k))"
    using near by (simp add: GetUtcElapsed_def GetUtcDelta_def sint_U64Delta)
  have r: "sint (GetUtcDelta (GetUtcTime C) (at_fire (atimers L k))) =
      uint (at_fire (atimers L k)) - uint (GetUtcTime C)"
    using rest by (simp add: GetUtcDelta_def sint_U64Delta)
  show ?thesis
  proof (cases op)
    case (OpStart q)
    then show ?thesis
      using stk fits
      by (cases q) (auto simp: meets_def abstimer_defs at_abs_def lua_at_args err_closed_def
          num_to_u64_Some results_settop_args Let_def)
  next
    case OpRest
    then show ?thesis
      using stk r
      by (auto simp: meets_def abstimer_defs at_abs_def lua_at_args err_closed_def err_not_started_def
          err_not_setted_def rest_of_def Let_def max_def)
  qed (use stk fits el in \<open>auto simp: meets_def abstimer_defs at_abs_def lua_at_args err_closed_def
          err_not_started_def luaL_checknumber_def num_to_u64_Some results_settop_args Let_def\<close>)
qed


subsection \<open>Sequences of calls\<close>

text \<open>A script calls methods of one timer, each at a time of its own; the results and errors it
  sees, and those the specification gives.\<close>

fun timer_run ::
    "utype \<Rightarrow> nat \<Rightarrow> (timer_op \<Rightarrow> clock \<Rightarrow> ('z, 'm) env \<Rightarrow> ('z, 'm) lua \<Rightarrow> ('z, 'm) lua outcome)
       \<Rightarrow> ('z, 'm) env \<Rightarrow> (clock \<times> timer_op) list \<Rightarrow> ('z, 'm) lua \<Rightarrow> (lua_error + lval list) list option" where
  "timer_run ut k meth E [] L = Some []"
| "timer_run ut k meth E ((C, op) # calls) L =
     (case meth op C E (L\<lparr>stk := LUser ut k # op_args op\<rparr>) of
        Ret n L' \<Rightarrow> map_option ((#) (Inr (results n L'))) (timer_run ut k meth E calls L')
      | Raise e L' \<Rightarrow> map_option ((#) (Inl e)) (timer_run ut k meth E calls L')
      | Abort u \<Rightarrow> None)"

fun spec_run :: "tkind \<Rightarrow> lval \<Rightarrow> (int \<times> timer_op) list \<Rightarrow> tspec \<Rightarrow> (lua_error + lval list) list" where
  "spec_run kind self [] t = []"
| "spec_run kind self ((now, op) # calls) t =
     (case timer_spec kind now self op t of (r, t') \<Rightarrow> r # spec_run kind self calls t')"

text \<open>The argument of an operation lies in a range.\<close>

fun op_within :: "int set \<Rightarrow> timer_op \<Rightarrow> bool" where
  "op_within A (OpStart (Some q)) = (c_trunc q \<in> A)"
| "op_within A (OpSet q) = (c_trunc q \<in> A)"
| "op_within A _ = True"

text \<open>
  A timer class that takes single steps as the specification does, while times and fire values
  are small, follows it through whole sequences of calls. \<open>small\<close> is its invariant.
\<close>

locale timer_class =
  fixes ut :: utype and kind :: tkind
    and obj :: "('z, 'm) lua \<Rightarrow> nat \<Rightarrow> 'o" and view :: "'o \<Rightarrow> tspec"
    and methods :: "timer_op \<Rightarrow> clock \<Rightarrow> ('z, 'm) env \<Rightarrow> ('z, 'm) lua \<Rightarrow> ('z, 'm) lua outcome"
    and now :: "clock \<Rightarrow> int" and range :: "int set" and small :: "'o \<Rightarrow> bool"
  assumes step:
      "\<lbrakk> stk L = LUser ut k # op_args op; op_within range op; now C < 2 ^ 62; small (obj L k) \<rbrakk> \<Longrightarrow>
         meets obj view k L (methods op C E L) (timer_spec kind (now C) (LUser ut k) op (view (obj L k)))"
    and stays_small:
      "\<lbrakk> stk L = LUser ut k # op_args op; op_within range op; now C < 2 ^ 62; small (obj L k) \<rbrakk> \<Longrightarrow>
         final_state (\<lambda>L'. small (obj L' k)) (methods op C E L)"
    and obj_stk: "obj (L\<lparr>stk := s\<rparr>) = obj L"
begin

lemma run_meets_spec:
  "\<lbrakk> \<forall>(C, op) \<in> set calls. op_within range op \<and> now C < 2 ^ 62; small (obj L k) \<rbrakk> \<Longrightarrow>
     timer_run ut k methods E calls L =
       Some (spec_run kind (LUser ut k) (map (\<lambda>(C, op). (now C, op)) calls) (view (obj L k)))"
proof (induction calls arbitrary: L)
  case (Cons c calls)
  obtain C op where c: "c = (C, op)" by fastforce
  let ?L = "L\<lparr>stk := LUser ut k # op_args op\<rparr>"
  have a: "stk ?L = LUser ut k # op_args op" "op_within range op" "now C < 2 ^ 62" "small (obj ?L k)"
    using Cons.prems by (auto simp: c obj_stk)
  have rest: "\<forall>(C, op) \<in> set calls. op_within range op \<and> now C < 2 ^ 62" using Cons.prems by simp
  show ?case
    using step [OF a, of E] stays_small [OF a, of E] Cons.IH [OF rest]
    by (auto simp: c meets_def obj_stk split: outcome.splits sum.splits prod.splits)
qed simp

end

definition mt_small :: "zmonotonic_timer \<Rightarrow> bool" where
  "mt_small t \<longleftrightarrow> uint (mt_start t) < 2 ^ 62 \<and> \<bar>sint (mt_fire t)\<bar> < 2 ^ 62"

definition at_small :: "zabsolute_timer \<Rightarrow> bool" where
  "at_small t \<longleftrightarrow> uint (at_start t) < 2 ^ 62 \<and> uint (at_fire t) < 2 ^ 62"

lemma op_within_fits:
  "op_within {- (2 ^ 62)<..<2 ^ 62} op \<Longrightarrow> op_fits num_to_i64 op"
  "op_within {0..<2 ^ 62} op \<Longrightarrow> op_fits num_to_u64 op"
  by (cases "({- (2 ^ 62)<..<(2::int) ^ 62}, op)" rule: op_within.cases; simp add: num_to_i64_def Let_def)
    (cases "({0..<(2::int) ^ 62}, op)" rule: op_within.cases; simp add: num_to_u64_def Let_def)

lemma uint_near:
  fixes a b :: "64 word"
  assumes "uint a < 2 ^ 62" "uint b < 2 ^ 62"
  shows "\<bar>uint a - uint b\<bar> < 2 ^ 62"
  using assms uint_ge_0 [of a] uint_ge_0 [of b] by linarith

lemma mt_stays_small:
  assumes "stk L = LUser UMonTimer k # op_args op" "op_within {- (2 ^ 62)<..<2 ^ 62} op"
    and "uint (GetMonotonicTime C) < 2 ^ 62" "mt_small (mtimers L k)"
  shows "final_state (\<lambda>L'. mt_small (mtimers L' k)) (luazmq_montimer_methods op C E L)"
  using assms
  by (cases "({- (2 ^ 62)<..<(2::int) ^ 62}, op)" rule: op_within.cases)
    (auto simp: montimer_defs mt_small_def lua_at_args luaL_checknumber_def Let_def
      dest!: num_to_i64_Some split: option.splits)

lemma at_stays_small:
  assumes "stk L = LUser UAbsTimer k # op_args op" "op_within {0..<2 ^ 62} op"
    and "uint (GetUtcTime C) < 2 ^ 62" "at_small (atimers L k)"
  shows "final_state (\<lambda>L'. at_small (atimers L' k)) (luazmq_abstimer_methods op C E L)"
  using assms
  by (cases "({0..<(2::int) ^ 62}, op)" rule: op_within.cases)
    (auto simp: abstimer_defs at_small_def lua_at_args luaL_checknumber_def Let_def
      dest!: num_to_u64_Some split: option.splits)

interpretation mt: timer_class UMonTimer Monotonic mtimers mt_abs luazmq_montimer_methods
    "\<lambda>C. uint (GetMonotonicTime C)" "{- (2 ^ 62)<..<2 ^ 62}" mt_small
proof unfold_locales
  fix L :: "('a, 'b) lua" and k op C E
  assume a: "stk L = LUser UMonTimer k # op_args op" "op_within {- (2 ^ 62)<..<2 ^ 62} op"
    "uint (GetMonotonicTime C) < 2 ^ 62" "mt_small (mtimers L k)"
  then have near: "\<bar>uint (GetMonotonicTime C) - uint (mt_start (mtimers L k))\<bar> < 2 ^ 62"
    by (simp_all only: mt_small_def uint_near)
  then show "meets mtimers mt_abs k L (luazmq_montimer_methods op C E L)
      (timer_spec Monotonic (uint (GetMonotonicTime C)) (LUser UMonTimer k) op (mt_abs (mtimers L k)))"
    using a by (intro montimer_meets_spec op_within_fits) (auto simp: mt_small_def)
qed (simp_all add: mt_stays_small)

interpretation at: timer_class UAbsTimer Absolute atimers at_abs luazmq_abstimer_methods
    "\<lambda>C. uint (GetUtcTime C)" "{0..<2 ^ 62}" at_small
proof unfold_locales
  fix L :: "('a, 'b) lua" and k op C E
  assume a: "stk L = LUser UAbsTimer k # op_args op" "op_within {0..<2 ^ 62} op"
    "uint (GetUtcTime C) < 2 ^ 62" "at_small (atimers L k)"
  then have near: "\<bar>uint (GetUtcTime C) - uint (at_start (atimers L k))\<bar> < 2 ^ 62"
    "\<bar>uint (at_fire (atimers L k)) - uint (GetUtcTime C)\<bar> < 2 ^ 62"
    by (simp_all only: at_small_def uint_near)
  then show "meets atimers at_abs k L (luazmq_abstimer_methods op C E L)
      (timer_spec Absolute (uint (GetUtcTime C)) (LUser UAbsTimer k) op (at_abs (atimers L k)))"
    using a by (intro abstimer_meets_spec op_within_fits) auto
qed (simp_all add: at_stays_small)

text \<open>C17: any sequence of calls of the methods of a monotonic timer shows the script what an ideal
  timer over unbounded integers would show it, errors included, as long as times and intervals
  stay below \<open>2 ^ 62\<close> milliseconds.\<close>

theorem montimer_refines:
  assumes "\<forall>(C, op) \<in> set calls. op_within {- (2 ^ 62)<..<2 ^ 62} op \<and> uint (GetMonotonicTime C) < 2 ^ 62"
    and "mt_small (mtimers L k)"
  shows "timer_run UMonTimer k luazmq_montimer_methods E calls L =
    Some (spec_run Monotonic (LUser UMonTimer k) (map (\<lambda>(C, op). (uint (GetMonotonicTime C), op)) calls)
      (mt_abs (mtimers L k)))"
  using assms by (rule mt.run_meets_spec)

text \<open>C18: any sequence of calls of the methods of an absolute timer shows the script what an ideal timer
  over unbounded integers would show it, errors included, as long as times and intervals are
  not negative and stay below \<open>2 ^ 62\<close> milliseconds.\<close>

theorem abstimer_refines:
  assumes "\<forall>(C, op) \<in> set calls. op_within {0..<2 ^ 62} op \<and> uint (GetUtcTime C) < 2 ^ 62"
    and "at_small (atimers L k)"
  shows "timer_run UAbsTimer k luazmq_abstimer_methods E calls L =
    Some (spec_run Absolute (LUser UAbsTimer k) (map (\<lambda>(C, op). (uint (GetUtcTime C), op)) calls)
      (at_abs (atimers L k)))"
  using assms by (rule at.run_meets_spec)

text \<open>A new timer, started with an interval of 500 milliseconds, at three points of time.\<close>

definition at_second :: "int \<Rightarrow> clock" where
  "at_second s = \<lparr>gettimeofday = Some (s, 0), time_0 = s, clock_gettime = Some (s, 0)\<rparr>"

lemma at_second_times:
  "\<lbrakk> 0 \<le> s; s < 2 ^ 40 \<rbrakk> \<Longrightarrow> uint (GetMonotonicTime (at_second s)) = s * 1000"
  "\<lbrakk> 0 \<le> s; s < 2 ^ 40 \<rbrakk> \<Longrightarrow> uint (GetUtcTime (at_second s)) = s * 1000"
  by (simp_all add: GetMonotonicTime_def GetUtcTime_def at_second_def uint_word_ariths uint_word_of_int
      take_bit_int_eq_self)

theorem montimer_refines_witness:
  "timer_run UMonTimer 0 luazmq_montimer_methods stub_env
     [(at_second 1, OpElapsed), (at_second 1, OpStart (Some 1500)), (at_second 2, OpRest),
      (at_second 3, OpRest), (at_second 4, OpStop)] (demo_state []) =
   Some [Inl err_not_started, Inr [LUser UMonTimer 0], Inr [LNum 500], Inr [LNum 0], Inr [LNum 3000]]"
  by (subst montimer_refines) (auto simp: at_second_times mt_small_def demo_state_def initial_state_def
      mt_abs_def rest_of_def int_to_num_exact)

theorem abstimer_refines_witness:
  "timer_run UAbsTimer 0 luazmq_abstimer_methods stub_env
     [(at_second 1, OpGet), (at_second 1, OpSet 5500), (at_second 2, OpStart None),
      (at_second 5, OpRest), (at_second 6, OpRest), (at_second 6, OpClose), (at_second 7, OpRest)]
     (demo_state []) =
   Some [Inr [LNil], Inr [LUser UAbsTimer 0], Inr [LUser UAbsTimer 0], Inr [LNum 500], Inr [LNum 0],
     Inr [LBool True], Inl err_closed]"
  by (subst abstimer_refines) (auto simp: at_second_times at_small_def demo_state_def initial_state_def
      at_abs_def rest_of_def int_to_num_exact)

subsection \<open>The Windows tick counter and sleeping\<close>

lemma GetTickDelta_forward: "s \<le> e \<Longrightarrow> GetTickDelta s e = e - s"
  by (simp add: GetTickDelta_def leD)

text \<open>The tick counter advanced by \<open>d\<close> ticks is reported as \<open>d\<close> ticks, unless it wrapped in
  between: then one tick is lost.\<close>

theorem tick_delta_loses_one:
  fixes s d :: "32 word"
  shows "GetTickDelta s (s + d) = (if unat s + unat d < 2 ^ 32 then d else d - 1)"
proof (cases "unat s + unat d < 2 ^ 32")
  case True
  then have "s \<le> s + d" by (simp add: word_le_nat_alt unat_word_ariths)
  with True show ?thesis by (simp add: GetTickDelta_forward)
next
  case False
  have less: "unat s < 2 ^ 32" "unat d < 2 ^ 32"
    using unsigned_less [where 'a = nat, of s] unsigned_less [where 'a = nat, of d] by simp_all
  then have "unat (s + d) = unat s + unat d - 2 ^ 32"
    using False by (simp add: unat_word_ariths le_mod_geq)
  then have "s + d < s" using False less by (simp add: word_less_nat_alt)
  moreover have "(0xFFFFFFFF :: 32 word) = - 1" by simp
  then have "0xFFFFFFFF - s + (s + d) = d - 1" by (simp only: algebra_simps) simp
  ultimately show ?thesis using False by (simp only: GetTickDelta_def if_True if_False)
qed

lemma c_quot_nonneg: "0 \<le> a \<Longrightarrow> c_quot a b = a div b"
  by (cases "a = 0") (simp_all add: c_quot_def)

lemma sleep_split:
  assumes "0 \<le> ms"
  shows "c_quot ms 1000 * 1000000000 + (ms - 1000 * c_quot ms 1000) * 1000000 = ms * 1000000"
    and "0 \<le> (ms - 1000 * c_quot ms 1000) * 1000000"
    and "(ms - 1000 * c_quot ms 1000) * 1000000 < 1000000000"
proof -
  have "ms - 1000 * c_quot ms 1000 = ms mod 1000"
    using assms by (simp add: c_quot_nonneg minus_mult_div_eq_mod)
  then show "0 \<le> (ms - 1000 * c_quot ms 1000) * 1000000"
    and "(ms - 1000 * c_quot ms 1000) * 1000000 < 1000000000" by simp_all
qed (simp add: algebra_simps)

text \<open>\<open>sleep(ms)\<close> with a time that is not negative asks \<open>nanosleep\<close> for exactly that time, as
  seconds and less than a second of nanoseconds.\<close>

theorem sleep_exact:
  assumes "luaL_checkint E L 1 = Inr ms" "0 \<le> ms"
  shows "\<exists>sec nsec. luazmq_timer_sleep nanosleep E L =
      Ret 1 (push (LBool True) (L\<lparr>zst := nanosleep sec nsec (zst L)\<rparr>)) \<and>
    sec * 1000000000 + nsec = ms * 1000000 \<and> 0 \<le> nsec \<and> nsec < 1000000000"
  using assms sleep_split [OF assms(2)]
  by (intro exI [of _ "c_quot ms 1000"] exI [of _ "(ms - 1000 * c_quot ms 1000) * 1000000"])
    (simp add: luazmq_timer_sleep_def Let_def)

theorem sleep_exact_witness:
  "\<exists>sec nsec. luazmq_timer_sleep (\<lambda>s n z. z + 1) stub_env (demo_state [LNum 2500]) =
      Ret 1 (push (LBool True) ((demo_state [LNum 2500])\<lparr>zst := 1\<rparr>)) \<and>
    sec * 1000000000 + nsec = (2500 * 1000000 :: int)"
  using sleep_exact [of stub_env "demo_state [LNum 2500]" 2500 "\<lambda>s n z. z + 1"]
  by (auto simp: lua_at_args luaL_checkint_def luaL_checkinteger_def luaL_checknumber_def c_arith)

end
