(* ===== verification/ZModule.thy ===== *)
theory ZModule
  imports ZLib ZTimer "HOL-Library.Monad_Syntax"
begin

text \<open>
  Loading the modules: \<open>luaopen_lzmq\<close> and \<open>luaopen_lzmq_timer\<close> build the tables of functions and
  constants and the metatables of the objects (\<open>lzmq.c\<close>, \<open>ztimer.c\<close>, the \<open>*_initlib\<close> functions and
  \<open>lzutils.c\<close>). Here tables are objects with an identity: the metatables are kept in the registry of
  Lua, where the next load of the module finds them, and all functions share one table as their
  upvalue, the registry the references of the module are kept in.
\<close>

subsection \<open>Tables and the stack\<close>

text \<open>A value: nil, a table by its address, a number, a text, a C function with its upvalues, a
  userdata by its address, a light userdata.\<close>

datatype 'f mval =
  MNil | MTab nat | MNum int | MText string | MFun 'f "'f mval list" | MUser nat | MLight nat

datatype mkey = KName string | KNum int

text \<open>The top of the stack is the head of the list: index \<open>-n\<close> is element \<open>n - 1\<close>. \<open>metas\<close> is the part of
  the registry that is indexed by the addresses of the type names.\<close>

record 'f loader =
  mstk :: "'f mval list"
  mtabs :: "nat \<Rightarrow> mkey \<Rightarrow> 'f mval option"
  mnext :: nat
  metas :: "utype \<Rightarrow> nat option"

definition mpush :: "'f mval \<Rightarrow> ('f, 'a) loader_scheme \<Rightarrow> ('f, 'a) loader_scheme" where
  "mpush v L = L\<lparr>mstk := v # mstk L\<rparr>"

definition mpop :: "nat \<Rightarrow> ('f, 'a) loader_scheme \<Rightarrow> ('f, 'a) loader_scheme" where
  "mpop n L = L\<lparr>mstk := drop n (mstk L)\<rparr>"

definition mpushvalue :: "nat \<Rightarrow> ('f, 'a) loader_scheme \<Rightarrow> ('f, 'a) loader_scheme" where
  "mpushvalue n L = mpush (mstk L ! (n - 1)) L"

definition minsert :: "nat \<Rightarrow> ('f, 'a) loader_scheme \<Rightarrow> ('f, 'a) loader_scheme" where
  "minsert n L = (case mstk L of [] \<Rightarrow> L
     | v # vs \<Rightarrow> L\<lparr>mstk := take (n - 1) vs @ v # drop (n - 1) vs\<rparr>)"

definition mremove :: "nat \<Rightarrow> ('f, 'a) loader_scheme \<Rightarrow> ('f, 'a) loader_scheme" where
  "mremove n L = L\<lparr>mstk := take (n - 1) (mstk L) @ drop n (mstk L)\<rparr>"

definition mnewtable :: "('f, 'a) loader_scheme \<Rightarrow> ('f, 'a) loader_scheme" where
  "mnewtable L = mpush (MTab (mnext L))
     (L\<lparr>mtabs := (mtabs L)(mnext L := (\<lambda>_. None)), mnext := Suc (mnext L)\<rparr>)"

text \<open>Assigning to a field; \<open>None\<close> when the value indexed is not a table.\<close>

fun mset :: "'f mval \<Rightarrow> mkey \<Rightarrow> 'f mval \<Rightarrow> ('f, 'a) loader_scheme \<Rightarrow> ('f, 'a) loader_scheme option" where
  "mset (MTab a) k v L = Some (L\<lparr>mtabs := (mtabs L)(a := (mtabs L a)(k := Some v))\<rparr>)"
| "mset _ k v L = None"

fun mset_all :: "'f mval \<Rightarrow> (mkey \<times> 'f mval) list \<Rightarrow> ('f, 'a) loader_scheme \<Rightarrow> ('f, 'a) loader_scheme option" where
  "mset_all t [] L = Some L"
| "mset_all t ((k, v) # kvs) L = mset t k v L \<bind> mset_all t kvs"

text \<open>\<open>lua_setfield\<close>, \<open>lua_settable\<close> and \<open>lua_rawset\<close> with a text as the key: the value on top of the
  stack goes to field \<open>s\<close> of the value \<open>n\<close> below it.\<close>

definition msetfield :: "nat \<Rightarrow> string \<Rightarrow> ('f, 'a) loader_scheme \<Rightarrow> ('f, 'a) loader_scheme option" where
  "msetfield n s L = map_option (mpop 1) (mset (mstk L ! n) (KName s) (mstk L ! 0) L)"

subsection \<open>Registration\<close>

text \<open>The functions go to the table below the \<open>nup\<close> upvalues, each with a copy of them; the upvalues
  are popped.\<close>

definition luazmq_setfuncs :: "(string \<times> 'f) list \<Rightarrow> nat \<Rightarrow> ('f, 'a) loader_scheme \<Rightarrow> ('f, 'a) loader_scheme option" where
  "luazmq_setfuncs fs nup L = map_option (mpop nup)
     (mset_all (mstk L ! nup) (map (\<lambda>(n, f). (KName n, MFun f (rev (take nup (mstk L))))) fs) L)"

definition luazmq_newmetatablep :: "utype \<Rightarrow> ('f, 'a) loader_scheme \<Rightarrow> bool \<times> ('f, 'a) loader_scheme" where
  "luazmq_newmetatablep p L = (case metas L p of
     Some t \<Rightarrow> (False, mpush (MTab t) L)
   | None \<Rightarrow> (True, (mnewtable L)\<lparr>metas := (metas L)(p := Some (mnext L))\<rparr>))"

text \<open>\<open>luazmq_createmeta\<close> returns at once when there is a metatable for the type already: then the
  upvalues stay on the stack, below the metatable.\<close>

definition not_allowed :: string where
  "not_allowed = ''you'' @ [CHR 0x27] @ ''re not allowed to get this metatable''"

definition luazmq_createmeta ::
    "utype \<Rightarrow> (string \<times> 'f) list \<Rightarrow> nat \<Rightarrow> ('f, 'a) loader_scheme \<Rightarrow> ('f, 'a) loader_scheme option" where
  "luazmq_createmeta name methods nup L =
     (let (created, L) = luazmq_newmetatablep name L in
      if \<not> created then Some L
      else do {
        L \<leftarrow> luazmq_setfuncs methods nup (minsert (1 + nup) L);
        L \<leftarrow> msetfield 1 ''__index'' (mpushvalue 1 L);
        msetfield 1 ''__metatable'' (mpush (MText not_allowed) L)
      })"

definition register_consts :: "(string \<times> int) list \<Rightarrow> ('f, 'a) loader_scheme \<Rightarrow> ('f, 'a) loader_scheme option" where
  "register_consts cs L = mset_all (mstk L ! 0) (map (\<lambda>(n, v). (KName n, MNum v)) cs) L"

definition register_consts_invers :: "(string \<times> int) list \<Rightarrow> ('f, 'a) loader_scheme \<Rightarrow> ('f, 'a) loader_scheme option" where
  "register_consts_invers cs L = mset_all (mstk L ! 0) (map (\<lambda>(n, v). (KNum v, MText n)) cs) L"

subsection \<open>The modules\<close>

type_synonym ('z, 'm) cfunction = "('z, 'm) lua \<Rightarrow> ('z, 'm) lua outcome option"

definition returning :: "(string \<times> ('l \<Rightarrow> 'o)) list \<Rightarrow> (string \<times> ('l \<Rightarrow> 'o option)) list" where
  "returning fs = map (\<lambda>(n, f). (n, \<lambda>L. Some (f L))) fs"

definition luazmq_context_initlib :: "('z, 'm) env \<Rightarrow> nat \<Rightarrow> ('z, 'm) cfunction loader \<Rightarrow> ('z, 'm) cfunction loader option" where
  "luazmq_context_initlib E nup L = do {
     L \<leftarrow> luazmq_createmeta UContext (returning (luazmq_ctx_methods E)) nup L;
     register_consts (ctx_options E) (mpop 1 L)
   }"

definition luazmq_socket_initlib :: "('z, 'm) env \<Rightarrow> nat \<Rightarrow> ('z, 'm) cfunction loader \<Rightarrow> ('z, 'm) cfunction loader option" where
  "luazmq_socket_initlib E nup L = do {
     L \<leftarrow> luazmq_createmeta USocket (luazmq_skt_methods E) nup L;
     L \<leftarrow> register_consts (skt_types E) (mpop 1 L);
     L \<leftarrow> register_consts (skt_options E) L;
     L \<leftarrow> register_consts (skt_flags E) L;
     register_consts (skt_security_mechanism E) L
   }"

definition luazmq_poller_initlib :: "('z, 'm) env \<Rightarrow> nat \<Rightarrow> ('z, 'm) cfunction loader \<Rightarrow> ('z, 'm) cfunction loader option" where
  "luazmq_poller_initlib E nup L = do {
     L \<leftarrow> luazmq_createmeta UPoller (returning (luazmq_plr_methods E)) nup L;
     register_consts (poll_flags E) (mpop 1 L)
   }"

definition error_initlib :: "('z, 'm) env \<Rightarrow> nat \<Rightarrow> ('z, 'm) cfunction loader \<Rightarrow> ('z, 'm) cfunction loader option" where
  "error_initlib E nup L = do {
     L \<leftarrow> luazmq_createmeta UError (returning (luazmq_err_methods E)) nup L;
     L \<leftarrow> register_consts (zmq_err_codes E) (mpop 1 L);
     L \<leftarrow> register_consts (zmq_err_codes E) (mnewtable L);
     L \<leftarrow> register_consts_invers (zmq_err_codes E) L;
     msetfield 1 ''errors'' L
   }"

definition luazmq_message_initlib :: "('z, 'm) env \<Rightarrow> nat \<Rightarrow> ('z, 'm) cfunction loader \<Rightarrow> ('z, 'm) cfunction loader option" where
  "luazmq_message_initlib E nup L = do {
     L \<leftarrow> luazmq_createmeta UMessage (returning (luazmq_msg_methods E)) nup L;
     register_consts (msg_options E) (mpop 1 L)
   }"

definition luazmq_zutils_initlib :: "('z, 'm) env \<Rightarrow> nat \<Rightarrow> ('z, 'm) cfunction loader \<Rightarrow> ('z, 'm) cfunction loader option" where
  "luazmq_zutils_initlib E nup L = do {
     L \<leftarrow> luazmq_createmeta UStopwatch (returning (luazmq_stopwatch_methods E)) nup ((mpushvalue nup ^^ nup) L);
     L \<leftarrow> luazmq_setfuncs (returning (luazmq_utilslib E)) nup (mnewtable (mpop 1 L));
     msetfield 1 ''utils'' L
   }"

text \<open>Hand the registry to \<open>f\<close> as the upvalue.\<close>

definition with_registry :: "(nat \<Rightarrow> 'f loader \<Rightarrow> 'f loader option) \<Rightarrow> 'f loader \<Rightarrow> 'f loader option" where
  "with_registry f L = f 1 (mpushvalue 2 L)"

definition luazmq_init_lib :: "('z, 'm) env \<Rightarrow> ('z, 'm) cfunction loader \<Rightarrow> ('z, 'm) cfunction loader option" where
  "luazmq_init_lib E L = do {
     L \<leftarrow> with_registry (luazmq_setfuncs (returning (luazmqlib E))) (mnewtable (mnewtable L));
     L \<leftarrow> with_registry (luazmq_context_initlib E) L;
     L \<leftarrow> with_registry (luazmq_socket_initlib E) L;
     L \<leftarrow> with_registry (luazmq_poller_initlib E) L;
     L \<leftarrow> with_registry (error_initlib E) L;
     L \<leftarrow> with_registry (luazmq_message_initlib E) L;
     L \<leftarrow> with_registry (luazmq_zutils_initlib E) L;
     L \<leftarrow> register_consts (device_types E) (mremove 2 L);
     L \<leftarrow> register_consts (events_types E) L;
     L \<leftarrow> msetfield 1 ''_VERSION'' (mpush (MText luazmq_version_text) L);
     L \<leftarrow> msetfield 1 ''_NAME'' (mpush (MText ''lzmq'') L);
     L \<leftarrow> msetfield 1 ''_LICENSE'' (mpush (MText ''MIT'') L);
     msetfield 1 ''_COPYRIGHT'' (mpush (MText ''Copyright (c) 2013-2017 Alexey Melnichuk'') L)
   }"

text \<open>The result is the value on top of the stack.\<close>

definition luaopen_lzmq :: "('z, 'm) env \<Rightarrow> ('z, 'm) cfunction loader \<Rightarrow> (nat \<times> ('z, 'm) cfunction loader) option" where
  "luaopen_lzmq E L = map_option (Pair 1) (luazmq_init_lib E L)"

definition luazmq_timerlib ::
    "(int \<Rightarrow> int \<Rightarrow> 'z \<Rightarrow> 'z) \<Rightarrow> clock \<Rightarrow> ('z, 'm) env \<Rightarrow> (string \<times> (('z, 'm) lua \<Rightarrow> ('z, 'm) lua outcome)) list" where
  "luazmq_timerlib nanosleep C E = [
     (''monotonic'', luazmq_timer_create_monotonic E), (''absolute'', luazmq_timer_create_absolute E),
     (''absolute_time'', luazmq_timer_absolute_time C), (''absolute_delta'', luazmq_timer_absolute_delta E),
     (''absolute_elapsed'', luazmq_timer_absolute_elapsed C E),
     (''monotonic_time'', luazmq_timer_monotonic_time C), (''monotonic_delta'', luazmq_timer_monotonic_delta E),
     (''monotonic_elapsed'', luazmq_timer_monotonic_elapsed C E), (''sleep'', luazmq_timer_sleep nanosleep E)]"

text \<open>The two method tables have the same names; a name stands for an operation.\<close>

definition timer_method_names :: "(string \<times> timer_op) list" where
  "timer_method_names = [(''__gc'', OpClose), (''close'', OpClose), (''closed'', OpClosed), (''set'', OpSet 0),
     (''get'', OpGet), (''reset'', OpReset), (''setted'', OpSetted), (''start'', OpStart None),
     (''started'', OpStarted), (''elapsed'', OpElapsed), (''rest'', OpRest), (''stop'', OpStop),
     (''is_absolute'', OpIsAbsolute), (''is_monotonic'', OpIsMonotonic)]"

definition montimer_table ::
    "clock \<Rightarrow> ('z, 'm) env \<Rightarrow> (string \<times> (('z, 'm) lua \<Rightarrow> ('z, 'm) lua outcome)) list" where
  "montimer_table C E = map (\<lambda>(n, op). (n, luazmq_montimer_methods op C E)) timer_method_names"

definition abstimer_table ::
    "clock \<Rightarrow> ('z, 'm) env \<Rightarrow> (string \<times> (('z, 'm) lua \<Rightarrow> ('z, 'm) lua outcome)) list" where
  "abstimer_table C E = map (\<lambda>(n, op). (n, luazmq_abstimer_methods op C E)) timer_method_names"

definition luaopen_lzmq_timer ::
    "(int \<Rightarrow> int \<Rightarrow> 'z \<Rightarrow> 'z) \<Rightarrow> clock \<Rightarrow> ('z, 'm) env \<Rightarrow> (('z, 'm) lua \<Rightarrow> ('z, 'm) lua outcome) loader
       \<Rightarrow> (nat \<times> (('z, 'm) lua \<Rightarrow> ('z, 'm) lua outcome) loader) option" where
  "luaopen_lzmq_timer nanosleep C E L = do {
     L \<leftarrow> luazmq_createmeta UMonTimer (montimer_table C E) 0 L;
     L \<leftarrow> luazmq_createmeta UAbsTimer (abstimer_table C E) 0 L;
     L \<leftarrow> luazmq_setfuncs (luazmq_timerlib nanosleep C E) 0 (mnewtable (mpop 2 L));
     Some (1, L)
   }"

subsection \<open>The tables that are built\<close>

lemmas loader_defs = mpush_def mpop_def mpushvalue_def minsert_def mremove_def mnewtable_def msetfield_def

lemma mset_all_table:
  "mset_all (MTab a) kvs L = Some (L\<lparr>mtabs := (mtabs L)(a := mtabs L a ++ map_of (rev kvs))\<rparr>)"
proof (induction kvs arbitrary: L)
  case Nil
  show ?case by simp
next
  case (Cons kv kvs)
  obtain k v where kv: "kv = (k, v)" by fastforce
  let ?T = "(mtabs L)(a := (mtabs L a)(k \<mapsto> v))"
  have "?T(a := ?T a ++ map_of (rev kvs)) = (mtabs L)(a := mtabs L a ++ map_of (rev ((k, v) # kvs)))"
    by (auto simp: fun_eq_iff map_add_def split: option.split)
  moreover have "mset_all (MTab a) (kv # kvs) L = mset_all (MTab a) kvs (L\<lparr>mtabs := ?T\<rparr>)"
    by (simp add: kv)
  moreover have "L\<lparr>mtabs := ?T, mtabs := T'\<rparr> = L\<lparr>mtabs := T'\<rparr>" "mtabs (L\<lparr>mtabs := ?T\<rparr>) = ?T" for T'
    by simp_all
  ultimately show ?case by (simp only: Cons.IH kv)
qed

text \<open>The fields functions and constants fill in a table; the later of two equal names wins.\<close>

definition function_fields :: "(string \<times> 'f) list \<Rightarrow> 'f mval list \<Rightarrow> mkey \<Rightarrow> 'f mval option" where
  "function_fields fs ups k = (case k of KNum i \<Rightarrow> None
     | KName n \<Rightarrow> map_option (\<lambda>f. MFun f ups) (map_of (rev fs) n))"

definition constant_fields :: "(string \<times> int) list \<Rightarrow> mkey \<Rightarrow> 'f mval option" where
  "constant_fields cs k = (case k of KNum i \<Rightarrow> None | KName n \<Rightarrow> map_option MNum (map_of (rev cs) n))"

definition metatable_fields :: "(string \<times> 'f) list \<Rightarrow> 'f mval list \<Rightarrow> nat \<Rightarrow> mkey \<Rightarrow> 'f mval option" where
  "metatable_fields fs ups t = (function_fields fs ups)(KName ''__index'' \<mapsto> MTab t, KName ''__metatable'' \<mapsto> MText not_allowed)"

lemma map_of_names:
  "map_of (map (\<lambda>(n, x). (KName n, g x)) xs) k =
     (case k of KNum i \<Rightarrow> None | KName n \<Rightarrow> map_option g (map_of xs n))"
  by (induction xs) (auto split: mkey.split)

lemma map_of_functions: "map_of (rev (map (\<lambda>(n, f). (KName n, MFun f ups)) fs)) = function_fields fs ups"
  by (simp add: fun_eq_iff function_fields_def rev_map map_of_names)

lemma map_of_constants: "map_of (rev (map (\<lambda>(n, v). (KName n, MNum v)) cs)) = constant_fields cs"
  by (simp add: fun_eq_iff constant_fields_def rev_map map_of_names)

lemma setfuncs_table:
  "mstk L = rev ups @ MTab a # xs \<Longrightarrow>
     luazmq_setfuncs fs (length ups) L = Some (L\<lparr>mstk := MTab a # xs,
       mtabs := (mtabs L)(a := mtabs L a ++ function_fields fs ups)\<rparr>)"
  by (simp add: luazmq_setfuncs_def nth_append mset_all_table map_of_functions mpop_def)

lemma register_consts_table:
  "mstk L = MTab a # xs \<Longrightarrow>
     register_consts cs L = Some (L\<lparr>mtabs := (mtabs L)(a := mtabs L a ++ constant_fields cs)\<rparr>)"
  by (simp add: register_consts_def mset_all_table map_of_constants)

lemma createmeta_old:
  "metas L u = Some t \<Longrightarrow> luazmq_createmeta u ms nup L = Some (mpush (MTab t) L)"
  by (simp add: luazmq_createmeta_def luazmq_newmetatablep_def)

lemma createmeta_new:
  assumes "metas L u = None" "mstk L = rev ups @ xs"
  shows "luazmq_createmeta u ms (length ups) L = Some (L\<lparr>mstk := MTab (mnext L) # xs,
    mtabs := (mtabs L)(mnext L := metatable_fields ms ups (mnext L)), mnext := Suc (mnext L),
    metas := (metas L)(u := Some (mnext L))\<rparr>)"
proof -
  let ?L = "(snd (luazmq_newmetatablep u L))\<lparr>mstk := rev ups @ MTab (mnext L) # xs\<rparr>"
  have "minsert (1 + length ups) (snd (luazmq_newmetatablep u L)) = ?L"
    using assms by (simp add: luazmq_newmetatablep_def loader_defs)
  moreover have "fst (luazmq_newmetatablep u L)" using assms by (simp add: luazmq_newmetatablep_def)
  moreover have "luazmq_setfuncs ms (length ups) ?L = Some (?L\<lparr>mstk := MTab (mnext L) # xs,
      mtabs := (mtabs ?L)(mnext L := mtabs ?L (mnext L) ++ function_fields ms ups)\<rparr>)"
    by (rule setfuncs_table) simp
  moreover have "mtabs ?L (mnext L) = Map.empty" using assms by (simp add: luazmq_newmetatablep_def loader_defs)
  ultimately show ?thesis using assms
    by (simp add: luazmq_createmeta_def case_prod_unfold)
      (simp add: luazmq_newmetatablep_def loader_defs metatable_fields_def fun_eq_iff)
qed

text \<open>The steps on a state that is known, with one upvalue.\<close>

lemma createmeta_step:
  "M u = None \<Longrightarrow> luazmq_createmeta u ms (Suc 0) \<lparr>mstk = r # xs, mtabs = T, mnext = a, metas = M\<rparr> =
    Some \<lparr>mstk = MTab a # xs, mtabs = T(a := metatable_fields ms [r] a), mnext = Suc a, metas = M(u := Some a)\<rparr>"
  using createmeta_new [of "\<lparr>mstk = r # xs, mtabs = T, mnext = a, metas = M\<rparr>" u "[r]" xs ms] by simp

lemma createmeta_step_old:
  "M u = Some t \<Longrightarrow> luazmq_createmeta u ms nup \<lparr>mstk = xs, mtabs = T, mnext = a, metas = M\<rparr> =
    Some \<lparr>mstk = MTab t # xs, mtabs = T, mnext = a, metas = M\<rparr>"
  by (simp add: createmeta_old mpush_def)

lemma setfuncs_step:
  "luazmq_setfuncs fs (Suc 0) \<lparr>mstk = r # MTab t # xs, mtabs = T, mnext = a, metas = M\<rparr> =
    Some \<lparr>mstk = MTab t # xs, mtabs = T(t := T t ++ function_fields fs [r]), mnext = a, metas = M\<rparr>"
  using setfuncs_table [of "\<lparr>mstk = r # MTab t # xs, mtabs = T, mnext = a, metas = M\<rparr>" "[r]" t xs fs] by simp

lemma register_step:
  "register_consts cs \<lparr>mstk = MTab t # xs, mtabs = T, mnext = a, metas = M\<rparr> =
    Some \<lparr>mstk = MTab t # xs, mtabs = T(t := T t ++ constant_fields cs), mnext = a, metas = M\<rparr>"
  by (simp add: register_consts_table)

lemma register_invers_step:
  "register_consts_invers cs \<lparr>mstk = MTab t # xs, mtabs = T, mnext = a, metas = M\<rparr> =
    Some \<lparr>mstk = MTab t # xs, mtabs = T(t := T t ++ map_of (rev (map (\<lambda>(n, v). (KNum v, MText n)) cs))),
      mnext = a, metas = M\<rparr>"
  by (simp add: register_consts_invers_def mset_all_table)

lemmas load_steps = createmeta_step createmeta_step_old setfuncs_step register_step register_invers_step

lemmas load_defs = luaopen_lzmq_def luazmq_init_lib_def with_registry_def luazmq_context_initlib_def luazmq_socket_initlib_def
  luazmq_poller_initlib_def error_initlib_def luazmq_message_initlib_def luazmq_zutils_initlib_def loader_defs

lemma constant_fields_append: "constant_fields (xs @ ys) = constant_fields xs ++ constant_fields ys"
  by (auto simp: fun_eq_iff constant_fields_def map_add_def split: mkey.split option.split)




definition unloaded :: "'f loader \<Rightarrow> bool" where
  "unloaded L \<longleftrightarrow> (\<forall>u \<in> {UContext, USocket, UPoller, UError, UMessage, UStopwatch}. metas L u = None)"

subsection \<open>Loading the module\<close>

text \<open>The fields that are neither functions nor constants.\<close>

definition special_names :: "string list" where
  "special_names = [''errors'', ''utils'', ''_VERSION'', ''_NAME'', ''_LICENSE'', ''_COPYRIGHT'']"


lemma no_special_constants:
  "constant_fields (device_types E) (KName ''errors'') = None" "constant_fields (device_types E) (KName ''utils'') = None"
  "constant_fields (events_types E) (KName ''errors'') = None" "constant_fields (events_types E) (KName ''utils'') = None"
  "constant_fields (msg_options E) (KName ''errors'') = None"
  by (auto simp: constant_fields_def map_of_eq_None_iff device_types_def events_types_def msg_options_def)


text \<open>A state before any load.\<close>

definition empty_loader :: "'f loader" where
  "empty_loader = \<lparr>mstk = [], mtabs = (\<lambda>_ _. None), mnext = 0, metas = (\<lambda>_. None)\<rparr>"

lemma empty_unloaded: "unloaded empty_loader"
  by (simp add: unloaded_def empty_loader_def)


text \<open>The field \<open>utils\<close> of the module is not the table of the utility functions but the registry of
  the module, in which the references are kept: \<open>luazmq_setfuncs\<close> takes the new table for the upvalue and
  the upvalue for the table, so the functions end up in the registry, with the new, empty table as
  their upvalue.\<close>

theorem utils_is_registry:
  assumes "unloaded L"
  shows "\<exists>L' lib new. luaopen_lzmq E L = Some (1, L') \<and> mstk L' = MTab lib # mstk L \<and>
    mtabs L' lib (KName ''utils'') = Some (MTab (mnext L)) \<and>
    mtabs L' (mnext L) = function_fields (returning (luazmq_utilslib E)) [MTab new] \<and> mtabs L' new = (\<lambda>_. None)"
proof -
  obtain xs T a M where L: "L = \<lparr>mstk = xs, mtabs = T, mnext = a, metas = M\<rparr>" by (cases L) auto
  have n: "M UContext = None" "M USocket = None" "M UPoller = None" "M UError = None" "M UMessage = None"
      "M UStopwatch = None"
    using assms by (simp_all add: unloaded_def L)
  show ?thesis
    using n by (simp add: L load_defs load_steps)
      (auto simp: map_add_def no_special_constants intro!: exI [of _ "a + 9"])
qed

theorem utils_is_registry_witness:
  "\<exists>L' lib. luaopen_lzmq stub_env empty_loader = Some (1, L') \<and> mstk L' = [MTab lib] \<and>
    mtabs L' lib (KName ''utils'') = Some (MTab 0)"
proof -
  have n: "mnext empty_loader = 0" "mstk empty_loader = []" by (simp_all add: empty_loader_def)
  show ?thesis using utils_is_registry [OF empty_unloaded, of stub_env] unfolding n by blast
qed

subsection \<open>Loading it again\<close>

definition loaded :: "'f loader \<Rightarrow> bool" where
  "loaded L \<longleftrightarrow> (\<forall>u \<in> {UContext, USocket, UPoller, UError, UMessage, UStopwatch}. metas L u \<noteq> None)"

text \<open>The constants that reach the module table in a second load: those of contexts, pollers and
  messages are not among them.\<close>

definition reload_constants :: "('z, 'm) env \<Rightarrow> (string \<times> int) list" where
  "reload_constants E = skt_types E @ skt_options E @ skt_flags E @ skt_security_mechanism E @
     zmq_err_codes E @ device_types E @ events_types E"

lemma loadedD:
  assumes "loaded L"
  obtains c s p e m w where "metas L UContext = Some c" "metas L USocket = Some s" "metas L UPoller = Some p"
    "metas L UError = Some e" "metas L UMessage = Some m" "metas L UStopwatch = Some w"
  using assms by (auto simp: loaded_def)

text \<open>C40: a second load of the module into the same Lua state (the metatables exist already) leaves the
  upvalues on the stack, so that every other group of constants goes to the wrong table: the module
  table it returns lacks the constants of contexts, pollers and messages, and its field \<open>utils\<close> is the
  module itself.\<close>

theorem second_load_incomplete:
  assumes "loaded L"
  shows "\<exists>L' lib junk. luaopen_lzmq E L = Some (1, L') \<and> mstk L' = MTab lib # junk @ mstk L \<and> length junk = 6 \<and>
    mtabs L' lib (KName ''utils'') = Some (MTab lib) \<and>
    (\<forall>n. n \<notin> set special_names \<and> n \<notin> fst ` set (luazmq_utilslib E) \<longrightarrow>
      mtabs L' lib (KName n) = (function_fields (returning (luazmqlib E)) [MTab (mnext L)] ++
        constant_fields (reload_constants E)) (KName n))"
proof -
  obtain xs T a M where L: "L = \<lparr>mstk = xs, mtabs = T, mnext = a, metas = M\<rparr>" by (cases L) auto
  obtain c s p e m w where n: "M UContext = Some c" "M USocket = Some s" "M UPoller = Some p"
      "M UError = Some e" "M UMessage = Some m" "M UStopwatch = Some w"
    using assms by (rule loadedD) (simp add: L)
  have u: "function_fields (returning (luazmq_utilslib E)) ups (KName k) = None"
    if "k \<notin> fst ` set (luazmq_utilslib E)" for ups k
    using that by (simp add: function_fields_def map_of_eq_None_iff returning_def) force
  show ?thesis
    using n by (simp add: L load_defs load_steps)
      (auto simp: reload_constants_def constant_fields_append special_names_def map_add_def
        no_special_constants u split: option.split)
qed

lemma loaded_after:
  assumes "unloaded L" "luaopen_lzmq E L = Some (k, L')"
  shows "loaded L'"
proof -
  obtain xs T a M where L: "L = \<lparr>mstk = xs, mtabs = T, mnext = a, metas = M\<rparr>" by (cases L) auto
  have n: "M UContext = None" "M USocket = None" "M UPoller = None" "M UError = None" "M UMessage = None"
      "M UStopwatch = None"
    using assms(1) by (simp_all add: unloaded_def L)
  show ?thesis using assms(2) n by (simp add: L load_defs load_steps) (auto simp: loaded_def)
qed

lemma first_load_returns:
  assumes "unloaded L"
  shows "\<exists>L'. luaopen_lzmq E L = Some (1, L')"
proof -
  obtain xs T a M where L: "L = \<lparr>mstk = xs, mtabs = T, mnext = a, metas = M\<rparr>" by (cases L) auto
  have n: "M UContext = None" "M USocket = None" "M UPoller = None" "M UError = None" "M UMessage = None"
      "M UStopwatch = None"
    using assms by (simp_all add: unloaded_def L)
  show ?thesis using n by (simp add: L load_defs load_steps)
qed

lemma list_all_notin: "list_all (\<lambda>n. n \<noteq> k) xs \<Longrightarrow> k \<notin> set xs"
  by (auto simp: list_all_iff)

lemma fst_named: "fst ` set (map (\<lambda>n. (n, f n)) xs) = set xs"
  by force

lemma fst_skt_options: "fst ` set (skt_options E) \<subseteq> snd ` set (skt_opt_consts_1 @ skt_opt_consts_2)"
  by (force simp: skt_options_def skt_opt_consts_def)

lemma no_pollin_constants:
  "''POLLIN'' \<notin> fst ` set (skt_options E)" "''POLLIN'' \<notin> fst ` set (zmq_err_codes E)"
  "''POLLIN'' \<notin> fst ` set (luazmqlib E)" "''POLLIN'' \<notin> fst ` set (skt_types E)"
  "''POLLIN'' \<notin> fst ` set (skt_flags E)" "''POLLIN'' \<notin> fst ` set (skt_security_mechanism E)"
  "''POLLIN'' \<notin> fst ` set (device_types E)" "''POLLIN'' \<notin> fst ` set (events_types E)"
proof -
  have "list_all (\<lambda>n. n \<noteq> ''POLLIN'') (map snd (skt_opt_consts_1 @ skt_opt_consts_2))"
    by (simp add: skt_opt_consts_1_def skt_opt_consts_2_def)
  from list_all_notin [OF this] show "''POLLIN'' \<notin> fst ` set (skt_options E)"
    using fst_skt_options [of E] unfolding list.set_map by blast
  show "''POLLIN'' \<notin> fst ` set (zmq_err_codes E)"
    unfolding zmq_err_codes_def fst_named by (rule list_all_notin) (simp add: err_code_names_def)
  have "list_all (\<lambda>n. n \<noteq> ''POLLIN'') (map fst (luazmqlib E))" by (simp add: luazmqlib_def)
  from list_all_notin [OF this] show "''POLLIN'' \<notin> fst ` set (luazmqlib E)" unfolding list.set_map .
qed (unfold skt_types_def skt_flags_def skt_security_mechanism_def device_types_def events_types_def fst_named;
  rule list_all_notin; simp)+

lemma no_pollin:
  "constant_fields (reload_constants E) (KName ''POLLIN'') = None"
  "function_fields (returning (luazmqlib E)) ups (KName ''POLLIN'') = None"
  "''POLLIN'' \<notin> set special_names" "''POLLIN'' \<notin> fst ` set (luazmq_utilslib E)"
  using no_pollin_constants [of E]
  by (simp_all add: constant_fields_def function_fields_def map_of_eq_None_iff reload_constants_def image_Un
      returning_def image_image case_prod_unfold special_names_def luazmq_utilslib_def)

theorem second_load_incomplete_witness:
  "\<exists>L1 L2 lib. luaopen_lzmq stub_env empty_loader = Some (1, L1) \<and> luaopen_lzmq stub_env L1 = Some (1, L2) \<and>
    hd (mstk L2) = MTab lib \<and> mtabs L2 lib (KName ''utils'') = Some (MTab lib) \<and>
    mtabs L2 lib (KName ''POLLIN'') = None"
proof -
  obtain L1 where L1: "luaopen_lzmq stub_env empty_loader = Some (1, L1)"
    using first_load_returns [OF empty_unloaded] by blast
  from second_load_incomplete [OF loaded_after [OF empty_unloaded L1], of stub_env]
  obtain L2 lib junk where "luaopen_lzmq stub_env L1 = Some (1, L2)" "mstk L2 = MTab lib # junk @ mstk L1"
    "mtabs L2 lib (KName ''utils'') = Some (MTab lib)"
    "mtabs L2 lib (KName ''POLLIN'') = (function_fields (returning (luazmqlib stub_env)) [MTab (mnext L1)] ++
        constant_fields (reload_constants stub_env)) (KName ''POLLIN'')"
    using no_pollin(3,4) by blast
  then show ?thesis using L1 by (auto simp: map_add_def no_pollin)
qed

subsection \<open>The timer module\<close>

text \<open>The timer module can be loaded any number of times: it always returns a table with its functions,
  and both types of timers have a metatable.\<close>

lemma timer_loaded:
  "\<exists>L' lib. luaopen_lzmq_timer nanosleep C E L = Some (1, L') \<and> mstk L' = MTab lib # mstk L \<and>
    mtabs L' lib = function_fields (luazmq_timerlib nanosleep C E) [] \<and>
    metas L' UMonTimer \<noteq> None \<and> metas L' UAbsTimer \<noteq> None"
proof -
  have s: "luazmq_setfuncs fs 0 N = Some (N\<lparr>mtabs := (mtabs N)(b := mtabs N b ++ function_fields fs [])\<rparr>)"
    if "mstk N = MTab b # xs" for fs and N :: "(('a, 'b) lua \<Rightarrow> ('a, 'b) lua outcome) loader" and b xs
    using setfuncs_table [of N "[]" b xs fs] that by (cases N) simp
  have c: "\<exists>N' t. luazmq_createmeta u ms 0 N = Some N' \<and> mstk N' = MTab t # mstk N \<and> metas N' u \<noteq> None \<and>
      (\<forall>v. metas N v \<noteq> None \<longrightarrow> metas N' v \<noteq> None)"
    for u ms and N :: "(('a, 'b) lua \<Rightarrow> ('a, 'b) lua outcome) loader"
    using createmeta_new [of N u "[]" "mstk N" ms] createmeta_old [of N u _ ms 0]
    by (cases "metas N u") (simp_all add: mpush_def)
  obtain N t where N: "luazmq_createmeta UMonTimer (montimer_table C E) 0 L = Some N" "mstk N = MTab t # mstk L"
      "metas N UMonTimer \<noteq> None" using c by blast
  obtain N' t' where N': "luazmq_createmeta UAbsTimer (abstimer_table C E) 0 N = Some N'"
      "mstk N' = MTab t' # mstk N" "metas N' UAbsTimer \<noteq> None" "metas N' UMonTimer \<noteq> None"
    using c [of UAbsTimer "abstimer_table C E" N] N(3) by blast
  show ?thesis using N N' by (simp add: luaopen_lzmq_timer_def loader_defs s)
qed

end
