(* ===== verification/ZMeta.thy ===== *)
theory ZMeta
  imports ZModule
begin

text \<open>
  The typed userdata of \<open>lzutils.c\<close> as they are written: the type of a userdata is the identity of its
  metatable, which is compared with the one the registry holds for the address of the type name. They
  implement the typed userdata of \<open>LZUtils\<close>, on which the objects of the binding rest, whenever no
  two types share a metatable; and loading the modules keeps it that way. Then weak tables and the
  call of a method, the rest of \<open>lzutils.c\<close>.
\<close>

subsection \<open>Userdata and their metatables\<close>

text \<open>The metatables of userdata and of tables, and the next address of a userdata. Light userdata have no
  metatable.\<close>

record 'f lmachine = "'f loader" +
  umeta :: "nat \<Rightarrow> nat option"
  tmeta :: "nat \<Rightarrow> nat option"
  unext :: nat

text \<open>The value at an index of the C API; a position that holds no value reads as nil.\<close>

definition mat :: "('f, 'a) loader_scheme \<Rightarrow> int \<Rightarrow> 'f mval" where
  "mat L i = (let k = nat (if 0 < i then int (length (mstk L)) - i else - i - 1) in
     if i \<noteq> 0 \<and> i \<le> int (length (mstk L)) \<and> k < length (mstk L) then mstk L ! k else MNil)"

fun lua_isuserdata :: "'f mval \<Rightarrow> bool" where
  "lua_isuserdata (MUser u) = True"
| "lua_isuserdata (MLight p) = True"
| "lua_isuserdata _ = False"

text \<open>The block of a full userdata, the pointer of a light one; the null pointer is \<open>None\<close>.\<close>

fun lua_touserdata :: "'f mval \<Rightarrow> nat option" where
  "lua_touserdata (MUser u) = Some u"
| "lua_touserdata (MLight p) = (if p = 0 then None else Some p)"
| "lua_touserdata _ = None"

fun lua_getmetatable :: "'f lmachine \<Rightarrow> 'f mval \<Rightarrow> nat option" where
  "lua_getmetatable L (MUser u) = umeta L u"
| "lua_getmetatable L (MTab t) = tmeta L t"
| "lua_getmetatable L _ = None"

fun lua_setmetatable :: "'f mval \<Rightarrow> nat \<Rightarrow> 'f lmachine \<Rightarrow> 'f lmachine" where
  "lua_setmetatable (MUser u) t L = L\<lparr>umeta := (umeta L)(u := Some t)\<rparr>"
| "lua_setmetatable (MTab a) t L = L\<lparr>tmeta := (tmeta L)(a := Some t)\<rparr>"
| "lua_setmetatable _ t L = L"

text \<open>What the registry holds under the address of a type name.\<close>

definition luazmq_getmetatablep :: "utype \<Rightarrow> ('f, 'a) loader_scheme \<Rightarrow> ('f, 'a) loader_scheme" where
  "luazmq_getmetatablep p L = mpush (case metas L p of None \<Rightarrow> MNil | Some t \<Rightarrow> MTab t) L"

definition luazmq_isudatap_meta :: "int \<Rightarrow> utype \<Rightarrow> 'f lmachine \<Rightarrow> bool \<times> 'f lmachine" where
  "luazmq_isudatap_meta ud p L =
     (if lua_isuserdata (mat L ud) then
        (case lua_getmetatable L (mat L ud) of
           None \<Rightarrow> (False, L)
         | Some t \<Rightarrow>
             let L = luazmq_getmetatablep p (mpush (MTab t) L);
                 res = (mat L (- 1) = mat L (- 2))
             in (res, mpop 2 L))
      else (False, L))"

text \<open>When the metatable is a different one, both metatables stay on the stack.\<close>

definition luazmq_toudatap_meta :: "int \<Rightarrow> utype \<Rightarrow> 'f lmachine \<Rightarrow> nat option \<times> 'f lmachine" where
  "luazmq_toudatap_meta ud p L =
     (case lua_touserdata (mat L ud) of
        None \<Rightarrow> (None, L)
      | Some up \<Rightarrow>
          (case lua_getmetatable L (mat L ud) of
             None \<Rightarrow> (None, L)
           | Some t \<Rightarrow>
               let L = luazmq_getmetatablep p (mpush (MTab t) L) in
               if mat L (- 1) = mat L (- 2) then (Some up, mpop 2 L) else (None, L)))"

definition luazmq_checkudatap_meta :: "int \<Rightarrow> utype \<Rightarrow> 'f lmachine \<Rightarrow> lua_error + nat \<times> 'f lmachine" where
  "luazmq_checkudatap_meta ud p L =
     (case luazmq_toudatap_meta ud p L of
        (Some up, L) \<Rightarrow> Inr (up, L) | (None, L) \<Rightarrow> Inl (TypeError ud (utype_name p)))"

definition luazmq_setmeta :: "utype \<Rightarrow> 'f lmachine \<Rightarrow> ub + 'f lmachine" where
  "luazmq_setmeta name L =
     (let L = luazmq_getmetatablep name L in
      case mat L (- 1) of
        MTab t \<Rightarrow> Inr (mpop 1 (lua_setmetatable (mat L (- 2)) t L))
      | _ \<Rightarrow> Inl AssertFail)"

definition luazmq_newudata_meta :: "utype \<Rightarrow> 'f lmachine \<Rightarrow> ub + nat \<times> 'f lmachine" where
  "luazmq_newudata_meta name L =
     (let obj = unext L;
          L = mpush (MUser obj) (L\<lparr>umeta := (umeta L)(obj := None), unext := Suc obj\<rparr>)
      in map_sum id (Pair obj) (luazmq_setmeta name L))"

lemma mat_push [simp]:
  "mat (mpush v L) (- 1) = v"
  "mat (mpush v (mpush w L)) (- 2) = w"
  "metas (mpush v L) = metas L"
  by (simp_all add: mat_def mpush_def)

lemma mpop_push [simp]:
  "mpop (Suc 0) (mpush v L) = L"
  "mpop 2 (mpush v (mpush w L)) = L"
  by (simp_all add: mpop_def mpush_def)

subsection \<open>The types of the objects\<close>

text \<open>No two types share a metatable, and all metatables have been created.\<close>

definition metas_ok :: "('f, 'a) loader_scheme \<Rightarrow> bool" where
  "metas_ok L \<longleftrightarrow> (\<forall>p q t. metas L p = Some t \<and> metas L q = Some t \<longrightarrow> p = q) \<and>
     (\<forall>p t. metas L p = Some t \<longrightarrow> t < mnext L)"

text \<open>\<open>repr L m v\<close>: the value \<open>m\<close> of the machine is the value \<open>v\<close> of the typed model. A userdata has
  the type whose metatable it has.\<close>

fun repr :: "'f lmachine \<Rightarrow> 'f mval \<Rightarrow> lval \<Rightarrow> bool" where
  "repr L (MUser u) v = (case v of LUser t k \<Rightarrow> k = u \<and> umeta L u \<noteq> None \<and> umeta L u = metas L t | _ \<Rightarrow> False)"
| "repr L (MLight p) v = (v = LLight p)"
| "repr L (MNum n) v = (v = LNum (of_int n))"
| "repr L (MText s) v = (v = LStr s)"
| "repr L MNil v = (v = LNil)"
| "repr L (MTab t) v = (is_table v)"
| "repr L (MFun f ups) v = (case v of LFun n \<Rightarrow> True | _ \<Rightarrow> False)"

definition related :: "'f lmachine \<Rightarrow> ('z, 'm) lua \<Rightarrow> bool" where
  "related L K \<longleftrightarrow> list_all2 (repr L) (rev (mstk L)) (stk K) \<and> unext L = next_udata K \<and>
     (\<forall>u. MUser u \<in> set (mstk L) \<longrightarrow> u < unext L)"

lemma mat_related:
  assumes "related L K" "- int (length (mstk L)) \<le> i"
  shows "repr L (mat L i) (lua_at K i)"
proof -
  have len: "length (stk K) = length (mstk L)"
    using assms(1) by (auto simp: related_def dest: list_all2_lengthD)
  have at: "repr L (mstk L ! (length (mstk L) - Suc j)) (stk K ! j)" if "j < length (mstk L)" for j
    using list_all2_nthD [of "repr L" "rev (mstk L)" "stk K" j] assms(1) that
    by (simp add: related_def rev_nth)
  consider "0 < i" "i \<le> int (length (mstk L))" | "0 < i" "int (length (mstk L)) < i" | "i = 0" | "i < 0" by linarith
  then show ?thesis
  proof cases
    case 1
    then have "nat (int (length (mstk L)) - i) = length (mstk L) - Suc (nat (i - 1))" by linarith
    moreover have "nat (i - 1) < length (mstk L)" "length (mstk L) - Suc (nat (i - 1)) < length (mstk L)"
      using 1 by linarith+
    ultimately show ?thesis using 1 at [of "nat (i - 1)"]
      by (simp add: mat_def lua_at_def lua_absindex_def len Let_def)
  next
    case 2
    then have "\<not> nat (i - 1) < length (mstk L)" by linarith
    with 2 show ?thesis by (simp add: mat_def lua_at_def lua_absindex_def len Let_def)
  next
    case 4
    with assms(2) have "nat (- i - 1) = length (mstk L) - Suc (nat (int (length (mstk L)) + i))" by linarith
    moreover have "nat (int (length (mstk L)) + i) < length (mstk L)"
      "length (mstk L) - Suc (nat (int (length (mstk L)) + i)) < length (mstk L)"
      using 4 assms(2) by linarith+
    ultimately show ?thesis using 4 assms(2) at [of "nat (int (length (mstk L)) + i)"]
      by (simp add: mat_def lua_at_def lua_absindex_def len Let_def)
  qed (simp_all add: mat_def lua_at_def lua_absindex_def len Let_def)
qed

lemma repr_user: "repr L (MUser u) v \<longleftrightarrow>
    (\<exists>t m. v = LUser t u \<and> umeta L u = Some m \<and> metas L t = Some m)"
  by (auto split: lval.splits)

lemma repr_cases:
  assumes "repr L x v"
  obtains (user) u t m where "x = MUser u" "v = LUser t u" "umeta L u = Some m" "metas L t = Some m"
    | (light) p where "x = MLight p" "v = LLight p"
    | (other) "\<not> lua_isuserdata x" "\<forall>t k. v \<noteq> LUser t k"
  using assms by (cases x) (force split: lval.splits)+

lemma meta_eq:
  assumes "metas_ok L" "metas L t = Some m"
  shows "(case metas L p of None \<Rightarrow> MNil | Some t \<Rightarrow> MTab t) = MTab m \<longleftrightarrow> p = t"
  using assms by (auto simp: metas_ok_def split: option.split)

lemma isudatap_refines:
  assumes "metas_ok L" "related L K" "- int (length (mstk L)) \<le> i"
  shows "luazmq_isudatap_meta i p L = (luazmq_isudatap K i p, L)"
  using mat_related [OF assms(2,3)]
proof (cases rule: repr_cases)
  case (user u t m)
  then show ?thesis
    using meta_eq [OF assms(1) user(4)]
    by (auto simp: luazmq_isudatap_meta_def luazmq_isudatap_def luazmq_getmetatablep_def Let_def)
next
  case other
  then show ?thesis
    by (auto simp: luazmq_isudatap_meta_def luazmq_isudatap_def split: lval.split)
qed (simp add: luazmq_isudatap_meta_def luazmq_isudatap_def)

lemma toudatap_refines:
  assumes "metas_ok L" "related L K" "- int (length (mstk L)) \<le> i"
  shows "fst (luazmq_toudatap_meta i p L) = luazmq_toudatap K i p"
    "luazmq_toudatap K i p \<noteq> None \<Longrightarrow> snd (luazmq_toudatap_meta i p L) = L"
proof -
  have "luazmq_toudatap_meta i p L = (luazmq_toudatap K i p, snd (luazmq_toudatap_meta i p L)) \<and>
      (luazmq_toudatap K i p \<noteq> None \<longrightarrow> snd (luazmq_toudatap_meta i p L) = L)"
    using mat_related [OF assms(2,3)]
  proof (cases rule: repr_cases)
    case (user u t m)
    then show ?thesis
      using meta_eq [OF assms(1) user(4)]
      by (auto simp: luazmq_toudatap_meta_def luazmq_toudatap_def luazmq_getmetatablep_def Let_def)
  next
    case other
    then show ?thesis
      by (cases "mat L i") (auto simp: luazmq_toudatap_meta_def luazmq_toudatap_def split: lval.split)
  qed (simp add: luazmq_toudatap_meta_def luazmq_toudatap_def)
  then show "fst (luazmq_toudatap_meta i p L) = luazmq_toudatap K i p"
    "luazmq_toudatap K i p \<noteq> None \<Longrightarrow> snd (luazmq_toudatap_meta i p L) = L" by (metis fst_conv, blast)
qed

lemma checkudatap_refines:
  assumes "metas_ok L" "related L K" "- int (length (mstk L)) \<le> i"
  shows "luazmq_checkudatap_meta i p L = map_sum id (\<lambda>k. (k, L)) (luazmq_checkudatap K i p)"
  using toudatap_refines [OF assms, of p]
  by (cases "luazmq_toudatap_meta i p L")
    (auto simp: luazmq_checkudatap_meta_def luazmq_checkudatap_def split: option.split)

lemma repr_new_meta:
  "\<lbrakk> repr L x v; x \<noteq> MUser k \<rbrakk> \<Longrightarrow>
     repr (L\<lparr>unext := n, umeta := (umeta L)(k := r), mstk := s\<rparr>) x v"
  by (cases x) (simp_all split: lval.splits, metis)

lemma newudata_refines:
  assumes "metas_ok L" "related L K" "metas L p = Some m"
  shows "\<exists>L'. luazmq_newudata_meta p L = Inr (next_udata K, L') \<and> metas_ok L' \<and>
    related L' (snd (luazmq_newudata p K)) \<and> umeta L' (next_udata K) = Some m"
proof -
  let ?k = "unext L"
  let ?L = "L\<lparr>unext := Suc ?k, umeta := (umeta L)(?k := Some m), mstk := MUser ?k # mstk L\<rparr>"
  have r: "list_all2 (repr L) (rev (mstk L)) (stk K)" "?k = next_udata K" "\<forall>u. MUser u \<in> set (mstk L) \<longrightarrow> u < ?k"
    using assms(2) by (auto simp: related_def)
  have "luazmq_newudata_meta p L = Inr (?k, ?L)"
    using assms(3)
    by (simp add: luazmq_newudata_meta_def luazmq_setmeta_def luazmq_getmetatablep_def mat_def mpush_def mpop_def Let_def)
  moreover have "list_all2 (repr ?L) (rev (mstk L)) (stk K)"
    using r(3) by (intro list.rel_mono_strong [OF r(1)] repr_new_meta) auto
  then have "list_all2 (repr ?L) (rev (mstk L) @ [MUser ?k]) (stk K @ [LUser p ?k])"
    using assms(3) by (intro list_all2_appendI) simp_all
  ultimately show ?thesis
    using assms(1,3) r by (auto simp: related_def luazmq_newudata_def push_def metas_ok_def less_SucI)
qed

subsection \<open>Loading keeps the types apart\<close>

text \<open>Only \<open>luazmq_newmetatablep\<close> changes what the registry holds for the types.\<close>

lemma loader_metas [simp]:
  "metas (mpop n L) = metas L" "mnext (mpop n L) = mnext L"
  "metas (mpush v L) = metas L" "mnext (mpush v L) = mnext L"
  "metas (mpushvalue n L) = metas L" "mnext (mpushvalue n L) = mnext L"
  "metas (minsert n L) = metas L" "mnext (minsert n L) = mnext L"
  "metas (mremove n L) = metas L" "mnext (mremove n L) = mnext L"
  "metas (mnewtable L) = metas L" "mnext (mnewtable L) = Suc (mnext L)"
  by (simp_all add: loader_defs split: list.split)

lemma mset_metas: "mset t k v L = Some L' \<Longrightarrow> metas L' = metas L \<and> mnext L' = mnext L"
  by (cases t) auto

lemma mset_all_metas: "mset_all t kvs L = Some L' \<Longrightarrow> metas L' = metas L \<and> mnext L' = mnext L"
proof (induction t kvs L rule: mset_all.induct)
  case (2 t k v kvs L)
  then show ?case by (auto simp: bind_eq_Some_conv dest: mset_metas)
qed simp

text \<open>\<open>metas_grow L L'\<close>: from \<open>L\<close> to \<open>L'\<close> metatables are only added, and the types stay apart.\<close>

definition metas_grow :: "('f, 'a) loader_scheme \<Rightarrow> ('f, 'a) loader_scheme \<Rightarrow> bool" where
  "metas_grow L L' \<longleftrightarrow> (metas_ok L \<longrightarrow> metas_ok L') \<and> (\<forall>p t. metas L p = Some t \<longrightarrow> metas L' p = Some t)"

lemma metas_grow_refl [intro]: "metas_grow L L"
  by (simp add: metas_grow_def)

lemma metas_grow_trans [trans]: "\<lbrakk> metas_grow L M; metas_grow M N \<rbrakk> \<Longrightarrow> metas_grow L N"
  by (simp add: metas_grow_def)

lemma metas_grow_same: "\<lbrakk> metas L' = metas L; mnext L \<le> mnext L' \<rbrakk> \<Longrightarrow> metas_grow L L'"
  by (simp add: metas_grow_def metas_ok_def) (meson less_le_trans)

text \<open>\<open>grows T f\<close>: an operation of a load that may fail; when it returns, the types \<open>T\<close> have a
  metatable.\<close>

definition grows :: "utype set \<Rightarrow> (('f, 'a) loader_scheme \<Rightarrow> ('f, 'a) loader_scheme option) \<Rightarrow> bool" where
  "grows T f \<longleftrightarrow> (\<forall>L L'. f L = Some L' \<longrightarrow> metas_grow L L' \<and> T \<subseteq> dom (metas L'))"

lemma growsD: "\<lbrakk> grows T f; f L = Some L' \<rbrakk> \<Longrightarrow> metas_grow L L' \<and> T \<subseteq> dom (metas L')"
  by (simp add: grows_def)

lemma metas_grow_dom: "metas_grow L L' \<Longrightarrow> dom (metas L) \<subseteq> dom (metas L')"
  by (auto simp: metas_grow_def)

lemma grows_bind:
  assumes "grows T f" "grows U g"
  shows "grows (T \<union> U) (\<lambda>L. f L \<bind> g)"
  unfolding grows_def
proof (intro allI impI)
  fix L L'
  assume "f L \<bind> g = Some L'"
  then obtain M where "f L = Some M" "g M = Some L'" by (auto simp: bind_eq_Some_conv)
  then show "metas_grow L L' \<and> T \<union> U \<subseteq> dom (metas L')"
    using growsD [OF assms(1)] growsD [OF assms(2)] metas_grow_dom [of M L']
    by (blast intro: metas_grow_trans)
qed

lemma grows_weaken: "\<lbrakk> grows U f; T \<subseteq> U \<rbrakk> \<Longrightarrow> grows T f"
  unfolding grows_def by blast

lemma grows_before:
  assumes "grows T f" "\<And>L. metas (h L) = metas L" "\<And>L. mnext L \<le> mnext (h L)"
  shows "grows T (\<lambda>L. f (h L))"
  unfolding grows_def
  using growsD [OF assms(1)] metas_grow_same [OF assms(2,3)] by (blast intro: metas_grow_trans)

lemma repeat_metas [simp]:
  "metas ((mpushvalue n ^^ k) L) = metas L" "mnext ((mpushvalue n ^^ k) L) = mnext L"
  by (induction k) simp_all

lemma newmetatablep_grow: "metas_grow L (snd (luazmq_newmetatablep p L))"
  by (auto simp: luazmq_newmetatablep_def metas_grow_def metas_ok_def less_Suc_eq split: option.split)

lemma newmetatablep_some: "metas (snd (luazmq_newmetatablep p L)) p \<noteq> None"
  by (simp add: luazmq_newmetatablep_def split: option.split)

lemma grows_fields:
  "grows {} (msetfield n s)" "grows {} (luazmq_setfuncs fs k)" "grows {} (register_consts cs)"
  "grows {} (register_consts_invers cs)"
  by (auto simp: grows_def msetfield_def luazmq_setfuncs_def register_consts_def register_consts_invers_def
      dest!: mset_metas mset_all_metas intro!: metas_grow_same)

lemma grows_createmeta: "grows {p} (luazmq_createmeta p ms k)"
proof -
  let ?fill = "\<lambda>L :: ('a, 'b) loader_scheme. luazmq_setfuncs ms k (minsert (1 + k) L) \<bind> (\<lambda>L.
      msetfield 1 ''__index'' (mpushvalue 1 L) \<bind> (\<lambda>L. msetfield 1 ''__metatable'' (mpush (MText not_allowed) L)))"
  have fill: "grows {} ?fill"
    by (rule grows_weaken, ((rule grows_bind)?, (rule grows_fields [THEN grows_before]; simp))+, simp)
  show ?thesis
    unfolding grows_def
  proof (intro allI impI)
    fix L L' :: "('a, 'b) loader_scheme"
    assume r: "luazmq_createmeta p ms k L = Some L'"
    let ?M = "snd (luazmq_newmetatablep p L)"
    have "metas_grow ?M L'"
      using r growsD [OF fill, of ?M L']
      by (auto simp: luazmq_createmeta_def case_prod_unfold Let_def split: if_splits)
    then show "metas_grow L L' \<and> {p} \<subseteq> dom (metas L')"
      using newmetatablep_grow [of L p] newmetatablep_some [of p L] metas_grow_dom [of ?M L']
      by (auto intro: metas_grow_trans)
  qed
qed

lemmas grows_steps = grows_fields grows_createmeta

lemmas grows_after = grows_steps [THEN grows_before]

lemma grows_initlibs:
  "grows {UContext} (luazmq_context_initlib E k)" "grows {USocket} (luazmq_socket_initlib E k)"
  "grows {UPoller} (luazmq_poller_initlib E k)" "grows {UError} (error_initlib E k)"
  "grows {UMessage} (luazmq_message_initlib E k)" "grows {UStopwatch} (luazmq_zutils_initlib E k)"
  unfolding luazmq_context_initlib_def luazmq_socket_initlib_def luazmq_poller_initlib_def
    error_initlib_def luazmq_message_initlib_def luazmq_zutils_initlib_def
  by (rule grows_weaken, ((rule grows_bind)?, (rule grows_steps | (rule grows_after; simp)))+, simp)+

lemma grows_load: "grows {UContext, USocket, UPoller, UError, UMessage, UStopwatch} (luazmq_init_lib E)"
  unfolding luazmq_init_lib_def with_registry_def
  by (rule grows_weaken, ((rule grows_bind)?,
      (rule grows_steps | (rule grows_after; simp) | (rule grows_initlibs [THEN grows_before]; simp)))+, simp)

text \<open>C25: loading the module, for the first time or again, gives each of its six types a metatable and
  leaves the metatables that are there in place, so that objects made before keep their type; no two
  types share a metatable afterwards.\<close>

theorem load_keeps_types:
  assumes "metas_ok L" "luaopen_lzmq E L = Some (n, L')"
  shows "metas_ok L' \<and> (\<forall>p t. metas L p = Some t \<longrightarrow> metas L' p = Some t) \<and>
    (\<forall>p \<in> {UContext, USocket, UPoller, UError, UMessage, UStopwatch}. metas L' p \<noteq> None)"
proof -
  have "luazmq_init_lib E L = Some L'" using assms(2) by (auto simp: luaopen_lzmq_def)
  from growsD [OF grows_load this] assms(1) show ?thesis by (auto simp: metas_grow_def)
qed

lemma empty_metas_ok: "metas_ok empty_loader"
  by (simp add: metas_ok_def empty_loader_def)

theorem load_keeps_types_witness:
  "\<exists>L1. luaopen_lzmq stub_env empty_loader = Some (1, L1) \<and> metas_ok L1 \<and> metas L1 USocket \<noteq> None"
proof -
  obtain L1 where L1: "luaopen_lzmq stub_env empty_loader = Some (1, L1)"
    using first_load_returns [OF empty_unloaded] by blast
  from load_keeps_types [OF empty_metas_ok L1] L1 show ?thesis by blast
qed

text \<open>C26: as long as no two types share a metatable, testing, checking and making typed userdata by
  comparing metatables does what the typed model says: a test leaves the stack as it was and tells
  whether the object has the type, a check returns the object or the type error, and a new object
  has the type it was made with.\<close>

theorem userdata_types_refine:
  assumes "metas_ok L" "related L K" "- int (length (mstk L)) \<le> i"
  shows "luazmq_isudatap_meta i p L = (luazmq_isudatap K i p, L) \<and>
    luazmq_checkudatap_meta i p L = map_sum id (\<lambda>k. (k, L)) (luazmq_checkudatap K i p) \<and>
    (\<forall>m. metas L p = Some m \<longrightarrow> (\<exists>L'. luazmq_newudata_meta p L = Inr (fst (luazmq_newudata p K), L') \<and>
       related L' (snd (luazmq_newudata p K)) \<and> metas_ok L'))"
  using isudatap_refines [OF assms] checkudatap_refines [OF assms] newudata_refines [OF assms(1,2), of p]
  by (auto simp: luazmq_newudata_def)

text \<open>A context and a socket type, and one socket on the stack.\<close>

definition demo_machine :: "nat lmachine" where
  "demo_machine = \<lparr>mstk = [MUser 0], mtabs = (\<lambda>_ _. None), mnext = 2,
     metas = [UContext \<mapsto> 0, USocket \<mapsto> 1], umeta = [0 \<mapsto> 1], tmeta = (\<lambda>_. None), unext = 1\<rparr>"

definition demo_typed :: "(nat, string) lua" where
  "demo_typed = (initial_state [] 0)\<lparr>stk := [LUser USocket 0], next_udata := 1\<rparr>"

lemma demo_related: "metas_ok demo_machine" "related demo_machine demo_typed"
  by (auto simp: metas_ok_def related_def demo_machine_def demo_typed_def split: if_splits)

theorem userdata_types_refine_witness:
  "luazmq_isudatap_meta 1 USocket demo_machine = (True, demo_machine) \<and>
   luazmq_checkudatap_meta 1 UContext demo_machine = Inl (TypeError 1 ''LuaZMQ: Context'')"
proof -
  have "- int (length (mstk demo_machine)) \<le> 1" by simp
  note w = userdata_types_refine [OF demo_related this]
  have "luazmq_isudatap demo_typed 1 USocket"
    "luazmq_checkudatap demo_typed 1 UContext = Inl (TypeError 1 ''LuaZMQ: Context'')"
    by (simp_all add: luazmq_isudatap_def luazmq_checkudatap_def luazmq_toudatap_def demo_typed_def lua_at_args)
  with w [of USocket] w [of UContext] show ?thesis by simp
qed

text \<open>A failed check leaves two metatables on the stack, above the value that is reported: an index
  from the top would no longer name it. The code only checks arguments by their position.\<close>

lemma toudatap_mismatch:
  assumes "metas_ok L" "mat L i = MUser u" "umeta L u = Some m" "metas L p \<noteq> Some m"
  shows "\<exists>x. luazmq_toudatap_meta i p L = (None, mpush x (mpush (MTab m) L))"
  using assms by (auto simp: luazmq_toudatap_meta_def luazmq_getmetatablep_def Let_def split: option.split)

subsection \<open>Weak tables\<close>

text \<open>\<open>None\<close> when the value indexed is not a table, or the assertion at the end fails.\<close>

definition luazmq_new_weak_table :: "string \<Rightarrow> 'f lmachine \<Rightarrow> 'f lmachine option" where
  "luazmq_new_weak_table mode L =
     (let top = length (mstk L); L = mnewtable (mnewtable L) in
      do {
        L \<leftarrow> msetfield 1 ''__mode'' (mpush (MText mode) L);
        L \<leftarrow> (case mat L (- 1) of MTab t \<Rightarrow> Some (mpop 1 (lua_setmetatable (mat L (- 2)) t L)) | _ \<Rightarrow> None);
        if top + 1 = length (mstk L) then Some L else None
      })"

text \<open>It never fails, and leaves a new, empty table whose metatable has the mode.\<close>

lemma new_weak_table_made:
  "\<exists>L' t. luazmq_new_weak_table mode L = Some L' \<and> mstk L' = MTab (mnext L) # mstk L \<and>
     mtabs L' (mnext L) = (\<lambda>_. None) \<and> tmeta L' (mnext L) = Some t \<and> mtabs L' t (KName ''__mode'') = Some (MText mode)"
  by (simp add: luazmq_new_weak_table_def loader_defs mat_def Let_def)

subsection \<open>Calling a method\<close>

text \<open>\<open>luazmq_call_method\<close> for the method \<open>f\<close> of the object below the \<open>nargs\<close> arguments; \<open>nresults\<close> is
  \<open>None\<close> for \<open>LUA_MULTRET\<close>. The difference of the two heights of the stack counts the object,
  which the call removes.\<close>

definition luazmq_call_method ::
    "(('z, 'm) lua \<Rightarrow> ('z, 'm) lua outcome) \<Rightarrow> nat \<Rightarrow> nat option \<Rightarrow> ('z, 'm) lua \<Rightarrow> ('z, 'm) lua outcome" where
  "luazmq_call_method f nargs nresults L =
     (let top = int (lua_gettop L) - int nargs; base = lua_gettop L - (nargs + 1) in
      if top < 0 then Abort AssertFail
      else after (f (L\<lparr>stk := drop base (stk L)\<rparr>)) (\<lambda>n L'.
        let rs = (case nresults of None \<Rightarrow> results n L' | Some m \<Rightarrow> adjust m (results n L'));
            L' = L'\<lparr>stk := take base (stk L) @ rs\<rparr>;
            top = int (lua_gettop L') - top
        in if top < 0 then Abort AssertFail else Ret (nat top) L'))"

text \<open>The number it returns is one less than the number of results, and a call without results fails the
  assertion.\<close>

lemma call_method_miscounts:
  assumes "nargs < length (stk L)" "f (L\<lparr>stk := drop (length (stk L) - (nargs + 1)) (stk L)\<rparr>) = Ret n L'"
    "n \<le> length (stk L')"
  shows "luazmq_call_method f nargs None L =
    (if n = 0 then Abort AssertFail
     else Ret (n - 1) (L'\<lparr>stk := take (length (stk L) - (nargs + 1)) (stk L) @ results n L'\<rparr>))"
  using assms by (auto simp: luazmq_call_method_def lua_gettop_def results_def Let_def)

end
