(* ===== verification/ZWindows.thy ===== *)
theory ZWindows
  imports ZTimer
begin

text \<open>
  The branches for Windows: the three sources of monotonic time and the system time in \<open>ztimer.c\<close>, and
  the descriptors of sockets in \<open>lzutils.c\<close>, which do not fit into an \<open>int\<close> there. The build is the
  one for 64 bits. What the functions of the system would return at the time of a call is the record
  \<open>win_clock\<close>.
\<close>

subsection \<open>Clocks\<close>

record win_clock =
  GetTickCount :: "32 word"
  GetTickCount64 :: "64 word"
  QueryPerformanceFrequency :: "64 word"
  QueryPerformanceCounter :: "64 word"
  GetSystemTimeAsFileTime :: "32 word \<times> 32 word"

text \<open>\<open>USE_TICK_COUNT\<close>: a \<open>DWORD\<close> of milliseconds, which wraps after 49 days.\<close>

definition GetMonotonicTime_tick :: "win_clock \<Rightarrow> 32 word" where
  "GetMonotonicTime_tick W = GetTickCount W"

definition IncMonotonic_tick :: "32 word \<Rightarrow> 32 word \<Rightarrow> 32 word" where
  "IncMonotonic_tick StartTime delta = StartTime + delta"

text \<open>\<open>USE_TICK_COUNT64\<close>.\<close>

definition GetMonotonicTime_tick64 :: "win_clock \<Rightarrow> 64 word" where
  "GetMonotonicTime_tick64 W = GetTickCount64 W"

definition GetMonotonicDelta_tick64 :: "64 word \<Rightarrow> 64 word \<Rightarrow> 64 word" where
  "GetMonotonicDelta_tick64 StartTime EndTime = U64Delta StartTime EndTime"

definition IncMonotonic_tick64 :: "64 word \<Rightarrow> 64 word \<Rightarrow> 64 word" where
  "IncMonotonic_tick64 StartTime delta = StartTime + delta"

text \<open>\<open>USE_PERF_COUNT\<close>: the ticks of the performance counter, and the number of ticks in a
  millisecond, which \<open>InitMonotonicTimer\<close> computes once. The differences are signed; the division is
  undefined as long as the number is zero.\<close>

record perf_state =
  PerfFreq :: "64 word"
  PerfFreqInit :: bool

definition InitMonotonicTimer :: "win_clock \<Rightarrow> perf_state \<Rightarrow> perf_state" where
  "InitMonotonicTimer W P =
     (if PerfFreqInit P then P
      else P\<lparr>PerfFreqInit := True, PerfFreq := word_of_int (c_quot (sint (QueryPerformanceFrequency W)) 1000)\<rparr>)"

definition GetMonotonicTime_perf :: "win_clock \<Rightarrow> 64 word" where
  "GetMonotonicTime_perf W = QueryPerformanceCounter W"

definition GetMonotonicDelta_perf :: "perf_state \<Rightarrow> 64 word \<Rightarrow> 64 word \<Rightarrow> 64 word option" where
  "GetMonotonicDelta_perf P StartTime EndTime =
     (if PerfFreq P = 0 then None
      else Some (word_of_int (c_quot (sint (U64Delta StartTime EndTime)) (sint (PerfFreq P)))))"

definition IncMonotonic_perf :: "perf_state \<Rightarrow> 64 word \<Rightarrow> 64 word \<Rightarrow> 64 word" where
  "IncMonotonic_perf P StartTime delta = StartTime + delta * PerfFreq P"

text \<open>The system time counts intervals of 100 ns since 1601.\<close>

definition GetUtcTime_win :: "win_clock \<Rightarrow> 64 word" where
  "GetUtcTime_win W =
     (let (dwLowDateTime, dwHighDateTime) = GetSystemTimeAsFileTime W;
          t = ucast dwLowDateTime OR push_bit 32 (ucast dwHighDateTime)
      in (t - 116444736000000000) div 10000)"

subsection \<open>Time stamps\<close>

lemma U64Delta_minus: "U64Delta s e = e - s"
  by (simp add: U64Delta_def)

text \<open>What the 64 bits of a file time stand for.\<close>

definition filetime :: "win_clock \<Rightarrow> int" where
  "filetime W = uint (fst (GetSystemTimeAsFileTime W)) + 2 ^ 32 * uint (snd (GetSystemTimeAsFileTime W))"

lemma join_words:
  fixes lo hi :: "32 word"
  shows "uint (ucast lo OR push_bit 32 (ucast hi) :: 64 word) = uint lo + 2 ^ 32 * uint hi"
proof -
  have d: "(ucast lo :: 64 word) AND push_bit 32 (ucast hi) = 0"
    by (rule bit_eqI) (auto simp: bit_simps dest: bit_imp_le_length)
  have "(ucast lo OR push_bit 32 (ucast hi) :: 64 word) = ucast lo + push_bit 32 (ucast hi)"
    using d by (simp add: disjunctive_add bit_eq_iff bit_simps)
  also have "uint \<dots> = take_bit 64 (uint lo + uint hi * 2 ^ 32)"
    by (simp add: uint_word_ariths push_bit_eq_mult take_bit_eq_mod mod_simps unsigned_ucast_eq uint_word_ariths)
  also have "\<dots> = uint lo + uint hi * 2 ^ 32"
    using uint_bounded [of lo] uint_bounded [of hi] by (intro take_bit_int_eq_self) auto
  finally show ?thesis by simp
qed

lemma file_time_ms:
  fixes t :: "64 word"
  assumes "uint t = 116444736000000000 + m" "0 \<le> m"
  shows "uint ((t - 116444736000000000) div 10000) = m div 10000"
proof -
  have "uint (t - 116444736000000000) = uint t - 116444736000000000"
    using assms by (subst uint_sub_lem [THEN iffD1]) simp_all
  then show ?thesis using assms by (simp add: uint_div_distrib)
qed

lemma hundred_ns_to_ms:
  fixes sec usec r :: int
  assumes "0 \<le> r" "r < 10"
  shows "(sec * 10000000 + usec * 10 + r) div 10000 = sec * 1000 + usec div 1000"
proof -
  have "(sec * 10000000 + usec * 10 + r) div 10 = (r + (sec * 1000000 + usec) * 10) div 10"
    by (simp add: algebra_simps)
  also have "\<dots> = sec * 1000000 + usec" using assms by (subst div_mult_self1) simp_all
  finally have "(sec * 10000000 + usec * 10 + r) div 10 div 1000 = (usec + sec * 1000 * 1000) div 1000"
    by (simp add: algebra_simps)
  also have "\<dots> = sec * 1000 + usec div 1000" by (subst div_mult_self1) simp_all
  finally show ?thesis by (simp add: zdiv_zmult2_eq [of 1000 _ 10, simplified])
qed

text \<open>C20: the two branches of \<open>GetUtcTime\<close> agree: when the file time of Windows and the time of day of POSIX
  name the same instant after 1970, both are the same number of milliseconds.\<close>

theorem utc_time_agrees:
  assumes "gettimeofday C = Some (sec, usec)" "0 \<le> sec" "0 \<le> usec" "usec < 1000000" "0 \<le> r" "r < 10"
    and "filetime W = 116444736000000000 + sec * 10000000 + usec * 10 + r"
  shows "GetUtcTime_win W = GetUtcTime C"
proof -
  obtain lo hi where W: "GetSystemTimeAsFileTime W = (lo, hi)" by fastforce
  define t :: "64 word" where "t = ucast lo OR push_bit 32 (ucast hi)"
  have t: "uint t = 116444736000000000 + (sec * 10000000 + usec * 10 + r)"
    using assms(7) by (simp add: t_def filetime_def W join_words)
  then have b: "sec * 10000000 + usec * 10 + r < 18446744073709551616"
    using uint_bounded [of t] by simp
  have "uint (GetUtcTime_win W) = (sec * 10000000 + usec * 10 + r) div 10000"
    using file_time_ms [OF t] assms(2,3,5) by (simp add: GetUtcTime_win_def W t_def)
  also have "\<dots> = sec * 1000 + usec div 1000" by (rule hundred_ns_to_ms [OF assms(5,6)])
  finally have win: "uint (GetUtcTime_win W) = sec * 1000 + usec div 1000" .
  have "uint (word_of_int usec div (1000 :: 64 word)) = usec div 1000"
    using assms(3,4) by (simp add: uint_div_distrib uint_word_of_int take_bit_int_eq_self)
  moreover have "uint (word_of_int sec * (1000 :: 64 word)) = sec * 1000"
    using assms(2,3) b \<open>0 \<le> r\<close> by (simp only: uint_word_ariths uint_word_of_int) (simp add: take_bit_int_eq_self)
  ultimately have "uint (GetUtcTime C) = sec * 1000 + usec div 1000"
    using assms(1-4) b \<open>0 \<le> r\<close> by (simp add: GetUtcTime_def uint_plus_if')
  with win show ?thesis by (simp add: word_uint_eq_iff)
qed

theorem utc_time_agrees_witness:
  "GetUtcTime_win \<lparr>GetTickCount = 0, GetTickCount64 = 0, QueryPerformanceFrequency = 0, QueryPerformanceCounter = 0,
      GetSystemTimeAsFileTime = (3592643015, 27111902)\<rparr> =
   GetUtcTime \<lparr>gettimeofday = Some (1, 500000), time_0 = 0, clock_gettime = None\<rparr>"
  by (rule utc_time_agrees [where sec = 1 and usec = 500000 and r = 7]) (simp_all add: filetime_def)

lemma sint_of_nonneg: "\<lbrakk> 0 \<le> x; x < 2 ^ 63 \<rbrakk> \<Longrightarrow> sint (word_of_int x :: 64 word) = x"
  by (simp add: sint_sbintrunc' signed_take_bit_int_eq_self)

lemma perf_init:
  assumes "1000 \<le> sint (QueryPerformanceFrequency W)"
  defines "P \<equiv> InitMonotonicTimer W \<lparr>PerfFreq = 0, PerfFreqInit = False\<rparr>"
    and "q \<equiv> sint (QueryPerformanceFrequency W) div 1000"
  shows "PerfFreq P = word_of_int q" "sint (PerfFreq P) = q" "PerfFreq P \<noteq> 0" "0 < q"
proof -
  have q: "0 < q" "q < 2 ^ 63" using assms(1) sint_lt [of "QueryPerformanceFrequency W"] by (simp_all add: q_def)
  show f: "PerfFreq P = word_of_int q"
    using assms(1) by (simp add: P_def q_def InitMonotonicTimer_def c_quot_nonneg)
  show s: "sint (PerfFreq P) = q" using q by (simp add: f sint_of_nonneg)
  show "PerfFreq P \<noteq> 0" "0 < q" using s q by auto
qed

lemma perf_delta:
  assumes "sint (PerfFreq P) = q" "PerfFreq P \<noteq> 0" "0 < q" "0 \<le> x" "x < 2 ^ 63"
  shows "GetMonotonicDelta_perf P s (s + word_of_int x) = Some (word_of_int (x div q))"
    "sint (word_of_int (x div q) :: 64 word) = x div q"
proof -
  show "GetMonotonicDelta_perf P s (s + word_of_int x) = Some (word_of_int (x div q))"
    using assms by (simp add: GetMonotonicDelta_perf_def U64Delta_minus sint_of_nonneg c_quot_nonneg)
  have "x div q \<le> x div 1" using assms by (intro zdiv_mono2) simp_all
  then show "sint (word_of_int (x div q) :: 64 word) = x div q"
    using assms by (intro sint_of_nonneg) (simp_all add: pos_imp_zdiv_nonneg_iff)
qed

text \<open>C19: with the performance counter, a time of \<open>n\<close> ticks is \<open>n div q\<close> milliseconds, where \<open>q\<close> is the
  number of whole ticks in a millisecond: never less than the true time, and exactly the true time
  when the frequency is a multiple of 1000. Adding milliseconds to a time stamp is undone by the
  difference.\<close>

theorem perf_counter_ms:
  assumes freq: "1000 \<le> sint (QueryPerformanceFrequency W)" and n: "0 \<le> n" "n < 2 ^ 63"
    and ms: "0 \<le> ms" "ms * (sint (QueryPerformanceFrequency W) div 1000) < 2 ^ 63"
  defines "P \<equiv> InitMonotonicTimer W \<lparr>PerfFreq = 0, PerfFreqInit = False\<rparr>"
    and "f \<equiv> sint (QueryPerformanceFrequency W)"
  shows "\<exists>d. GetMonotonicDelta_perf P s (s + word_of_int n) = Some d \<and> sint d = n div (f div 1000) \<and>
      n * 1000 div f \<le> sint d \<and> (1000 dvd f \<longrightarrow> sint d = n * 1000 div f) \<and>
    GetMonotonicDelta_perf P s (IncMonotonic_perf P s (word_of_int ms)) = Some (word_of_int ms)"
proof -
  let ?q = "f div 1000"
  note P = perf_init [OF freq, folded P_def f_def]
  have q: "0 < ?q" "?q * 1000 \<le> f" using P(4) by simp_all
  have "n * 1000 div f \<le> n * 1000 div (?q * 1000)" using n(1) q by (intro zdiv_mono2) simp_all
  then have le: "n * 1000 div f \<le> n div ?q" by simp
  have exact: "n div ?q = n * 1000 div f" if "1000 dvd f"
  proof -
    have "n * 1000 div (?q * 1000) = n div ?q" by simp
    with that show ?thesis by simp
  qed
  have inc: "IncMonotonic_perf P s (word_of_int ms) = s + word_of_int (ms * ?q)"
    by (simp add: IncMonotonic_perf_def P(1))
  have "ms * ?q div ?q = ms" using q(1) by simp
  then have undone: "GetMonotonicDelta_perf P s (IncMonotonic_perf P s (word_of_int ms)) = Some (word_of_int ms)"
    using perf_delta(1) [OF P(2,3,4), where x = "ms * ?q" and s = s] ms q(1) by (simp add: inc f_def)
  note d = perf_delta [OF P(2,3,4) n]
  show ?thesis
    using d(1) [of s] d(2) le exact undone by (intro exI [of _ "word_of_int (n div ?q)"] conjI impI) simp_all
qed

theorem perf_counter_ms_witness:
  "\<exists>d. GetMonotonicDelta_perf \<lparr>PerfFreq = 3579, PerfFreqInit = True\<rparr> 100 (100 + 3579545) = Some d \<and> sint d = 1000"
proof -
  let ?W = "\<lparr>GetTickCount = 0, GetTickCount64 = 0, QueryPerformanceFrequency = 3579545, QueryPerformanceCounter = 0,
      GetSystemTimeAsFileTime = (0, 0)\<rparr>"
  have f: "sint (3579545 :: 64 word) = 3579545" using sint_of_nonneg [of 3579545] by simp
  have "InitMonotonicTimer ?W \<lparr>PerfFreq = 0, PerfFreqInit = False\<rparr> = \<lparr>PerfFreq = 3579, PerfFreqInit = True\<rparr>"
    by (simp add: InitMonotonicTimer_def f c_quot_nonneg)
  then show ?thesis using perf_counter_ms [of ?W 3579545 7 100] by (auto simp: f)
qed

subsection \<open>Descriptors\<close>

text \<open>A \<open>SOCKET\<close> is an unsigned number of the size of a pointer. It is pushed as a number when the number
  type of Lua holds it exactly, and as a light userdata otherwise: an integer of Lua 5.3
  (\<open>lua53\<close>), a double, or a float (\<open>single\<close>).\<close>

definition luazmq_push_os_socket_win :: "bool \<Rightarrow> bool \<Rightarrow> 64 word \<Rightarrow> ('z, 'm) lua \<Rightarrow> ('z, 'm) lua" where
  "luazmq_push_os_socket_win lua53 single fd L =
     (if lua53 then pushinteger (sint fd) L
      else if \<not> single then
        (if fd AND 0x1FFFFFFFFFFFFF = fd then pushnumber (uint fd) L else push (LLight (unat fd)) L)
      else
        (if fd AND 0xFFFFFF = fd then pushnumber (uint fd) L else push (LLight (unat fd)) L))"

definition luazmq_check_os_socket_win ::
    "('z, 'm) env \<Rightarrow> ('z, 'm) lua \<Rightarrow> int \<Rightarrow> string \<Rightarrow> lua_error + 64 word" where
  "luazmq_check_os_socket_win E L idx msg = (case lua_at L idx of
     LLight p \<Rightarrow> Inr (of_nat p)
   | v \<Rightarrow> (case tonumber E v of None \<Rightarrow> Inl (TypeError idx msg)
           | Some q \<Rightarrow> Inr (word_of_int (lua_tointeger q))))"

lemma masked_bound:
  fixes fd :: "64 word"
  assumes "fd AND mask n = fd" "n \<le> 53"
  shows "uint fd < 2 ^ 53"
proof -
  have "uint fd = take_bit n (uint fd)"
    using assms(1) by (metis take_bit_eq_mask unsigned_take_bit_eq)
  also have "\<dots> < 2 ^ n" by simp
  also have "\<dots> \<le> 2 ^ 53" using assms(2) by (intro power_increasing) simp_all
  finally show ?thesis .
qed

text \<open>C23: on Windows, too, every descriptor that is given to a script comes back unchanged, whatever the
  number type of Lua.\<close>

theorem os_socket_win_roundtrip:
  "luazmq_check_os_socket_win E (luazmq_push_os_socket_win lua53 single fd L) (- 1) msg = Inr fd"
proof -
  have n: "luazmq_check_os_socket_win E (pushnumber (uint fd) L) (- 1) msg = Inr fd" if "uint fd < 2 ^ 53"
    using that tointeger_of_int [of "uint fd"] uint_nonnegative [of fd]
    by (simp add: luazmq_check_os_socket_win_def pushnumber_def int_to_num_exact)
  have l: "luazmq_check_os_socket_win E (push (LLight (unat fd)) L) (- 1) msg = Inr fd"
    by (simp add: luazmq_check_os_socket_win_def)
  have i: "luazmq_check_os_socket_win E (pushinteger (sint fd) L) (- 1) msg = Inr fd"
    using sint_ge [of fd] sint_lt [of fd] tointeger_of_int [of "sint fd"]
    by (simp add: luazmq_check_os_socket_win_def)
  have m: "mask 53 = (0x1FFFFFFFFFFFFF :: 64 word)" "mask 24 = (0xFFFFFF :: 64 word)"
    by (simp_all add: mask_eq_exp_minus_1)
  show ?thesis
    using n l i masked_bound [of fd 53] masked_bound [of fd 24] by (simp add: luazmq_push_os_socket_win_def m)
qed

end
