(* ===== verification/ZSocketSpec.thy ===== *)
theory ZSocketSpec
  imports ZSocketIO
begin

text \<open>
  What the methods of \<open>ZSocketIO\<close> do, against reference definitions over lists: endpoints are
  tried in order up to the first failure, a multipart message is its parts with \<open>ZMQ_SNDMORE\<close>
  on all but the last, and receiving collects the parts that libzmq delivers.
\<close>

subsection \<open>An open socket\<close>

definition skt_ready :: "('z, 'm) lua \<Rightarrow> nat \<Rightarrow> bool" where
  "skt_ready L k \<longleftrightarrow> \<not> has_flag (zs_flags (zskts L k)) LUAZMQ_FLAG_CLOSED \<and>
     \<not> has_flag (zs_flags (zskts L k)) LUAZMQ_FLAG_CLOSE_ON_ETERM"

lemma ready_getsocket: "\<lbrakk> skt_ready L k; lua_at L i = LUser USocket k \<rbrakk> \<Longrightarrow> luazmq_getsocket_at L i = Inr k"
  by (simp add: skt_ready_def getsocket_open)

lemma ready_fail [simp]:
  "skt_ready L k \<Longrightarrow> luazmq_fail E (Some k) L = Inr (err_push E (zmq_errno E (zst L)) (push LNil L))"
  "skt_ready L k \<Longrightarrow> fail_ret E (Some k) L = Ret 2 (err_push E (zmq_errno E (zst L)) (push LNil L))"
  by (simp_all add: skt_ready_def no_eterm_close_def luazmq_fail_plain fail_ret_plain)

lemma skt_ready_fields [simp]:
  "skt_ready (push v L) k = skt_ready L k" "skt_ready (L\<lparr>zst := z\<rparr>) k = skt_ready L k"
  "skt_ready (L\<lparr>stk := s\<rparr>) k = skt_ready L k" "skt_ready (lua_settop n L) k = skt_ready L k"
  by (simp_all add: skt_ready_def)

lemma demo_ready: "skt_ready (demo_state args) k"
  by (simp add: skt_ready_def)

subsection \<open>Endpoints\<close>

text \<open>Trying endpoints in order: the state of libzmq, and the endpoint that failed.\<close>

fun try_endpoints :: "(string \<Rightarrow> 'z \<Rightarrow> int \<times> 'z) \<Rightarrow> string list \<Rightarrow> 'z \<Rightarrow> 'z \<times> string option" where
  "try_endpoints op [] z = (z, None)"
| "try_endpoints op (a # as) z = (case op a z of (ret, z') \<Rightarrow>
     if ret = -1 then (z', Some a) else try_endpoints op as z')"

definition endpoints_result ::
    "('z, 'm) env \<Rightarrow> (nat \<Rightarrow> string \<Rightarrow> 'z \<Rightarrow> int \<times> 'z) \<Rightarrow> string list \<Rightarrow> nat \<Rightarrow> ('z, 'm) lua
       \<Rightarrow> ('z, 'm) lua outcome" where
  "endpoints_result E op ss k L =
     (case try_endpoints (op (zs_skt (zskts L k))) (map c_str ss) (zst L) of
        (z, None) \<Rightarrow> Ret 1 (push (LBool True) (L\<lparr>zst := z\<rparr>))
      | (z, Some a) \<Rightarrow> Ret 3 (push (LStr a) (err_push E (zmq_errno E z) (push LNil (L\<lparr>zst := z\<rparr>)))))"

lemma endpoint_loop_eq:
  "skt_ready L k \<Longrightarrow> endpoint_loop E op k (map LStr ss) L = endpoints_result E op ss k L"
proof (induction ss arbitrary: L)
  case (Cons s ss)
  show ?case
    using Cons.IH [of "L\<lparr>zst := snd (op (zs_skt (zskts L k)) (c_str s) (zst L))\<rparr>"] Cons.prems
    by (auto simp: endpoints_result_def checkstring_str Let_def split: prod.split option.split)
qed (simp add: endpoints_result_def luazmq_pass_def)

lemma method_1_table:
  assumes "skt_ready L k" "stk L = [LUser USocket k, LTable (map LStr ss) h]"
  shows "skt_method_1 E op L = endpoints_result E op ss k L"
  using assms endpoint_loop_eq [of L k E op ss]
  by (simp add: skt_method_1_def ready_getsocket lua_at_args)

text \<open>C28: with a table of endpoints, \<open>bind\<close>, \<open>unbind\<close>, \<open>connect\<close> and \<open>disconnect\<close> try them in
  order and return true; the first failure ends the call with nil, the error and the endpoint,
  and the endpoints after it are not tried.\<close>

theorem endpoint_tables:
  assumes "skt_ready L k" "stk L = [LUser USocket k, LTable (map LStr ss) h]"
  shows "luazmq_skt_bind E L = endpoints_result E (zmq_bind E) ss k L \<and>
    luazmq_skt_unbind E L = endpoints_result E (zmq_unbind E) ss k L \<and>
    luazmq_skt_connect E L = endpoints_result E (zmq_connect E) ss k L \<and>
    luazmq_skt_disconnect E L = endpoints_result E (zmq_disconnect E) ss k L"
  by (simp add: luazmq_skt_bind_def luazmq_skt_unbind_def luazmq_skt_connect_def luazmq_skt_disconnect_def
      method_1_table [OF assms])

text \<open>A library that counts the calls and knows two bad endpoints.\<close>

definition busy_env :: "(nat, string) env" where
  "busy_env = stub_env\<lparr>zmq_bind := \<lambda>s a z. (if a = ''b'' then -1 else 0, z + 1),
     zmq_errno := \<lambda>z. 98\<rparr>"

theorem endpoint_tables_witness:
  "\<exists>L'. luazmq_skt_bind busy_env (demo_state [LUser USocket 0, LTable [LStr ''a'', LStr ''b'', LStr ''c''] []]) =
      Ret 3 L' \<and> results 3 L' = [LNil, LNum 98, LStr ''b''] \<and> zst L' = 2"
  using endpoint_tables [OF demo_ready, of "[LUser USocket 0, LTable [LStr ''a'', LStr ''b'', LStr ''c''] []]" 0
      "[''a'', ''b'', ''c'']" "[]" busy_env]
  by (simp add: endpoints_result_def busy_env_def c_str_def err_val_def numeral_3_eq_3)

subsection \<open>A random port\<close>

text \<open>The first port of a list that can be bound; an error other than a port in use ends the
  search.\<close>

definition port_taken :: "('z, 'm) env \<Rightarrow> 'z \<Rightarrow> bool" where
  "port_taken E z \<longleftrightarrow> zmq_errno E z = macro E ''EADDRINUSE'' \<or> zmq_errno E z = macro E ''EACCES''"

fun first_port :: "('z, 'm) env \<Rightarrow> nat \<Rightarrow> string \<Rightarrow> int list \<Rightarrow> 'z \<Rightarrow> 'z \<times> int option" where
  "first_port E s base [] z = (z, None)"
| "first_port E s base (p # ps) z = (case zmq_bind E s (c_str (port_address base p)) z of (ret, z') \<Rightarrow>
     if ret \<noteq> -1 then (z', Some p)
     else if port_taken E z' then first_port E s base ps z' else (z', None))"

lemma first_port_mem: "first_port E s base ps z = (z', Some p) \<Longrightarrow> p \<in> set ps"
  by (induction ps arbitrary: z) (auto split: prod.splits if_splits)

lemma port_loop_eq:
  "skt_ready L k \<Longrightarrow> port_loop E k base p n L =
     (case first_port E (zs_skt (zskts L k)) base [p..min RANDOM_PORT_MAX (p + int n - 1)] (zst L) of
        (z, Some q) \<Rightarrow> Ret 1 (pushinteger q (L\<lparr>zst := z\<rparr>))
      | (z, None) \<Rightarrow> fail_ret E (Some k) (L\<lparr>zst := z\<rparr>))"
proof (induction n arbitrary: p L)
  case 0
  then show ?case by simp
next
  case (Suc n)
  show ?case
  proof (cases "RANDOM_PORT_MAX < p")
    case True
    then show ?thesis using Suc.prems by simp
  next
    case False
    then have "[p..min RANDOM_PORT_MAX (p + int (Suc n) - 1)] =
        p # [p + 1..min RANDOM_PORT_MAX (p + 1 + int n - 1)]"
      by (subst upto.simps) (simp add: ac_simps)
    with False Suc.IH [of "L\<lparr>zst := snd (zmq_bind E (zs_skt (zskts L k)) (c_str (port_address base p)) (zst L))\<rparr>" "p + 1"]
      Suc.prems show ?thesis
      by (auto simp: port_taken_def Let_def split: prod.split option.split)
  qed
qed

text \<open>The address of a port of the range fits the buffer of ten bytes more than the given
  address, the zero byte included.\<close>

lemma port_address_fits:
  assumes "0 < p" "p \<le> RANDOM_PORT_MAX"
  shows "length (port_address base p) + 1 \<le> length base + 10"
proof -
  have "nat p < 10 ^ Suc 4" using assms(2) by (simp add: RANDOM_PORT_MAX_def nat_less_iff)
  from length_show_nat [OF this] show ?thesis using assms(1) by (simp add: port_address_def show_int_def)
qed

text \<open>C29: \<open>bind_to_random_port\<close> binds the first port that is free, from the base port on, at most
  the given number of ports and never beyond 65535, and returns it; every address it builds fits
  the buffer allocated for it.\<close>

theorem random_port_first_free:
  assumes k: "skt_ready L k" and stk: "stk L = [LUser USocket k, LStr base, LNum (of_int b), LNum (of_int n)]"
    and b: "0 < b" "b \<le> RANDOM_PORT_MAX" and n: "0 < n" "n \<le> INT_MAX" and mem: "alloc_temp E (length base + 10)"
  defines "ports \<equiv> [b..min RANDOM_PORT_MAX (b + n - 1)]"
  shows "luazmq_skt_bind_to_random_port E L =
      (case first_port E (zs_skt (zskts L k)) base ports (zst L) of
         (z, Some p) \<Rightarrow> Ret 1 (push (LNum (of_int p)) (L\<lparr>zst := z\<rparr>))
       | (z, None) \<Rightarrow> Ret 2 (err_push E (zmq_errno E z) (push LNil (L\<lparr>zst := z\<rparr>)))) \<and>
    (\<forall>p \<in> set ports. length (port_address base p) + 1 \<le> length base + 10)"
proof -
  have i: "- 2147483648 \<le> b" "b \<le> 2147483647" "- 2147483648 \<le> n" "n \<le> 2147483647"
    using b n by (simp_all add: RANDOM_PORT_MAX_def INT_MAX_def)
  have "RANDOM_PORT_MAX - b + 1 \<le> INT_MAX" using b by (simp add: RANDOM_PORT_MAX_def INT_MAX_def)
  then have "luazmq_skt_bind_to_random_port E L = port_loop E k base b (nat n) L"
    using stk k b n mem i
    by (simp add: luazmq_skt_bind_to_random_port_def ready_getsocket lua_at_args checklstring_str optint_of_int)
  moreover have "length (port_address base p) + 1 \<le> length base + 10" if "p \<in> set ports" for p
    using that b by (intro port_address_fits) (auto simp: ports_def)
  ultimately show ?thesis
    using k n by (auto simp: port_loop_eq ports_def split: prod.split option.split)
qed

text \<open>Ports 5000 and 5001 are taken.\<close>

definition taken_env :: "(nat, string) env" where
  "taken_env = stub_env\<lparr>zmq_bind := \<lambda>s a z. (if z < 2 then -1 else 0, z + 1), zmq_errno := \<lambda>z. 98\<rparr>"

theorem random_port_first_free_witness:
  "luazmq_skt_bind_to_random_port taken_env
      (demo_state [LUser USocket 0, LStr ''tcp://*'', LNum 5000, LNum 10]) =
    Ret 1 (push (LNum 5002) ((demo_state [LUser USocket 0, LStr ''tcp://*'', LNum 5000, LNum 10])\<lparr>zst := 3\<rparr>))"
proof -
  have "[5000..min RANDOM_PORT_MAX (5000 + 10 - 1)] = 5000 # 5001 # 5002 # [5003..5009::int]"
    by (simp add: RANDOM_PORT_MAX_def upto_rec1)
  then show ?thesis
    using random_port_first_free [OF demo_ready, of "[LUser USocket 0, LStr ''tcp://*'', LNum 5000, LNum 10]" 0
        "''tcp://*''" 5000 10 taken_env]
    by (simp add: RANDOM_PORT_MAX_def INT_MAX_def alloc_temp_def taken_env_def port_taken_def stub_macro_def)
qed

subsection \<open>Sending several parts\<close>

text \<open>The flags of the parts of a message: more parts follow all but the last.\<close>

definition multipart :: "('z, 'm) env \<Rightarrow> int \<Rightarrow> string list \<Rightarrow> (string \<times> int) list" where
  "multipart E last_flag ss = zip ss (replicate (length ss - 1) (macro E ''ZMQ_SNDMORE'') @ [last_flag])"

text \<open>Sending parts in order: the position of the part that failed, and the state of libzmq.\<close>

fun send_parts ::
    "('z, 'm) env \<Rightarrow> nat \<Rightarrow> (string \<times> int) list \<Rightarrow> nat \<Rightarrow> 'z \<Rightarrow> ub + nat option \<times> 'z" where
  "send_parts E s [] i z = Inr (None, z)"
| "send_parts E s ((d, fl) # ps) i z = (case send_part E s d fl z of Inl u \<Rightarrow> Inl u
     | Inr (ret, z') \<Rightarrow> if ret = -1 then Inr (Some i, z') else send_parts E s ps (Suc i) z')"

lemma multipart_Cons [simp]:
  "multipart E fl [] = []"
  "multipart E fl (s # ss) =
     (s, if ss = [] then fl else macro E ''ZMQ_SNDMORE'') # multipart E fl ss"
  by (simp_all add: multipart_def) (cases ss; simp)

text \<open>A part always fits the message made for it.\<close>

lemma send_part_defined:
  assumes "zmq_messages E" shows "\<exists>r z'. send_part E s d fl z = Inr (r, z')"
proof -
  obtain r m z1 where i: "zmq_msg_init_size E (length d) z = (r, m, z1)" by (metis surj_pair)
  obtain m' where m': "msg_memcpy E m 0 d = Some m'"
    using msg_memcpy_data [OF assms, of 0 d m] zmq_messages_init_size [OF assms i] by auto
  obtain r2 m2 z2 where "zmq_msg_send E m' s fl z1 = (r2, m2, z2)" by (metis surj_pair)
  with i m' show ?thesis by (simp add: send_part_def case_prod_unfold Let_def)
qed

lemma send_parts_defined: "zmq_messages E \<Longrightarrow> \<exists>r z'. send_parts E s ps i z = Inr (r, z')"
proof (induction ps arbitrary: i z)
  case (Cons p ps)
  obtain d fl where p: "p = (d, fl)" by fastforce
  show ?case using send_part_defined [OF Cons.prems, of s d fl z] Cons.IH [OF Cons.prems] by (auto simp: p)
qed simp

text \<open>What a call that sends parts returns: true, or nil, the error and the position of the part
  that failed.\<close>

definition send_result ::
    "('z, 'm) env \<Rightarrow> nat \<Rightarrow> ub + nat option \<times> 'z \<Rightarrow> ('z, 'm) lua \<Rightarrow> ('z, 'm) lua outcome \<Rightarrow> bool" where
  "send_result E off r L out \<longleftrightarrow> (case r of Inl u \<Rightarrow> out = Abort u
     | Inr (None, z) \<Rightarrow> \<exists>L'. out = Ret 1 L' \<and> results 1 L' = [LBool True] \<and> zst L' = z
     | Inr (Some i, z) \<Rightarrow> \<exists>L'. out = Ret 3 L' \<and>
         results 3 L' = [LNil, err_val E (zmq_errno E z) L, LNum (of_nat (i + off))] \<and> zst L' = z)"

lemma err_val_zst [simp]: "err_val E err (L\<lparr>zst := z\<rparr>) = err_val E err L"
  by (simp add: err_val_def split: err_type.split)

lemma send_result_same [simp]:
  "send_result E off r (L\<lparr>zst := z\<rparr>) out = send_result E off r L out"
  "send_result E off r (push v L) out = send_result E off r L out"
  by (auto simp: send_result_def split: sum.split option.split)




text \<open>A library whose second send fails.\<close>

definition second_fails :: "(nat, string) env" where
  "second_fails = stub_env\<lparr>zmq_msg_send := \<lambda>m s f z. (if z = 1 then -1 else 0, [], z + 1)\<rparr>"

lemma second_fails_messages: "zmq_messages second_fails"
  using stub_messages(1) by (simp add: zmq_messages_def second_fails_def)


lemma rawgeti_nth: "i < length ss \<Longrightarrow> rawgeti (LTable (map LStr ss) h) (int i + 1) = Some (LStr (ss ! i))"
  by (simp add: nat_add_distrib)

lemma send_all_loop_eq:
  "\<lbrakk> skt_ready L k; i + m = length ss; int (length ss) < INT_MAX \<rbrakk> \<Longrightarrow>
     send_result E 0 (send_parts E (zs_skt (zskts L k)) (multipart E fl (drop i ss)) (Suc i) (zst L)) L
       (send_all_loop E k (LTable (map LStr ss) h) fl (int i + 1) m L)"
proof (induction m arbitrary: i L)
  case 0
  then show ?case by (simp add: send_result_def luazmq_pass_def)
next
  case (Suc m)
  then have i: "i < length ss" and d: "drop i ss = ss ! i # drop (Suc i) ss"
    by (simp_all add: Cons_nth_drop_Suc)
  let ?fl = "if m = 0 then fl else macro E ''ZMQ_SNDMORE''"
  have "drop (Suc i) ss = [] \<longleftrightarrow> m = 0" using Suc.prems(2) by auto
  then have mp: "multipart E fl (drop i ss) = (ss ! i, ?fl) # multipart E fl (drop (Suc i) ss)"
    by (simp only: d multipart_Cons)
  have ih: "send_result E 0 (send_parts E (zs_skt (zskts L k)) (multipart E fl (drop (Suc i) ss)) (Suc (Suc i)) z) L
      (send_all_loop E k (LTable (map LStr ss) h) fl (int i + 1 + 1) m (push v L\<lparr>zst := z\<rparr>))" for z v
    using Suc.IH [of "push v L\<lparr>zst := z\<rparr>" "Suc i"] Suc.prems by (simp add: ac_simps)
  have big: "int i + 1 \<noteq> INT_MAX" using Suc.prems(2,3) by simp
  note r = rawgeti_nth [OF i, of h]
  show ?case
  proof (cases "send_part E (zs_skt (zskts L k)) (ss ! i) ?fl (zst L)")
    case (Inl u)
    then show ?thesis using r by (simp add: mp checklstring_str send_result_def del: rawgeti.simps)
  next
    case (Inr rz)
    show ?thesis
    proof (cases "fst rz = -1")
      case True
      then show ?thesis using Inr r Suc.prems(1)
        by (cases rz) (simp add: mp checklstring_str send_result_def Let_def numeral_3_eq_3 del: rawgeti.simps)
    next
      case False
      then show ?thesis using Inr r Suc.prems(1) ih [of "snd rz" "LStr (ss ! i)"] big
        by (cases rz) (simp add: mp checklstring_str Let_def del: rawgeti.simps)
    qed
  qed
qed

lemma send_all_run:
  assumes "skt_ready L k" "stk L = [LUser USocket k, LTable (map LStr ss) h]" "int (length ss) < INT_MAX"
  shows "send_result E 0 (send_parts E (zs_skt (zskts L k)) (multipart E 0 ss) 1 (zst L)) L
    (luazmq_skt_send_all E L)"
proof -
  have n: "c_int (int (length ss)) = int (length ss)" using assms(3) by (simp add: c_int_id INT_MAX_def)
  have "luazmq_skt_send_all E L = send_all_loop E k (LTable (map LStr ss) h) 0 1 (length ss) L"
    using assms(1,2) by (simp add: luazmq_skt_send_all_def ready_getsocket lua_at_args lua_at_pos n)
  then show ?thesis using send_all_loop_eq [OF assms(1), of 0 "length ss" ss E 0 h] assms(3) by simp
qed

text \<open>C10: \<open>send_all(table)\<close> sends the strings of a table as the parts of one message, like
  \<open>sendx\<close>; a failure is reported with the index of the part in the table.\<close>

theorem send_all_parts:
  assumes "zmq_messages E" "skt_ready L k" "stk L = [LUser USocket k, LTable (map LStr ss) h]"
    and "int (length ss) < INT_MAX"
  shows "\<exists>r. send_parts E (zs_skt (zskts L k)) (multipart E 0 ss) 1 (zst L) = Inr r \<and>
      send_result E 0 (Inr r) L (luazmq_skt_send_all E L)"
  using send_parts_defined [OF assms(1), of "zs_skt (zskts L k)" "multipart E 0 ss" 1 "zst L"]
    send_all_run [OF assms(2-4), of E] by auto

theorem send_all_parts_witness:
  "\<exists>L'. luazmq_skt_send_all second_fails (demo_state [LUser USocket 0, LTable [LStr ''a'', LStr ''b'', LStr ''c''] []]) =
      Ret 3 L' \<and> results 3 L' = [LNil, LNum 11, LNum 2] \<and> zst L' = 2"
  using send_all_parts [OF second_fails_messages demo_ready,
      of "[LUser USocket 0, LTable [LStr ''a'', LStr ''b'', LStr ''c''] []]" 0 "[''a'', ''b'', ''c'']" "[]"]
  by (auto simp: second_fails_def send_part_def msg_memcpy_def send_result_def err_val_def INT_MAX_def)

text \<open>\<open>sendv(a, b, \<dots>)\<close> sends a single message, the concatenation of its arguments.\<close>

theorem sendv_concat:
  assumes laws: "zmq_messages E" "messages_available E" and k: "skt_ready L k"
    and stk: "stk L = LUser USocket k # map LStr ss"
  shows "\<exists>m z ret m' z'. zmq_msg_data E m = concat ss \<and>
    zmq_msg_send E m (zs_skt (zskts L k)) 0 z = (ret, m', z') \<and>
    (\<exists>n L'. luazmq_skt_sendv E L = Ret n L' \<and> zst L' = snd (snd (zmq_msg_close E m' z')) \<and>
       (ret \<noteq> -1 \<longrightarrow> results n L' = [LBool True]))"
proof -
  have cs: "check_strings E L 2 (lua_gettop L - 1) = Inr ss"
    using check_strings_all [of L "[LUser USocket k]" ss "[]" E] stk by (simp add: lua_gettop_def)
  obtain r m z where i: "(if total_size ss = 0 then zmq_msg_init E (zst L)
      else zmq_msg_init_size E (total_size ss) (zst L)) = (r, m, z)" by (metis surj_pair)
  have size: "total_size ss = zmq_msg_size E m" and ok: "r \<noteq> -1"
    using i zmq_messages_init_size [OF laws(1)] zmq_messages_init [OF laws(1)] available_init [OF laws(2)]
      available_init_size [OF laws(2)] zmq_messages_data_length [OF laws(1), of m]
    by (auto split: if_splits)
  obtain m1 where m1: "msg_fill E m 0 ss = Some m1" "zmq_msg_data E m1 = concat ss"
    using msg_fill_data [OF laws(1), of 0 ss m] size zmq_messages_data_length [OF laws(1), of m] by auto
  obtain ret m' z' where sent: "zmq_msg_send E m1 (zs_skt (zskts L k)) 0 z = (ret, m', z')" by (metis surj_pair)
  obtain a b w where cl: "zmq_msg_close E m' z' = (a, b, w)" by (metis surj_pair)
  show ?thesis
    using m1 sent ok i cs k stk cl
    by (intro exI [of _ m1] exI [of _ z] exI [of _ ret] exI [of _ m'] exI [of _ z'])
      (simp add: luazmq_skt_sendv_def luazmq_skt_sendv_impl_def ready_getsocket lua_at_args luazmq_pass_def Let_def)
qed

theorem sendv_concat_witness:
  "\<exists>n L'. luazmq_skt_sendv stub_env (demo_state [LUser USocket 0, LStr ''ab'', LStr ''c'']) = Ret n L' \<and>
     results n L' = [LBool True]"
  using sendv_concat [OF stub_messages demo_ready, of "[LUser USocket 0, LStr ''ab'', LStr ''c'']" 0 "[''ab'', ''c'']"]
  by auto

end
