(* ===== verification/ZReceiveSpec.thy ===== *)
theory ZReceiveSpec
  imports ZSocketSpec
begin

text \<open>
  Receiving: the parts libzmq delivers, as a relation between its states, and what
  \<open>recv_all\<close>, \<open>recvx\<close>, \<open>recv\<close>, \<open>recv_event\<close> and \<open>has_event\<close> make of them.
\<close>

subsection \<open>The parts that arrive\<close>

text \<open>One part: its bytes, whether more follow, and the state of libzmq; or the failure of
  \<open>zmq_msg_recv\<close> with the message that is still to be closed, or of \<open>zmq_msg_init\<close>.\<close>

definition recv_part ::
    "('z, 'm) env \<Rightarrow> nat \<Rightarrow> int \<Rightarrow> 'z \<Rightarrow> ('z \<times> 'm option) + (string \<times> bool \<times> 'z)" where
  "recv_part E s flags z = (case zmq_msg_init E z of (r, m, z1) \<Rightarrow>
     if r = -1 then Inl (z1, None)
     else (case zmq_msg_recv E m s flags z1 of (r, m, z2) \<Rightarrow>
       if r = -1 then Inl (z2, Some m)
       else (case zmq_msg_close E m z2 of (_, _, z3) \<Rightarrow> Inr (msg_string E m, zmq_msg_more E m, z3))))"

text \<open>\<open>incoming E s flags z ds cont z'\<close>: the next parts are \<open>ds\<close>; \<open>cont\<close> tells whether the last of
  them announced another one.\<close>

inductive incoming :: "('z, 'm) env \<Rightarrow> nat \<Rightarrow> int \<Rightarrow> 'z \<Rightarrow> string list \<Rightarrow> bool \<Rightarrow> 'z \<Rightarrow> bool"
  for E s flags where
  none: "incoming E s flags z [] True z"
| last_part: "recv_part E s flags z = Inr (d, False, z') \<Longrightarrow> incoming E s flags z [d] False z'"
| part: "\<lbrakk> recv_part E s flags z = Inr (d, True, z1); incoming E s flags z1 ds cont z' \<rbrakk> \<Longrightarrow>
    incoming E s flags z (d # ds) cont z'"

inductive_cases incomingE: "incoming E s flags z ds cont z'"

inductive_simps incoming_Nil: "incoming E s flags z [] cont z'"

lemma recv_all_loop_step:
  "recv_all_loop E k flags acc L = (case recv_part E (zs_skt (zskts L k)) flags (zst L) of
     Inr (d, True, z) \<Rightarrow> recv_all_loop E k flags (acc @ [LStr d]) (L\<lparr>zst := z\<rparr>)
   | Inr (d, False, z) \<Rightarrow> Some (Ret 1 (push (LTable (acc @ [LStr d]) []) (L\<lparr>zst := z\<rparr>)))
   | Inl (z, None) \<Rightarrow> Some (ub_bind (luazmq_fail E (Some k) (push (LTable acc []) (L\<lparr>zst := z\<rparr>)))
       (\<lambda>L. Ret 3 (push (LTable acc []) L)))
   | Inl (z, Some m) \<Rightarrow> Some (ub_bind (luazmq_fail E (Some k) (push (LTable acc []) (L\<lparr>zst := z\<rparr>))) (\<lambda>L.
       Ret 3 (push (LTable acc []) (L\<lparr>zst := snd (snd (zmq_msg_close E m (zst L)))\<rparr>)))))"
  by (subst recv_all_loop.simps)
    (simp add: recv_part_def Let_def case_prod_unfold split: option.split bool.split)

lemma recvx_loop_step:
  "recvx_loop E k flags i L = (case recv_part E (zs_skt (zskts L k)) flags (zst L) of
     Inr (d, True, z) \<Rightarrow> recvx_loop E k flags (Suc i) (push (LStr d) L\<lparr>zst := z\<rparr>)
   | Inr (d, False, z) \<Rightarrow> Some (Ret (Suc i) (push (LStr d) L\<lparr>zst := z\<rparr>))
   | Inl (z, None) \<Rightarrow> Some (ub_bind (luazmq_fail E (Some k) (L\<lparr>zst := z\<rparr>)) (recvx_error i))
   | Inl (z, Some m) \<Rightarrow> Some (ub_bind (luazmq_fail E (Some k)
       (L\<lparr>zst := snd (snd (zmq_msg_close E m z))\<rparr>)) (recvx_error i)))"
  by (subst recvx_loop.simps)
    (simp add: recv_part_def Let_def case_prod_unfold split: option.split bool.split)

lemma recv_all_incoming:
  "\<lbrakk> incoming E s flags z ds cont z'; zst L = z; zs_skt (zskts L k) = s \<rbrakk> \<Longrightarrow>
     recv_all_loop E k flags acc L =
       (if cont then recv_all_loop E k flags (acc @ map LStr ds) (L\<lparr>zst := z'\<rparr>)
        else Some (Ret 1 (push (LTable (acc @ map LStr ds) []) (L\<lparr>zst := z'\<rparr>))))"
proof (induction z ds cont z' arbitrary: acc L rule: incoming.induct)
  case (none z)
  then show ?case by auto
next
  case (last_part z d z')
  then show ?case by (subst recv_all_loop_step) simp
next
  case (part z d z1 ds cont z')
  show ?case
    using part.IH [of "L\<lparr>zst := z1\<rparr>" "acc @ [LStr d]"] part.hyps part.prems
    by (subst recv_all_loop_step) simp
qed

lemma recvx_incoming:
  "\<lbrakk> incoming E s flags z ds cont z'; zst L = z; zs_skt (zskts L k) = s \<rbrakk> \<Longrightarrow>
     recvx_loop E k flags i L =
       (if cont then recvx_loop E k flags (i + length ds) (L\<lparr>stk := stk L @ map LStr ds, zst := z'\<rparr>)
        else Some (Ret (i + length ds) (L\<lparr>stk := stk L @ map LStr ds, zst := z'\<rparr>)))"
proof (induction z ds cont z' arbitrary: i L rule: incoming.induct)
  case (none z)
  then show ?case by auto
next
  case (last_part z d z')
  then show ?case by (subst recvx_loop_step) (simp add: push_def)
next
  case (part z d z1 ds cont z')
  show ?case
    using part.IH [of "push (LStr d) L\<lparr>zst := z1\<rparr>" "Suc i"] part.hyps part.prems
    by (subst recvx_loop_step) (simp add: push_def)
qed

lemma recv_all_run:
  assumes "skt_ready L k" "stk L = [LUser USocket k]"
    and "incoming E (zs_skt (zskts L k)) 0 (zst L) ds False z'"
  shows "luazmq_skt_recv_all E L = Some (Ret 1 (push (LTable (map LStr ds) []) (L\<lparr>zst := z'\<rparr>)))"
  using assms recv_all_incoming [OF assms(3) refl refl]
  by (simp add: luazmq_skt_recv_all_def ready_getsocket lua_at_args)

lemma recvx_run:
  assumes "skt_ready L k" "stk L = [LUser USocket k]"
    and "incoming E (zs_skt (zskts L k)) 0 (zst L) ds False z'"
  shows "luazmq_skt_recvx E L = Some (Ret (length ds) (L\<lparr>stk := stk L @ map LStr ds, zst := z'\<rparr>))"
  using assms recvx_incoming [OF assms(3), of "lua_settop 1 L" k 0]
  by (simp add: luazmq_skt_recvx_def ready_getsocket lua_at_args lua_settop_def)

text \<open>C8: when libzmq delivers the parts of a message up to one without the flag that more
  follows, \<open>recv_all\<close> returns, with the table of exactly these parts in their order.\<close>

theorem recv_all_complete:
  assumes "skt_ready L k" "stk L = [LUser USocket k]"
    and "incoming E (zs_skt (zskts L k)) 0 (zst L) ds False z'"
  shows "luazmq_skt_recv_all E L = Some (Ret 1 (push (LTable (map LStr ds) []) (L\<lparr>zst := z'\<rparr>)))"
  by (rule recv_all_run [OF assms])

text \<open>C9: when libzmq delivers the parts of a message up to one without the flag that more follows,
  \<open>recvx\<close> returns, with exactly these parts as its results, in their order.\<close>

theorem recvx_complete:
  assumes "skt_ready L k" "stk L = [LUser USocket k]"
    and "incoming E (zs_skt (zskts L k)) 0 (zst L) ds False z'"
  shows "\<exists>L'. luazmq_skt_recvx E L = Some (Ret (length ds) L') \<and> results (length ds) L' = map LStr ds \<and>
    zst L' = z'"
  using recvx_run [OF assms] assms(2) by (simp add: results_def)

text \<open>C31: when a receive fails in the middle of a message, \<open>recv_all\<close> returns nil, the error and
  the table of the parts received so far.\<close>

theorem recv_all_partial:
  assumes "skt_ready L k" "stk L = [LUser USocket k]"
    and "incoming E (zs_skt (zskts L k)) 0 (zst L) ds True z1"
    and "recv_part E (zs_skt (zskts L k)) 0 z1 = Inl (z2, m)"
  shows "\<exists>L'. luazmq_skt_recv_all E L = Some (Ret 3 L') \<and>
    results 3 L' = [LNil, err_val E (zmq_errno E z2) L, LTable (map LStr ds) []]"
  using assms recv_all_incoming [OF assms(3) refl refl, of "[]"]
  by (cases m) (simp_all add: luazmq_skt_recv_all_def ready_getsocket lua_at_args recv_all_loop_step
      numeral_3_eq_3)

text \<open>The error \<open>recvx\<close> reports is read after the message has been closed.\<close>

definition closed_state :: "('z, 'm) env \<Rightarrow> 'z \<Rightarrow> 'm option \<Rightarrow> 'z" where
  "closed_state E z m = (case m of None \<Rightarrow> z | Some m \<Rightarrow> snd (snd (zmq_msg_close E m z)))"

lemma insert_first: "stk L = xs @ [x] \<Longrightarrow> stk (lua_insert 1 L) = x # xs"
  by (simp add: lua_insert_def lua_absindex_def Let_def)

text \<open>C32: when a receive fails in the middle of a message, \<open>recvx\<close> loses the last part it received
  and returns the socket instead: its
  results are nil, the error, the socket, and the parts but the last one.\<close>

theorem recvx_partial_wrong_order:
  assumes k: "skt_ready L k" "stk L = [LUser USocket k]"
    and parts: "incoming E (zs_skt (zskts L k)) 0 (zst L) (ds @ [d]) True z1"
    and fails: "recv_part E (zs_skt (zskts L k)) 0 z1 = Inl (z2, m)"
  shows "\<exists>L'. luazmq_skt_recvx E L = Some (Ret (length ds + 3) L') \<and>
    results (length ds + 3) L' =
      LNil # err_val E (zmq_errno E (closed_state E z2 m)) L # LUser USocket k # map LStr ds"
proof -
  let ?M = "L\<lparr>stk := LUser USocket k # map LStr (ds @ [d]), zst := closed_state E z2 m\<rparr>"
  let ?e = "zmq_errno E (closed_state E z2 m)"
  let ?F = "err_push E ?e (push LNil ?M)"
  have v: "err_val E ?e (L\<lparr>stk := x\<rparr>) = err_val E ?e L" for x by (simp add: err_val_def split: err_type.split)
  have "luazmq_skt_recvx E L = Some (recvx_error (length ds + 1) ?F)"
    using k recvx_incoming [OF parts, of "lua_settop 1 L" k 0] fails
    by (cases m) (simp_all add: luazmq_skt_recvx_def ready_getsocket lua_at_args lua_settop_def recvx_loop_step
        closed_state_def)
  moreover have "stk ((lua_insert 1 ^^ 3) ?F) =
      LStr d # LNil # err_val E ?e L # LUser USocket k # map LStr ds"
  proof -
    have "stk ?F = (LUser USocket k # map LStr (ds @ [d]) @ [LNil]) @ [err_val E ?e L]" by (simp add: v)
    from insert_first [OF this]
    have "stk (lua_insert 1 ?F) = (err_val E ?e L # LUser USocket k # map LStr (ds @ [d])) @ [LNil]" by simp
    from insert_first [OF this]
    have "stk (lua_insert 1 (lua_insert 1 ?F)) =
        (LNil # err_val E ?e L # LUser USocket k # map LStr ds) @ [LStr d]" by simp
    from insert_first [OF this] show ?thesis by (simp add: numeral_3_eq_3)
  qed
  ultimately show ?thesis by (simp add: recvx_error_def results_def)
qed

subsection \<open>A library with two parts to deliver\<close>

text \<open>The state of libzmq counts the parts received; from part \<open>n\<close> on, receiving fails.\<close>

definition parts_env :: "nat \<Rightarrow> (nat, string) env" where
  "parts_env n = stub_env\<lparr>zmq_msg_recv := \<lambda>m s f z. (if z < n then 1 else -1, if z = 0 then ''p'' else ''q'', z + 1),
     zmq_msg_more := \<lambda>m. m = ''p''\<rparr>"

lemma parts_recv: "recv_part (parts_env n) s f z =
    (let m = if z = 0 then ''p'' else ''q'' in
     if z < n then Inr (m, z = 0, z + 1) else Inl (z + 1, Some m))"
  by (simp add: recv_part_def parts_env_def msg_string_def)

lemma parts_err: "err_val (parts_env n) e L = LNum (of_int e)" "zmq_errno (parts_env n) z = 11"
  by (simp_all add: err_val_def parts_env_def)

lemma parts_incoming:
  "incoming (parts_env 2) 7 0 0 [''p'', ''q''] False 2"
  "incoming (parts_env 1) 7 0 0 ([] @ [''p'']) True 1"
  by (auto simp: parts_recv intro!: incoming.part [of _ _ _ _ _ 1] incoming.last_part incoming.none)

theorem recv_all_complete_witness:
  "luazmq_skt_recv_all (parts_env 2) (demo_state [LUser USocket 0]) =
     Some (Ret 1 (push (LTable [LStr ''p'', LStr ''q''] []) ((demo_state [LUser USocket 0])\<lparr>zst := 2\<rparr>)))"
  using recv_all_complete [OF demo_ready, of "[LUser USocket 0]" 0 "parts_env 2" "[''p'', ''q'']" 2]
    parts_incoming(1) by simp

theorem recvx_complete_witness:
  "\<exists>L'. luazmq_skt_recvx (parts_env 2) (demo_state [LUser USocket 0]) = Some (Ret 2 L') \<and>
     results 2 L' = [LStr ''p'', LStr ''q'']"
  using recvx_complete [OF demo_ready, of "[LUser USocket 0]" 0 "parts_env 2" "[''p'', ''q'']" 2]
    parts_incoming(1) by (auto simp: numeral_2_eq_2)

theorem recv_all_partial_witness:
  "\<exists>L'. luazmq_skt_recv_all (parts_env 1) (demo_state [LUser USocket 0]) = Some (Ret 3 L') \<and>
     results 3 L' = [LNil, LNum 11, LTable [LStr ''p''] []]"
  using recv_all_partial [OF demo_ready, of "[LUser USocket 0]" 0 "parts_env 1" "[''p'']" 1 2 "Some ''q''"]
    parts_incoming(2) by (auto simp: parts_recv parts_err)

theorem recvx_partial_wrong_order_witness:
  "\<exists>L'. luazmq_skt_recvx (parts_env 1) (demo_state [LUser USocket 0]) = Some (Ret 3 L') \<and>
     results 3 L' = [LNil, LNum 11, LUser USocket 0]"
  using recvx_partial_wrong_order [OF demo_ready, of "[LUser USocket 0]" 0 "parts_env 1" "[]" "''p''" 1 2 "Some ''q''"]
    parts_incoming(2) by (auto simp: parts_recv parts_err)

subsection \<open>The flag that more parts follow\<close>

text \<open>\<open>recv\<close> returns the bytes of the part and whether more parts follow, and until the next
  call on the socket \<open>skt:more()\<close> gives the same answer.\<close>

theorem recv_then_more:
  assumes k: "skt_ready L k" "stk L = [LUser USocket k]"
    and part: "recv_part E (zs_skt (zskts L k)) 0 (zst L) = Inr (d, b, z)"
  shows "\<exists>L'. luazmq_skt_recv E L = Ret 2 L' \<and> results 2 L' = [LStr d, LBool b] \<and> zst L' = z \<and>
    (\<exists>L''. luazmq_skt_more (L'\<lparr>stk := [LUser USocket k]\<rparr>) = Ret 1 L'' \<and> results 1 L'' = [LBool b])"
  using k part
  by (auto simp: recv_part_def luazmq_skt_recv_def luazmq_skt_more_def ready_getsocket lua_at_args Let_def
      set_more_def skt_ready_def getsocket_open results_def split: prod.splits if_splits)

theorem recv_then_more_witness:
  "\<exists>L'. luazmq_skt_recv (parts_env 2) (demo_state [LUser USocket 0]) = Ret 2 L' \<and>
     results 2 L' = [LStr ''p'', LBool True] \<and>
     (\<exists>L''. luazmq_skt_more (L'\<lparr>stk := [LUser USocket 0]\<rparr>) = Ret 1 L'' \<and> results 1 L'' = [LBool True])"
  using recv_then_more [OF demo_ready, of "[LUser USocket 0]" 0 "parts_env 2" "''p''" True 1]
  by (auto simp: parts_recv)

subsection \<open>Monitor events\<close>

text \<open>The first part of an event, as libzmq sends it: the number of the event in 16 bits, its
  value in 32 bits, least significant byte first.\<close>

fun le_bytes :: "nat \<Rightarrow> int \<Rightarrow> string" where
  "le_bytes 0 x = []"
| "le_bytes (Suc n) x = char_of x # le_bytes n (x div 256)"

lemma length_le_bytes [simp]: "length (le_bytes n x) = n"
  by (induction n arbitrary: x) auto

lemma le_value_bytes: "le_value (le_bytes n x) = x mod 256 ^ n"
  by (induction n arbitrary: x) (simp_all add: zmod_zmult2_eq)

lemma c_int_mod: "\<lbrakk> - 2147483648 \<le> x; x \<le> 2147483647 \<rbrakk> \<Longrightarrow> c_int (x mod 4294967296) = x"
proof -
  assume "- 2147483648 \<le> x" "x \<le> 2147483647"
  then have "c_int x = x" by (rule c_int_id)
  moreover have "x mod 4294967296 = take_bit 32 x" by (simp add: take_bit_eq_mod)
  ultimately show ?thesis by (simp add: c_int_def signed_take_bit_take_bit)
qed

text \<open>C30: \<open>recv_event\<close> decodes what libzmq encodes: for an event number of 16 bits and a value of
  32 bits sent as six bytes and an address sent as the second part, the results are the number,
  the value (negative values too) and the address.\<close>

theorem recv_event_roundtrip:
  assumes k: "skt_ready L k" "stk L = [LUser USocket k]" and laws: "zmq_messages E"
    and init: "zmq_msg_init E (zst L) = (r1, n1, y1)" "zmq_msg_init E y1 = (r2, n2, y2)"
    and first: "zmq_msg_recv E n1 (zs_skt (zskts L k)) 0 y2 = (c1, m1, y3)" "c1 \<noteq> -1" "zmq_msg_more E m1"
      "zmq_msg_data E m1 = le_bytes 2 event @ le_bytes 4 val"
    and second: "zmq_msg_recv E n2 (zs_skt (zskts L k)) 0 y3 = (c2, m2, y4)" "c2 \<noteq> -1" "\<not> zmq_msg_more E m2"
      "zmq_msg_data E m2 = address"
    and fits: "0 \<le> event" "event < 65536" "- 2147483648 \<le> val" "val \<le> 2147483647"
  shows "\<exists>L'. luazmq_skt_recv_event E L = Ret 3 L' \<and>
    results 3 L' = [LNum (of_int event), LNum (of_int val), LStr address]"
proof -
  have size: "zmq_msg_size E m1 = 6" using zmq_messages_data_length [OF laws, of m1] first(4) by simp
  have bytes: "take 2 (zmq_msg_data E m1) = le_bytes 2 event" "take 4 (drop 2 (zmq_msg_data E m1)) = le_bytes 4 val"
    by (simp_all add: first(4))
  have ev: "le_value (le_bytes 2 event) = event" "c_int (le_value (le_bytes 4 val)) = val"
    using fits by (simp_all add: le_value_bytes c_int_mod)
  have num: "int_to_num event = of_int event" "int_to_num val = of_int val"
    using fits by (auto intro!: int_to_num_exact)
  have addr: "msg_string E m2 = address"
    using zmq_messages_data_length [OF laws, of m2] second(4) by (simp add: msg_string_def)
  show ?thesis
    using k init first(1-3) second(1-3) size
    by (simp add: luazmq_skt_recv_event_def ready_getsocket lua_at_args Let_def bytes ev num addr results_def
        del: le_value.simps le_bytes.simps split: prod.split)
qed

definition event_env :: "(nat, string) env" where
  "event_env = stub_env\<lparr>zmq_msg_recv :=
       \<lambda>m s f z. (0, if z = 0 then le_bytes 2 32 @ le_bytes 4 (-5) else ''tcp://x'', z + 1),
     zmq_msg_more := \<lambda>m. length m = 6\<rparr>"

theorem recv_event_roundtrip_witness:
  "\<exists>L'. luazmq_skt_recv_event event_env (demo_state [LUser USocket 0]) = Ret 3 L' \<and>
     results 3 L' = [LNum 32, LNum (-5), LStr ''tcp://x'']"
proof -
  have "zmq_messages event_env" using stub_messages(1) by (simp add: zmq_messages_def event_env_def)
  from recv_event_roundtrip [OF demo_ready _ this, of "[LUser USocket 0]" 0 0 "[]" 0 0 "[]" 0 0
      "le_bytes 2 32 @ le_bytes 4 (-5)" 1 32 "-5" 0 "''tcp://x''" 2 "''tcp://x''"]
  show ?thesis by (simp add: event_env_def del: le_bytes.simps)
qed

subsection \<open>Events of a socket\<close>

lemma has_event_loop_eq:
  "\<lbrakk> stk L = pre @ map (\<lambda>e. LNum (of_int e)) evs; \<forall>e \<in> set evs. - 2147483648 \<le> e \<and> e \<le> 2147483647 \<rbrakk> \<Longrightarrow>
     \<exists>L'. has_event_loop E v (int (length pre) + 1) n (length evs) L = Ret n L' \<and>
       stk L' = pre @ map (\<lambda>e. LBool (v AND e \<noteq> 0)) evs"
proof (induction evs arbitrary: pre L)
  case (Cons e evs)
  let ?i = "int (length pre) + 1" and ?L = "lua_replace (int (length pre) + 1) (pushboolean (v AND e \<noteq> 0) L)"
  have "lua_at L ?i = LNum (of_int e)" using Cons.prems by (simp add: lua_at_pos nth_append)
  then have c: "luaL_checkint E L ?i = Inr e" using Cons.prems by (intro checkint_of_int) auto
  have "stk ?L = (pre @ [LBool (v AND e \<noteq> 0)]) @ map (\<lambda>e. LNum (of_int e)) evs"
    using Cons.prems(1) by (simp add: lua_replace_def lua_absindex_def Let_def nat_add_distrib list_update_append
        butlast_append)
  from Cons.IH [OF this] Cons.prems(2) c show ?case by (simp add: ac_simps)
qed simp

text \<open>\<open>skt:has_event(e1, e2, \<dots>)\<close> answers for each event whether it is among the events of the
  socket, in the order of the arguments.\<close>

theorem has_event_answers:
  assumes k: "skt_ready L k" "stk L = LUser USocket k # map (\<lambda>e. LNum (of_int e)) evs" "evs \<noteq> []"
    and evs: "\<forall>e \<in> set evs. - 2147483648 \<le> e \<and> e \<le> 2147483647"
    and got: "zmq_getsockopt E (zs_skt (zskts L k)) (macro E ''ZMQ_EVENTS'') (OInt 0) (zst L) = (ret, OInt v, z)"
      "ret \<noteq> -1"
  shows "\<exists>L'. luazmq_skt_has_event E L = Ret (length evs) L' \<and>
    results (length evs) L' = map (\<lambda>e. LBool (v AND e \<noteq> 0)) evs"
proof -
  obtain e es where e: "evs = e # es" using k(3) by (cases evs) auto
  have c: "luaL_checkint E (L\<lparr>zst := z\<rparr>) 2 = Inr e"
    using k(2) evs by (intro checkint_of_int) (auto simp: e lua_at_args)
  show ?thesis
    using has_event_loop_eq [of "L\<lparr>zst := z\<rparr>" "[LUser USocket k]" evs E v "length evs"] k evs got c
    by (auto simp: luazmq_skt_has_event_def ready_getsocket lua_at_args lua_gettop_def results_def Let_def)
qed

theorem has_event_answers_witness:
  "\<exists>L'. luazmq_skt_has_event (stub_env\<lparr>zmq_getsockopt := \<lambda>s op v z. (0, OInt 5, z)\<rparr>)
       (demo_state [LUser USocket 0, LNum (of_int 1), LNum (of_int 2)]) = Ret 2 L' \<and>
     results 2 L' = [LBool True, LBool False]"
  using has_event_answers [OF demo_ready, of "[LUser USocket 0, LNum (of_int 1), LNum (of_int 2)]" 0 "[1, 2]"
      "stub_env\<lparr>zmq_getsockopt := \<lambda>s op v z. (0, OInt 5, z)\<rparr>" 0 5 0]
  by (simp add: numeral_2_eq_2)

end
