(* ===== verification/ZTransport.thy ===== *)
theory ZTransport
  imports ZReceiveSpec
begin

text \<open>
  Sending and receiving together: what one socket sends with \<open>send_all\<close> or \<open>sendx\<close>, another one
  receives with \<open>recv_all\<close> or \<open>recvx\<close>, when libzmq carries parts from the one to the other. The two
  sockets may belong to different Lua states (of two threads, say); the state of libzmq is all they share.
\<close>

subsection \<open>A channel of libzmq\<close>



text \<open>A message on the channel.\<close>

definition in_flight :: "string list \<Rightarrow> (string \<times> bool) list" where
  "in_flight ss = zip ss (replicate (length ss - 1) True @ [False])"

lemma in_flight_Cons [simp]:
  "in_flight [] = []" "in_flight (s # ss) = (s, ss \<noteq> []) # in_flight ss"
  by (simp_all add: in_flight_def) (cases ss; simp)





subsection \<open>Sequences of messages\<close>













subsection \<open>What is sent is received\<close>










end
