(* ===== verification/ZOptionSpec.thy ===== *)
theory ZOptionSpec
  imports ZContext ZSocketSpec
begin

text \<open>
  Socket options: the three tables of \<open>zsocket.c\<close> describe the same options, each option is
  reachable under its method names and only there, and values survive being written and read.
\<close>

subsection \<open>The tables\<close>


lemma regs_of_defs: "skt_opt_regs = map (\<lambda>(g, a, n, opt, t). (g, a, n)) skt_opt_defs"
  unfolding skt_opt_regs_def skt_opt_defs_def map_append
  by (simp add: skt_opt_regs_1_def skt_opt_regs_2_def skt_opt_defs_1_def skt_opt_defs_2_def)

abbreviation opt_name :: "string \<times> access \<times> string \<times> string \<times> opt_type \<Rightarrow> string" where
  "opt_name \<equiv> \<lambda>(g, a, n, opt, t). n"

lemma distinct_opt_names: "distinct (map opt_name skt_opt_defs)"
  by (simp add: skt_opt_defs_def skt_opt_defs_1_def skt_opt_defs_2_def)

text \<open>No option and no base method has a name that begins like a setter or a getter, and no
  option has the name of a base method.\<close>

definition accessor :: "string \<Rightarrow> bool" where
  "accessor s \<longleftrightarrow> take 4 s = ''set_'' \<or> take 4 s = ''get_''"

lemma plain_opt_names: "list_all (\<lambda>n. \<not> accessor n) (map opt_name skt_opt_defs)"
  by (simp add: skt_opt_defs_def skt_opt_defs_1_def skt_opt_defs_2_def accessor_def)

lemma plain_base_names: "list_all (\<lambda>n. \<not> accessor n) (map fst (skt_base_methods E))"
  by (simp add: skt_base_methods_def accessor_def)

lemma opt_base_names: "list_all (\<lambda>n. n \<notin> set (map fst (skt_base_methods E))) (map opt_name skt_opt_defs)"
  by (simp add: skt_opt_defs_def skt_opt_defs_1_def skt_opt_defs_2_def skt_base_methods_def)

subsection \<open>Finding the methods of an option\<close>

text \<open>The methods of one row.\<close>

definition row_methods ::
    "('z, 'm) env \<Rightarrow> string \<times> access \<times> string \<times> string \<times> opt_type
       \<Rightarrow> (string \<times> (('z, 'm) lua \<Rightarrow> ('z, 'm) lua outcome)) list" where
  "row_methods E = (\<lambda>(g, a, n, opt, t).
     let getter = luazmq_skt_get_opt E t (macro E opt); setter = luazmq_skt_set_opt E t (macro E opt)
     in case a of RW \<Rightarrow> [(''set_'' @ n, setter), (''get_'' @ n, getter)]
        | RO \<Rightarrow> [(''get_'' @ n, getter), (n, getter)]
        | WO \<Rightarrow> [(''set_'' @ n, setter), (n, setter)])"

lemma find_distinct: "\<lbrakk> distinct (map f xs); x \<in> set xs \<rbrakk> \<Longrightarrow> find (\<lambda>y. f y = f x) xs = Some x"
  by (induction xs) (auto simp: image_iff)

lemma row_of_opt_methods:
  assumes "(g, a, n, opt, t) \<in> set skt_opt_defs"
  shows "opt_methods E a n = row_methods E (g, a, n, opt, t)"
proof -
  have "find (\<lambda>y. opt_name y = opt_name (g, a, n, opt, t)) skt_opt_defs = Some (g, a, n, opt, t)"
    by (rule find_distinct [OF distinct_opt_names assms])
  moreover have "(\<lambda>y. opt_name y = n) = (\<lambda>(g, b, m, opt, t). m = n)" by (auto simp: fun_eq_iff)
  ultimately show ?thesis by (simp add: opt_methods_def row_methods_def)
qed

lemma skt_opt_methods_rows:
  "skt_opt_methods E = concat (map (row_methods E) (filter (\<lambda>(g, a, n, opt, t). zmq_defined E g) skt_opt_defs))"
  by (auto simp: skt_opt_methods_def regs_of_defs filter_map comp_def case_prod_unfold
      intro!: arg_cong [where f = concat] map_cong row_of_opt_methods)

lemma map_of_concat_row:
  assumes "x \<in> set xs" "\<And>y. \<lbrakk> y \<in> set xs; k \<in> fst ` set (f y) \<rbrakk> \<Longrightarrow> f y = f x"
  shows "map_of (concat (map f xs)) k = map_of (f x) k"
  using assms
proof (induction xs)
  case (Cons y ys)
  show ?case
  proof (cases "x \<in> set ys")
    case True
    then have ih: "map_of (concat (map f ys)) k = map_of (f x) k" using Cons by auto
    show ?thesis
    proof (cases "k \<in> fst ` set (f y)")
      case True
      then have "f y = f x" using Cons.prems(2) by simp
      then show ?thesis using ih by (cases "map_of (f x) k") (simp_all add: map_add_def)
    next
      case False
      then have "map_of (f y) k = None" by (simp add: map_of_eq_None_iff)
      then show ?thesis using ih by (simp add: map_add_def split: option.split)
    qed
  next
    case False
    then have x: "y = x" using Cons.prems(1) by simp
    show ?thesis
    proof (cases "k \<in> fst ` set (f x)")
      case True
      then obtain v where "map_of (f x) k = Some v" by (metis map_of_eq_None_iff not_Some_eq)
      then show ?thesis by (simp add: x map_add_def)
    next
      case False
      then have "k \<notin> fst ` set (concat (map f ys))" using Cons.prems(2) by force
      then have "map_of (concat (map f ys)) k = None" by (simp only: map_of_eq_None_iff not_False_eq_True)
      then show ?thesis by (simp add: x map_add_def split: option.split)
    qed
  qed
qed simp

lemma row_names_unique:
  assumes x: "(g, a, n, opt, t) \<in> set skt_opt_defs" and y: "y \<in> set skt_opt_defs"
    and k: "k = ''set_'' @ n \<or> k = ''get_'' @ n \<or> k = n" "k \<in> fst ` set (row_methods E y)"
  shows "y = (g, a, n, opt, t)"
proof -
  obtain g' a' n' opt' t' where y': "y = (g', a', n', opt', t')" by (cases y) auto
  have "\<not> accessor n" "\<not> accessor n'"
    using plain_opt_names x y by (auto simp: y' list_all_iff)
  then have "n' = n"
    using k by (cases a') (auto simp: y' row_methods_def Let_def accessor_def)
  then show ?thesis using x y distinct_opt_names by (auto simp: y' distinct_map inj_on_def)
qed

lemma option_lookup:
  assumes x: "(g, a, n, opt, t) \<in> set skt_opt_defs" "zmq_defined E g"
    and k: "k = ''set_'' @ n \<or> k = ''get_'' @ n \<or> k = n"
  shows "map_of (skt_base_methods E @ skt_opt_methods E) k = map_of (row_methods E (g, a, n, opt, t)) k"
proof -
  have "n \<notin> set (map fst (skt_base_methods E))"
    using opt_base_names [of E] x(1) by (auto simp: list_all_iff)
  moreover have "\<not> accessor m" if "m \<in> set (map fst (skt_base_methods E))" for m
    using plain_base_names [of E] that unfolding list_all_iff by blast
  moreover have "accessor (''set_'' @ n)" "accessor (''get_'' @ n)" by (simp_all add: accessor_def)
  ultimately have "k \<notin> fst ` set (skt_base_methods E)"
    using k by (metis list.set_map)
  then have "map_of (skt_base_methods E) k = None" by (simp only: map_of_eq_None_iff not_False_eq_True)
  moreover have "map_of (skt_opt_methods E) k = map_of (row_methods E (g, a, n, opt, t)) k"
    unfolding skt_opt_methods_rows
  proof (rule map_of_concat_row)
    show "(g, a, n, opt, t) \<in> set (filter (\<lambda>(g, a, n, opt, t). zmq_defined E g) skt_opt_defs)" using x by simp
  next
    fix y
    assume "y \<in> set (filter (\<lambda>(g, a, n, opt, t). zmq_defined E g) skt_opt_defs)"
      and "k \<in> fst ` set (row_methods E y)"
    then have "y = (g, a, n, opt, t)" by (intro row_names_unique [OF x(1) _ k]) simp_all
    then show "row_methods E y = row_methods E (g, a, n, opt, t)" by simp
  qed
  ultimately show ?thesis by (simp add: map_add_def split: option.split)
qed

text \<open>C21: a socket has \<open>set_x\<close> for every option \<open>x\<close> that can be written and \<open>get_x\<close> for every
  option that can be read, and no other accessor; each calls the function of the option's type
  with the option's number. The short name \<open>x\<close> is the getter or the setter of an option that has
  only one of them.\<close>

theorem option_methods_found:
  assumes "(g, a, n, opt, t) \<in> set skt_opt_defs" "zmq_defined E g"
  defines "meth \<equiv> map_of (skt_base_methods E @ skt_opt_methods E)"
    and "getter \<equiv> luazmq_skt_get_opt E t (macro E opt)" and "setter \<equiv> luazmq_skt_set_opt E t (macro E opt)"
  shows "meth (''set_'' @ n) = (if a = RO then None else Some setter) \<and>
    meth (''get_'' @ n) = (if a = WO then None else Some getter) \<and>
    meth n = (case a of RW \<Rightarrow> None | RO \<Rightarrow> Some getter | WO \<Rightarrow> Some setter)"
proof -
  have "\<not> accessor n" using plain_opt_names assms(1) by (auto simp: list_all_iff)
  then have "n \<noteq> ''set_'' @ n" "n \<noteq> ''get_'' @ n" by (auto simp: accessor_def)
  then show ?thesis
    unfolding meth_def getter_def setter_def
    by (simp only: option_lookup [OF assms(1,2)] simp_thms) (cases a; simp add: row_methods_def Let_def)
qed

theorem option_methods_found_witness:
  "map_of (skt_base_methods stub_env @ skt_opt_methods stub_env) ''set_linger'' =
     Some (luazmq_skt_set_int stub_env 17) \<and>
   map_of (skt_base_methods stub_env @ skt_opt_methods stub_env) ''set_rcvmore'' = None"
  using option_methods_found [of "''ZMQ_LINGER''" RW "''linger''" "''ZMQ_LINGER''" T_int stub_env]
    option_methods_found [of "''ZMQ_RCVMORE''" RO "''rcvmore''" "''ZMQ_RCVMORE''" T_int stub_env]
  by (simp add: skt_opt_defs_def skt_opt_defs_1_def luazmq_skt_set_opt_def stub_macro_def
      del: map_of_append map_of.simps)

subsection \<open>The values of options\<close>

text \<open>The Lua values that an option of each type can hold exactly, and what libzmq is given for
  them. The 64-bit types are limited by the precision of a Lua number.\<close>

fun represents :: "opt_type \<Rightarrow> lval \<Rightarrow> optval \<Rightarrow> bool" where
  "represents T_int v (OInt x) \<longleftrightarrow> v = LNum (of_int x) \<and> - 2147483648 \<le> x \<and> x \<le> 2147483647"
| "represents T_i64 v (OI64 x) \<longleftrightarrow> v = LNum (of_int x) \<and> \<bar>x\<bar> < 2 ^ 53"
| "represents T_u64 v (OU64 x) \<longleftrightarrow> v = LNum (of_int x) \<and> 0 \<le> x \<and> x < 2 ^ 53"
| "represents T_str v (OBytes s) \<longleftrightarrow> v = LStr s"
| "represents T_str_arr v (OBytes s) \<longleftrightarrow> v = LStr s"
| "represents T_fdt v (OFd x) \<longleftrightarrow> v = LNum (of_int x) \<and> - 2147483648 \<le> x \<and> x \<le> 2147483647"
| "represents t v b \<longleftrightarrow> False"


lemma set_opt_passes:
  assumes k: "luazmq_getsocket_at L 1 = Inr k" and v: "lua_at L 2 = v" and r: "represents t v b"
  shows "luazmq_skt_set_opt E t opt L = skt_setopt E k opt b L"
proof -
  have "sint (word_of_int x :: 64 word) = x" if "\<bar>x\<bar> < 2 ^ 53" for x :: int
    using that by (simp add: sint_sbintrunc' signed_take_bit_int_eq_self)
  moreover have "uint (word_of_int x :: 64 word) = x" if "0 \<le> x" "x < 2 ^ 53" for x :: int
    using that by (simp add: uint_word_of_int take_bit_int_eq_self)
  ultimately show ?thesis
    using r k v
    by (cases "(t, v, b)" rule: represents.cases)
      (auto simp: luazmq_skt_set_opt_def luazmq_skt_set_int_def luazmq_skt_set_i64_def
        luazmq_skt_set_u64_def luazmq_skt_set_str_def luazmq_skt_set_str_arr_def luazmq_skt_set_fdt_def
        checkint_of_int checklstring_str luaL_checknumber_def num_to_i64_def num_to_u64_def
        luazmq_check_os_socket_def c_arith)
qed



text \<open>A libzmq that keeps the value of one integer option.\<close>

definition option_env :: "(nat, string) env" where
  "option_env = stub_env\<lparr>zmq_setsockopt := (\<lambda>s o' v z. (0, nat (opt_int v))),
     zmq_getsockopt := (\<lambda>s o' v z. (0, OInt (int z), z))\<rparr>"


text \<open>\<open>setopt_int(option, value)\<close> never looks at its second argument: whatever is passed, libzmq is
  given the number of the option as the value. (\<open>setopt_i64\<close>, \<open>setopt_u64\<close> and \<open>setopt_str\<close> are written the
  same way.)\<close>

theorem setopt_int_ignores_value:
  assumes stk: "stk L = LUser USocket k # LNum (of_int opt) # vs"
    and "open'": "\<not> has_flag (zs_flags (zskts L k)) LUAZMQ_FLAG_CLOSED"
    and opt: "- 2147483648 \<le> opt" "opt \<le> 2147483647"
  shows "luazmq_skt_setopt_int E L = skt_setopt E k opt (OInt opt) L"
proof -
  have "luazmq_getsocket_at L 1 = Inr k" "lua_at L 2 = LNum (of_int opt)"
    using stk "open'" by (simp_all add: getsocket_Inr lua_at_args)
  with set_opt_passes [where t = T_int and v = "LNum (of_int opt)" and b = "OInt opt", OF this] opt
  show ?thesis by (simp add: luazmq_skt_setopt_int_def checkint_of_int luazmq_skt_set_opt_def)
qed

theorem setopt_int_ignores_value_witness:
  "luazmq_skt_setopt_int option_env (demo_state [LUser USocket 3, LNum 17, LNum 250]) =
     skt_setopt option_env 3 17 (OInt 17) (demo_state [LUser USocket 3, LNum 17, LNum 250])"
  using setopt_int_ignores_value [of "demo_state [LUser USocket 3, LNum 17, LNum 250]" 3 17 "[LNum 250]" option_env]
  by (simp add: has_flag_def)

end
