(* ===== verification/ZLibSpec.thy ===== *)
theory ZLibSpec
  imports ZLib
begin

text \<open>
  The module functions of \<open>lzmq.c\<close> as a client sees them: Z85 texts are checked exactly and
  decoded to what was encoded, and a stop watch is a machine of two states.
\<close>

subsection \<open>Z85\<close>

text \<open>What the manual of libzmq says of its two functions: four bytes are five characters, and
  decoding undoes encoding.\<close>

definition z85_sizes :: "('z, 'm) env \<Rightarrow> bool" where
  "z85_sizes E \<longleftrightarrow> (\<forall>t s. zmq_z85_decode E t = Some s \<longrightarrow> 5 * length s = 4 * length t)"

lemma c_str_length: "length (c_str s) = length s \<longleftrightarrow> CHR 0x00 \<notin> set s"
  unfolding c_str_def by (induction s) auto

lemma c_str_le: "length (c_str s) \<le> length s"
  by (simp add: c_str_def length_takeWhile_le)

lemma c_str_id: "CHR 0x00 \<notin> set s \<Longrightarrow> c_str s = s"
  unfolding c_str_def by (simp add: takeWhile_eq_all_conv) metis

lemma decode_room:
  assumes "length data < 2 ^ 50"
  shows "check (if length data = 40 then Inr 32
      else map_sum id (\<lambda>_. times_0_8 (length data))
        (argcheck (length data = times_0_8 (length data) + times_0_8 (length data) div 4) i m)) L k =
    (if 5 dvd length data then k (4 * length data div 5) else Raise (ArgError i m) L)"
  using times_0_8_check [OF assms] times_0_8_exact [OF assms] by (auto simp: argcheck_def)

text \<open>C37: \<open>z85_decode\<close> accepts exactly the texts whose length is divisible by five (the check is
  computed in floating point), and never writes beyond its buffer. Its result is what libzmq decodes,
  or nil; a text with a zero byte in it makes it return bytes it has not written, unless libzmq
  rejects the part before the zero.\<close>

theorem z85_decode_result:
  assumes arg: "lua_at L 1 = LStr data" and len: "length data < 2 ^ 50"
    and mem: "\<And>n. alloc_temp E n" and sizes: "z85_sizes E"
  shows "luazmq_z85_decode E L =
    (if \<not> 5 dvd length data then Raise (ArgError 1 ''size of the block must be divisible by 5'') L
     else case zmq_z85_decode E (c_str data) of None \<Rightarrow> Ret 1 (push LNil L)
       | Some s \<Rightarrow> if CHR 0x00 \<in> set data then Abort Uninitialised else Ret 1 (push (LStr s) L))"
proof -
  have room: "4 * length data div 5 = length s" "\<not> length s < 4 * length data div 5"
    if "zmq_z85_decode E data = Some s" for s
    using sizes that by (force simp: z85_sizes_def)+
  have short: "length s < 4 * length data div 5"
    if "zmq_z85_decode E (c_str data) = Some s" "CHR 0x00 \<in> set data" "5 dvd length data" for s
  proof -
    have "5 * length s = 4 * length (c_str data)" using sizes that(1) by (simp add: z85_sizes_def)
    moreover have "length (c_str data) < length data"
      using c_str_le [of data] c_str_length [of data] that(2) by simp
    ultimately show ?thesis using that(3) by auto
  qed
  show ?thesis
    using short room unfolding luazmq_z85_decode_def checklstring_str [OF arg] check.simps Let_def decode_room [OF len]
    by (auto simp: mem push_buffer_def c_str_id split: option.split)
qed

text \<open>A codec that knows one block.\<close>

definition z85_env :: "(nat, string) env" where
  "z85_env = stub_env\<lparr>zmq_z85_encode := (\<lambda>s. if s = ''abcd'' then Some ''VPRom'' else None),
     zmq_z85_decode := (\<lambda>t. if t = ''VPRom'' then Some ''abcd'' else None)\<rparr>"

lemma z85_env_ok: "z85_sizes z85_env" "alloc_temp z85_env n"
  by (simp_all add: z85_sizes_def z85_env_def alloc_temp_def)

lemma block_sizes: "4 dvd Suc (Suc (Suc (Suc 0)))" "5 dvd Suc (Suc (Suc (Suc (Suc 0))))"
  by (rule dvdI [of _ _ 1], simp)+

theorem z85_decode_result_witness:
  "luazmq_z85_decode z85_env (demo_state [LStr ''VPRom'']) = Ret 1 (push (LStr ''abcd'') (demo_state [LStr ''VPRom'']))"
  using z85_decode_result [OF _ _ z85_env_ok(2,1), of "demo_state [LStr ''VPRom'']" "''VPRom''"]
  by (simp add: lua_at_args c_str_def block_sizes) (simp add: z85_env_def)

text \<open>What \<open>z85_encode\<close> returns for a block of bytes, \<open>z85_decode\<close> turns back into the block,
  provided the two functions of libzmq do.\<close>

theorem z85_roundtrip:
  assumes arg: "lua_at L 1 = LStr data" and len: "length data < 2 ^ 40" "4 dvd length data"
    and mem: "\<And>n. alloc_temp E n"
    and enc: "zmq_z85_encode E data = Some t" "4 * length t = 5 * length data" "CHR 0x00 \<notin> set t"
    and dec: "zmq_z85_decode E t = Some data"
  shows "luazmq_z85_encode E L = Ret 1 (push (LStr t) L) \<and>
    luazmq_z85_decode E (M\<lparr>stk := [LStr t]\<rparr>) = Ret 1 (push (LStr data) (M\<lparr>stk := [LStr t]\<rparr>))"
proof
  have q: "length t = length data div 4 + length data" using enc(2) len(2) by auto
  then show "luazmq_z85_encode E L = Ret 1 (push (LStr t) L)"
    using len(2) enc(1) by (auto simp: luazmq_z85_encode_def checklstring_str [OF arg] Let_def mem push_buffer_def argcheck_def)
  have t: "length t < 2 ^ 50" "5 dvd length t" "4 * length t div 5 = length data"
    using len q enc(2) by auto
  show "luazmq_z85_decode E (M\<lparr>stk := [LStr t]\<rparr>) = Ret 1 (push (LStr data) (M\<lparr>stk := [LStr t]\<rparr>))"
    using t(2,3) dec enc(3) unfolding luazmq_z85_decode_def Let_def
    by (simp add: checklstring_str lua_at_args decode_room [OF t(1), simplified] mem c_str_id push_buffer_def)
qed

theorem z85_roundtrip_witness:
  "luazmq_z85_encode z85_env (demo_state [LStr ''abcd'']) = Ret 1 (push (LStr ''VPRom'') (demo_state [LStr ''abcd'']))"
  using z85_roundtrip [where E = z85_env and M = "demo_state []" and t = "''VPRom''", OF _ _ _ z85_env_ok(2),
      of "demo_state [LStr ''abcd'']" "''abcd''"]
  by (simp add: lua_at_args block_sizes z85_env_def)

subsection \<open>The stop watch\<close>

text \<open>A stop watch is started once and stopped once: while it runs a second \<open>start\<close> raises an
  error, \<open>stop\<close> returns the time libzmq measured (as a Lua number) and after it a second \<open>stop\<close>
  raises an error.\<close>

theorem stopwatch_cycle:
  assumes w: "zwatches L k = 0"
    and start: "zmq_stopwatch_start E (zst L) = (p, z1)" "p \<noteq> 0"
    and stop: "zmq_stopwatch_stop E p z1 = (t, z2)"
  defines "call \<equiv> \<lambda>f M. f (M\<lparr>stk := [LUser UStopwatch k]\<rparr>)"
  shows "\<exists>L1 L2. call (luazmq_stopwatch_start E) L = Ret 1 L1 \<and>
    call (luazmq_stopwatch_start E) L1 =
      Raise (ArgError 1 ''LuaZMQ: timer alrady started'') (L1\<lparr>stk := [LUser UStopwatch k]\<rparr>) \<and>
    call (luazmq_stopwatch_stop E) L1 = Ret 1 L2 \<and> results 1 L2 = [LNum (int_to_num t)] \<and>
    call (luazmq_stopwatch_stop E) L2 =
      Raise (ArgError 1 ''LuaZMQ: timer not started'') (L2\<lparr>stk := [LUser UStopwatch k]\<rparr>)"
  using assms
  by (simp add: luazmq_stopwatch_start_def luazmq_stopwatch_stop_def lua_at_args upd_watch_def results_def)

theorem stopwatch_cycle_witness:
  "\<exists>L1 L2. luazmq_stopwatch_start stub_env (demo_state []\<lparr>stk := [LUser UStopwatch 2]\<rparr>) = Ret 1 L1 \<and>
    luazmq_stopwatch_stop stub_env (L1\<lparr>stk := [LUser UStopwatch 2]\<rparr>) = Ret 1 L2 \<and> results 1 L2 = [LNum 5]"
  using stopwatch_cycle [of "demo_state []" 2 stub_env 1 0 5 0] by (auto simp: int_to_num_exact)

end
