(* ===== verification/Spec2Isabelle.thy ===== *)
theory Spec2Isabelle
  imports ZClosed ZOpening ZContract ZMeta ZWindows ZTransport ZOptionSpec ZLibSpec
begin

text \<open>
  A verification of lzmq, the binding of the messaging library libzmq to Lua
  (\<open>src/src/*.c\<close>, \<open>src/src/*.h\<close>).

  \<^bold>\<open>The program.\<close> A Lua script calls C functions of the module; each of them works on
  the stack of the Lua state, on userdata objects (contexts, sockets, messages, errors, pollers,
  stop watches, timers) and on libzmq. The objects refer to each other: a socket points to the
  context it was opened from, the context counts its open sockets and keeps a list of them to be
  closed with it, a poller holds the raw sockets it polls, and the \<open>on_close\<close> handler of a
  socket is a Lua function called back from \<open>close\<close>.

  \<^bold>\<open>The theories,\<close> in the order of the calls:

  \<^item> \<open>Prelude\<close>: the C integer types, the conversion of numbers between C and Lua
    (rounding of 64-bit integers to doubles included), flag bytes.
  \<^item> \<open>Poller\<close>: \<open>poller.c\<close>, the array of poll items, its growth, its compaction and the
    walk over the events. An access outside the array is \<open>None\<close>; the lemmas show it does not
    happen in a well-formed poller (\<open>poller_rep\<close>).
  \<^item> \<open>LuaState\<close>: the state (\<open>lua\<close>), the stack functions of the Lua API, and the record
    \<open>env\<close> of everything that is not in the sources: the functions of libzmq, the macros of the
    C headers, the allocator, the script's functions. Every function of the binding is a HOL
    function from the state to an \<open>outcome\<close>: \<open>Ret n\<close> values, a raised Lua error, or \<open>Abort\<close>
    where the C code has no defined behaviour or fails an assertion.
  \<^item> \<open>LZUtils\<close>: \<open>lzutils.c\<close> and the argument guards of \<open>lzmq.c\<close>; the locale \<open>closable\<close>,
    the contract of every object that can be closed, interpreted for contexts, sockets, messages,
    pollers and both timers.
  \<^item> \<open>ZTimer\<close>: \<open>ztimer.c\<close>, against an abstract timer over unbounded integers. \<open>ZWindows\<close>: the
    branches of \<open>ztimer.c\<close> and \<open>lzutils.c\<close> for Windows, with the clocks and descriptors of that
    system.
  \<^item> \<open>ZError\<close>: \<open>zerror.c\<close>, error objects, names and numbers of errors.
  \<^item> \<open>ZCore\<close>: wrapping a context and a socket, reporting errors (\<open>lzmq.c\<close>), the life cycle of
    a socket (\<open>zsocket.c\<close>), the invariant \<open>lz_inv\<close>.
  \<^item> \<open>ZPoller\<close>: \<open>zpoller.c\<close>, on the locale \<open>item_table\<close> that \<open>poller.c\<close> implements.
  \<^item> \<open>ZMessage\<close>: \<open>zmsg.c\<close>.
  \<^item> \<open>ZSocketIO\<close>, \<open>ZSocketOpt\<close>: the rest of \<open>zsocket.c\<close>: endpoints, sending, receiving,
    polling; options and their tables, the method table.
  \<^item> \<open>ZContext\<close>: \<open>zcontext.c\<close>. \<open>ZLib\<close>: the functions and constants of the module
    (\<open>lzmq.c\<close>), Z85, CURVE keys, the stop watch.
  \<^item> \<open>ZModule\<close>: \<open>luaopen_lzmq\<close>, \<open>luaopen_lzmq_timer\<close>, the \<open>*_initlib\<close> functions and
    \<open>luazmq_createmeta\<close>, on a state of their own in which tables have an identity. \<open>ZMeta\<close>:
    typed userdata on the same state, as \<open>lzutils.c\<close> implements them with metatables; weak tables;
    \<open>luazmq_call_method\<close>.
  \<^item> \<open>ZStub\<close>: one concrete \<open>env\<close> and some states, to evaluate hypotheses on.
  \<^item> \<open>ZSystem\<close>: sequences of calls. \<open>reachable\<close> is the set of states a script can reach by
    calling any functions of the binding with any arguments; the invariant holds in all of them.
    \<open>ZClosed\<close>, \<open>ZOpening\<close> and \<open>ZContract\<close> prove what spans several components: closed objects, the
    opening of a socket, and the contract of all functions with Lua.

  \<^bold>\<open>What is shown.\<close>

  \<^item> Counting and closing (\<open>ZSystem\<close>, \<open>ZClosed\<close>, \<open>ZContext\<close>): in every reachable state the
    counter of a context is right; closing a socket is total; a closed socket stays closed and its
    methods raise errors; destroying a context closes the sockets on its list; what opening a socket
    establishes. \<open>ctx:socket\<close> with options is all or nothing (\<open>ZOpening\<close>): when setting an option,
    binding or connecting fails, the new socket is closed again and every counter is what it was.
    Handlers are arbitrary functions on the state that keep the invariant, close no
    socket that is being closed and open none that is closed. Without these assumptions the binding
    fails an assertion, and \<open>ZClosed\<close> shows how.
  \<^item> The contract with Lua (\<open>ZContract\<close>): every function of the binding leaves at least as many values
    on its stack as it says it returns. The types of userdata (\<open>ZMeta\<close>): loading the module gives
    every type a metatable of its own, and as long as they differ, the tests by metatable are the
    tests of the tag the other theories use.
  \<^item> Messages in parts (\<open>ZSocketSpec\<close>, \<open>ZReceiveSpec\<close>): what libzmq is given by each form of
    \<open>send\<close>, against \<open>multipart\<close>, the plain description of the calls; what each form of \<open>recv\<close>
    returns for the parts that arrive (\<open>incoming\<close>), also when a receive fails; and both together
    (\<open>ZTransport\<close>): any sequence of messages that one socket sends is what another one receives,
    provided libzmq carries parts in order (\<open>channel\<close>).
  \<^item> Options (\<open>ZOptionSpec\<close>): the tables agree, every option is found under the right names with
    the right type, and values come back as they were set.
  \<^item> Pollers (\<open>Poller\<close>, \<open>ZPoller\<close>): adding, changing and removing items on the list of items,
    well-formedness, and the walk over the events.
  \<^item> Bytes of messages (\<open>ZMessage\<close>), errors and their names (\<open>ZError\<close>), timers as a refinement of
    an ideal timer (\<open>ZTimer\<close>), the clocks and descriptors of Windows (\<open>ZWindows\<close>),
    Z85 and the stop watch (\<open>ZLibSpec\<close>), the tables a load of the module builds (\<open>ZModule\<close>).
  \<^item> Where the code does not do what it means to, a theorem states what it does: changing a
    descriptor in a poller, a failing \<open>recvx\<close>, \<open>setopt_int\<close>, \<open>msg:get\<close>, \<open>msg:set_data(0, s)\<close>,
    messages from tables of numbers, removing poll items during the walk, \<open>init()\<close>, the field
    \<open>utils\<close> of the module, a second load of the module.

  \<^bold>\<open>Conventions.\<close> A definition has the name of the C function it models. A loop over the
  arguments or over a table is structural recursion on the number of rounds left; a loop that
  libzmq can keep alive (\<open>recv_all\<close>, \<open>recvx\<close>) is a \<open>partial_function\<close> whose value \<open>None\<close>
  means that the call does not return, and its termination is a theorem about the parts that
  arrive. The walk over poller events takes fuel, and one more than the number of items is
  enough.

  \<^bold>\<open>Configuration.\<close> Lua 5.2, POSIX, a little-endian machine, libzmq 4.2 or later, with
  \<open>LZMQ_SOCKET_COUNT\<close> and \<open>LZMQ_AUTOCLOSE_SOCKET\<close> on. \<open>LUAZMQ_ERR_TYPE\<close>, sending as buffer, the
  temporary buffers and the macros a build of libzmq may lack are fields of \<open>env\<close>. Of Windows (64 bit)
  \<open>ZWindows\<close> has the functions that differ; the components are not instantiated with them.

  \<^bold>\<open>Not modelled:\<close> the Lua sources, tests and examples; the replacements for Lua 5.1 in
  \<open>lzutils.c\<close> but \<open>luazmq_setfuncs\<close>, which is the \<open>luaL_setfuncs\<close> of Lua 5.2;
  \<open>luazmq_stack_dump\<close>, which only prints; the collection of weak references (a socket stays on the
  list of its context); the limit of the Lua stack, the conversion of a stack slot to a string in
  place, and a sum of string lengths beyond \<open>size_t\<close>; the branches for older versions of libzmq.
\<close>

end
